(* ===== verification/Nook_Prelude.thy ===== *)
theory Nook_Prelude
  imports Main "HOL-Library.Word"
begin

text \<open>
  Shared vocabulary of the development: the machine integer types of the C code, the C
  operations whose meaning differs from HOL's (truncating division, the cast of an unsigned
  64-bit difference to \<open>int\<close>), NUL-terminated strings held in fixed buffers, the Linux
  input events that every component exchanges, and the generic lemmas and fact
  collections that the component theories rest on.
\<close>

unbundle bit_operations_syntax

section \<open>Fact collections\<close>

named_theorems paint_simps \<open>closed forms of the drawing operations\<close>
named_theorems frame_intros \<open>which pixels an operation can change\<close>
named_theorems handler_defs \<open>one-step definitions of the event handlers\<close>

section \<open>Machine integers\<close>

type_synonym u8 = "8 word"
type_synonym u16 = "16 word"
type_synonym u32 = "32 word"
type_synonym u64 = "64 word"

text \<open>C's integer division truncates towards zero, HOL's rounds down.\<close>

definition c_div :: "int \<Rightarrow> int \<Rightarrow> int" where
  "c_div a b = sgn a * sgn b * (\<bar>a\<bar> div \<bar>b\<bar>)"

lemma c_div_nonneg [simp]: "0 \<le> a \<Longrightarrow> 0 < b \<Longrightarrow> c_div a b = a div b"
  by (cases "a = 0") (auto simp: c_div_def)

text \<open>
  The deadline arithmetic \<^verbatim>\<open>int rem = (int)(t + d - now)\<close>: an unsigned 64-bit
  difference that wraps, reduced to 32 bits and read as a signed number.
\<close>

definition int_of_u64 :: "u64 \<Rightarrow> int" where
  "int_of_u64 w = sint (ucast w :: u32)"

lemma int_of_u64_small: "uint w < 2 ^ 31 \<Longrightarrow> int_of_u64 w = uint w"
proof -
  assume small: "uint w < 2 ^ 31"
  then have "signed_take_bit 31 (uint w) = uint w"
    using uint_ge_0 [of w] by (intro signed_take_bit_int_eq_self; linarith)
  with small show ?thesis
    by (simp add: int_of_u64_def sint_uint unsigned_ucast_eq take_bit_int_eq_self)
qed

lemma int_of_u64_neg:
  assumes "uint w \<le> 2 ^ 31"
  shows "int_of_u64 (- w) = - uint w"
proof -
  have below: "- uint w < 2 ^ 31"
    by (rule le_less_trans [of _ 0]) simp_all
  have "int_of_u64 (- w) = signed_take_bit 31 (uint (ucast (- w) :: u32))"
    by (simp add: int_of_u64_def sint_uint)
  also have "uint (ucast (- w) :: u32) = take_bit 32 (uint (- w))"
    by (simp add: unsigned_ucast_eq)
  also have "uint (- w) = take_bit 64 (- uint w)"
    by (simp add: uint_word_ariths take_bit_eq_mod)
  also have "take_bit 32 (take_bit 64 (- uint w)) = take_bit 32 (- uint w)"
    by (simp add: min_def)
  also have "signed_take_bit 31 (take_bit 32 (- uint w)) = signed_take_bit 31 (- uint w)"
    by (simp add: signed_take_bit_take_bit)
  also have "\<dots> = - uint w"
    using assms below by (intro signed_take_bit_int_eq_self) simp_all
  finally show ?thesis .
qed

text \<open>
  The remaining time of a deadline \<open>k\<close> milliseconds after \<open>t\<close>: right in sign and
  value as long as the clock is within 24 days of the deadline.
\<close>

lemma deadline_rem:
  assumes "uint k < 2 ^ 31" and "uint (now - t) \<le> uint k + 2 ^ 31"
  shows "int_of_u64 (t + k - now) = uint k - uint (now - t)"
proof (cases "now - t \<le> k")
  case True
  then have u: "uint (k - (now - t)) = uint k - uint (now - t)"
    by (simp add: uint_minus_simple_alt [symmetric] word_le_def)
  with assms(1) uint_ge_0 [of "now - t"] have "uint (k - (now - t)) < 2 ^ 31" by linarith
  then have "int_of_u64 (k - (now - t)) = uint k - uint (now - t)"
    by (simp add: int_of_u64_small u)
  moreover have "t + k - now = k - (now - t)" by simp
  ultimately show ?thesis by (simp only:)
next
  case False
  then have le: "k \<le> now - t" by simp
  then have u: "uint (now - t - k) = uint (now - t) - uint k"
    by (simp add: uint_minus_simple_alt [symmetric] word_le_def)
  have eq: "t + k - now = - (now - t - k)" by simp
  have "int_of_u64 (- (now - t - k)) = - uint (now - t - k)"
    using assms(2) u by (intro int_of_u64_neg) linarith
  then show ?thesis unfolding eq u by linarith
qed

section \<open>Linux input events\<close>

text \<open>
  \<^verbatim>\<open>struct input_event\<close> of \<^verbatim>\<open>linux/input.h\<close> without its time stamp, which no component
  of the repository reads except to copy it.
\<close>

record input_event =
  ev_type :: int
  ev_code :: int
  ev_value :: int

abbreviation (input) EV_SYN :: int where "EV_SYN \<equiv> 0"
abbreviation (input) EV_KEY :: int where "EV_KEY \<equiv> 1"
abbreviation (input) EV_ABS :: int where "EV_ABS \<equiv> 3"
abbreviation (input) EV_SW :: int where "EV_SW \<equiv> 5"
abbreviation (input) SYN_REPORT :: int where "SYN_REPORT \<equiv> 0"
abbreviation (input) KEY_HOME :: int where "KEY_HOME \<equiv> 102"
abbreviation (input) KEY_POWER :: int where "KEY_POWER \<equiv> 116"
abbreviation (input) BTN_TOUCH :: int where "BTN_TOUCH \<equiv> 330"
abbreviation (input) ABS_X :: int where "ABS_X \<equiv> 0"
abbreviation (input) ABS_Y :: int where "ABS_Y \<equiv> 1"
abbreviation (input) ABS_MT_TOUCH_MAJOR :: int where "ABS_MT_TOUCH_MAJOR \<equiv> 48"
abbreviation (input) ABS_MT_POSITION_X :: int where "ABS_MT_POSITION_X \<equiv> 53"
abbreviation (input) ABS_MT_POSITION_Y :: int where "ABS_MT_POSITION_Y \<equiv> 54"
abbreviation (input) ABS_MT_TRACKING_ID :: int where "ABS_MT_TRACKING_ID \<equiv> 57"

section \<open>C strings in buffers\<close>

text \<open>
  A \<^verbatim>\<open>char\<close> array is the list of its bytes; the string it holds ends before the first NUL.
  The operations below are the ones of \<^verbatim>\<open>string.h\<close> and \<^verbatim>\<open>stdio.h\<close> that the sources call.
\<close>

abbreviation nul :: char where "nul \<equiv> CHR 0x00"

definition cstr :: "char list \<Rightarrow> string" where
  "cstr b = takeWhile (\<lambda>c. c \<noteq> nul) b"

definition strncpy_buf :: "char list \<Rightarrow> string \<Rightarrow> nat \<Rightarrow> char list" where
  "strncpy_buf b s n = take n (s @ replicate n nul) @ drop n b"

text \<open>\<open>strcat\<close> writes the appended bytes and the terminating NUL behind the string.\<close>

definition strcat_buf :: "char list \<Rightarrow> string \<Rightarrow> char list" where
  "strcat_buf b s = cstr b @ s @ [nul] @ drop (length (cstr b) + length s + 1) b"

text \<open>\<open>snprintf\<close> of a string into \<open>n\<close> bytes keeps at most \<open>n - 1\<close> characters.\<close>

definition snprintf_str :: "nat \<Rightarrow> string \<Rightarrow> string" where
  "snprintf_str n s = take (n - 1) s"

text \<open>\<open>fgets\<close> with a buffer of \<open>n\<close> bytes: up to \<open>n - 1\<close> bytes, a newline included.\<close>

definition fgets_str :: "nat \<Rightarrow> string \<Rightarrow> string" where
  "fgets_str n file =
     (let l = takeWhile (\<lambda>c. c \<noteq> CHR 0x0A) file;
          l' = (if length l < length file then l @ [CHR 0x0A] else l)
      in take (n - 1) l')"

text \<open>\<^verbatim>\<open>buf[strcspn(buf, "\\r\\n")] = 0\<close>: the text before the first line end.\<close>

definition chomp :: "string \<Rightarrow> string" where
  "chomp s = takeWhile (\<lambda>c. c \<noteq> CHR 0x0D \<and> c \<noteq> CHR 0x0A \<and> c \<noteq> nul) s"

text \<open>\<open>strstr\<close> as a test: the second string occurs in the first.\<close>

fun strstr :: "string \<Rightarrow> string \<Rightarrow> bool" where
  "strstr [] needle = (needle = [])"
| "strstr (c # hay) needle = (take (length needle) (c # hay) = needle \<or> strstr hay needle)"

text \<open>\<open>sscanf\<close> with \<^verbatim>\<open>%d\<close>: white space, a sign, digits.\<close>

definition is_space :: "char \<Rightarrow> bool" where
  "is_space c \<longleftrightarrow> c = CHR '' '' \<or> (of_char c :: nat) \<in> {9..13}"

definition digit_of :: "char \<Rightarrow> int option" where
  "digit_of c = (let n = (of_char c :: int) in if 48 \<le> n \<and> n \<le> 57 then Some (n - 48) else None)"

fun scan_digits :: "int \<Rightarrow> string \<Rightarrow> int \<times> string" where
  "scan_digits acc [] = (acc, [])"
| "scan_digits acc (c # cs) = (case digit_of c of None \<Rightarrow> (acc, c # cs) | Some d \<Rightarrow> scan_digits (10 * acc + d) cs)"

definition scan_int :: "string \<Rightarrow> (int \<times> string) option" where
  "scan_int str =
     (let t = dropWhile is_space str;
          neg = (t \<noteq> [] \<and> hd t = CHR ''-'');
          t = (if t \<noteq> [] \<and> (hd t = CHR ''-'' \<or> hd t = CHR ''+'') then tl t else t)
      in if t \<noteq> [] \<and> digit_of (hd t) \<noteq> None
         then let (n, r) = scan_digits 0 t in Some (if neg then - n else n, r) else None)"

text \<open>\<open>atoi\<close>: the same digits, clamped to a 32-bit integer.\<close>

definition atoi :: "string \<Rightarrow> int" where
  "atoi s = (case scan_int s of None \<Rightarrow> 0 | Some (n, _) \<Rightarrow> max (- 2147483648) (min 2147483647 n))"

text \<open>\<open>printf\<close> with \<^verbatim>\<open>%d\<close> of a number that is not negative, and with \<^verbatim>\<open>%-ns\<close>.\<close>

fun dec_str :: "nat \<Rightarrow> string" where
  "dec_str n = (if n < 10 then [char_of (48 + n)] else dec_str (n div 10) @ [char_of (48 + n mod 10)])"

declare dec_str.simps [simp del]

definition pad_right :: "nat \<Rightarrow> string \<Rightarrow> string" where
  "pad_right n s = s @ replicate (n - length s) (CHR '' '')"

text \<open>Reading a text with \<open>fgets\<close> until its end: the pieces of at most \<open>n - 1\<close> bytes.\<close>

function fgets_all :: "nat \<Rightarrow> string \<Rightarrow> string list" where
  "fgets_all n file =
     (let l = fgets_str n file in if l = [] then [] else l # fgets_all n (drop (length l) file))"
  by pat_completeness auto

lemma fgets_str_Nil [simp]: "fgets_str n [] = []"
  by (simp add: fgets_str_def)

termination fgets_all
proof (relation "measure (\<lambda>(n, f). length f)")
  fix n :: nat and f l :: string
  assume "l = fgets_str n f" and "l \<noteq> []"
  then have "f \<noteq> []" by auto
  with \<open>l \<noteq> []\<close> show "((n, drop (length l) f), (n, f)) \<in> measure (\<lambda>(n, f). length f)"
    by (simp add: diff_less)
qed simp

declare fgets_all.simps [simp del]

text \<open>A buffer of \<open>n\<close> bytes that holds a terminated string.\<close>

definition cbuf_ok :: "nat \<Rightarrow> char list \<Rightarrow> bool" where
  "cbuf_ok n b \<longleftrightarrow> length b = n \<and> nul \<in> set b"

definition c_string :: "string \<Rightarrow> bool" where
  "c_string s \<longleftrightarrow> nul \<notin> set s"

lemma cstr_c_string [simp]: "c_string (cstr b)"
  by (auto simp: c_string_def cstr_def dest: set_takeWhileD)

lemma cstr_append_nul [simp]: "c_string s \<Longrightarrow> cstr (s @ nul # t) = s"
  by (auto simp: cstr_def c_string_def takeWhile_tail takeWhile_append2)

lemma cstr_length_less: "cbuf_ok n b \<Longrightarrow> length (cstr b) < n"
proof -
  assume ok: "cbuf_ok n b"
  then have "cstr b \<noteq> b" and "length (cstr b) \<le> length b"
    by (auto simp: cbuf_ok_def cstr_def takeWhile_eq_all_conv length_takeWhile_le)
  moreover have "length (cstr b) = length b \<Longrightarrow> cstr b = b"
    unfolding cstr_def by (metis append_Nil2 append_eq_append_conv takeWhile_dropWhile_id)
  ultimately show ?thesis
    using ok by (auto simp: cbuf_ok_def le_less)
qed

lemma c_string_take [simp]: "c_string s \<Longrightarrow> c_string (take n s)"
  by (auto simp: c_string_def dest: in_set_takeD)

lemma c_string_append [simp]: "c_string (s @ t) \<longleftrightarrow> c_string s \<and> c_string t"
  by (auto simp: c_string_def)

lemma strncpy_buf_ok:
  assumes "length b = Suc n" and "b ! n = nul" and "c_string s"
  shows "cbuf_ok (Suc n) (strncpy_buf b s n)" and "strncpy_buf b s n ! n = nul"
    and "cstr (strncpy_buf b s n) = take n s"
proof -
  have tail: "drop n b = [nul]"
    using assms(1,2) by (metis Cons_nth_drop_Suc drop_all lessI order_refl)
  have split: "strncpy_buf b s n = take n s @ replicate (n - length s) nul @ [nul]"
    by (simp add: strncpy_buf_def tail take_replicate)
  then obtain t where t: "strncpy_buf b s n = take n s @ nul # t"
    by (cases "n - length s") auto
  show "cbuf_ok (Suc n) (strncpy_buf b s n)"
    using split by (auto simp: cbuf_ok_def)
  show "strncpy_buf b s n ! n = nul"
    using split by (auto simp: nth_append)
  show "cstr (strncpy_buf b s n) = take n s"
    using t assms(3) by simp
qed

lemma strcat_buf_ok:
  assumes "length b = n" and "length (cstr b) + length s < n" and "c_string s"
  shows "cbuf_ok n (strcat_buf b s)" and "cstr (strcat_buf b s) = cstr b @ s"
  using assms by (auto simp: cbuf_ok_def strcat_buf_def cstr_append_nul [of "cstr b @ s", simplified])

lemma strcat_buf_last:
  assumes "length b = Suc n" and "b ! n = nul" and "length (cstr b) + length s \<le> n"
  shows "strcat_buf b s ! n = nul"
proof (cases "length (cstr b) + length s = n")
  case True
  then show ?thesis by (auto simp: strcat_buf_def nth_append)
next
  case False
  with assms have "drop (length (cstr b) + length s + 1) b ! (n - (length (cstr b) + length s + 1)) = b ! n"
    by simp
  with False assms show ?thesis
    by (auto simp: strcat_buf_def nth_append)
qed

section \<open>Small list facts\<close>

lemma fold_keeps:
  assumes "\<And>step st. step \<in> set steps \<Longrightarrow> I st \<Longrightarrow> I (act step st)" and "I st"
  shows "I (fold act steps st)"
  using assms by (induction steps arbitrary: st) auto

end
