(* ===== verification/Font_Tables.thy ===== *)
theory Font_Tables
  imports Nook_Prelude
begin

text \<open>
  The two bitmap fonts of the native components, transcribed row by row from
  \<open>src/components/common/include/font8x16.h\<close> (ASCII 32..126) and
  \<open>src/components/common/include/font8x16_cyrillic.h\<close> (the 66 Russian letters), with the
  index function of the second. A glyph is 16 rows of one byte, the most significant bit being
  the leftmost pixel. The lemmas give the bounds that make the table accesses of the
  drawing code safe.
\<close>

section \<open>Glyph tables\<close>

definition font8x16 :: "nat list list" where
  "font8x16 = [
    [0, 0, 0, 0, 0, 0, 0, 0, 0, 0, 0, 0, 0, 0, 0, 0],
    [0, 0, 24, 24, 24, 24, 24, 24, 24, 0, 24, 24, 0, 0, 0, 0],
    [0, 102, 102, 102, 0, 0, 0, 0, 0, 0, 0, 0, 0, 0, 0, 0],
    [0, 0, 108, 108, 108, 254, 108, 108, 254, 108, 108, 108, 0, 0, 0, 0],
    [0, 16, 16, 124, 214, 208, 208, 124, 22, 22, 214, 124, 16, 16, 0, 0],
    [0, 0, 102, 214, 108, 12, 24, 24, 48, 54, 107, 102, 0, 0, 0, 0],
    [0, 0, 56, 108, 108, 56, 118, 220, 204, 204, 220, 118, 0, 0, 0, 0],
    [0, 24, 24, 24, 0, 0, 0, 0, 0, 0, 0, 0, 0, 0, 0, 0],
    [0, 0, 12, 24, 48, 48, 48, 48, 48, 48, 24, 12, 0, 0, 0, 0],
    [0, 0, 48, 24, 12, 12, 12, 12, 12, 12, 24, 48, 0, 0, 0, 0],
    [0, 0, 0, 0, 0, 108, 56, 254, 56, 108, 0, 0, 0, 0, 0, 0],
    [0, 0, 0, 0, 0, 24, 24, 126, 24, 24, 0, 0, 0, 0, 0, 0],
    [0, 0, 0, 0, 0, 0, 0, 0, 0, 0, 24, 24, 48, 0, 0, 0],
    [0, 0, 0, 0, 0, 0, 0, 254, 0, 0, 0, 0, 0, 0, 0, 0],
    [0, 0, 0, 0, 0, 0, 0, 0, 0, 0, 24, 24, 0, 0, 0, 0],
    [0, 0, 6, 6, 12, 12, 24, 24, 48, 48, 96, 96, 0, 0, 0, 0],
    [0, 0, 124, 198, 198, 206, 222, 246, 230, 198, 198, 124, 0, 0, 0, 0],
    [0, 0, 24, 56, 120, 24, 24, 24, 24, 24, 24, 126, 0, 0, 0, 0],
    [0, 0, 124, 198, 198, 6, 12, 24, 48, 96, 192, 254, 0, 0, 0, 0],
    [0, 0, 124, 198, 198, 6, 60, 6, 6, 198, 198, 124, 0, 0, 0, 0],
    [0, 0, 6, 14, 30, 54, 102, 198, 254, 6, 6, 6, 0, 0, 0, 0],
    [0, 0, 254, 192, 192, 192, 252, 6, 6, 6, 198, 124, 0, 0, 0, 0],
    [0, 0, 60, 96, 192, 192, 252, 198, 198, 198, 198, 124, 0, 0, 0, 0],
    [0, 0, 254, 6, 6, 12, 12, 24, 24, 48, 48, 48, 0, 0, 0, 0],
    [0, 0, 124, 198, 198, 198, 124, 198, 198, 198, 198, 124, 0, 0, 0, 0],
    [0, 0, 124, 198, 198, 198, 198, 126, 6, 6, 12, 120, 0, 0, 0, 0],
    [0, 0, 0, 0, 0, 24, 24, 0, 0, 0, 24, 24, 0, 0, 0, 0],
    [0, 0, 0, 0, 0, 24, 24, 0, 0, 0, 24, 24, 48, 0, 0, 0],
    [0, 0, 0, 6, 12, 24, 48, 96, 48, 24, 12, 6, 0, 0, 0, 0],
    [0, 0, 0, 0, 0, 254, 0, 0, 254, 0, 0, 0, 0, 0, 0, 0],
    [0, 0, 0, 96, 48, 24, 12, 6, 12, 24, 48, 96, 0, 0, 0, 0],
    [0, 0, 124, 198, 198, 198, 12, 24, 24, 0, 24, 24, 0, 0, 0, 0],
    [0, 0, 124, 198, 206, 214, 214, 214, 214, 206, 192, 126, 0, 0, 0, 0],
    [0, 0, 124, 198, 198, 198, 198, 254, 198, 198, 198, 198, 0, 0, 0, 0],
    [0, 0, 252, 198, 198, 198, 252, 198, 198, 198, 198, 252, 0, 0, 0, 0],
    [0, 0, 124, 198, 198, 192, 192, 192, 192, 198, 198, 124, 0, 0, 0, 0],
    [0, 0, 248, 204, 198, 198, 198, 198, 198, 198, 204, 248, 0, 0, 0, 0],
    [0, 0, 254, 192, 192, 192, 248, 192, 192, 192, 192, 254, 0, 0, 0, 0],
    [0, 0, 254, 192, 192, 192, 248, 192, 192, 192, 192, 192, 0, 0, 0, 0],
    [0, 0, 124, 198, 198, 192, 192, 222, 198, 198, 198, 124, 0, 0, 0, 0],
    [0, 0, 198, 198, 198, 198, 254, 198, 198, 198, 198, 198, 0, 0, 0, 0],
    [0, 0, 60, 24, 24, 24, 24, 24, 24, 24, 24, 60, 0, 0, 0, 0],
    [0, 0, 30, 12, 12, 12, 12, 12, 12, 204, 204, 120, 0, 0, 0, 0],
    [0, 0, 198, 198, 204, 216, 240, 240, 216, 204, 198, 198, 0, 0, 0, 0],
    [0, 0, 192, 192, 192, 192, 192, 192, 192, 192, 192, 254, 0, 0, 0, 0],
    [0, 0, 130, 198, 238, 254, 214, 198, 198, 198, 198, 198, 0, 0, 0, 0],
    [0, 0, 198, 198, 198, 230, 246, 222, 206, 198, 198, 198, 0, 0, 0, 0],
    [0, 0, 124, 198, 198, 198, 198, 198, 198, 198, 198, 124, 0, 0, 0, 0],
    [0, 0, 252, 198, 198, 198, 198, 252, 192, 192, 192, 192, 0, 0, 0, 0],
    [0, 0, 124, 198, 198, 198, 198, 198, 198, 198, 222, 124, 6, 0, 0, 0],
    [0, 0, 252, 198, 198, 198, 198, 252, 240, 216, 204, 198, 0, 0, 0, 0],
    [0, 0, 124, 198, 192, 192, 124, 6, 6, 198, 198, 124, 0, 0, 0, 0],
    [0, 0, 255, 24, 24, 24, 24, 24, 24, 24, 24, 24, 0, 0, 0, 0],
    [0, 0, 198, 198, 198, 198, 198, 198, 198, 198, 198, 124, 0, 0, 0, 0],
    [0, 0, 198, 198, 198, 198, 198, 108, 108, 108, 56, 56, 0, 0, 0, 0],
    [0, 0, 198, 198, 198, 198, 198, 214, 254, 238, 198, 130, 0, 0, 0, 0],
    [0, 0, 198, 198, 108, 108, 56, 56, 108, 108, 198, 198, 0, 0, 0, 0],
    [0, 0, 195, 195, 102, 102, 60, 24, 24, 24, 24, 24, 0, 0, 0, 0],
    [0, 0, 254, 6, 6, 12, 24, 48, 96, 192, 192, 254, 0, 0, 0, 0],
    [0, 0, 60, 48, 48, 48, 48, 48, 48, 48, 48, 60, 0, 0, 0, 0],
    [0, 0, 96, 96, 48, 48, 24, 24, 12, 12, 6, 6, 0, 0, 0, 0],
    [0, 0, 60, 12, 12, 12, 12, 12, 12, 12, 12, 60, 0, 0, 0, 0],
    [0, 24, 60, 102, 0, 0, 0, 0, 0, 0, 0, 0, 0, 0, 0, 0],
    [0, 0, 0, 0, 0, 0, 0, 0, 0, 0, 0, 0, 0, 254, 0, 0],
    [48, 24, 0, 0, 0, 0, 0, 0, 0, 0, 0, 0, 0, 0, 0, 0],
    [0, 0, 0, 0, 0, 124, 6, 126, 198, 198, 198, 126, 0, 0, 0, 0],
    [0, 0, 192, 192, 192, 252, 198, 198, 198, 198, 198, 252, 0, 0, 0, 0],
    [0, 0, 0, 0, 0, 124, 198, 192, 192, 192, 198, 124, 0, 0, 0, 0],
    [0, 0, 6, 6, 6, 126, 198, 198, 198, 198, 198, 126, 0, 0, 0, 0],
    [0, 0, 0, 0, 0, 124, 198, 198, 254, 192, 192, 124, 0, 0, 0, 0],
    [0, 0, 30, 48, 48, 252, 48, 48, 48, 48, 48, 48, 0, 0, 0, 0],
    [0, 0, 0, 0, 0, 126, 198, 198, 198, 198, 198, 126, 6, 6, 124, 0],
    [0, 0, 192, 192, 192, 252, 198, 198, 198, 198, 198, 198, 0, 0, 0, 0],
    [0, 0, 24, 24, 0, 56, 24, 24, 24, 24, 24, 60, 0, 0, 0, 0],
    [0, 0, 6, 6, 0, 14, 6, 6, 6, 6, 6, 6, 102, 102, 60, 0],
    [0, 0, 192, 192, 192, 198, 204, 216, 240, 216, 204, 198, 0, 0, 0, 0],
    [0, 0, 56, 24, 24, 24, 24, 24, 24, 24, 24, 60, 0, 0, 0, 0],
    [0, 0, 0, 0, 0, 252, 214, 214, 214, 214, 214, 214, 0, 0, 0, 0],
    [0, 0, 0, 0, 0, 252, 198, 198, 198, 198, 198, 198, 0, 0, 0, 0],
    [0, 0, 0, 0, 0, 124, 198, 198, 198, 198, 198, 124, 0, 0, 0, 0],
    [0, 0, 0, 0, 0, 252, 198, 198, 198, 198, 198, 252, 192, 192, 192, 0],
    [0, 0, 0, 0, 0, 126, 198, 198, 198, 198, 198, 126, 6, 6, 6, 0],
    [0, 0, 0, 0, 0, 222, 240, 224, 192, 192, 192, 192, 0, 0, 0, 0],
    [0, 0, 0, 0, 0, 126, 192, 192, 124, 6, 6, 252, 0, 0, 0, 0],
    [0, 0, 48, 48, 48, 252, 48, 48, 48, 48, 48, 30, 0, 0, 0, 0],
    [0, 0, 0, 0, 0, 198, 198, 198, 198, 198, 198, 126, 0, 0, 0, 0],
    [0, 0, 0, 0, 0, 198, 198, 198, 108, 108, 56, 56, 0, 0, 0, 0],
    [0, 0, 0, 0, 0, 198, 198, 214, 214, 214, 214, 124, 0, 0, 0, 0],
    [0, 0, 0, 0, 0, 198, 198, 108, 56, 108, 198, 198, 0, 0, 0, 0],
    [0, 0, 0, 0, 0, 198, 198, 198, 198, 198, 198, 126, 6, 6, 124, 0],
    [0, 0, 0, 0, 0, 254, 12, 24, 48, 96, 192, 254, 0, 0, 0, 0],
    [0, 0, 28, 48, 48, 48, 96, 48, 48, 48, 48, 28, 0, 0, 0, 0],
    [0, 0, 24, 24, 24, 24, 24, 24, 24, 24, 24, 24, 0, 0, 0, 0],
    [0, 0, 112, 24, 24, 24, 12, 24, 24, 24, 24, 112, 0, 0, 0, 0],
    [0, 0, 0, 0, 0, 0, 115, 219, 206, 0, 0, 0, 0, 0, 0, 0]]"

definition font8x16_cyrillic :: "nat list list" where
  "font8x16_cyrillic = [
    [0, 0, 0, 0, 48, 120, 120, 72, 204, 252, 204, 134, 0, 0, 0, 0],
    [0, 0, 0, 0, 126, 96, 96, 126, 99, 99, 99, 126, 0, 0, 0, 0],
    [0, 0, 0, 0, 126, 99, 99, 126, 99, 99, 99, 126, 0, 0, 0, 0],
    [0, 0, 0, 0, 126, 96, 96, 96, 96, 96, 96, 96, 0, 0, 0, 0],
    [0, 0, 0, 126, 102, 102, 102, 102, 102, 102, 255, 195, 195, 0, 0, 0],
    [0, 0, 0, 0, 126, 96, 96, 126, 96, 96, 96, 126, 0, 0, 0, 0],
    [0, 0, 0, 0, 24, 219, 255, 255, 255, 153, 153, 24, 0, 0, 0, 0],
    [0, 0, 0, 0, 60, 70, 6, 60, 6, 6, 70, 60, 0, 0, 0, 0],
    [0, 0, 0, 0, 206, 206, 206, 214, 214, 230, 230, 230, 0, 0, 0, 0],
    [0, 0, 72, 48, 0, 206, 206, 206, 214, 214, 230, 230, 230, 0, 0, 0],
    [0, 0, 0, 0, 198, 220, 248, 248, 248, 204, 206, 199, 0, 0, 0, 0],
    [0, 0, 0, 0, 63, 51, 51, 51, 51, 51, 99, 195, 0, 0, 0, 0],
    [0, 0, 0, 0, 199, 199, 239, 171, 187, 147, 131, 131, 0, 0, 0, 0],
    [0, 0, 0, 0, 198, 198, 198, 254, 198, 198, 198, 198, 0, 0, 0, 0],
    [0, 0, 0, 0, 60, 102, 195, 195, 195, 195, 102, 60, 0, 0, 0, 0],
    [0, 0, 0, 0, 254, 198, 198, 198, 198, 198, 198, 198, 0, 0, 0, 0],
    [0, 0, 0, 0, 126, 99, 99, 99, 126, 96, 96, 96, 0, 0, 0, 0],
    [0, 0, 0, 0, 31, 49, 96, 96, 96, 96, 49, 31, 0, 0, 0, 0],
    [0, 0, 0, 0, 255, 24, 24, 24, 24, 24, 24, 24, 0, 0, 0, 0],
    [0, 0, 0, 0, 134, 204, 220, 248, 120, 112, 48, 224, 0, 0, 0, 0],
    [0, 0, 0, 0, 24, 126, 219, 153, 153, 219, 126, 24, 0, 0, 0, 0],
    [0, 0, 0, 0, 134, 204, 204, 120, 120, 204, 204, 134, 0, 0, 0, 0],
    [0, 0, 0, 198, 198, 198, 198, 198, 198, 198, 255, 3, 3, 0, 0, 0],
    [0, 0, 0, 0, 198, 198, 198, 126, 6, 6, 6, 6, 0, 0, 0, 0],
    [0, 0, 0, 0, 24, 24, 24, 24, 24, 24, 24, 255, 0, 0, 0, 0],
    [0, 0, 0, 49, 49, 49, 49, 49, 49, 49, 255, 0, 0, 0, 0, 0],
    [0, 0, 0, 240, 240, 48, 63, 63, 49, 51, 63, 0, 0, 0, 0, 0],
    [0, 0, 0, 0, 131, 131, 131, 251, 143, 143, 143, 251, 0, 0, 0, 0],
    [0, 0, 0, 0, 96, 96, 96, 126, 99, 99, 99, 126, 0, 0, 0, 0],
    [0, 0, 0, 124, 78, 6, 63, 63, 6, 78, 124, 0, 0, 0, 0, 0],
    [0, 0, 0, 0, 30, 51, 97, 225, 97, 97, 51, 30, 0, 0, 0, 0],
    [0, 0, 0, 0, 62, 102, 102, 102, 62, 54, 54, 102, 0, 0, 0, 0],
    [0, 0, 0, 0, 0, 60, 6, 62, 102, 102, 62, 0, 0, 0, 0, 0],
    [0, 0, 0, 60, 32, 96, 124, 102, 102, 102, 102, 60, 0, 0, 0, 0],
    [0, 0, 0, 0, 0, 126, 102, 126, 102, 102, 124, 0, 0, 0, 0, 0],
    [0, 0, 0, 0, 0, 62, 48, 48, 48, 48, 48, 0, 0, 0, 0, 0],
    [0, 0, 0, 0, 126, 102, 102, 102, 102, 255, 129, 129, 0, 0, 0, 0],
    [0, 0, 0, 0, 0, 60, 102, 126, 96, 96, 62, 0, 0, 0, 0, 0],
    [0, 0, 0, 0, 0, 219, 255, 126, 126, 219, 219, 0, 0, 0, 0, 0],
    [0, 0, 0, 0, 0, 62, 6, 28, 6, 6, 60, 0, 0, 0, 0, 0],
    [0, 0, 0, 0, 0, 102, 110, 110, 118, 118, 102, 0, 0, 0, 0, 0],
    [0, 0, 0, 36, 28, 0, 102, 110, 110, 118, 118, 102, 0, 0, 0, 0],
    [0, 0, 0, 0, 0, 110, 124, 120, 120, 108, 110, 0, 0, 0, 0, 0],
    [0, 0, 0, 0, 0, 62, 54, 54, 54, 54, 102, 0, 0, 0, 0, 0],
    [0, 0, 0, 0, 0, 198, 238, 238, 238, 214, 198, 0, 0, 0, 0, 0],
    [0, 0, 0, 0, 0, 102, 102, 126, 102, 102, 102, 0, 0, 0, 0, 0],
    [0, 0, 0, 0, 0, 60, 102, 102, 102, 102, 60, 0, 0, 0, 0, 0],
    [0, 0, 0, 0, 0, 126, 102, 102, 102, 102, 102, 0, 0, 0, 0, 0],
    [0, 0, 0, 0, 124, 102, 102, 102, 102, 124, 96, 96, 0, 0, 0, 0],
    [0, 0, 0, 0, 0, 60, 96, 96, 96, 96, 60, 0, 0, 0, 0, 0],
    [0, 0, 0, 0, 0, 252, 48, 48, 48, 48, 48, 0, 0, 0, 0, 0],
    [0, 0, 0, 0, 198, 108, 108, 40, 56, 48, 48, 96, 0, 0, 0, 0],
    [0, 0, 24, 24, 24, 255, 153, 153, 153, 153, 255, 24, 24, 0, 0, 0],
    [0, 0, 0, 0, 0, 198, 108, 56, 56, 108, 198, 0, 0, 0, 0, 0],
    [0, 0, 0, 0, 102, 102, 102, 102, 102, 127, 1, 1, 0, 0, 0, 0],
    [0, 0, 0, 0, 0, 102, 102, 126, 6, 6, 6, 0, 0, 0, 0, 0],
    [0, 0, 0, 0, 0, 153, 153, 153, 153, 153, 255, 0, 0, 0, 0, 0],
    [0, 0, 0, 0, 153, 153, 153, 153, 153, 255, 0, 0, 0, 0, 0, 0],
    [0, 0, 0, 0, 240, 48, 62, 51, 51, 62, 0, 0, 0, 0, 0, 0],
    [0, 0, 0, 0, 0, 195, 195, 251, 207, 207, 251, 0, 0, 0, 0, 0],
    [0, 0, 0, 0, 0, 96, 96, 124, 102, 102, 124, 0, 0, 0, 0, 0],
    [0, 0, 0, 0, 120, 28, 124, 124, 28, 120, 0, 0, 0, 0, 0, 0],
    [0, 0, 0, 0, 0, 158, 179, 243, 243, 179, 158, 0, 0, 0, 0, 0],
    [0, 0, 0, 0, 0, 124, 108, 108, 60, 60, 108, 0, 0, 0, 0, 0],
    [0, 0, 0, 40, 0, 126, 96, 96, 126, 96, 96, 96, 126, 0, 0, 0],
    [0, 0, 0, 0, 40, 0, 60, 102, 126, 96, 96, 62, 0, 0, 0, 0]]"

text \<open>The table index of a code point, \<open>None\<close> for the \<^verbatim>\<open>-1\<close> of the source.\<close>

definition get_cyrillic_font_index :: "u32 \<Rightarrow> nat option" where
  "get_cyrillic_font_index unicode =
     (if unicode \<ge> 0x0410 \<and> unicode \<le> 0x042F then Some (unat (unicode - 0x0410))
      else if unicode \<ge> 0x0430 \<and> unicode \<le> 0x044F then Some (unat (unicode - 0x0430 + 32))
      else if unicode = 0x0401 then Some 64
      else if unicode = 0x0451 then Some 65
      else None)"

section \<open>Bounds of the tables\<close>

definition glyph_ok :: "nat list \<Rightarrow> bool" where
  "glyph_ok g \<longleftrightarrow> length g = 16 \<and> list_all (\<lambda>b. b < 256) g"

lemma font8x16_glyphs: "list_all glyph_ok font8x16"
  by (simp add: font8x16_def glyph_ok_def)

lemma length_font8x16 [simp]: "length font8x16 = 95"
  by (simp add: font8x16_def)

lemma font8x16_cyrillic_glyphs: "list_all glyph_ok font8x16_cyrillic"
  by (simp add: font8x16_cyrillic_def glyph_ok_def)

lemma length_font8x16_cyrillic [simp]: "length font8x16_cyrillic = 66"
  by (simp add: font8x16_cyrillic_def)

lemma get_cyrillic_font_index_bound:
  "get_cyrillic_font_index cp = Some i \<Longrightarrow> i < length font8x16_cyrillic"
  by (auto simp: get_cyrillic_font_index_def word_le_nat_alt unat_sub_if' unat_word_ariths
      split: if_splits)

end
