(* ===== verification/Framebuffer.thy ===== *)
theory Framebuffer
  imports Font_Tables
begin

text \<open>
  The memory-mapped e-ink panel and the drawing primitives that the native programs share.
  The mapping is a function from 16-bit word addresses to pixels; a panel row is 1408 words
  (\<open>FB_STRIDE\<close>) of which 1404 are visible. The operations follow
  \<open>src/components/system/src/app-switcher.c\<close>, whose copies carry no NULL guard; the
  guarded copies of the other programs are defined over these in their own theories.

  Every operation has a closed form as a \<open>paint\<close> of a region with a picture
  (collection \<open>paint_simps\<close>), from which follow the pixels it can touch
  (collection \<open>frame_intros\<close>) and the save/restore law of the overlays.
\<close>

section \<open>Geometry and update requests\<close>

abbreviation (input) FB_WIDTH :: int where "FB_WIDTH \<equiv> 1404"
abbreviation (input) FB_HEIGHT :: int where "FB_HEIGHT \<equiv> 1872"
abbreviation (input) FB_STRIDE :: int where "FB_STRIDE \<equiv> 1408"

type_synonym fbmem = "int \<Rightarrow> u16"

record mxcfb_rect =
  rect_top :: u32
  rect_left :: u32
  rect_width :: u32
  rect_height :: u32

record mxcfb_alt_buffer_data =
  phys_addr :: u32
  alt_width :: u32
  alt_height :: u32
  alt_update_region :: mxcfb_rect

record mxcfb_update_data_v1 =
  update_region :: mxcfb_rect
  waveform_mode :: u32
  update_mode :: u32
  update_marker :: u32
  temp :: int
  flags :: u32
  alt_buffer_data :: mxcfb_alt_buffer_data

definition rect_zero :: mxcfb_rect where
  "rect_zero = \<lparr>rect_top = 0, rect_left = 0, rect_width = 0, rect_height = 0\<rparr>"

definition upd_zero :: mxcfb_update_data_v1 where
  "upd_zero = \<lparr>update_region = rect_zero, waveform_mode = 0, update_mode = 0, update_marker = 0,
     temp = 0, flags = 0,
     alt_buffer_data = \<lparr>phys_addr = 0, alt_width = 0, alt_height = 0,
       alt_update_region = rect_zero\<rparr>\<rparr>"

text \<open>The request that \<open>epdc_refresh\<close> hands to the \<open>MXCFB_SEND_UPDATE_V1\<close> ioctl.\<close>

definition epdc_refresh_data :: "int \<Rightarrow> int \<Rightarrow> int \<Rightarrow> int \<Rightarrow> int \<Rightarrow> mxcfb_update_data_v1" where
  "epdc_refresh_data l t w h mode =
     upd_zero\<lparr>update_region := \<lparr>
         rect_top = word_of_int (if t < 0 then 0 else t),
         rect_left = word_of_int (if l < 0 then 0 else l),
         rect_width = word_of_int (if w > FB_WIDTH then FB_WIDTH else w),
         rect_height = word_of_int (if h > FB_HEIGHT then FB_HEIGHT else h)\<rparr>,
       waveform_mode := word_of_int mode,
       update_mode := (if mode = 2 then 0 else 1),
       temp := 0x1001\<rparr>"

section \<open>Pixels, rectangles, text\<close>

definition set_pixel :: "int \<Rightarrow> int \<Rightarrow> u16 \<Rightarrow> fbmem \<Rightarrow> fbmem" where
  "set_pixel x y color m =
     (if x \<ge> 0 \<and> x < FB_WIDTH \<and> y \<ge> 0 \<and> y < FB_HEIGHT
      then m(y * FB_STRIDE + x := color) else m)"

definition draw_rect :: "int \<Rightarrow> int \<Rightarrow> int \<Rightarrow> int \<Rightarrow> u16 \<Rightarrow> fbmem \<Rightarrow> fbmem" where
  "draw_rect x y w h color m =
     fold (\<lambda>cy m. if cy < 0 \<or> cy \<ge> FB_HEIGHT then m
        else (let row = cy * FB_STRIDE in
          fold (\<lambda>cx m. if cx \<ge> 0 \<and> cx < FB_WIDTH then m(row + cx := color) else m)
            [x..x + w - 1] m))
       [y..y + h - 1] m"

definition draw_rect_outline ::
  "int \<Rightarrow> int \<Rightarrow> int \<Rightarrow> int \<Rightarrow> int \<Rightarrow> u16 \<Rightarrow> fbmem \<Rightarrow> fbmem" where
  "draw_rect_outline x y w h thickness color m =
     draw_rect (x + w - thickness) y thickness h color
       (draw_rect x y thickness h color
         (draw_rect x (y + h - thickness) w thickness color
           (draw_rect x y w thickness color m)))"

text \<open>The loop over the 16 rows and 8 columns of a glyph, common to both fonts.\<close>

definition glyph_color :: "nat list \<Rightarrow> int \<Rightarrow> int \<Rightarrow> u16 \<Rightarrow> u16 \<Rightarrow> u16" where
  "glyph_color glyph row col fg bg =
     (if (glyph ! nat row) AND push_bit (nat (7 - col)) 1 \<noteq> 0 then fg else bg)"

definition draw_glyph ::
  "int \<Rightarrow> int \<Rightarrow> nat list \<Rightarrow> int \<Rightarrow> u16 \<Rightarrow> u16 \<Rightarrow> fbmem \<Rightarrow> fbmem" where
  "draw_glyph x y glyph scale fg bg m =
     fold (\<lambda>row. fold (\<lambda>col.
         let color = glyph_color glyph row col fg bg in
         if scale = 1 then
           (if color \<noteq> bg \<or> bg \<noteq> 0 then set_pixel (x + col) (y + row) color else (\<lambda>m. m))
         else
           fold (\<lambda>sy. fold (\<lambda>sx. set_pixel (x + col * scale + sx) (y + row * scale + sy) color)
             [0..scale - 1]) [0..scale - 1])
       [0..7]) [0..15] m"

definition draw_char :: "int \<Rightarrow> int \<Rightarrow> char \<Rightarrow> int \<Rightarrow> u16 \<Rightarrow> u16 \<Rightarrow> fbmem \<Rightarrow> fbmem" where
  "draw_char x y ch scale fg bg m =
     (let c = (of_char ch :: nat);
          c' = (if c < 32 \<or> c > 126 then 32 else c)
      in draw_glyph x y (font8x16 ! (c' - 32)) scale fg bg m)"

fun draw_string :: "int \<Rightarrow> int \<Rightarrow> string \<Rightarrow> int \<Rightarrow> u16 \<Rightarrow> u16 \<Rightarrow> fbmem \<Rightarrow> fbmem" where
  "draw_string cx y [] scale fg bg m = m"
| "draw_string cx y (ch # str) scale fg bg m =
     draw_string (cx + 8 * scale) y str scale fg bg (draw_char cx y ch scale fg bg m)"

definition draw_string_centered ::
  "int \<Rightarrow> int \<Rightarrow> int \<Rightarrow> int \<Rightarrow> string \<Rightarrow> int \<Rightarrow> u16 \<Rightarrow> u16 \<Rightarrow> fbmem \<Rightarrow> fbmem" where
  "draw_string_centered box_x box_y box_w box_h str scale fg bg m =
     (let str_w = int (length str) * 8 * scale;
          str_h = 16 * scale;
          cx = box_x + c_div (box_w - str_w) 2;
          cy = box_y + c_div (box_h - str_h) 2
      in draw_string cx cy str scale fg bg m)"

text \<open>A sequence of drawing calls, in program order.\<close>

definition draws :: "(fbmem \<Rightarrow> fbmem) list \<Rightarrow> fbmem \<Rightarrow> fbmem" where
  "draws fs m = fold (\<lambda>f m. f m) fs m"

section \<open>Saving and restoring a rectangle\<close>

text \<open>\<open>memcpy\<close> of \<open>n\<close> pixels from \<open>src\<close> at \<open>soff\<close> to \<open>dst\<close> at \<open>doff\<close>.\<close>

definition copy_words :: "fbmem \<Rightarrow> int \<Rightarrow> fbmem \<Rightarrow> int \<Rightarrow> int \<Rightarrow> fbmem" where
  "copy_words dst doff src soff n =
     (\<lambda>i. if doff \<le> i \<and> i < doff + n then src (soff + (i - doff)) else dst i)"

definition save_rect :: "int \<Rightarrow> int \<Rightarrow> int \<Rightarrow> int \<Rightarrow> fbmem \<Rightarrow> fbmem \<Rightarrow> fbmem" where
  "save_rect X Y W H fb backup =
     fold (\<lambda>y b. copy_words b (y * W) fb ((Y + y) * FB_STRIDE + X) W) [0..H - 1] backup"

definition restore_rect :: "int \<Rightarrow> int \<Rightarrow> int \<Rightarrow> int \<Rightarrow> fbmem \<Rightarrow> fbmem \<Rightarrow> fbmem" where
  "restore_rect X Y W H backup fb =
     fold (\<lambda>y m. copy_words m ((Y + y) * FB_STRIDE + X) backup (y * W) W) [0..H - 1] fb"

section \<open>Regions and closed forms\<close>

definition rect_px :: "int \<Rightarrow> int \<Rightarrow> int \<Rightarrow> int \<Rightarrow> int set" where
  "rect_px x y w h =
     {i. x \<le> i mod FB_STRIDE \<and> i mod FB_STRIDE < x + w \<and> y \<le> i div FB_STRIDE \<and> i div FB_STRIDE < y + h}"

abbreviation screen_px :: "int set" where
  "screen_px \<equiv> rect_px 0 0 FB_WIDTH FB_HEIGHT"

definition paint :: "int set \<Rightarrow> (int \<Rightarrow> u16) \<Rightarrow> fbmem \<Rightarrow> fbmem" where
  "paint R v m = (\<lambda>i. if i \<in> R then v i else m i)"

definition same_outside :: "int set \<Rightarrow> fbmem \<Rightarrow> fbmem \<Rightarrow> bool" where
  "same_outside R m m' \<longleftrightarrow> (\<forall>i. i \<notin> R \<longrightarrow> m' i = m i)"

lemma paint_empty [simp]: "paint {} v m = m"
  by (simp add: paint_def)

lemma paint_paint: "paint R v (paint S v m) = paint (R \<union> S) v m"
  by (auto simp: paint_def)

text \<open>
  A loop whose every step paints a part of one picture paints the union of the parts,
  in whatever order the parts come and however they overlap.
\<close>

lemma fold_paint:
  "(\<And>k. k \<in> set ks \<Longrightarrow> f k = paint (R k) v) \<Longrightarrow> fold f ks m = paint (\<Union>k \<in> set ks. R k) v m"
  by (induction ks arbitrary: m) (auto simp: paint_paint Un_commute)

lemma pixel_addr:
  "0 \<le> x \<Longrightarrow> x < FB_STRIDE \<Longrightarrow> (y * FB_STRIDE + x) mod FB_STRIDE = x"
  "0 \<le> x \<Longrightarrow> x < FB_STRIDE \<Longrightarrow> (y * FB_STRIDE + x) div FB_STRIDE = (y :: int)"
  by simp_all

lemma pixel_addr_eq: "(i :: int) = (i div FB_STRIDE) * FB_STRIDE + i mod FB_STRIDE"
  by simp

lemma pixel_addr_iff:
  "0 \<le> x \<Longrightarrow> x < FB_STRIDE \<Longrightarrow>
     i = y * FB_STRIDE + x \<longleftrightarrow> i mod FB_STRIDE = x \<and> i div FB_STRIDE = (y :: int)"
  by (metis pixel_addr pixel_addr_eq)

lemma set_pixel_paint [paint_simps]:
  "set_pixel x y c = paint (rect_px x y 1 1 \<inter> screen_px) (\<lambda>_. c)"
  by (rule ext)+ (auto simp: set_pixel_def paint_def rect_px_def fun_upd_def pixel_addr_iff)

lemma draw_row_paint:
  assumes "0 \<le> cy" and "cy < FB_HEIGHT"
  shows "fold (\<lambda>cx m. if cx \<ge> 0 \<and> cx < FB_WIDTH then m(cy * FB_STRIDE + cx := c) else m)
     [x..x + w - 1] m = paint (rect_px x cy w 1 \<inter> screen_px) (\<lambda>_. c) m"
proof -
  have step: "(\<lambda>m. if cx \<ge> 0 \<and> cx < FB_WIDTH then m(cy * FB_STRIDE + cx := c) else m)
      = paint (rect_px cx cy 1 1 \<inter> screen_px) (\<lambda>_. c)" for cx
    using assms set_pixel_paint [of cx cy c] by (auto simp: set_pixel_def fun_eq_iff)
  have "(\<Union>cx \<in> set [x..x + w - 1]. rect_px cx cy 1 1 \<inter> screen_px) = rect_px x cy w 1 \<inter> screen_px"
    by (auto simp: rect_px_def)
  then show ?thesis
    by (simp add: step fold_paint [where R = "\<lambda>cx. rect_px cx cy 1 1 \<inter> screen_px"])
qed

lemma draw_rect_paint [paint_simps]:
  "draw_rect x y w h c = paint (rect_px x y w h \<inter> screen_px) (\<lambda>_. c)"
proof
  fix m
  have step: "(\<lambda>m. if cy < 0 \<or> cy \<ge> FB_HEIGHT then m
        else (let row = cy * FB_STRIDE in
          fold (\<lambda>cx m. if cx \<ge> 0 \<and> cx < FB_WIDTH then m(row + cx := c) else m) [x..x + w - 1] m))
      = paint (rect_px x cy w 1 \<inter> screen_px) (\<lambda>_. c)" (is "?f cy = _") for cy
  proof (cases "cy < 0 \<or> cy \<ge> FB_HEIGHT")
    case True
    then have "rect_px x cy w 1 \<inter> screen_px = {}" by (auto simp: rect_px_def)
    with True show ?thesis by auto
  next
    case False
    then show ?thesis by (auto simp: draw_row_paint)
  qed
  have "(\<Union>cy \<in> set [y..y + h - 1]. rect_px x cy w 1 \<inter> screen_px) = rect_px x y w h \<inter> screen_px"
    by (auto simp: rect_px_def)
  then show "draw_rect x y w h c m = paint (rect_px x y w h \<inter> screen_px) (\<lambda>_. c) m"
    unfolding draw_rect_def step
    by (simp add: fold_paint [where R = "\<lambda>cy. rect_px x cy w 1 \<inter> screen_px"])
qed

subsection \<open>Glyphs\<close>

text \<open>The picture of a glyph, and the pixels that drawing it writes: with an unscaled glyph
  and a black background, the background pixels stay as they are.\<close>

definition glyph_pic :: "int \<Rightarrow> int \<Rightarrow> nat list \<Rightarrow> int \<Rightarrow> u16 \<Rightarrow> u16 \<Rightarrow> int \<Rightarrow> u16" where
  "glyph_pic x y glyph scale fg bg i =
     glyph_color glyph ((i div FB_STRIDE - y) div scale) ((i mod FB_STRIDE - x) div scale) fg bg"

definition glyph_px :: "int \<Rightarrow> int \<Rightarrow> nat list \<Rightarrow> int \<Rightarrow> u16 \<Rightarrow> u16 \<Rightarrow> int set" where
  "glyph_px x y glyph scale fg bg =
     {i \<in> rect_px x y (8 * scale) (16 * scale) \<inter> screen_px.
        \<not> (scale = 1 \<and> bg = 0 \<and> glyph_pic x y glyph scale fg bg i = bg)}"

lemma div_eq_iff_block:
  assumes "0 < s"
  shows "(d div s = k) \<longleftrightarrow> (k * s \<le> d \<and> d < k * s + (s :: int))"
proof
  assume "d div s = k"
  then have "d = k * s + d mod s" by auto
  then show "k * s \<le> d \<and> d < k * s + s"
    using assms pos_mod_bound [of s d] pos_mod_sign [of s d] by linarith
next
  assume "k * s \<le> d \<and> d < k * s + s"
  then show "d div s = k"
    by (intro int_div_pos_eq [of d s k "d - k * s"]) (auto simp: algebra_simps)
qed

lemma div_range:
  assumes "0 < s" and "0 \<le> d" and "d < n * (s :: int)"
  shows "0 \<le> d div s \<and> d div s < n"
proof -
  have "(d div s) * s \<le> d"
    using assms(1) div_eq_iff_block by blast
  with assms(3) have "(d div s) * s < n * s" by simp
  with assms(1,2) show ?thesis
    by (simp add: pos_imp_zdiv_nonneg_iff)
qed

lemma glyph_pic_cell:
  assumes "0 < s" and "i \<in> rect_px (x + col * s) (y + row * s) s s"
  shows "glyph_pic x y g s fg bg i = glyph_color g row col fg bg"
proof -
  have "(i mod FB_STRIDE - x) div s = col" and "(i div FB_STRIDE - y) div s = row"
    using assms by (auto simp: div_eq_iff_block rect_px_def)
  then show ?thesis by (simp add: glyph_pic_def)
qed

lemma paint_cong: "R = S \<Longrightarrow> (\<And>i. i \<in> R \<Longrightarrow> v i = w i) \<Longrightarrow> paint R v = paint S w"
  by (auto simp: paint_def fun_eq_iff)

lemma block_paint:
  "fold (\<lambda>sy. fold (\<lambda>sx. set_pixel (X + sx) (Y + sy) c) [0..s - 1]) [0..s - 1]
     = paint (rect_px X Y s s \<inter> screen_px) (\<lambda>_. c)"
proof
  fix m
  have row: "fold (\<lambda>sx. set_pixel (X + sx) (Y + sy) c) [0..s - 1]
      = paint (rect_px X (Y + sy) s 1 \<inter> screen_px) (\<lambda>_. c)" for sy
  proof -
    have "(\<Union>sx \<in> set [0..s - 1]. rect_px (X + sx) (Y + sy) 1 1 \<inter> screen_px)
        = rect_px X (Y + sy) s 1 \<inter> screen_px" (is "?L = ?R")
    proof
      show "?L \<subseteq> ?R" by (auto simp: rect_px_def)
      show "?R \<subseteq> ?L"
      proof
        fix i assume "i \<in> ?R"
        then show "i \<in> ?L"
          by (intro UN_I [of "i mod FB_STRIDE - X"]) (auto simp: rect_px_def)
      qed
    qed
    then show ?thesis
      by (auto simp: set_pixel_paint
          fold_paint [where R = "\<lambda>sx. rect_px (X + sx) (Y + sy) 1 1 \<inter> screen_px"])
  qed
  have "(\<Union>sy \<in> set [0..s - 1]. rect_px X (Y + sy) s 1 \<inter> screen_px) = rect_px X Y s s \<inter> screen_px"
    (is "?L = ?R")
  proof
    show "?L \<subseteq> ?R" by (auto simp: rect_px_def)
    show "?R \<subseteq> ?L"
    proof
      fix i assume "i \<in> ?R"
      then show "i \<in> ?L"
        by (intro UN_I [of "i div FB_STRIDE - Y"]) (auto simp: rect_px_def)
    qed
  qed
  then show "fold (\<lambda>sy. fold (\<lambda>sx. set_pixel (X + sx) (Y + sy) c) [0..s - 1]) [0..s - 1] m
      = paint (rect_px X Y s s \<inter> screen_px) (\<lambda>_. c) m"
    by (simp add: row fold_paint [where R = "\<lambda>sy. rect_px X (Y + sy) s 1 \<inter> screen_px"])
qed

lemma cell_in_glyph:
  assumes "0 < s" and "0 \<le> row" and "row < 16" and "0 \<le> col" and "col < 8"
  shows "rect_px (x + col * s) (y + row * s) s s \<subseteq> rect_px x y (8 * s) (16 * s)"
proof -
  have "0 \<le> col * s" and "0 \<le> row * s" using assms by auto
  moreover have "col * s + s \<le> 8 * s" and "row * s + s \<le> 16 * s"
    using assms mult_right_mono [of "col + 1" 8 s] mult_right_mono [of "row + 1" 16 s]
    by (simp_all only: distrib_right mult_1)
  ultimately show ?thesis
    unfolding rect_px_def by (intro subsetI) (unfold mem_Collect_eq, linarith)
qed

lemma glyph_cell_paint:
  assumes "0 < s" and "0 \<le> row" and "row < 16" and "0 \<le> col" and "col < 8"
  shows "(let color = glyph_color g row col fg bg in
         if s = 1 then
           (if color \<noteq> bg \<or> bg \<noteq> 0 then set_pixel (x + col) (y + row) color else (\<lambda>m. m))
         else fold (\<lambda>sy. fold (\<lambda>sx. set_pixel (x + col * s + sx) (y + row * s + sy) color)
             [0..s - 1]) [0..s - 1])
       = paint (rect_px (x + col * s) (y + row * s) s s \<inter> glyph_px x y g s fg bg)
           (glyph_pic x y g s fg bg)" (is "?step = paint (?C \<inter> ?G) ?pic")
proof -
  let ?color = "glyph_color g row col fg bg"
  have pic: "\<And>i. i \<in> ?C \<Longrightarrow> ?pic i = ?color" using assms(1) by (rule glyph_pic_cell)
  have sub: "?C \<subseteq> rect_px x y (8 * s) (16 * s)" using assms by (rule cell_in_glyph)
  show ?thesis
  proof (cases "s = 1 \<and> ?color = bg \<and> bg = 0")
    case True
    then have "?C \<inter> ?G = {}" using pic by (auto simp: glyph_px_def)
    with True show ?thesis by (auto simp: Let_def)
  next
    case False
    then have "?C \<inter> ?G = ?C \<inter> screen_px" using pic sub by (auto simp: glyph_px_def)
    then have eq: "paint (?C \<inter> ?G) ?pic = paint (?C \<inter> screen_px) (\<lambda>_. ?color)"
      using pic by (intro paint_cong) auto
    show ?thesis
    proof (cases "s = 1")
      case True
      with False show ?thesis unfolding eq by (auto simp: Let_def set_pixel_paint)
    next
      case False
      then show ?thesis unfolding eq by (simp add: Let_def block_paint)
    qed
  qed
qed

lemma draw_glyph_paint [paint_simps]:
  assumes "0 < s"
  shows "draw_glyph x y g s fg bg = paint (glyph_px x y g s fg bg) (glyph_pic x y g s fg bg)"
proof
  fix m
  let ?G = "glyph_px x y g s fg bg" and ?pic = "glyph_pic x y g s fg bg"
  let ?C = "\<lambda>row col. rect_px (x + col * s) (y + row * s) s s"
  have row: "fold (\<lambda>col. let color = glyph_color g row col fg bg in
         if s = 1 then
           (if color \<noteq> bg \<or> bg \<noteq> 0 then set_pixel (x + col) (y + row) color else (\<lambda>m. m))
         else fold (\<lambda>sy. fold (\<lambda>sx. set_pixel (x + col * s + sx) (y + row * s + sy) color)
             [0..s - 1]) [0..s - 1]) [0..7]
       = paint (\<Union>col \<in> set [0..7]. ?C row col \<inter> ?G) ?pic" if "row \<in> set [0..15]" for row
    using that assms
    by (intro ext fold_paint) (simp del: fold.simps add: glyph_cell_paint)
  have "i \<in> (\<Union>row \<in> set [0..15]. \<Union>col \<in> set [0..7]. ?C row col)"
    if i: "i \<in> rect_px x y (8 * s) (16 * s)" for i
  proof -
    let ?r = "(i div FB_STRIDE - y) div s" and ?c = "(i mod FB_STRIDE - x) div s"
    have "?r \<in> set [0..15]" and "?c \<in> set [0..7]"
      using i div_range [OF assms, of "i div FB_STRIDE - y" 16] div_range [OF assms, of "i mod FB_STRIDE - x" 8]
      by (auto simp: rect_px_def)
    moreover have "i \<in> ?C ?r ?c"
      using div_eq_iff_block [OF assms, of "i div FB_STRIDE - y" ?r]
        div_eq_iff_block [OF assms, of "i mod FB_STRIDE - x" ?c]
      by (auto simp: rect_px_def)
    ultimately show ?thesis by blast
  qed
  then have "(\<Union>row \<in> set [0..15]. \<Union>col \<in> set [0..7]. ?C row col \<inter> ?G) = ?G"
    by (auto simp: glyph_px_def)
  then show "draw_glyph x y g s fg bg m = paint ?G ?pic m"
    unfolding draw_glyph_def
    by (subst fold_paint [where R = "\<lambda>row. \<Union>col \<in> set [0..7]. ?C row col \<inter> ?G" and v = ?pic])
      (simp_all only: row)
qed

subsection \<open>What an operation can change\<close>

lemma same_outside_refl: "same_outside R m m"
  by (simp add: same_outside_def)

lemma same_outside_trans: "same_outside R m m' \<Longrightarrow> same_outside R m' m'' \<Longrightarrow> same_outside R m m''"
  by (simp add: same_outside_def)

lemma same_outside_mono: "same_outside R m m' \<Longrightarrow> R \<subseteq> S \<Longrightarrow> same_outside S m m'"
  by (auto simp: same_outside_def)

lemma same_outside_paint: "R \<subseteq> S \<Longrightarrow> same_outside S m m' \<Longrightarrow> same_outside S m (paint R v m')"
  by (auto simp: same_outside_def paint_def)

lemma rect_px_mono:
  "X \<le> x \<Longrightarrow> Y \<le> y \<Longrightarrow> x + w \<le> X + W \<Longrightarrow> y + h \<le> Y + H \<Longrightarrow> rect_px x y w h \<subseteq> rect_px X Y W H"
  by (auto simp: rect_px_def)

text \<open>
  A rectangle, an outline or a text drawn inside the rectangle \<open>X Y W H\<close> changes no pixel
  outside it. The premises are inequalities between the coordinates, so \<open>simp\<close>
  discharges them for the constants of the sources.
\<close>

lemma draw_rect_within:
  "same_outside (rect_px X Y W H) m m' \<Longrightarrow> X \<le> x \<Longrightarrow> Y \<le> y \<Longrightarrow> x + w \<le> X + W \<Longrightarrow> y + h \<le> Y + H \<Longrightarrow>
     same_outside (rect_px X Y W H) m (draw_rect x y w h c m')"
  unfolding draw_rect_paint
  by (rule same_outside_paint) (use rect_px_mono [of X x Y y w W h H] in auto)

lemma draw_rect_outline_within:
  "same_outside (rect_px X Y W H) m m' \<Longrightarrow> X \<le> x \<Longrightarrow> Y \<le> y \<Longrightarrow> x + w \<le> X + W \<Longrightarrow> y + h \<le> Y + H \<Longrightarrow>
     0 \<le> t \<Longrightarrow> t \<le> w \<Longrightarrow> t \<le> h \<Longrightarrow>
     same_outside (rect_px X Y W H) m (draw_rect_outline x y w h t c m')"
  unfolding draw_rect_outline_def by (intro draw_rect_within) auto

lemma draw_glyph_within:
  "same_outside (rect_px X Y W H) m m' \<Longrightarrow> 0 < s \<Longrightarrow>
     X \<le> x \<Longrightarrow> Y \<le> y \<Longrightarrow> x + 8 * s \<le> X + W \<Longrightarrow> y + 16 * s \<le> Y + H \<Longrightarrow>
     same_outside (rect_px X Y W H) m (draw_glyph x y g s fg bg m')"
  using rect_px_mono [of X x Y y "8 * s" W "16 * s" H]
  by (auto simp: draw_glyph_paint glyph_px_def intro!: same_outside_paint)

lemma draw_char_within:
  "same_outside (rect_px X Y W H) m m' \<Longrightarrow> 0 < s \<Longrightarrow>
     X \<le> x \<Longrightarrow> Y \<le> y \<Longrightarrow> x + 8 * s \<le> X + W \<Longrightarrow> y + 16 * s \<le> Y + H \<Longrightarrow>
     same_outside (rect_px X Y W H) m (draw_char x y ch s fg bg m')"
  by (simp add: draw_char_def Let_def draw_glyph_within)

lemma draw_string_within:
  "same_outside (rect_px X Y W H) m m' \<Longrightarrow> 0 < s \<Longrightarrow>
     X \<le> x \<Longrightarrow> Y \<le> y \<Longrightarrow> x + int (length str) * 8 * s \<le> X + W \<Longrightarrow> y + 16 * s \<le> Y + H \<Longrightarrow>
     same_outside (rect_px X Y W H) m (draw_string x y str s fg bg m')"
proof (induction str arbitrary: x m')
  case Nil
  then show ?case by simp
next
  case (Cons ch str)
  have "x + 8 * s + int (length str) * 8 * s \<le> X + W"
    using Cons.prems by (simp add: algebra_simps)
  moreover have "0 \<le> int (length str) * 8 * s" using Cons.prems by simp
  ultimately have "x + 8 * s \<le> X + W" and "x + 8 * s + int (length str) * 8 * s \<le> X + W"
    by linarith+
  then show ?case
    using Cons.prems by (auto intro!: Cons.IH draw_char_within)
qed

lemma draw_string_centered_within:
  assumes "same_outside (rect_px X Y W H) m m'" and "0 < s"
    and "X \<le> x" and "Y \<le> y" and "x + w \<le> X + W" and "y + h \<le> Y + H"
    and "int (length str) * 8 * s \<le> w" and "16 * s \<le> h"
  shows "same_outside (rect_px X Y W H) m (draw_string_centered x y w h str s fg bg m')"
proof -
  let ?cx = "x + (w - int (length str) * 8 * s) div 2" and ?cy = "y + (h - 16 * s) div 2"
  have "x \<le> ?cx" and "?cx + int (length str) * 8 * s \<le> x + w" and "y \<le> ?cy" and "?cy + 16 * s \<le> y + h"
    using assms(7,8) by linarith+
  then have "same_outside (rect_px X Y W H) m (draw_string ?cx ?cy str s fg bg m')"
    using assms by (intro draw_string_within) linarith+
  with assms(7,8) show ?thesis
    by (simp add: draw_string_centered_def Let_def)
qed

text \<open>
  The same facts as conditional rewrite rules: \<open>stays R f\<close> says that the drawing call \<open>f\<close>
  changes nothing outside \<open>R\<close>. The side conditions are inequalities, which \<open>simp\<close>
  discharges for the constant coordinates of the sources.
\<close>

definition stays :: "int set \<Rightarrow> (fbmem \<Rightarrow> fbmem) \<Rightarrow> bool" where
  "stays R f \<longleftrightarrow> (\<forall>m. same_outside R m (f m))"

lemma stays_draw_rect [frame_intros]:
  "X \<le> x \<Longrightarrow> Y \<le> y \<Longrightarrow> x + w \<le> X + W \<Longrightarrow> y + h \<le> Y + H \<Longrightarrow> stays (rect_px X Y W H) (draw_rect x y w h c)"
  by (simp add: stays_def draw_rect_within same_outside_refl)

lemma stays_draw_rect_outline [frame_intros]:
  "X \<le> x \<Longrightarrow> Y \<le> y \<Longrightarrow> x + w \<le> X + W \<Longrightarrow> y + h \<le> Y + H \<Longrightarrow> 0 \<le> t \<Longrightarrow> t \<le> w \<Longrightarrow> t \<le> h \<Longrightarrow>
     stays (rect_px X Y W H) (draw_rect_outline x y w h t c)"
  by (simp add: stays_def draw_rect_outline_within same_outside_refl)

lemma stays_draw_string [frame_intros]:
  "0 < s \<Longrightarrow> X \<le> x \<Longrightarrow> Y \<le> y \<Longrightarrow> x + int (length str) * 8 * s \<le> X + W \<Longrightarrow> y + 16 * s \<le> Y + H \<Longrightarrow>
     stays (rect_px X Y W H) (draw_string x y str s fg bg)"
  by (simp add: stays_def draw_string_within same_outside_refl)

lemma stays_draw_string_centered [frame_intros]:
  "0 < s \<Longrightarrow> X \<le> x \<Longrightarrow> Y \<le> y \<Longrightarrow> x + w \<le> X + W \<Longrightarrow> y + h \<le> Y + H \<Longrightarrow>
     int (length str) * 8 * s \<le> w \<Longrightarrow> 16 * s \<le> h \<Longrightarrow>
     stays (rect_px X Y W H) (draw_string_centered x y w h str s fg bg)"
  by (simp add: stays_def draw_string_centered_within same_outside_refl)

lemma stays_draws:
  "list_all (stays R) fs \<Longrightarrow> stays R (draws fs)"
proof (induction fs)
  case Nil
  then show ?case by (simp add: stays_def draws_def same_outside_refl)
next
  case (Cons f fs)
  then show ?case
    by (auto simp: stays_def draws_def intro: same_outside_trans)
qed

lemma draws_Nil [simp]: "draws [] m = m"
  by (simp add: draws_def)

lemma draws_Cons [simp]: "draws (f # fs) m = draws fs (f m)"
  by (simp add: draws_def)

subsection \<open>Saving and restoring\<close>

lemma copy_row_paint:
  assumes "0 \<le> X" and "X + W \<le> FB_STRIDE"
  shows "(\<lambda>m. copy_words m ((Y + y) * FB_STRIDE + X) backup (y * W) W)
     = paint (rect_px X (Y + y) W 1)
         (\<lambda>i. backup ((i div FB_STRIDE - Y) * W + (i mod FB_STRIDE - X)))"
proof (intro ext)
  fix m :: fbmem and i :: int
  have iff: "(Y + y) * FB_STRIDE + X \<le> i \<and> i < (Y + y) * FB_STRIDE + X + W \<longleftrightarrow> i \<in> rect_px X (Y + y) W 1"
  proof (cases "i div FB_STRIDE = Y + y")
    case True
    then have "i mod FB_STRIDE = i - (Y + y) * FB_STRIDE" using pixel_addr_eq [of i] by simp
    with True show ?thesis unfolding rect_px_def mem_Collect_eq by linarith
  next
    case False
    moreover from False have "\<not> ((Y + y) * FB_STRIDE \<le> i \<and> i < (Y + y) * FB_STRIDE + FB_STRIDE)"
      by (simp add: div_eq_iff_block)
    ultimately show ?thesis using assms unfolding rect_px_def mem_Collect_eq by linarith
  qed
  have "backup (y * W + (i - ((Y + y) * FB_STRIDE + X)))
      = backup ((i div FB_STRIDE - Y) * W + (i mod FB_STRIDE - X))" if "i \<in> rect_px X (Y + y) W 1"
  proof -
    from that have "i div FB_STRIDE = Y + y" by (auto simp: rect_px_def)
    moreover from this have "i mod FB_STRIDE = i - (Y + y) * FB_STRIDE"
      using pixel_addr_eq [of i] by simp
    ultimately show ?thesis by (intro arg_cong [where f = backup]) simp
  qed
  with iff show "copy_words m ((Y + y) * FB_STRIDE + X) backup (y * W) W i
      = paint (rect_px X (Y + y) W 1)
         (\<lambda>i. backup ((i div FB_STRIDE - Y) * W + (i mod FB_STRIDE - X))) m i"
    by (auto simp: copy_words_def paint_def)
qed

lemma rect_px_rows: "(\<Union>y \<in> {0..H - 1}. rect_px X (Y + y) W 1) = rect_px X Y W H" (is "?L = ?R")
proof
  show "?L \<subseteq> ?R" by (auto simp: rect_px_def)
  show "?R \<subseteq> ?L"
  proof
    fix i assume "i \<in> ?R"
    then show "i \<in> ?L" by (intro UN_I [of "i div FB_STRIDE - Y"]) (auto simp: rect_px_def)
  qed
qed

lemma restore_rect_paint [paint_simps]:
  assumes "0 \<le> X" and "X + W \<le> FB_STRIDE"
  shows "restore_rect X Y W H backup
     = paint (rect_px X Y W H) (\<lambda>i. backup ((i div FB_STRIDE - Y) * W + (i mod FB_STRIDE - X)))"
  unfolding restore_rect_def copy_row_paint [OF assms]
  by (rule ext) (simp add: fold_paint [where R = "\<lambda>y. rect_px X (Y + y) W 1"] rect_px_rows)

lemma save_rect_nth:
  assumes "0 \<le> y" and "y < H" and "0 \<le> x" and "x < W"
  shows "save_rect X Y W H fb b (y * W + x) = fb ((Y + y) * FB_STRIDE + X + x)"
proof -
  let ?R = "\<lambda>y. {i. y * W \<le> i \<and> i < y * W + W}"
  let ?pic = "\<lambda>i. fb ((Y + i div W) * FB_STRIDE + X + i mod W)"
  have W: "0 < W" using assms by simp
  have "(\<lambda>b. copy_words b (y * W) fb ((Y + y) * FB_STRIDE + X) W) = paint (?R y) ?pic" for y
  proof (intro ext)
    fix b :: fbmem and i :: int
    have "?pic i = fb ((Y + y) * FB_STRIDE + X + (i - y * W))" if "i \<in> ?R y"
    proof -
      from that have "i div W = y" by (simp add: div_eq_iff_block [OF W])
      moreover from this have "i mod W = i - y * W" by (simp flip: minus_div_mult_eq_mod)
      ultimately show ?thesis by simp
    qed
    then show "copy_words b (y * W) fb ((Y + y) * FB_STRIDE + X) W i = paint (?R y) ?pic b i"
      by (simp add: copy_words_def paint_def)
  qed
  then have "save_rect X Y W H fb b = paint (\<Union>y \<in> set [0..H - 1]. ?R y) ?pic b"
    unfolding save_rect_def by (simp add: fold_paint [where R = ?R])
  moreover have "y * W + x \<in> (\<Union>y \<in> set [0..H - 1]. ?R y)"
    using assms by (intro UN_I [of y]) auto
  moreover have "(y * W + x) div W = y" and "(y * W + x) mod W = x"
    using assms by simp_all
  ultimately show ?thesis by (simp add: paint_def)
qed

text \<open>The overlay law: whatever was drawn inside the saved rectangle, restoring it gives
  the picture that was saved.\<close>

lemma restore_save:
  assumes "0 \<le> X" and "X + W \<le> FB_STRIDE" and "same_outside (rect_px X Y W H) m m'"
  shows "restore_rect X Y W H (save_rect X Y W H m b) m' = m"
proof
  fix i
  show "restore_rect X Y W H (save_rect X Y W H m b) m' i = m i"
  proof (cases "i \<in> rect_px X Y W H")
    case True
    then have "save_rect X Y W H m b ((i div FB_STRIDE - Y) * W + (i mod FB_STRIDE - X))
        = m (i div FB_STRIDE * FB_STRIDE + i mod FB_STRIDE)"
      by (subst save_rect_nth) (auto simp: rect_px_def algebra_simps)
    with True assms(1,2) show ?thesis by (simp add: restore_rect_paint paint_def)
  next
    case False
    with assms show ?thesis by (simp add: restore_rect_paint paint_def same_outside_def)
  qed
qed


text \<open>A backup buffer that holds the pixels which the picture \<open>m\<close> has in a rectangle.\<close>

definition holds_rect :: "int \<Rightarrow> int \<Rightarrow> int \<Rightarrow> int \<Rightarrow> fbmem \<Rightarrow> fbmem \<Rightarrow> bool" where
  "holds_rect X Y W H backup m \<longleftrightarrow>
     (\<forall>i \<in> rect_px X Y W H. backup ((i div FB_STRIDE - Y) * W + (i mod FB_STRIDE - X)) = m i)"

lemma save_holds:
  assumes "\<And>i. i \<in> rect_px X Y W H \<Longrightarrow> fb i = m i"
  shows "holds_rect X Y W H (save_rect X Y W H fb b) m"
proof -
  have "save_rect X Y W H fb b ((i div FB_STRIDE - Y) * W + (i mod FB_STRIDE - X)) = m i"
    if i: "i \<in> rect_px X Y W H" for i
  proof -
    have "save_rect X Y W H fb b ((i div FB_STRIDE - Y) * W + (i mod FB_STRIDE - X))
        = fb (i div FB_STRIDE * FB_STRIDE + i mod FB_STRIDE)"
      using i by (subst save_rect_nth) (auto simp: rect_px_def algebra_simps)
    with assms [OF i] show ?thesis by simp
  qed
  then show ?thesis by (simp add: holds_rect_def)
qed

lemma restore_holds:
  assumes "0 \<le> X" and "X + W \<le> FB_STRIDE" and "holds_rect X Y W H b m"
    and "same_outside (rect_px X Y W H \<union> R) m fb"
  shows "same_outside R m (restore_rect X Y W H b fb)"
  using assms by (auto simp: restore_rect_paint paint_def same_outside_def holds_rect_def)

end
