(* ===== verification/Btn_Watcher.thy ===== *)
theory Btn_Watcher
  imports Framebuffer
begin

text \<open>
  The hardware-button supervisor \<open>src/components/system/src/btn-watcher.c\<close>. The state
  record holds the static variables of the file, the local variables of \<open>main\<close> that live
  across loop iterations, the panel memory, the two files under \<^verbatim>\<open>/tmp\<close> that name the
  running application, and the trace of what the daemon has done to the outside world
  (events written to uinput, shell commands, sleeps, panel refreshes, injected touches).
  The outcomes of \<open>open\<close>, \<open>mmap\<close>, \<open>malloc\<close> and \<open>fopen\<close> are inputs
  (\<open>bw_env\<close>), as are the clock readings and the events. Log output is left out.

  One loop iteration is \<open>bw_tick\<close> (the four deadline checks, which also compute the
  \<open>select\<close> timeout) followed by \<open>bw_event\<close> when \<open>select\<close> reports input.
\<close>

section \<open>State\<close>

abbreviation (input) POWER_DOUBLE_CLICK_MS :: u64 where "POWER_DOUBLE_CLICK_MS \<equiv> 400"
abbreviation (input) HOME_LONG_PRESS_MS :: u64 where "HOME_LONG_PRESS_MS \<equiv> 500"

abbreviation (input) TOAST_X :: int where "TOAST_X \<equiv> 102"
abbreviation (input) TOAST_Y :: int where "TOAST_Y \<equiv> 60"
abbreviation (input) TOAST_W :: int where "TOAST_W \<equiv> 1200"
abbreviation (input) TOAST_H :: int where "TOAST_H \<equiv> 160"
abbreviation (input) CARD_X :: int where "CARD_X \<equiv> 102"
abbreviation (input) CARD_Y :: int where "CARD_Y \<equiv> 536"
abbreviation (input) CARD_W :: int where "CARD_W \<equiv> 1200"
abbreviation (input) CARD_H :: int where "CARD_H \<equiv> 800"

datatype bw_effect =
    Emit int int int                   \<comment> \<open>\<open>emit_event\<close>: one event written to uinput\<close>
  | Sleep nat                          \<comment> \<open>\<open>usleep\<close>\<close>
  | System string                      \<comment> \<open>\<open>system\<close>\<close>
  | SendUpdate mxcfb_update_data_v1    \<comment> \<open>the \<open>MXCFB_SEND_UPDATE_V1\<close> ioctl\<close>
  | TouchWrite "input_event list"      \<comment> \<open>events written to the touch node\<close>

record bw_env =
  fb0_fd :: int                        \<comment> \<open>result of opening \<^verbatim>\<open>/dev/fb0\<close>\<close>
  graphics_fb0_fd :: int
  fb_mmap_ok :: bool
  toast_malloc :: "fbmem option"       \<comment> \<open>fresh memory, or \<open>None\<close> when \<open>malloc\<close> fails\<close>
  card_malloc :: "fbmem option"
  event1_opens :: bool
  current_app_writable :: bool
  active_reader_writable :: bool

record bw_state =
  fb_fd :: int
  fb_mem :: bool                       \<comment> \<open>the mapping exists (pointer is not NULL)\<close>
  panel :: fbmem                       \<comment> \<open>the memory behind the mapping\<close>
  toast_backup :: "fbmem option"
  card_backup :: "fbmem option"
  toast_active :: bool
  card_active :: bool
  toast_expire_time :: u64
  media_mode :: bool
  power_pending :: bool
  power_down_time :: u64
  home_down :: bool
  home_combo_consumed :: bool
  home_pending_single :: bool
  home_long_sent :: bool
  home_down_time :: u64
  home_single_time :: u64
  home_double_consumed :: bool
  current_app_file :: "string option"  \<comment> \<open>\<^verbatim>\<open>/tmp/current_app\<close>\<close>
  active_reader_file :: "string option"
  trace :: "bw_effect list"

definition bw_init :: "fbmem \<Rightarrow> string option \<Rightarrow> string option \<Rightarrow> bw_state" where
  "bw_init m app reader = \<lparr>fb_fd = -1, fb_mem = False, panel = m,
     toast_backup = None, card_backup = None, toast_active = False, card_active = False,
     toast_expire_time = 0, media_mode = False,
     power_pending = False, power_down_time = 0, home_down = False, home_combo_consumed = False,
     home_pending_single = False, home_long_sent = False, home_down_time = 0,
     home_single_time = 0, home_double_consumed = False,
     current_app_file = app, active_reader_file = reader, trace = []\<rparr>"

definition eff :: "bw_effect list \<Rightarrow> bw_state \<Rightarrow> bw_state" where
  "eff es s = s\<lparr>trace := trace s @ es\<rparr>"

section \<open>Panel access\<close>

definition fb_init :: "bw_env \<Rightarrow> bw_state \<Rightarrow> bw_state" where
  "fb_init e s =
     (if fb_mem s then s
      else let fd = (if fb0_fd e < 0 then graphics_fb0_fd e else fb0_fd e) in
        if fd \<ge> 0 then
          (if fb_mmap_ok e
           then s\<lparr>fb_fd := fd, fb_mem := True, toast_backup := toast_malloc e,
                  card_backup := card_malloc e\<rparr>
           else s\<lparr>fb_fd := -1\<rparr>)
        else s\<lparr>fb_fd := fd\<rparr>)"

definition epdc_refresh :: "int \<Rightarrow> int \<Rightarrow> int \<Rightarrow> int \<Rightarrow> int \<Rightarrow> bw_state \<Rightarrow> bw_state" where
  "epdc_refresh l t w h mode s =
     (if fb_fd s < 0 then s else eff [SendUpdate (epdc_refresh_data l t w h mode)] s)"

text \<open>The guarded drawing calls: without a mapping nothing happens.\<close>

definition on_panel :: "(fbmem \<Rightarrow> fbmem) \<Rightarrow> bw_state \<Rightarrow> bw_state" where
  "on_panel f s = (if fb_mem s then s\<lparr>panel := f (panel s)\<rparr> else s)"

section \<open>Overlays\<close>

definition hide_toast :: "bw_state \<Rightarrow> bw_state" where
  "hide_toast s =
     (case toast_backup s of
        None \<Rightarrow> s
      | Some b \<Rightarrow>
          if \<not> toast_active s \<or> \<not> fb_mem s then s
          else (epdc_refresh TOAST_X TOAST_Y TOAST_W TOAST_H 1
                 (s\<lparr>panel := restore_rect TOAST_X TOAST_Y TOAST_W TOAST_H b (panel s)\<rparr>))
                 \<lparr>toast_active := False\<rparr>)"

definition save_toast :: "bw_state \<Rightarrow> bw_state" where
  "save_toast s =
     (if toast_active s then s
      else s\<lparr>toast_backup := map_option (save_rect TOAST_X TOAST_Y TOAST_W TOAST_H (panel s)) (toast_backup s),
             toast_active := True\<rparr>)"

definition toast_picture :: "string \<Rightarrow> string \<Rightarrow> fbmem \<Rightarrow> fbmem" where
  "toast_picture title subtitle = draws (
     [draw_rect TOAST_X TOAST_Y TOAST_W TOAST_H 0x0000,
      draw_rect_outline TOAST_X TOAST_Y TOAST_W TOAST_H 4 0xFFFF] @
     (if subtitle \<noteq> [] then
       [draw_string_centered TOAST_X (TOAST_Y + 25) TOAST_W 55 title 3 0xFFFF 0x0000,
        draw_string_centered TOAST_X (TOAST_Y + 95) TOAST_W 40 subtitle 2 0xDEFB 0x0000]
      else
       [draw_string_centered TOAST_X TOAST_Y TOAST_W TOAST_H title 3 0xFFFF 0x0000]))"

definition show_toast :: "bw_env \<Rightarrow> string \<Rightarrow> string \<Rightarrow> u64 \<Rightarrow> bw_state \<Rightarrow> bw_state" where
  "show_toast e title subtitle now s =
     (let s1 = fb_init e s in
      if \<not> fb_mem s1 then s1
      else (epdc_refresh TOAST_X TOAST_Y TOAST_W TOAST_H 1
              (on_panel (toast_picture title subtitle) (save_toast s1)))
             \<lparr>toast_expire_time := now + 2200\<rparr>)"

definition hide_media_card :: "bw_state \<Rightarrow> bw_state" where
  "hide_media_card s =
     (case card_backup s of
        None \<Rightarrow> s
      | Some b \<Rightarrow>
          if \<not> card_active s \<or> \<not> fb_mem s then s
          else (epdc_refresh CARD_X CARD_Y CARD_W CARD_H 2
                 (s\<lparr>panel := restore_rect CARD_X CARD_Y CARD_W CARD_H b (panel s)\<rparr>))
                 \<lparr>card_active := False\<rparr>)"

definition save_card :: "bw_state \<Rightarrow> bw_state" where
  "save_card s =
     (if card_active s then s
      else s\<lparr>card_backup := map_option (save_rect CARD_X CARD_Y CARD_W CARD_H (panel s)) (card_backup s),
             card_active := True\<rparr>)"

definition card_quadrant :: "int \<Rightarrow> int \<Rightarrow> string \<Rightarrow> string \<Rightarrow> (fbmem \<Rightarrow> fbmem) list" where
  "card_quadrant qx qy button_label action_label =
     (let col_w = 560; row_h = 195 in
      [draw_rect qx qy col_w row_h 0xFFFF,
       draw_rect_outline qx qy col_w row_h 3 0x0000,
       draw_string_centered qx (qy + 35) col_w 35 button_label 2 0x0000 0xFFFF,
       draw_string_centered qx (qy + 95) col_w 55 action_label 3 0x0000 0xFFFF])"

definition card_picture :: "string option \<Rightarrow> fbmem \<Rightarrow> fbmem" where
  "card_picture status =
     (let col1_x = CARD_X + 25; col2_x = CARD_X + 615;
          row1_y = CARD_Y + 160; row2_y = CARD_Y + 375;
          text = (case status of Some t \<Rightarrow> t | None \<Rightarrow> ''PLAYBACK ACTIVE'') in
      draws (
       [draw_rect CARD_X CARD_Y CARD_W CARD_H 0xFFFF,
        draw_rect_outline CARD_X CARD_Y CARD_W CARD_H 6 0x0000,
        draw_rect_outline (CARD_X + 10) (CARD_Y + 10) (CARD_W - 20) (CARD_H - 20) 2 0x0000,
        draw_rect (CARD_X + 14) (CARD_Y + 14) (CARD_W - 28) 125 0x0000,
        draw_string_centered (CARD_X + 14) (CARD_Y + 26) (CARD_W - 28) 50
          ''MEDIA PLAYER CONTROLS'' 3 0xFFFF 0x0000,
        draw_string_centered (CARD_X + 14) (CARD_Y + 84) (CARD_W - 28) 36 text 2 0xFFFF 0x0000] @
       card_quadrant col1_x row1_y ''[ TOP-LEFT BUTTON (F9) ]'' ''|<< PREV TRACK'' @
       card_quadrant col2_x row1_y ''[ TOP-RIGHT BUTTON (F11) ]'' ''NEXT TRACK >>|'' @
       card_quadrant col1_x row2_y ''[ BOTTOM-LEFT BUTTON (F10) ]'' ''SHUFFLE ON / OFF'' @
       card_quadrant col2_x row2_y ''[ BOTTOM-RIGHT BUTTON (F12) ]'' ''>|| PLAY / PAUSE'' @
       [draw_rect (CARD_X + 25) (CARD_Y + 585) (CARD_W - 50) 3 0x0000,
        draw_string_centered CARD_X (CARD_Y + 605) CARD_W 35
          ''HOME BUTTON:  >|| PLAY / PAUSE'' 2 0x0000 0xFFFF,
        draw_string_centered CARD_X (CARD_Y + 655) CARD_W 35
          ''HOLD HOME + BOTTOM-RIGHT:  RETURN TO READING'' 2 0x0000 0xFFFF,
        draw_string_centered CARD_X (CARD_Y + 705) CARD_W 35
          ''(Music continues playing seamlessly in background)'' 2 0x0000 0xFFFF]))"

definition show_media_card :: "bw_env \<Rightarrow> string option \<Rightarrow> bw_state \<Rightarrow> bw_state" where
  "show_media_card e status s =
     (let s1 = fb_init e s in
      if \<not> fb_mem s1 then s1
      else epdc_refresh CARD_X CARD_Y CARD_W CARD_H 1
             (on_panel (card_picture status) (save_card s1)))"

section \<open>Emitting events\<close>

definition mk_event :: "int \<Rightarrow> int \<Rightarrow> int \<Rightarrow> input_event" where
  "mk_event t c v = \<lparr>ev_type = t, ev_code = c, ev_value = v\<rparr>"

definition plato_tap :: "bw_effect list" where
  "plato_tap =
     [TouchWrite [mk_event EV_ABS 57 1, mk_event EV_ABS 53 35, mk_event EV_ABS 54 180,
        mk_event EV_KEY 330 1, mk_event EV_SYN 0 0],
      Sleep 40000,
      TouchWrite [mk_event EV_ABS 57 (-1), mk_event EV_KEY 330 0, mk_event EV_SYN 0 0]]"

definition inject_plato_frontlight :: "bw_env \<Rightarrow> bw_state \<Rightarrow> bw_state" where
  "inject_plato_frontlight e s =
     (if \<not> event1_opens e then s else eff (plato_tap @ [Sleep 180000] @ plato_tap) s)"

definition emit_event :: "int \<Rightarrow> int \<Rightarrow> int \<Rightarrow> bw_state \<Rightarrow> bw_state" where
  "emit_event t c v s = eff [Emit t c v] s"

definition emit_syn :: "bw_state \<Rightarrow> bw_state" where
  "emit_syn s = emit_event EV_SYN SYN_REPORT 0 s"

definition emit_key_click :: "int \<Rightarrow> bw_state \<Rightarrow> bw_state" where
  "emit_key_click code s =
     emit_syn (emit_event EV_KEY code 0 (eff [Sleep 20000]
       (emit_syn (emit_event EV_KEY code 1 s))))"

definition system :: "string \<Rightarrow> bw_state \<Rightarrow> bw_state" where
  "system cmd s = eff [System cmd] s"

section \<open>Start-up and shutdown of the daemon\<close>

text \<open>
  The device calls of \<open>main\<close> before and after the loop, given which of them succeed. A
  start-up that fails ends the process with status 1.
\<close>

datatype bw_call = GrabKeys | SetEvBit int | SetKeyBit int | SetSwBit int | WriteUserDev
  | CreateDev | LinkNodes | UngrabKeys | DestroyDev | CloseUinput | CloseKeys
  | UnmapFb | CloseFb | FreeToast | FreeCard

definition bw_startup :: "bool \<Rightarrow> bool \<Rightarrow> bool \<Rightarrow> bool \<Rightarrow> (bw_call list) + (bw_call list)" where
  "bw_startup evdev_opens uinput_opens user_dev_written dev_created =
     (if \<not> evdev_opens then Inl []
      else if \<not> uinput_opens then Inl [GrabKeys, CloseKeys]
      else
        (let bits = [GrabKeys, SetEvBit EV_KEY, SetEvBit EV_SW, SetEvBit EV_SYN,
               SetKeyBit KEY_POWER, SetKeyBit KEY_HOME, SetKeyBit 191, SetKeyBit 192,
               SetKeyBit 193, SetKeyBit 194, SetSwBit 0, WriteUserDev]
         in if \<not> user_dev_written then Inl (bits @ [CloseUinput, CloseKeys])
            else if \<not> dev_created then Inl (bits @ [CreateDev, CloseUinput, CloseKeys])
            else Inr (bits @ [CreateDev, LinkNodes])))"

definition bw_shutdown :: "bw_state \<Rightarrow> bw_call list" where
  "bw_shutdown s =
     [UngrabKeys, DestroyDev, CloseUinput, CloseKeys] @
     (if fb_mem s then [UnmapFb] else []) @
     (if fb_fd s \<ge> 0 then [CloseFb] else []) @
     (if toast_backup s \<noteq> None then [FreeToast] else []) @
     (if card_backup s \<noteq> None then [FreeCard] else [])"

section \<open>The active application\<close>

definition app_of_file :: "string option \<Rightarrow> string" where
  "app_of_file f =
     (let buf = (case f of None \<Rightarrow> [] | Some text \<Rightarrow> chomp (fgets_str 32 text))
      in if buf = [] then take 31 ''koreader'' else buf)"

definition get_active_app :: "bw_state \<Rightarrow> string" where
  "get_active_app s =
     app_of_file (if current_app_file s = None then active_reader_file s else current_app_file s)"

definition set_active_app :: "bw_env \<Rightarrow> string \<Rightarrow> bw_state \<Rightarrow> bw_state" where
  "set_active_app e name s =
     (let line = name @ [CHR 0x0A];
          s1 = (if current_app_writable e then s\<lparr>current_app_file := Some line\<rparr> else s)
      in if active_reader_writable e then s1\<lparr>active_reader_file := Some line\<rparr> else s1)"

section \<open>The deadline checks of a loop iteration\<close>

definition toast_check :: "u64 \<Rightarrow> bw_state \<times> int \<Rightarrow> bw_state \<times> int" where
  "toast_check now = (\<lambda>(s, timeout_ms).
     if toast_active s then
       (let rem = int_of_u64 (toast_expire_time s - now) in
        if rem \<le> 0 then (hide_toast s, timeout_ms)
        else if rem < timeout_ms then (s, rem) else (s, timeout_ms))
     else (s, timeout_ms))"

definition power_check :: "u64 \<Rightarrow> bw_state \<times> int \<Rightarrow> bw_state \<times> int" where
  "power_check now = (\<lambda>(s, timeout_ms).
     if power_pending s then
       (let rem = int_of_u64 (power_down_time s + POWER_DOUBLE_CLICK_MS - now) in
        if rem \<le> 0 then ((emit_key_click KEY_POWER s)\<lparr>power_pending := False\<rparr>, timeout_ms)
        else if rem < timeout_ms then (s, rem) else (s, timeout_ms))
     else (s, timeout_ms))"

definition home_long_check :: "u64 \<Rightarrow> bw_state \<times> int \<Rightarrow> bw_state \<times> int" where
  "home_long_check now = (\<lambda>(s, timeout_ms).
     if home_down s \<and> \<not> home_combo_consumed s \<and> \<not> home_long_sent s then
       (let rem = int_of_u64 (home_down_time s + HOME_LONG_PRESS_MS - now) in
        if rem \<le> 0 then
          ((emit_syn (emit_event EV_KEY KEY_HOME 1 s))
             \<lparr>home_long_sent := True, home_pending_single := False\<rparr>, timeout_ms)
        else if rem < timeout_ms then (s, rem) else (s, timeout_ms))
     else (s, timeout_ms))"

definition home_single_check :: "u64 \<Rightarrow> bw_state \<times> int \<Rightarrow> bw_state \<times> int" where
  "home_single_check now = (\<lambda>(s, timeout_ms).
     if home_pending_single s then
       (let rem = int_of_u64 (home_single_time s + POWER_DOUBLE_CLICK_MS - now) in
        if rem \<le> 0 then ((emit_key_click KEY_HOME s)\<lparr>home_pending_single := False\<rparr>, timeout_ms)
        else if rem < timeout_ms then (s, rem) else (s, timeout_ms))
     else (s, timeout_ms))"

definition bw_tick :: "u64 \<Rightarrow> bw_state \<Rightarrow> bw_state \<times> int" where
  "bw_tick now s =
     home_single_check now (home_long_check now (power_check now (toast_check now (s, 1000))))"

section \<open>The event handlers\<close>

definition on_power_key :: "u64 \<Rightarrow> int \<Rightarrow> bw_state \<Rightarrow> bw_state" where
  "on_power_key now v s =
     (if v = 1 then
        (if power_pending s \<and> now - power_down_time s \<le> POWER_DOUBLE_CLICK_MS
         then system ''/opt/scripts/toggle_frontlight.sh &'' (s\<lparr>power_pending := False\<rparr>)
         else s\<lparr>power_pending := True, power_down_time := now\<rparr>)
      else s)"

definition audio_toggle :: "bw_env \<Rightarrow> bw_state \<Rightarrow> bw_state" where
  "audio_toggle e s =
     show_media_card e (Some ''PLAYBACK: PLAY / PAUSE TOGGLED  >||'')
       (system ''/opt/audiocontrol.sh pause 2>/dev/null &'' s)"

definition on_home_down :: "bw_env \<Rightarrow> u64 \<Rightarrow> bw_state \<Rightarrow> bw_state" where
  "on_home_down e now s =
     (let s1 = (if home_pending_single s \<and> \<not> home_double_consumed s \<and>
                   now - home_single_time s \<le> POWER_DOUBLE_CLICK_MS
                then audio_toggle e (s\<lparr>home_pending_single := False, home_double_consumed := True\<rparr>)
                else s)
      in s1\<lparr>home_down := True, home_down_time := now, home_combo_consumed := False,
            home_long_sent := False, home_pending_single := False\<rparr>)"

definition on_home_up :: "bw_env \<Rightarrow> u64 \<Rightarrow> bw_state \<Rightarrow> bw_state" where
  "on_home_up e now s0 =
     (let s = s0\<lparr>home_down := False\<rparr> in
      if home_combo_consumed s then s\<lparr>home_combo_consumed := False\<rparr>
      else if home_long_sent s then (emit_syn (emit_event EV_KEY KEY_HOME 0 s))\<lparr>home_long_sent := False\<rparr>
      else if home_double_consumed s then s\<lparr>home_double_consumed := False\<rparr>
      else if media_mode s then audio_toggle e s
      else s\<lparr>home_pending_single := True, home_single_time := now\<rparr>)"

definition on_home_key :: "bw_env \<Rightarrow> u64 \<Rightarrow> int \<Rightarrow> bw_state \<Rightarrow> bw_state" where
  "on_home_key e now v s =
     (if v = 1 then on_home_down e now s else if v = 0 then on_home_up e now s else s)"

text \<open>Leaving media mode before an application chord.\<close>

definition leave_media_mode :: "bw_state \<Rightarrow> bw_state" where
  "leave_media_mode s = (if media_mode s then (hide_media_card s)\<lparr>media_mode := False\<rparr> else s)"

definition chord_koreader :: "bw_env \<Rightarrow> u64 \<Rightarrow> bw_state \<Rightarrow> bw_state" where
  "chord_koreader e now s0 =
     (let s = leave_media_mode s0 in
      if get_active_app s = ''koreader'' then
        (emit_syn (emit_event EV_KEY KEY_HOME 0 (eff [Sleep 550000]
          (emit_syn (emit_event EV_KEY KEY_HOME 1
            (show_toast e ''FRONTLIGHT DIALOG'' ''KOReader Warmth & Brightness'' now s))))))
          \<lparr>home_combo_consumed := False\<rparr>
      else
        system ''killall -9 ld-2.19.so plato netsurf-fb 2>/dev/null || true''
          (set_active_app e ''koreader''
            (show_toast e ''SWITCHING TO KOREADER...'' ''Document & Book Reader'' now s)))"

definition chord_plato :: "bw_env \<Rightarrow> u64 \<Rightarrow> bw_state \<Rightarrow> bw_state" where
  "chord_plato e now s0 =
     (let s = leave_media_mode s0 in
      if get_active_app s = ''plato'' then
        inject_plato_frontlight e
          (show_toast e ''FRONTLIGHT DIALOG'' ''Opening Plato Warmth & Brightness'' now s)
      else
        system ''killall -9 luajit netsurf-fb 2>/dev/null || true''
          (set_active_app e ''plato''
            (show_toast e ''SWITCHING TO PLATO...'' ''Fast Touch-Driven Rust Reader'' now s)))"

definition chord_netsurf :: "bw_env \<Rightarrow> u64 \<Rightarrow> bw_state \<Rightarrow> bw_state" where
  "chord_netsurf e now s0 =
     (let s = leave_media_mode s0 in
      if get_active_app s = ''netsurf'' then
        system ''killall -9 netsurf-fb 2>/dev/null || true''
          (set_active_app e ''koreader''
            (show_toast e ''CLOSING NETSURF...'' ''Returning to Document Reader'' now s))
      else
        system ''killall -9 luajit ld-2.19.so plato 2>/dev/null || true''
          (set_active_app e ''netsurf''
            (show_toast e ''LAUNCHING NETSURF...'' ''E-Ink Optimized Web Browser'' now s)))"

definition chord_media :: "bw_env \<Rightarrow> u64 \<Rightarrow> bw_state \<Rightarrow> bw_state" where
  "chord_media e now s0 =
     (let s = s0\<lparr>media_mode := \<not> media_mode s0\<rparr> in
      if media_mode s then show_media_card e (Some ''PLAYBACK ACTIVE: CONTROLS READY'') s
      else show_toast e ''READING MODE RESTORED''
             ''Audio running in background (Side buttons = Page turns)'' now (hide_media_card s))"

definition media_control :: "bw_env \<Rightarrow> int \<Rightarrow> bw_state \<Rightarrow> bw_state" where
  "media_control e code s =
     (if code = 191 then
        show_media_card e (Some ''TRACK SKIPPED: PREVIOUS  |<<'')
          (system ''/opt/audiocontrol.sh prev 2>/dev/null &'' s)
      else if code = 192 then
        show_media_card e (Some ''PLAYLIST: SHUFFLE TOGGLED'')
          (system ''/opt/audiocontrol.sh shuffle 2>/dev/null &'' s)
      else if code = 193 then
        show_media_card e (Some ''TRACK SKIPPED: NEXT  >>|'')
          (system ''/opt/audiocontrol.sh next 2>/dev/null &'' s)
      else if code = 194 then audio_toggle e s
      else s)"

definition on_page_down :: "bw_env \<Rightarrow> u64 \<Rightarrow> int \<Rightarrow> int \<Rightarrow> bw_state \<Rightarrow> bw_state" where
  "on_page_down e now code v s0 =
     (if home_down s0 then
        (let s = s0\<lparr>home_combo_consumed := True, home_pending_single := False\<rparr> in
         if code = 191 then chord_koreader e now s
         else if code = 192 then chord_plato e now s
         else if code = 193 then chord_netsurf e now s
         else if code = 194 then chord_media e now s
         else s)
      else if media_mode s0 then media_control e code s0
      else emit_event EV_KEY code v s0)"

definition on_page_key :: "bw_env \<Rightarrow> u64 \<Rightarrow> int \<Rightarrow> int \<Rightarrow> bw_state \<Rightarrow> bw_state" where
  "on_page_key e now code v s =
     (if v = 1 then on_page_down e now code v s
      else if v = 0 then
        (if home_combo_consumed s \<or> media_mode s then s else emit_event EV_KEY code v s)
      else s)"

definition on_lid :: "int \<Rightarrow> bw_state \<Rightarrow> bw_state" where
  "on_lid v s =
     emit_event EV_SW 0 v
       (if v = 1 \<and> get_active_app s \<noteq> ''koreader''
        then system ''echo mem > /sys/power/state 2>/dev/null'' s else s)"

definition bw_event :: "bw_env \<Rightarrow> u64 \<Rightarrow> input_event \<Rightarrow> bw_state \<Rightarrow> bw_state" where
  "bw_event e now ev s =
     (if ev_type ev = EV_KEY \<and> ev_code ev = KEY_POWER then on_power_key now (ev_value ev) s
      else if ev_type ev = EV_KEY \<and> ev_code ev = KEY_HOME then on_home_key e now (ev_value ev) s
      else if ev_type ev = EV_KEY \<and> ev_code ev \<ge> 191 \<and> ev_code ev \<le> 194
      then on_page_key e now (ev_code ev) (ev_value ev) s
      else if ev_type ev = EV_SW \<and> ev_code ev = 0 then on_lid (ev_value ev) s
      else if ev_type ev = EV_SW \<or> ev_type ev = EV_SYN
      then emit_event (ev_type ev) (ev_code ev) (ev_value ev) s
      else s)"

text \<open>
  One iteration of the main loop: \<open>None\<close> when \<open>select\<close> times out, is interrupted or
  the read is short, otherwise the event read and the second clock reading.
\<close>

definition bw_iter ::
  "bw_env \<Rightarrow> u64 \<Rightarrow> (u64 \<times> input_event) option \<Rightarrow> bw_state \<Rightarrow> bw_state" where
  "bw_iter e now inp s =
     (let s1 = fst (bw_tick now s) in
      case inp of None \<Rightarrow> s1 | Some (now', ev) \<Rightarrow> bw_event e now' ev s1)"

fun bw_run :: "(bw_env \<times> u64 \<times> (u64 \<times> input_event) option) list \<Rightarrow> bw_state \<Rightarrow> bw_state" where
  "bw_run [] s = s"
| "bw_run ((e, now, inp) # steps) s = bw_run steps (bw_iter e now inp s)"

text \<open>
  The daemon among the other processes: between two iterations they may draw on the
  panel and rewrite the two files.
\<close>

inductive bw_step :: "bw_state \<Rightarrow> bw_state \<Rightarrow> bool" where
  iteration: "bw_step s (bw_iter e now inp s)"
| others: "bw_step s (s\<lparr>panel := m, current_app_file := app, active_reader_file := reader\<rparr>)"

inductive bw_reachable :: "bw_state \<Rightarrow> bool" where
  start: "bw_reachable (bw_init m app reader)"
| step: "bw_reachable s \<Longrightarrow> bw_step s t \<Longrightarrow> bw_reachable t"

section \<open>Projections of the trace\<close>

fun emits :: "bw_effect list \<Rightarrow> (int \<times> int \<times> int) list" where
  "emits [] = []"
| "emits (Emit t c v # es) = (t, c, v) # emits es"
| "emits (Sleep n # es) = emits es"
| "emits (System cmd # es) = emits es"
| "emits (SendUpdate u # es) = emits es"
| "emits (TouchWrite evs # es) = emits es"

fun commands :: "bw_effect list \<Rightarrow> string list" where
  "commands [] = []"
| "commands (System cmd # es) = cmd # commands es"
| "commands (Emit t c v # es) = commands es"
| "commands (Sleep n # es) = commands es"
| "commands (SendUpdate u # es) = commands es"
| "commands (TouchWrite evs # es) = commands es"

lemma emits_append [simp]: "emits (xs @ ys) = emits xs @ emits ys"
  by (induction xs rule: emits.induct) auto

lemma commands_append [simp]: "commands (xs @ ys) = commands xs @ commands ys"
  by (induction xs rule: commands.induct) auto

section \<open>What the helpers leave alone\<close>

text \<open>The variables of the button logic, which no display helper touches.\<close>

definition keys_of :: "bw_state \<Rightarrow> bw_state" where
  "keys_of s = s\<lparr>fb_fd := -1, fb_mem := False, panel := (\<lambda>_. 0), toast_backup := None,
     card_backup := None, toast_active := False, card_active := False, toast_expire_time := 0,
     trace := [], current_app_file := None, active_reader_file := None\<rparr>"

lemma keys_of_eq:
  "keys_of s = keys_of t \<longleftrightarrow>
     media_mode s = media_mode t \<and> power_pending s = power_pending t \<and>
     power_down_time s = power_down_time t \<and> home_down s = home_down t \<and>
     home_combo_consumed s = home_combo_consumed t \<and> home_pending_single s = home_pending_single t \<and>
     home_long_sent s = home_long_sent t \<and> home_down_time s = home_down_time t \<and>
     home_single_time s = home_single_time t \<and> home_double_consumed s = home_double_consumed t"
  by (cases s; cases t) (auto simp: keys_of_def)

lemma keys_of_same [simp]:
  "keys_of (s\<lparr>fb_fd := a\<rparr>) = keys_of s" "keys_of (s\<lparr>fb_mem := b\<rparr>) = keys_of s"
  "keys_of (s\<lparr>panel := m\<rparr>) = keys_of s" "keys_of (s\<lparr>toast_backup := tb\<rparr>) = keys_of s"
  "keys_of (s\<lparr>card_backup := tb\<rparr>) = keys_of s" "keys_of (s\<lparr>toast_active := b\<rparr>) = keys_of s"
  "keys_of (s\<lparr>card_active := b\<rparr>) = keys_of s" "keys_of (s\<lparr>toast_expire_time := u\<rparr>) = keys_of s"
  "keys_of (s\<lparr>trace := tr\<rparr>) = keys_of s" "keys_of (s\<lparr>current_app_file := f\<rparr>) = keys_of s"
  "keys_of (s\<lparr>active_reader_file := f\<rparr>) = keys_of s"
  by (simp_all add: keys_of_def)

lemma keys_of_eff [simp]: "keys_of (eff es s) = keys_of s"
  by (simp add: eff_def)

lemma trace_eff [simp]: "trace (eff es s) = trace s @ es"
  by (simp add: eff_def)

lemma keys_of_panel [simp]:
  "keys_of (epdc_refresh l t w h k s) = keys_of s"
  "keys_of (fb_init e s) = keys_of s"
  "keys_of (on_panel f s) = keys_of s"
  "keys_of (save_toast s) = keys_of s"
  "keys_of (save_card s) = keys_of s"
  by (simp_all add: epdc_refresh_def fb_init_def on_panel_def save_toast_def save_card_def Let_def)

lemma keys_of_overlays [simp]:
  "keys_of (hide_toast s) = keys_of s"
  "keys_of (show_toast e ti su now s) = keys_of s"
  "keys_of (hide_media_card s) = keys_of s"
  "keys_of (show_media_card e st s) = keys_of s"
  by (simp_all add: hide_toast_def show_toast_def hide_media_card_def show_media_card_def Let_def
      split: option.split)

lemma keys_of_io [simp]:
  "keys_of (emit_event t c v s) = keys_of s"
  "keys_of (emit_syn s) = keys_of s"
  "keys_of (emit_key_click c s) = keys_of s"
  "keys_of (system cmd s) = keys_of s"
  "keys_of (inject_plato_frontlight e s) = keys_of s"
  "keys_of (set_active_app e name s) = keys_of s"
  by (auto simp: emit_event_def emit_syn_def emit_key_click_def system_def inject_plato_frontlight_def
      set_active_app_def Let_def)

lemmas keys_sel [simp] =
  keys_of_eff [unfolded keys_of_eq] keys_of_panel [unfolded keys_of_eq] keys_of_overlays [unfolded keys_of_eq] keys_of_io [unfolded keys_of_eq]

lemma emits_display [simp]:
  "emits (trace (epdc_refresh l t w h k s)) = emits (trace s)"
  "emits (trace (fb_init e s)) = emits (trace s)"
  "emits (trace (on_panel f s)) = emits (trace s)"
  "emits (trace (hide_toast s)) = emits (trace s)"
  "emits (trace (show_toast e ti su now s)) = emits (trace s)"
  "emits (trace (hide_media_card s)) = emits (trace s)"
  "emits (trace (show_media_card e st s)) = emits (trace s)"
  "emits (trace (system cmd s)) = emits (trace s)"
  "emits (trace (inject_plato_frontlight e s)) = emits (trace s)"
  "emits (trace (set_active_app e name s)) = emits (trace s)"
  by (auto simp: epdc_refresh_def fb_init_def on_panel_def hide_toast_def show_toast_def save_toast_def
      hide_media_card_def show_media_card_def save_card_def system_def inject_plato_frontlight_def
      plato_tap_def set_active_app_def Let_def split: option.splits)

lemma commands_display [simp]:
  "commands (trace (epdc_refresh l t w h k s)) = commands (trace s)"
  "commands (trace (fb_init e s)) = commands (trace s)"
  "commands (trace (on_panel f s)) = commands (trace s)"
  "commands (trace (hide_toast s)) = commands (trace s)"
  "commands (trace (show_toast e ti su now s)) = commands (trace s)"
  "commands (trace (hide_media_card s)) = commands (trace s)"
  "commands (trace (show_media_card e st s)) = commands (trace s)"
  "commands (trace (inject_plato_frontlight e s)) = commands (trace s)"
  "commands (trace (set_active_app e name s)) = commands (trace s)"
  by (auto simp: epdc_refresh_def fb_init_def on_panel_def hide_toast_def show_toast_def save_toast_def
      hide_media_card_def show_media_card_def save_card_def inject_plato_frontlight_def
      plato_tap_def set_active_app_def Let_def split: option.splits)

lemma io_traces [simp]:
  "trace (emit_event t c v s) = trace s @ [Emit t c v]"
  "trace (emit_syn s) = trace s @ [Emit EV_SYN SYN_REPORT 0]"
  "trace (emit_key_click c s) =
     trace s @ [Emit EV_KEY c 1, Emit EV_SYN SYN_REPORT 0, Sleep 20000, Emit EV_KEY c 0, Emit EV_SYN SYN_REPORT 0]"
  "trace (system cmd s) = trace s @ [System cmd]"
  by (simp_all add: emit_event_def emit_syn_def emit_key_click_def system_def)

lemma leave_media_mode_sel [simp]:
  "power_pending (leave_media_mode s) = power_pending s"
  "power_down_time (leave_media_mode s) = power_down_time s"
  "home_down (leave_media_mode s) = home_down s"
  "home_combo_consumed (leave_media_mode s) = home_combo_consumed s"
  "home_pending_single (leave_media_mode s) = home_pending_single s"
  "home_long_sent (leave_media_mode s) = home_long_sent s"
  "home_double_consumed (leave_media_mode s) = home_double_consumed s"
  "media_mode (leave_media_mode s) = False"
  "emits (trace (leave_media_mode s)) = emits (trace s)"
  "commands (trace (leave_media_mode s)) = commands (trace s)"
  by (simp_all add: leave_media_mode_def)

lemmas page_defs = on_page_key_def on_page_down_def media_control_def audio_toggle_def
  chord_koreader_def chord_plato_def chord_netsurf_def chord_media_def

lemmas home_defs = on_home_key_def on_home_down_def on_home_up_def audio_toggle_def

lemmas check_defs = bw_tick_def home_single_check_def home_long_check_def power_check_def toast_check_def

section \<open>The power key\<close>

definition toggle_cmd :: string where
  "toggle_cmd = ''/opt/scripts/toggle_frontlight.sh &''"

definition power_emits :: "bw_state \<Rightarrow> int list" where
  "power_emits s = map (\<lambda>(t, c, v). v) (filter (\<lambda>(t, c, v). t = EV_KEY \<and> c = KEY_POWER) (emits (trace s)))"

definition toggles :: "bw_state \<Rightarrow> nat" where
  "toggles s = length (filter (\<lambda>c. c = toggle_cmd) (commands (trace s)))"

definition power_key :: "input_event \<Rightarrow> bool" where
  "power_key ev \<longleftrightarrow> ev_type ev = EV_KEY \<and> ev_code ev = KEY_POWER"

text \<open>Input other than a press of the power key: any other event, or its release or repetition.\<close>

definition no_press :: "(u64 \<times> input_event) option \<Rightarrow> bool" where
  "no_press inp \<longleftrightarrow> (case inp of None \<Rightarrow> True | Some (_, ev) \<Rightarrow> \<not> (power_key ev \<and> ev_value ev = 1))"

text \<open>It leaves the power logic alone.\<close>

definition power_same :: "bw_state \<Rightarrow> bw_state \<Rightarrow> bool" where
  "power_same s t \<longleftrightarrow> power_pending t = power_pending s \<and> power_down_time t = power_down_time s \<and>
     power_emits t = power_emits s \<and> toggles t = toggles s"

lemma on_home_key_power: "power_same s (on_home_key e now v s)"
  by (auto simp: power_same_def home_defs power_emits_def toggles_def toggle_cmd_def Let_def)

lemma power_same_chords:
  "power_same s (chord_koreader e now s)" "power_same s (chord_plato e now s)"
  "power_same s (chord_netsurf e now s)" "power_same s (chord_media e now s)"
  "power_same s (media_control e c s)"
  by (simp_all add: power_same_def page_defs power_emits_def toggles_def toggle_cmd_def Let_def)

lemma on_page_key_power:
  "191 \<le> c \<Longrightarrow> power_same s (on_page_key e now c v s)"
  unfolding on_page_key_def on_page_down_def Let_def
  using power_same_chords [of "s\<lparr>home_combo_consumed := True, home_pending_single := False\<rparr>" e]
    power_same_chords(5) [of s]
  by (auto simp: power_same_def power_emits_def toggles_def)

lemma bw_event_power: "no_press (Some (now, ev)) \<Longrightarrow> power_same s (bw_event e now ev s)"
  unfolding bw_event_def using on_home_key_power on_page_key_power
  by (auto simp: no_press_def power_key_def on_power_key_def power_same_def on_lid_def power_emits_def toggles_def toggle_cmd_def)

lemma toast_check_sel [simp]:
  "keys_of (fst (toast_check now st)) = keys_of (fst st)"
  "emits (trace (fst (toast_check now st))) = emits (trace (fst st))"
  "commands (trace (fst (toast_check now st))) = commands (trace (fst st))"
  by (auto simp: toast_check_def Let_def split: prod.splits)

lemmas toast_check_keys [simp] = toast_check_sel(1) [unfolded keys_of_eq]

lemma home_checks_power:
  "power_same s (fst (home_long_check now (s, t)))" "power_same s (fst (home_single_check now (s, t)))"
  by (auto simp: power_same_def home_long_check_def home_single_check_def power_emits_def toggles_def
      toggle_cmd_def Let_def)

lemma power_same_trans: "power_same s t \<Longrightarrow> power_same t u \<Longrightarrow> power_same s u"
  by (simp add: power_same_def)

lemma toast_check_power: "power_same s (fst (toast_check now (s, t)))"
  by (auto simp: power_same_def power_emits_def toggles_def)

lemma bw_tick_power:
  "\<exists>s1 t1. power_same s s1 \<and> power_same (fst (power_check now (s1, t1))) (fst (bw_tick now s))"
proof -
  obtain s1 t1 where c1: "toast_check now (s, 1000) = (s1, t1)" by fastforce
  obtain s2 t2 where c2: "power_check now (s1, t1) = (s2, t2)" by fastforce
  obtain s3 t3 where c3: "home_long_check now (s2, t2) = (s3, t3)" by fastforce
  have "power_same s s1" using toast_check_power [of s now 1000] c1 by simp
  moreover have "power_same s2 (fst (bw_tick now s))"
    using home_checks_power(1) [of s2 now t2] home_checks_power(2) [of s3 now t3] c1 c2 c3
    by (auto simp: bw_tick_def intro: power_same_trans)
  ultimately show ?thesis using c2 by (intro exI [of _ s1] exI [of _ t1]) simp
qed

lemma power_rem:
  "uint (now - t) \<le> 2 ^ 31 \<Longrightarrow> int_of_u64 (t + POWER_DOUBLE_CLICK_MS - now) = 400 - uint (now - t)"
  by (subst deadline_rem) simp_all

lemma bw_tick_power_waits:
  assumes "power_pending s" and "now - power_down_time s < 400"
  shows "power_same s (fst (bw_tick now s))"
proof -
  obtain s1 t1 where s1: "power_same s s1"
    and s2: "power_same (fst (power_check now (s1, t1))) (fst (bw_tick now s))"
    using bw_tick_power by blast
  have "uint (now - power_down_time s1) < 400"
    using assms s1 by (simp add: power_same_def word_less_def)
  then have "power_same s1 (fst (power_check now (s1, t1)))"
    by (auto simp: power_check_def power_rem power_same_def Let_def)
  with s1 s2 show ?thesis by (blast intro: power_same_trans)
qed

lemma bw_tick_power_idle: "\<not> power_pending s \<Longrightarrow> power_same s (fst (bw_tick now s))"
proof -
  assume idle: "\<not> power_pending s"
  obtain s1 t1 where s1: "power_same s s1"
    and s2: "power_same (fst (power_check now (s1, t1))) (fst (bw_tick now s))"
    using bw_tick_power by blast
  with idle have "power_check now (s1, t1) = (s1, t1)"
    by (simp add: power_check_def power_same_def)
  with s1 s2 show ?thesis by (auto intro: power_same_trans)
qed

lemma bw_tick_power_expires:
  assumes "power_pending s" and "400 \<le> uint (now - power_down_time s)"
    and "uint (now - power_down_time s) \<le> 2 ^ 31"
  shows "power_emits (fst (bw_tick now s)) = power_emits s @ [1, 0]"
    and "\<not> power_pending (fst (bw_tick now s))" and "toggles (fst (bw_tick now s)) = toggles s"
proof -
  obtain s1 t1 where s1: "power_same s s1"
    and s2: "power_same (fst (power_check now (s1, t1))) (fst (bw_tick now s))"
    using bw_tick_power by blast
  have "power_emits (fst (power_check now (s1, t1))) = power_emits s1 @ [1, 0]"
    and "\<not> power_pending (fst (power_check now (s1, t1)))"
    and "toggles (fst (power_check now (s1, t1))) = toggles s1"
    using assms s1
    by (auto simp: power_check_def power_rem power_same_def power_emits_def toggles_def Let_def)
  with s1 s2 show "power_emits (fst (bw_tick now s)) = power_emits s @ [1, 0]"
    and "\<not> power_pending (fst (bw_tick now s))" and "toggles (fst (bw_tick now s)) = toggles s"
    by (auto simp: power_same_def)
qed

text \<open>
  A stretch of the loop in which the power key is not pressed again (it may be released) and every
  clock reading of the deadline checks lies inside the double-click window of the press at \<open>t\<close>.
\<close>

definition quiet_power :: "u64 \<Rightarrow> (bw_env \<times> u64 \<times> (u64 \<times> input_event) option) list \<Rightarrow> bool" where
  "quiet_power t steps \<longleftrightarrow> list_all (\<lambda>(e, now, inp). now - t < 400 \<and> no_press inp) steps"

lemma bw_iter_power:
  assumes "power_same s (fst (bw_tick now s))" and "no_press inp"
  shows "power_same s (bw_iter e now inp s)"
  using assms bw_event_power power_same_trans by (auto simp: bw_iter_def Let_def no_press_def split: option.split)

lemma bw_run_power_waits:
  "power_pending s \<Longrightarrow> power_down_time s = t \<Longrightarrow> quiet_power t steps \<Longrightarrow> power_same s (bw_run steps s)"
proof (induction steps arbitrary: s)
  case Nil
  then show ?case by (simp add: power_same_def)
next
  case (Cons st steps)
  obtain e now inp where st: "st = (e, now, inp)" by (metis prod_cases3)
  have one: "power_same s (bw_iter e now inp s)"
    using Cons.prems by (intro bw_iter_power bw_tick_power_waits) (auto simp: quiet_power_def st)
  moreover from one have "power_same (bw_iter e now inp s) (bw_run steps (bw_iter e now inp s))"
    using Cons.prems by (intro Cons.IH) (auto simp: quiet_power_def power_same_def)
  ultimately show ?case unfolding st by (simp, blast intro: power_same_trans)
qed

lemma bw_run_power_idle:
  "\<not> power_pending s \<Longrightarrow> list_all (\<lambda>(e, now, inp). no_press inp) steps \<Longrightarrow> power_same s (bw_run steps s)"
proof (induction steps arbitrary: s)
  case Nil
  then show ?case by (simp add: power_same_def)
next
  case (Cons st steps)
  obtain e now inp where st: "st = (e, now, inp)" by (metis prod_cases3)
  have one: "power_same s (bw_iter e now inp s)"
    using Cons.prems by (intro bw_iter_power bw_tick_power_idle) (auto simp: st)
  moreover from one have "power_same (bw_iter e now inp s) (bw_run steps (bw_iter e now inp s))"
    using Cons.prems by (intro Cons.IH) (auto simp: power_same_def)
  ultimately show ?case unfolding st by (simp, blast intro: power_same_trans)
qed

end
