(* ===== verification/Btn_Watcher_Props.thy ===== *)
theory Btn_Watcher_Props
  imports Btn_Watcher
begin

text \<open>
  The properties of the button supervisor: the two power gestures over arbitrary
  interleavings with other input, the \<open>select\<close> timeout, the virtual Home key, the
  capabilities of the virtual device, application switching, and the two overlays.
\<close>

section \<open>Power gestures\<close>

abbreviation (input) key_press :: "int \<Rightarrow> input_event" where
  "key_press c \<equiv> \<lparr>ev_type = EV_KEY, ev_code = c, ev_value = 1\<rparr>"

abbreviation (input) key_release :: "int \<Rightarrow> input_event" where
  "key_release c \<equiv> \<lparr>ev_type = EV_KEY, ev_code = c, ev_value = 0\<rparr>"

lemma power_press_arms:
  "\<not> power_pending s \<Longrightarrow> bw_event e t (key_press KEY_POWER) s = s\<lparr>power_pending := True, power_down_time := t\<rparr>"
  by (simp add: bw_event_def on_power_key_def)

text \<open>
  C21. A single tap of the power key: after a press nothing but another press may happen (the
  release of the key, its repetitions and any other input are allowed at any time), the deadlines
  are checked for less than 400 ms and then at or after 400 ms. This produces exactly one press
  and one release of the virtual power key and no frontlight toggle.
\<close>

theorem power_single_tap:
  fixes e e' :: bw_env
  assumes "\<not> power_pending s" and "quiet_power t steps"
    and "400 \<le> uint (now - t)" and "uint (now - t) \<le> 2 ^ 31"
    and "no_press inp" and "list_all (\<lambda>(e, now, inp). no_press inp) later"
  defines "s' \<equiv> bw_run later (bw_iter e' now inp (bw_run steps (bw_event e t (key_press KEY_POWER) s)))"
  shows "power_emits s' = power_emits s @ [1, 0] \<and> toggles s' = toggles s \<and> \<not> power_pending s'"
proof -
  let ?a = "s\<lparr>power_pending := True, power_down_time := t\<rparr>"
  let ?b = "fst (bw_tick now (bw_run steps ?a))"
  have same: "power_same ?a (bw_run steps ?a)"
    using assms(2) by (intro bw_run_power_waits) simp_all
  then have "power_pending (bw_run steps ?a)" and "power_down_time (bw_run steps ?a) = t"
    by (simp_all add: power_same_def)
  from bw_tick_power_expires [OF this(1), of now] this(2) assms(3,4)
  have b: "power_emits ?b = power_emits (bw_run steps ?a) @ [1, 0]" "\<not> power_pending ?b" "toggles ?b = toggles (bw_run steps ?a)"
    by simp_all
  have "power_same ?b (bw_iter e' now inp (bw_run steps ?a))"
    using bw_event_power assms(5) by (auto simp: bw_iter_def Let_def power_same_def no_press_def split: option.split)
  moreover from this have "power_same (bw_iter e' now inp (bw_run steps ?a)) s'"
    unfolding s'_def power_press_arms [OF assms(1)]
    by (intro bw_run_power_idle) (use b(2) assms(6) in \<open>simp_all add: power_same_def\<close>)
  ultimately show ?thesis using same b by (auto simp: power_same_def power_emits_def toggles_def)
qed

theorem power_single_tap_witness:
  "power_emits (bw_run [] (bw_iter undefined 500 None (bw_run [(undefined, 150, Some (151, key_release KEY_POWER))]
      (bw_event undefined 100 (key_press KEY_POWER) (bw_init (\<lambda>_. 0) None None))))) = [1, 0]"
  using power_single_tap [where s = "bw_init (\<lambda>_. 0) None None" and t = 100 and steps = "[(undefined, 150, Some (151, key_release KEY_POWER))]"
      and now = 500 and inp = None and later = "[]" and e = undefined and e' = undefined]
  by (simp add: bw_init_def quiet_power_def no_press_def power_emits_def)

text \<open>
  C23. A double tap of the power key: a press, then anything but another press (the release
  and any other input) while the deadlines are checked for less than 400 ms, a second press
  within 400 ms of the first, and then again anything but a press. This toggles the frontlight
  exactly once, emits no virtual power key, and leaves no tap pending.
\<close>

theorem power_double_tap:
  fixes e e' :: bw_env
  assumes "\<not> power_pending s" and "quiet_power t steps" and "now - t < 400" and "t' - t \<le> 400"
    and "list_all (\<lambda>(e, now, inp). no_press inp) later"
  defines "s' \<equiv> bw_run later (bw_iter e' now (Some (t', key_press KEY_POWER))
                  (bw_run steps (bw_event e t (key_press KEY_POWER) s)))"
  shows "toggles s' = toggles s + 1 \<and> power_emits s' = power_emits s \<and> \<not> power_pending s'"
proof -
  let ?a = "s\<lparr>power_pending := True, power_down_time := t\<rparr>"
  let ?b = "bw_iter e' now (Some (t', key_press KEY_POWER)) (bw_run steps ?a)"
  have run: "power_same ?a (bw_run steps ?a)"
    using assms(2) by (intro bw_run_power_waits) simp_all
  then have "power_same (bw_run steps ?a) (fst (bw_tick now (bw_run steps ?a)))"
    using assms(3) by (intro bw_tick_power_waits) (auto simp: power_same_def)
  with run have "power_same ?a (fst (bw_tick now (bw_run steps ?a)))"
    by (rule power_same_trans)
  with assms(4) have b: "toggles ?b = toggles s + 1 \<and> power_emits ?b = power_emits s \<and> \<not> power_pending ?b"
    by (auto simp: bw_iter_def bw_event_def on_power_key_def power_same_def power_emits_def toggles_def toggle_cmd_def)
  then have "power_same ?b (bw_run later ?b)" using assms(5) by (intro bw_run_power_idle) simp_all
  with b show ?thesis unfolding s'_def power_press_arms [OF assms(1)] by (simp add: power_same_def)
qed

theorem power_double_tap_witness:
  "toggles (bw_run [(undefined, 350, Some (351, key_release KEY_POWER))] (bw_iter undefined 200 (Some (300, key_press KEY_POWER))
      (bw_run [(undefined, 150, Some (160, key_release KEY_POWER))]
        (bw_event undefined 100 (key_press KEY_POWER) (bw_init (\<lambda>_. 0) None None))))) = 1"
  using power_double_tap [where s = "bw_init (\<lambda>_. 0) None None" and t = 100 and steps = "[(undefined, 150, Some (160, key_release KEY_POWER))]"
      and now = 200 and t' = 300 and later = "[(undefined, 350, Some (351, key_release KEY_POWER))]" and e = undefined and e' = undefined]
  by (simp add: bw_init_def quiet_power_def no_press_def toggles_def)

section \<open>The select timeout\<close>

text \<open>Each check leaves a timeout that is positive, does not grow, and does not pass its own deadline.\<close>

lemma check_timeouts:
  assumes "0 < t"
  shows "0 < snd (toast_check now (s, t)) \<and> snd (toast_check now (s, t)) \<le> t"
    "0 < snd (power_check now (s, t)) \<and> snd (power_check now (s, t)) \<le> t"
    "0 < snd (home_long_check now (s, t)) \<and> snd (home_long_check now (s, t)) \<le> t"
    "0 < snd (home_single_check now (s, t)) \<and> snd (home_single_check now (s, t)) \<le> t"
  using assms by (auto simp: check_defs Let_def)

definition toast_rem :: "u64 \<Rightarrow> bw_state \<Rightarrow> int" where
  "toast_rem now s = int_of_u64 (toast_expire_time s - now)"

definition power_rem_of :: "u64 \<Rightarrow> bw_state \<Rightarrow> int" where
  "power_rem_of now s = int_of_u64 (power_down_time s + POWER_DOUBLE_CLICK_MS - now)"

definition long_rem :: "u64 \<Rightarrow> bw_state \<Rightarrow> int" where
  "long_rem now s = int_of_u64 (home_down_time s + HOME_LONG_PRESS_MS - now)"

definition single_rem :: "u64 \<Rightarrow> bw_state \<Rightarrow> int" where
  "single_rem now s = int_of_u64 (home_single_time s + POWER_DOUBLE_CLICK_MS - now)"

definition toast_shown :: "bw_state \<Rightarrow> bool" where
  "toast_shown s \<longleftrightarrow> toast_active s \<and> fb_mem s \<and> toast_backup s \<noteq> None"

definition long_armed :: "bw_state \<Rightarrow> bool" where
  "long_armed s \<longleftrightarrow> home_down s \<and> \<not> home_combo_consumed s \<and> \<not> home_long_sent s"

lemma toast_sel_io [simp]:
  "toast_shown (emit_event c k v s) = toast_shown s" "toast_rem now (emit_event c k v s) = toast_rem now s"
  "toast_shown (emit_syn s) = toast_shown s" "toast_rem now (emit_syn s) = toast_rem now s"
  "toast_shown (emit_key_click k s) = toast_shown s" "toast_rem now (emit_key_click k s) = toast_rem now s"
  by (simp_all add: toast_shown_def toast_rem_def emit_key_click_def emit_syn_def emit_event_def eff_def)

lemma toast_sel_upd [simp]:
  "toast_shown (s\<lparr>power_pending := b\<rparr>) = toast_shown s" "toast_rem now (s\<lparr>power_pending := b\<rparr>) = toast_rem now s"
  "toast_shown (s\<lparr>home_long_sent := b\<rparr>) = toast_shown s" "toast_rem now (s\<lparr>home_long_sent := b\<rparr>) = toast_rem now s"
  "toast_shown (s\<lparr>home_pending_single := c\<rparr>) = toast_shown s"
  "toast_rem now (s\<lparr>home_pending_single := c\<rparr>) = toast_rem now s"
  by (simp_all add: toast_shown_def toast_rem_def)

lemma toast_check_deadline:
  "toast_check now (s, t) = (s', t') \<Longrightarrow> toast_shown s' \<Longrightarrow> t' \<le> toast_rem now s'"
  by (auto simp: toast_check_def toast_shown_def toast_rem_def hide_toast_def epdc_refresh_def eff_def
      Let_def split: if_splits option.splits)

lemma power_check_deadline:
  assumes "power_check now (s, t) = (s', t')"
  shows "power_pending s' \<Longrightarrow> t' \<le> power_rem_of now s'"
    and "toast_shown s' = toast_shown s \<and> toast_rem now s' = toast_rem now s"
  using assms by (auto simp: power_check_def power_rem_of_def Let_def split: if_splits)

lemma home_long_check_deadline:
  assumes "home_long_check now (s, t) = (s', t')"
  shows "long_armed s' \<Longrightarrow> t' \<le> long_rem now s'"
    and "toast_shown s' = toast_shown s \<and> toast_rem now s' = toast_rem now s"
    and "power_pending s' = power_pending s \<and> power_rem_of now s' = power_rem_of now s"
  using assms by (auto simp: home_long_check_def long_rem_def long_armed_def power_rem_of_def Let_def split: if_splits)

lemma home_single_check_deadline:
  assumes "home_single_check now (s, t) = (s', t')"
  shows "home_pending_single s' \<Longrightarrow> t' \<le> single_rem now s'"
    and "toast_shown s' = toast_shown s \<and> toast_rem now s' = toast_rem now s"
    and "power_pending s' = power_pending s \<and> power_rem_of now s' = power_rem_of now s"
    and "long_armed s' = long_armed s \<and> long_rem now s' = long_rem now s"
  using assms by (auto simp: home_single_check_def single_rem_def long_rem_def long_armed_def power_rem_of_def
      Let_def split: if_splits)

text \<open>
  C25. The timeout handed to \<open>select\<close> is between 1 and 1000 ms and never passes a deadline
  that is still pending after the checks: the toast, the power tap, the Home long press
  and the Home single tap are all served on time, and no deadline is left at or
  before the current time.
\<close>

theorem select_timeout_meets_deadlines:
  assumes "bw_tick now s = (s', timeout_ms)"
  shows "0 < timeout_ms \<and> timeout_ms \<le> 1000 \<and>
    (toast_shown s' \<longrightarrow> timeout_ms \<le> toast_rem now s') \<and>
    (power_pending s' \<longrightarrow> timeout_ms \<le> power_rem_of now s') \<and>
    (long_armed s' \<longrightarrow> timeout_ms \<le> long_rem now s') \<and>
    (home_pending_single s' \<longrightarrow> timeout_ms \<le> single_rem now s')"
proof -
  obtain s1 t1 where c1: "toast_check now (s, 1000) = (s1, t1)" by fastforce
  obtain s2 t2 where c2: "power_check now (s1, t1) = (s2, t2)" by fastforce
  obtain s3 t3 where c3: "home_long_check now (s2, t2) = (s3, t3)" by fastforce
  have c4: "home_single_check now (s3, t3) = (s', timeout_ms)"
    using assms c1 c2 c3 by (simp add: bw_tick_def)
  have b1: "0 < t1 \<and> t1 \<le> 1000" using check_timeouts(1) [of 1000 now s] c1 by simp
  have b2: "0 < t2 \<and> t2 \<le> t1" using check_timeouts(2) [of t1 now s1] b1 c2 by simp
  have b3: "0 < t3 \<and> t3 \<le> t2" using check_timeouts(3) [of t2 now s2] b2 c3 by simp
  have b4: "0 < timeout_ms \<and> timeout_ms \<le> t3" using check_timeouts(4) [of t3 now s3] b3 c4 by simp
  note d = toast_check_deadline [OF c1] power_check_deadline [OF c2] home_long_check_deadline [OF c3]
    home_single_check_deadline [OF c4]
  show ?thesis
    using d b1 b2 b3 b4 by (intro conjI impI) auto
qed

theorem select_timeout_meets_deadlines_witness:
  "snd (bw_tick 1300 ((bw_init (\<lambda>_. 0) None None)\<lparr>power_pending := True, power_down_time := 1000\<rparr>))
     \<le> power_rem_of 1300 ((bw_init (\<lambda>_. 0) None None)\<lparr>power_pending := True, power_down_time := 1000\<rparr>)"
proof -
  let ?s = "(bw_init (\<lambda>_. 0) None None)\<lparr>power_pending := True, power_down_time := 1000\<rparr>"
  have "bw_tick 1300 ?s = (?s, 100)"
    by (simp add: check_defs bw_init_def int_of_u64_def)
  from select_timeout_meets_deadlines [OF this] this show ?thesis
    by (simp add: bw_init_def)
qed

section \<open>The virtual Home key\<close>

definition home_emits :: "bw_state \<Rightarrow> int list" where
  "home_emits s = map (\<lambda>(t, c, v). v) (filter (\<lambda>(t, c, v). t = EV_KEY \<and> c = KEY_HOME) (emits (trace s)))"

text \<open>What the readers see of the Home key: the last value emitted, released at first.\<close>

definition virtual_home :: "bw_state \<Rightarrow> int" where
  "virtual_home s = last (0 # home_emits s)"

text \<open>
  Ordinary use: a key is pressed again only after its release (the input core reports
  changes only), and no page key is pressed while Home is held.
\<close>

definition no_chord :: "bw_state \<Rightarrow> input_event \<Rightarrow> bool" where
  "no_chord s ev \<longleftrightarrow>
     \<not> (home_down s \<and> ev_type ev = EV_KEY \<and> ev_value ev = 1 \<and>
        (ev_code ev = KEY_HOME \<or> (191 \<le> ev_code ev \<and> ev_code ev \<le> 194)))"

inductive no_chord_reachable :: "bw_state \<Rightarrow> bool" where
  start: "no_chord_reachable (bw_init m app reader)"
| idle: "no_chord_reachable s \<Longrightarrow> no_chord_reachable (bw_iter e now None s)"
| input: "no_chord_reachable s \<Longrightarrow> no_chord s ev \<Longrightarrow> no_chord_reachable (bw_iter e now (Some (now', ev)) s)"
| others: "no_chord_reachable s \<Longrightarrow>
    no_chord_reachable (s\<lparr>panel := m, current_app_file := app, active_reader_file := reader\<rparr>)"

definition home_inv :: "bw_state \<Rightarrow> bool" where
  "home_inv s \<longleftrightarrow>
     virtual_home s = (if home_long_sent s then 1 else 0) \<and>
     (home_long_sent s \<longrightarrow> home_down s) \<and> (home_pending_single s \<longrightarrow> \<not> home_down s) \<and>
     \<not> home_combo_consumed s"

lemma home_inv_cong:
  "keys_of t = keys_of s \<Longrightarrow> home_emits t = home_emits s \<Longrightarrow> home_inv t = home_inv s"
  by (simp add: home_inv_def virtual_home_def keys_of_eq)

lemma home_inv_tick: 
  assumes "home_inv s"
  shows "home_inv (fst (bw_tick now s)) \<and> home_down (fst (bw_tick now s)) = home_down s"
proof -
  have toast: "home_inv (fst (toast_check now (s, t))) \<and> home_down (fst (toast_check now (s, t))) = home_down s" if "home_inv s" for s t
    using that home_inv_cong [of "fst (toast_check now (s, t))" s] by (simp add: home_emits_def)
  have power: "home_inv (fst (power_check now (s, t))) \<and> home_down (fst (power_check now (s, t))) = home_down s" if "home_inv s" for s t
    using that by (auto simp: power_check_def home_inv_def virtual_home_def home_emits_def Let_def)
  have long: "home_inv (fst (home_long_check now (s, t))) \<and> home_down (fst (home_long_check now (s, t))) = home_down s" if "home_inv s" for s t
    using that by (auto simp: home_long_check_def home_inv_def virtual_home_def home_emits_def Let_def)
  have single: "home_inv (fst (home_single_check now (s, t))) \<and> home_down (fst (home_single_check now (s, t))) = home_down s" if "home_inv s" for s t
    using that by (auto simp: home_single_check_def home_inv_def virtual_home_def home_emits_def Let_def)
  show ?thesis
    unfolding bw_tick_def using assms toast power long single by (metis prod.collapse)
qed

lemma home_inv_home_key:
  "home_inv s \<Longrightarrow> \<not> (home_down s \<and> v = 1) \<Longrightarrow> home_inv (on_home_key e now v s)"
  by (auto simp: home_defs home_inv_def virtual_home_def home_emits_def Let_def)

lemma home_inv_media_control: "home_inv (media_control e c s) = home_inv s"
  by (rule home_inv_cong) (simp_all add: media_control_def audio_toggle_def home_emits_def)

lemma home_inv_emit_page: "191 \<le> c \<Longrightarrow> home_inv (emit_event t c v s) = home_inv s"
  by (rule home_inv_cong) (simp_all add: home_emits_def)

lemma home_inv_page_key:
  "home_inv s \<Longrightarrow> \<not> (home_down s \<and> v = 1) \<Longrightarrow> 191 \<le> c \<Longrightarrow> home_inv (on_page_key e now c v s)"
  by (auto simp: on_page_key_def on_page_down_def home_inv_media_control home_inv_emit_page)

lemma home_inv_other:
  "home_inv s \<Longrightarrow> home_inv (on_power_key now v s)"
  "home_inv s \<Longrightarrow> home_inv (on_lid v s)"
  "home_inv s \<Longrightarrow> t \<noteq> EV_KEY \<Longrightarrow> home_inv (emit_event t c v s)"
  by (auto simp: on_power_key_def on_lid_def home_inv_def virtual_home_def home_emits_def split: if_splits)

lemma home_inv_event:
  assumes "home_inv s" and "no_chord s ev"
  shows "home_inv (bw_event e now ev s)"
  unfolding bw_event_def using assms
  by (auto simp: no_chord_def intro!: home_inv_other home_inv_home_key home_inv_page_key)

text \<open>
  C28. As long as Home is not combined with a page key, the virtual Home key is down exactly
  while a long press is being held; in particular it is up whenever the physical key is.
\<close>

theorem virtual_home_balanced:
  assumes "no_chord_reachable s"
  shows "(virtual_home s = 1 \<longleftrightarrow> home_long_sent s) \<and> (\<not> home_down s \<longrightarrow> virtual_home s = 0)"
proof -
  from assms have "home_inv s"
  proof (induction rule: no_chord_reachable.induct)
    case (start m app reader)
    show ?case by (simp add: home_inv_def virtual_home_def home_emits_def bw_init_def)
  next
    case (idle s e now)
    then show ?case using home_inv_tick by (simp add: bw_iter_def)
  next
    case (input s ev e now now')
    then show ?case
      using home_inv_tick [of s now] home_inv_event [of "fst (bw_tick now s)" ev]
      by (simp add: bw_iter_def no_chord_def)
  next
    case (others s m app reader)
    then show ?case by (simp add: home_inv_def virtual_home_def home_emits_def)
  qed
  then show ?thesis by (auto simp: home_inv_def)
qed

theorem virtual_home_balanced_witness:
  "virtual_home (bw_iter undefined 700 None
     (bw_iter undefined 0 (Some (100, key_press KEY_HOME)) (bw_init (\<lambda>_. 0) None None))) = 1"
proof -
  let ?s = "bw_iter undefined 700 None
     (bw_iter undefined 0 (Some (100, key_press KEY_HOME)) (bw_init (\<lambda>_. 0) None None))"
  have "no_chord_reachable ?s"
    by (intro no_chord_reachable.idle no_chord_reachable.input no_chord_reachable.start)
      (simp add: no_chord_def bw_init_def)
  moreover have "home_long_sent ?s"
    by (simp add: bw_iter_def check_defs bw_init_def bw_event_def home_defs int_of_u64_def)
  ultimately show ?thesis using virtual_home_balanced by blast
qed

text \<open>
  A chord that starts after the long press has been reported leaves the virtual Home key
  down: the release of the physical key is taken as the end of the chord and no
  release is emitted, so \<open>virtual_home_balanced\<close> does not extend to chords.
\<close>

theorem late_chord_leaves_home_pressed:
  fixes e e' :: bw_env and t t' :: u64
  assumes "home_down s" and "virtual_home s = 1" and "code \<in> {192, 193, 194}"
  defines "s' \<equiv> bw_event e' t' (key_release KEY_HOME) (bw_event e t (key_press code) s)"
  shows "virtual_home s' = 1 \<and> \<not> home_down s'"
proof -
  have "home_emits (bw_event e t (key_press code) s) = home_emits s"
    and "home_combo_consumed (bw_event e t (key_press code) s)"
    using assms(1,3)
    by (auto simp: bw_event_def on_page_key_def on_page_down_def chord_plato_def chord_netsurf_def
        chord_media_def home_emits_def Let_def)
  then show ?thesis
    using assms(2) by (auto simp: s'_def bw_event_def on_home_key_def on_home_up_def virtual_home_def home_emits_def)
qed

theorem late_chord_leaves_home_pressed_witness:
  "\<not> home_down (bw_event undefined 900 (key_release KEY_HOME) (bw_event undefined 800 (key_press 194)
     (bw_iter undefined 700 None (bw_iter undefined 0 (Some (100, key_press KEY_HOME)) (bw_init (\<lambda>_. 0) None None)))))"
proof -
  let ?s = "bw_iter undefined 700 None
     (bw_iter undefined 0 (Some (100, key_press KEY_HOME)) (bw_init (\<lambda>_. 0) None None))"
  have "home_down ?s" and "virtual_home ?s = 1"
    by (simp_all add: bw_iter_def check_defs bw_init_def bw_event_def home_defs int_of_u64_def
        virtual_home_def home_emits_def)
  then show ?thesis
    using late_chord_leaves_home_pressed [where s = ?s and code = 194 and e = undefined and t = 800
      and e' = undefined and t' = 900] by simp
qed

text \<open>
  When the second press of a double tap is held into a long press, the release is taken by
  the long-press branch and the double-tap mark stays set; the next plain tap of Home
  is then swallowed: it arms no single tap and emits nothing.
\<close>

theorem tap_after_held_double_tap_is_lost:
  fixes e1 e2 e3 :: bw_env and t1 t2 t3 :: u64
  assumes "home_double_consumed s" and "home_long_sent s" and "home_down s" and "\<not> home_combo_consumed s"
    and "\<not> home_pending_single s"
  defines "released \<equiv> bw_event e1 t1 (key_release KEY_HOME) s"
  defines "tapped \<equiv> bw_event e3 t3 (key_release KEY_HOME) (bw_event e2 t2 (key_press KEY_HOME) released)"
  shows "\<not> home_pending_single tapped \<and> home_emits tapped = home_emits released"
  using assms(1-5)
  by (simp add: tapped_def released_def bw_event_def home_defs home_emits_def)

theorem tap_after_held_double_tap_is_lost_witness:
  "\<not> home_pending_single (bw_event undefined 2050 (key_release KEY_HOME) (bw_event undefined 2000 (key_press KEY_HOME)
     (bw_event undefined 900 (key_release KEY_HOME)
       (bw_iter undefined 800 None (bw_event undefined 200 (key_press KEY_HOME)
         (bw_event undefined 50 (key_release KEY_HOME) (bw_event undefined 0 (key_press KEY_HOME)
           (bw_init (\<lambda>_. 0) None None))))))))"
proof -
  let ?d = "bw_event undefined 200 (key_press KEY_HOME) (bw_event undefined 50 (key_release KEY_HOME)
     (bw_event undefined 0 (key_press KEY_HOME) (bw_init (\<lambda>_. 0) None None)))"
  have d: "home_double_consumed ?d" "home_down ?d" "\<not> home_combo_consumed ?d" "\<not> home_long_sent ?d"
    "\<not> home_pending_single ?d" "home_down_time ?d = 200" "\<not> power_pending ?d"
    by (simp_all add: bw_event_def home_defs bw_init_def)
  let ?s = "bw_iter undefined 800 None ?d"
  have "home_double_consumed ?s" "home_long_sent ?s" "home_down ?s" "\<not> home_combo_consumed ?s" "\<not> home_pending_single ?s"
    using d
    by (simp_all add: bw_iter_def bw_tick_def home_single_check_def home_long_check_def power_check_def
        case_prod_beta int_of_u64_def)
  then show ?thesis
    using tap_after_held_double_tap_is_lost [where s = ?s and ?e1.0 = undefined and ?t1.0 = 900
      and ?e2.0 = undefined and ?t2.0 = 2000 and ?e3.0 = undefined and ?t3.0 = 2050] by simp
qed

section \<open>Page keys\<close>

text \<open>
  Where a page-key press goes. With Home up it is forwarded unchanged in reading mode and,
  in media mode, becomes exactly one audio command and nothing for the readers; with
  Home held it starts a chord and is never forwarded.
\<close>

theorem page_key_routing:
  assumes "191 \<le> code" and "code \<le> 194"
  shows "(\<not> home_down s \<and> \<not> media_mode s \<longrightarrow>
            bw_event e now (key_press code) s = s\<lparr>trace := trace s @ [Emit EV_KEY code 1]\<rparr>) \<and>
         (\<not> home_down s \<and> media_mode s \<longrightarrow>
            emits (trace (bw_event e now (key_press code) s)) = emits (trace s) \<and>
            commands (trace (bw_event e now (key_press code) s)) = commands (trace s) @
              [''/opt/audiocontrol.sh '' @ (if code = 191 then ''prev'' else if code = 192 then ''shuffle''
                 else if code = 193 then ''next'' else ''pause'') @ '' 2>/dev/null &'']) \<and>
         (home_down s \<longrightarrow> (EV_KEY, code, 1) \<notin> set (drop (length (emits (trace s)))
            (emits (trace (bw_event e now (key_press code) s)))))"
proof -
  have ev: "bw_event e now (key_press code) s = on_page_down e now code 1 s"
    using assms by (simp add: bw_event_def on_page_key_def)
  have "code = 191 \<or> code = 192 \<or> code = 193 \<or> code = 194" using assms by arith
  then show ?thesis
    unfolding ev
    by (elim disjE)
      (simp_all add: on_page_down_def media_control_def audio_toggle_def emit_event_def eff_def
        chord_koreader_def chord_plato_def chord_netsurf_def chord_media_def Let_def)
qed

theorem page_key_routing_witness:
  "bw_event undefined 5 (key_press 193) (bw_init (\<lambda>_. 0) None None)
     = (bw_init (\<lambda>_. 0) None None)\<lparr>trace := [Emit EV_KEY 193 1]\<rparr>"
  using page_key_routing [of 193 "bw_init (\<lambda>_. 0) None None" undefined 5] by (simp add: bw_init_def)

section \<open>Overlays\<close>

lemma toast_picture_stays:
  assumes "24 * length title \<le> 1200" and "16 * length subtitle \<le> 1200"
  shows "stays (rect_px TOAST_X TOAST_Y TOAST_W TOAST_H) (toast_picture title subtitle)"
  using assms unfolding toast_picture_def
  by (intro stays_draws) (simp add: frame_intros)

lemma card_picture_stays:
  assumes "\<And>t. status = Some t \<Longrightarrow> 16 * length t \<le> 1172"
  shows "stays (rect_px CARD_X CARD_Y CARD_W CARD_H) (card_picture status)"
  using assms unfolding card_picture_def card_quadrant_def Let_def
  by (intro stays_draws) (auto simp: frame_intros split: option.splits)

datatype overlay_op = ShowToast string string u64 | HideToast | ShowCard "string option" | HideCard

fun overlay :: "bw_env \<Rightarrow> overlay_op \<Rightarrow> bw_state \<Rightarrow> bw_state" where
  "overlay e (ShowToast title subtitle now) s = show_toast e title subtitle now s"
| "overlay e HideToast s = hide_toast s"
| "overlay e (ShowCard status) s = show_media_card e status s"
| "overlay e HideCard s = hide_media_card s"

text \<open>The texts fit their boxes; every text in the source does.\<close>

fun overlay_fits :: "overlay_op \<Rightarrow> bool" where
  "overlay_fits (ShowToast title subtitle now) \<longleftrightarrow> 24 * length title \<le> 1200 \<and> 16 * length subtitle \<le> 1200"
| "overlay_fits (ShowCard (Some t)) \<longleftrightarrow> 16 * length t \<le> 1172"
| "overlay_fits _ \<longleftrightarrow> True"

abbreviation toast_px :: "int set" where "toast_px \<equiv> rect_px TOAST_X TOAST_Y TOAST_W TOAST_H"
abbreviation card_px :: "int set" where "card_px \<equiv> rect_px CARD_X CARD_Y CARD_W CARD_H"

definition covered :: "bw_state \<Rightarrow> int set" where
  "covered s = (if toast_active s then toast_px else {}) \<union> (if card_active s then card_px else {})"

text \<open>
  With \<open>m\<close> the picture under the overlays: the buffers hold what the active overlays
  hide, and the panel shows \<open>m\<close> everywhere else.
\<close>

definition overlay_inv :: "fbmem \<Rightarrow> bw_state \<Rightarrow> bool" where
  "overlay_inv m s \<longleftrightarrow> fb_mem s \<and>
     (\<exists>tb cb. toast_backup s = Some tb \<and> card_backup s = Some cb \<and>
        (toast_active s \<longrightarrow> holds_rect TOAST_X TOAST_Y TOAST_W TOAST_H tb m) \<and>
        (card_active s \<longrightarrow> holds_rect CARD_X CARD_Y CARD_W CARD_H cb m)) \<and>
     same_outside (covered s) m (panel s)"

lemma px_disjoint: "toast_px \<inter> card_px = {}"
  by (auto simp: rect_px_def)

lemma overlay_inv_eff [simp]: "overlay_inv m (eff es s) = overlay_inv m s"
  by (simp add: overlay_inv_def eff_def covered_def)

lemma overlay_inv_refresh [simp]: "overlay_inv m (epdc_refresh l t w h k s) = overlay_inv m s"
  by (simp add: epdc_refresh_def)

lemma overlay_inv_expire [simp]: "overlay_inv m (s\<lparr>toast_expire_time := u\<rparr>) = overlay_inv m s"
  by (simp add: overlay_inv_def covered_def)

lemma save_toast_inv: "overlay_inv m s \<Longrightarrow> overlay_inv m (save_toast s) \<and> toast_active (save_toast s)"
  using px_disjoint
  by (auto simp: overlay_inv_def save_toast_def covered_def same_outside_def intro!: save_holds split: if_splits)

lemma save_card_inv: "overlay_inv m s \<Longrightarrow> overlay_inv m (save_card s) \<and> card_active (save_card s)"
  using px_disjoint
  by (auto simp: overlay_inv_def save_card_def covered_def same_outside_def intro!: save_holds split: if_splits)

lemma on_panel_inv:
  assumes "overlay_inv m s" and "stays R f" and "R \<subseteq> covered s"
  shows "overlay_inv m (on_panel f s)"
proof -
  have "same_outside (covered s) (panel s) (f (panel s))"
    using assms(2,3) by (auto simp: stays_def intro: same_outside_mono)
  with assms(1) have "same_outside (covered s) m (f (panel s))"
    by (auto simp: overlay_inv_def intro: same_outside_trans)
  with assms(1) show ?thesis
    by (simp add: overlay_inv_def on_panel_def covered_def)
qed

lemma show_toast_inv:
  assumes "overlay_inv m s" and "24 * length title \<le> 1200" and "16 * length subtitle \<le> 1200"
  shows "overlay_inv m (show_toast e title subtitle now s)"
proof -
  have "fb_init e s = s" and "fb_mem s" using assms(1) by (simp_all add: overlay_inv_def fb_init_def)
  moreover have "overlay_inv m (on_panel (toast_picture title subtitle) (save_toast s))"
    using save_toast_inv [OF assms(1)] toast_picture_stays [OF assms(2,3)]
    by (intro on_panel_inv) (auto simp: covered_def)
  ultimately show ?thesis by (simp add: show_toast_def)
qed

lemma show_card_inv:
  assumes "overlay_inv m s" and "\<And>t. status = Some t \<Longrightarrow> 16 * length t \<le> 1172"
  shows "overlay_inv m (show_media_card e status s)"
proof -
  have "fb_init e s = s" and "fb_mem s" using assms(1) by (simp_all add: overlay_inv_def fb_init_def)
  moreover have "overlay_inv m (on_panel (card_picture status) (save_card s))"
    using save_card_inv [OF assms(1)] card_picture_stays [OF assms(2)]
    by (intro on_panel_inv) (auto simp: covered_def)
  ultimately show ?thesis by (simp add: show_media_card_def)
qed

lemma hide_toast_inv:
  assumes "overlay_inv m s"
  shows "overlay_inv m (hide_toast s) \<and> \<not> toast_active (hide_toast s) \<and> card_active (hide_toast s) = card_active s"
proof (cases "toast_active s")
  case True
  obtain tb where tb: "toast_backup s = Some tb" "holds_rect TOAST_X TOAST_Y TOAST_W TOAST_H tb m"
    using assms True by (auto simp: overlay_inv_def)
  have "same_outside (if card_active s then card_px else {}) m
      (restore_rect TOAST_X TOAST_Y TOAST_W TOAST_H tb (panel s))"
    using assms True tb(2) by (intro restore_holds) (auto simp: overlay_inv_def covered_def)
  with assms True tb show ?thesis
    by (auto simp: hide_toast_def overlay_inv_def epdc_refresh_def eff_def covered_def)
next
  case False
  with assms show ?thesis by (auto simp: hide_toast_def overlay_inv_def)
qed

lemma hide_card_inv:
  assumes "overlay_inv m s"
  shows "overlay_inv m (hide_media_card s) \<and> \<not> card_active (hide_media_card s) \<and>
    toast_active (hide_media_card s) = toast_active s"
proof (cases "card_active s")
  case True
  obtain cb where cb: "card_backup s = Some cb" "holds_rect CARD_X CARD_Y CARD_W CARD_H cb m"
    using assms True by (auto simp: overlay_inv_def)
  have "same_outside (if toast_active s then toast_px else {}) m
      (restore_rect CARD_X CARD_Y CARD_W CARD_H cb (panel s))"
    using assms True cb(2) by (intro restore_holds) (auto simp: overlay_inv_def covered_def Un_commute)
  with assms True cb show ?thesis
    by (auto simp: hide_media_card_def overlay_inv_def epdc_refresh_def eff_def covered_def)
next
  case False
  with assms show ?thesis by (auto simp: hide_media_card_def overlay_inv_def)
qed

lemma overlay_keeps_inv: "overlay_inv m s \<Longrightarrow> overlay_fits op \<Longrightarrow> overlay_inv m (overlay e op s)"
  by (cases op rule: overlay_fits.cases)
    (auto intro: show_toast_inv show_card_inv simp: hide_toast_inv hide_card_inv)

text \<open>
  C1. After any sequence of showing and hiding the toast and the media card, in any order and
  nesting, hiding both gives back the panel pixel for pixel as it was before.
\<close>

theorem overlays_restore_panel:
  assumes "fb_mem s" and "toast_backup s \<noteq> None" and "card_backup s \<noteq> None"
    and "\<not> toast_active s" and "\<not> card_active s" and "list_all overlay_fits ops"
  shows "panel (hide_media_card (hide_toast (fold (overlay e) ops s))) = panel s"
proof -
  have "overlay_inv (panel s) s"
    using assms(1-5) by (auto simp: overlay_inv_def covered_def same_outside_def)
  then have "overlay_inv (panel s) (fold (overlay e) ops s)"
    using assms(6)
    by (intro fold_keeps [where I = "overlay_inv (panel s)"]) (auto simp: list_all_iff intro: overlay_keeps_inv)
  from hide_card_inv [OF conjunct1 [OF hide_toast_inv [OF this]]] hide_toast_inv [OF this]
  show ?thesis
    by (auto simp: overlay_inv_def covered_def same_outside_def)
qed

theorem overlays_restore_panel_witness:
  "panel (hide_media_card (hide_toast (fold (overlay undefined)
       [ShowCard (Some ''PLAYBACK ACTIVE: CONTROLS READY''), ShowToast ''FRONTLIGHT DIALOG'' ''KOReader Warmth & Brightness'' 5,
        HideCard, ShowCard None, ShowToast ''READING MODE RESTORED'' [] 6]
       ((bw_init (\<lambda>i. word_of_int i) None None)\<lparr>fb_mem := True, toast_backup := Some (\<lambda>_. 0), card_backup := Some (\<lambda>_. 0)\<rparr>))))
     = (\<lambda>i. word_of_int i)"
proof -
  let ?s = "(bw_init (\<lambda>i. word_of_int i) None None)\<lparr>fb_mem := True, toast_backup := Some (\<lambda>_. 0), card_backup := Some (\<lambda>_. 0)\<rparr>"
  let ?ops = "[ShowCard (Some ''PLAYBACK ACTIVE: CONTROLS READY''), ShowToast ''FRONTLIGHT DIALOG'' ''KOReader Warmth & Brightness'' 5,
        HideCard, ShowCard None, ShowToast ''READING MODE RESTORED'' [] 6]"
  have "list_all overlay_fits ?ops" by simp
  moreover have "fb_mem ?s" "toast_backup ?s \<noteq> None" "card_backup ?s \<noteq> None" "\<not> toast_active ?s" "\<not> card_active ?s"
    by (simp_all add: bw_init_def)
  ultimately have "panel (hide_media_card (hide_toast (fold (overlay undefined) ?ops ?s))) = panel ?s"
    by (intro overlays_restore_panel)
  also have "panel ?s = (\<lambda>i. word_of_int i)" by (simp add: bw_init_def)
  finally show ?thesis .
qed

section \<open>Capabilities of the virtual device\<close>

text \<open>The kernel drops an event of a uinput device whose type and code were not enabled.\<close>

definition declared :: "bw_call list \<Rightarrow> int \<times> int \<times> int \<Rightarrow> bool" where
  "declared calls = (\<lambda>(t, c, v).
     (t = EV_KEY \<and> SetEvBit EV_KEY \<in> set calls \<and> SetKeyBit c \<in> set calls) \<or>
     (t = EV_SW \<and> SetEvBit EV_SW \<in> set calls \<and> SetSwBit c \<in> set calls) \<or>
     (t = EV_SYN \<and> SetEvBit EV_SYN \<in> set calls))"

definition undeclared :: "bw_state \<Rightarrow> (int \<times> int \<times> int) list" where
  "undeclared s = filter (\<lambda>(t, c, v). \<not> (t = EV_KEY \<and> c \<in> {102, 116, 191, 192, 193, 194} \<or> t = EV_SW \<and> c = 0 \<or> t = EV_SYN)) (emits (trace s))"

lemma undeclared_calls:
  "bw_startup True True True True = Inr calls \<Longrightarrow> filter (\<lambda>x. \<not> declared calls x) (emits (trace s)) = undeclared s"
  unfolding undeclared_def by (rule filter_cong) (auto simp: bw_startup_def declared_def)

lemma undeclared_tick: "undeclared (fst (bw_tick now s)) = undeclared s"
proof -
  have "undeclared (fst (toast_check now st)) = undeclared (fst st)" for st
    by (simp add: undeclared_def)
  moreover have "undeclared (fst (power_check now st)) = undeclared (fst st)" for st
    by (auto simp: undeclared_def power_check_def Let_def split: prod.splits)
  moreover have "undeclared (fst (home_long_check now st)) = undeclared (fst st)" for st
    by (auto simp: undeclared_def home_long_check_def Let_def split: prod.splits)
  moreover have "undeclared (fst (home_single_check now st)) = undeclared (fst st)" for st
    by (auto simp: undeclared_def home_single_check_def Let_def split: prod.splits)
  ultimately show ?thesis unfolding bw_tick_def by simp
qed

lemma undeclared_page_key:
  assumes "191 \<le> c" and "c \<le> 194"
  shows "undeclared (on_page_key e now c v s) = undeclared s"
proof -
  have "c = 191 \<or> c = 192 \<or> c = 193 \<or> c = 194" using assms by arith
  then show ?thesis
    by (elim disjE) (simp_all add: on_page_key_def on_page_down_def media_control_def audio_toggle_def
      chord_koreader_def chord_plato_def chord_netsurf_def chord_media_def undeclared_def Let_def)
qed

lemma undeclared_home_key: "undeclared (on_home_key e now v s) = undeclared s"
  by (simp add: undeclared_def home_defs Let_def)

text \<open>The switches other than the lid.\<close>

definition other_switch :: "input_event \<Rightarrow> (int \<times> int \<times> int) list" where
  "other_switch ev = (if ev_type ev = EV_SW \<and> ev_code ev \<noteq> 0 then [(ev_type ev, ev_code ev, ev_value ev)] else [])"

definition other_switches :: "(bw_env \<times> u64 \<times> (u64 \<times> input_event) option) list \<Rightarrow> (int \<times> int \<times> int) list" where
  "other_switches steps = concat (map (\<lambda>(e, now, inp). case inp of None \<Rightarrow> [] | Some (_, ev) \<Rightarrow> other_switch ev) steps)"

lemma undeclared_event: "undeclared (bw_event e now ev s) = undeclared s @ other_switch ev"
  unfolding bw_event_def using undeclared_page_key undeclared_home_key
  by (auto simp: other_switch_def undeclared_def on_power_key_def on_lid_def)

lemma undeclared_run: "undeclared (bw_run steps s) = undeclared s @ other_switches steps"
proof (induction steps arbitrary: s)
  case (Cons st steps)
  obtain e now inp where st: "st = (e, now, inp)" by (metis prod_cases3)
  have "undeclared (bw_iter e now inp s) = undeclared s @ (case inp of None \<Rightarrow> [] | Some (_, ev) \<Rightarrow> other_switch ev)"
    by (auto simp: bw_iter_def undeclared_tick undeclared_event split: option.split)
  with Cons st show ?case by (auto simp: other_switches_def)
qed (simp add: other_switches_def)

text \<open>
  C32. Whatever the hardware reports, the events that the daemon writes to its virtual device
  with a type and code that its start-up did not enable there, so that the kernel drops them,
  are exactly the reports of switches other than the lid, passed on in their order; every other
  event that it ever writes is enabled.
\<close>

theorem emitted_events_declared:
  assumes "bw_startup True True True True = Inr calls"
  shows "filter (\<lambda>x. \<not> declared calls x) (emits (trace (bw_run steps (bw_init m app reader)))) = other_switches steps"
  unfolding undeclared_calls [OF assms] undeclared_run by (simp add: undeclared_def bw_init_def)

theorem emitted_events_declared_witness:
  "\<exists>calls. bw_startup True True True True = Inr calls \<and>
     filter (\<lambda>x. \<not> declared calls x)
       (emits (trace (bw_run [(undefined, 3, Some (4, key_press 191)), (undefined, 5, Some (6, \<lparr>ev_type = EV_SW, ev_code = 2, ev_value = 1\<rparr>))]
          (bw_init (\<lambda>_. 0) None None)))) = [(EV_SW, 2, 1)]"
proof -
  obtain calls where "bw_startup True True True True = Inr calls" by (simp add: bw_startup_def)
  then show ?thesis
    using emitted_events_declared [of calls "[(undefined, 3, Some (4, key_press 191)), (undefined, 5, Some (6, \<lparr>ev_type = EV_SW, ev_code = 2, ev_value = 1\<rparr>))]"
        "\<lambda>_. 0" None None]
    by (simp add: other_switches_def other_switch_def)
qed

section \<open>Switching applications\<close>

lemma app_of_file_line:
  assumes "name \<noteq> []" and "length name \<le> 31"
    and "\<forall>c \<in> set name. c \<noteq> CHR 0x0A \<and> c \<noteq> CHR 0x0D \<and> c \<noteq> nul"
  shows "app_of_file (Some (name @ [CHR 0x0A])) = name"
proof -
  have line: "takeWhile (\<lambda>c. c \<noteq> CHR 0x0A) (name @ [CHR 0x0A]) = name"
    using assms(3) by (subst takeWhile_append2) auto
  have chomp: "chomp (take 31 (name @ [CHR 0x0A])) = name"
    using assms(2,3) by (auto simp: chomp_def takeWhile_append2 takeWhile_eq_all_conv take_Cons')
  from line chomp assms(1) show ?thesis
    by (simp add: app_of_file_def fgets_str_def)
qed

lemma get_set_active_app:
  assumes "current_app_writable e" and "name \<in> {''koreader'', ''plato'', ''netsurf''}"
  shows "get_active_app (set_active_app e name s) = name"
proof -
  have "get_active_app (set_active_app e name s) = app_of_file (Some (name @ [CHR 0x0A]))"
    using assms(1) by (simp add: get_active_app_def set_active_app_def Let_def)
  also have "\<dots> = name"
    using assms(2) by (intro app_of_file_line) auto
  finally show ?thesis .
qed

lemma get_active_app_display [simp]:
  "get_active_app (show_toast e ti su now s) = get_active_app s"
  "get_active_app (leave_media_mode s) = get_active_app s"
  "get_active_app (inject_plato_frontlight e s) = get_active_app s"
  "get_active_app (eff es s) = get_active_app s"
  "get_active_app (system cmd s) = get_active_app s"
  "get_active_app (emit_event t c v s) = get_active_app s"
  "get_active_app (emit_syn s) = get_active_app s"
  "get_active_app (s\<lparr>home_combo_consumed := b\<rparr>) = get_active_app s"
  "get_active_app (s\<lparr>home_pending_single := b\<rparr>) = get_active_app s"
  by (auto simp: get_active_app_def show_toast_def fb_init_def save_toast_def on_panel_def epdc_refresh_def
      leave_media_mode_def hide_media_card_def inject_plato_frontlight_def eff_def system_def emit_event_def
      emit_syn_def Let_def split: option.splits)

definition app_process :: "string \<Rightarrow> string list" where
  "app_process app = (if app = ''koreader'' then [''luajit''] else if app = ''plato'' then [''ld-2.19.so'', ''plato'']
     else [''netsurf-fb''])"

text \<open>
  C19. The three application chords. Holding Home and pressing the top left, bottom left or
  top right key makes KOReader, Plato or NetSurf (from NetSurf itself: KOReader) the active
  application as every later lookup reads it, and the processes that are killed, if the
  application changes, do not include those of the new one.
\<close>

theorem chord_switches_app:
  fixes now :: u64
  assumes "home_down s" and "current_app_writable e" and "code \<in> {191, 192, 193}"
  defines "target \<equiv> (if code = 191 then ''koreader'' else if code = 192 then ''plato''
     else if get_active_app s = ''netsurf'' then ''koreader'' else ''netsurf'')"
    and "s' \<equiv> bw_event e now (key_press code) s"
  shows "get_active_app s' = target \<and>
    (\<exists>killed. commands (trace s') = commands (trace s) @ killed \<and> length killed \<le> 1 \<and>
       (get_active_app s = target \<longrightarrow> killed = []) \<and>
       (\<forall>cmd \<in> set killed. \<forall>p \<in> set (app_process target). \<not> strstr cmd p))"
proof -
  let ?s = "s\<lparr>home_combo_consumed := True, home_pending_single := False\<rparr>"
  have s': "s' = (if code = 191 then chord_koreader e now ?s else if code = 192 then chord_plato e now ?s
      else chord_netsurf e now ?s)"
    using assms(1,3) by (auto simp: s'_def bw_event_def on_page_key_def on_page_down_def Let_def)
  from assms(3) consider "code = 191" | "code = 192" | "code = 193" by blast
  then show ?thesis
  proof cases
    case 1
    then show ?thesis
      by (cases "get_active_app s = ''koreader''")
        (simp_all add: s' target_def chord_koreader_def Let_def get_set_active_app [OF assms(2)] app_process_def)
  next
    case 2
    then show ?thesis
      by (cases "get_active_app s = ''plato''")
        (simp_all add: s' target_def chord_plato_def Let_def get_set_active_app [OF assms(2)] app_process_def)
  next
    case 3
    then show ?thesis
      by (cases "get_active_app s = ''netsurf''")
        (simp_all add: s' target_def chord_netsurf_def Let_def get_set_active_app [OF assms(2)] app_process_def)
  qed
qed

theorem chord_switches_app_witness:
  "get_active_app (bw_event \<lparr>fb0_fd = -1, graphics_fb0_fd = -1, fb_mmap_ok = False, toast_malloc = None, card_malloc = None,
       event1_opens = False, current_app_writable = True, active_reader_writable = True\<rparr> 9 (key_press 193)
     ((bw_init (\<lambda>_. 0) (Some ''plato'') None)\<lparr>home_down := True\<rparr>)) = ''netsurf''"
  using chord_switches_app [of "(bw_init (\<lambda>_. 0) (Some ''plato'') None)\<lparr>home_down := True\<rparr>"
      "\<lparr>fb0_fd = -1, graphics_fb0_fd = -1, fb_mmap_ok = False, toast_malloc = None, card_malloc = None,
       event1_opens = False, current_app_writable = True, active_reader_writable = True\<rparr>" 193 9]
  by (simp add: bw_init_def get_active_app_def app_of_file_def fgets_str_def chomp_def)

text \<open>
  Closing the cover suspends the device exactly when KOReader is not the active application,
  and in every case the switch event reaches the readers after that.
\<close>

theorem lid_close_suspends:
  "trace (bw_event e now \<lparr>ev_type = EV_SW, ev_code = 0, ev_value = 1\<rparr> s) =
     trace s @ (if get_active_app s = ''koreader'' then [] else [System ''echo mem > /sys/power/state 2>/dev/null'']) @
     [Emit EV_SW 0 1]"
  by (simp add: bw_event_def on_lid_def)

end
