(* ===== verification/Ring_Buffer.thy ===== *)
theory Ring_Buffer
  imports Nook_Prelude
begin

text \<open>
  The array ring with a head and a tail index that two components use for their events
  (\<open>event_queue\<close> of \<open>sdl_fb0_shim.c\<close>, \<open>s_queue\<close> of \<open>plato_shim.c\<close>), its
  abstraction to a list, and the interfaces the clients rely on. The two components
  differ in what they lose when the ring is full: the shim for SDL refuses the new event,
  the one for Plato overwrites the oldest. Each policy is a locale over a common one; the
  components interpret them on their own operations.
\<close>

section \<open>Interfaces\<close>

locale bounded_queue =
  fixes cap :: nat
    and enq :: "'a \<Rightarrow> 'q \<Rightarrow> 'q"
    and deq :: "'q \<Rightarrow> ('a \<times> 'q) option"
    and contents :: "'q \<Rightarrow> 'a list"
    and invar :: "'q \<Rightarrow> bool"
  assumes deq_None: "invar q \<Longrightarrow> deq q = None \<longleftrightarrow> contents q = []"
    and deq_Some: "invar q \<Longrightarrow> deq q = Some (x, q') \<Longrightarrow> contents q = x # contents q' \<and> invar q'"
    and enq_room: "invar q \<Longrightarrow> length (contents q) < cap \<Longrightarrow> contents (enq x q) = contents q @ [x]"
    and enq_invar: "invar q \<Longrightarrow> invar (enq x q)"
    and contents_bound: "invar q \<Longrightarrow> length (contents q) \<le> cap"
begin

lemma enq_all_room:
  "invar q \<Longrightarrow> length (contents q) + length xs \<le> cap \<Longrightarrow>
     contents (fold enq xs q) = contents q @ xs \<and> invar (fold enq xs q)"
  by (induction xs arbitrary: q) (auto simp: enq_room enq_invar)

lemma enq_all_invar: "invar q \<Longrightarrow> invar (fold enq xs q)"
  by (induction xs arbitrary: q) (auto simp: enq_invar)

text \<open>Taking out events until the queue is empty, at most \<open>n\<close> of them.\<close>

fun drain :: "nat \<Rightarrow> 'q \<Rightarrow> 'a list \<times> 'q" where
  "drain 0 q = ([], q)"
| "drain (Suc n) q = (case deq q of None \<Rightarrow> ([], q) | Some (x, q') \<Rightarrow> let (xs, q'') = drain n q' in (x # xs, q''))"

lemma drain_contents:
  "invar q \<Longrightarrow> drain n q = (xs, q') \<Longrightarrow>
     xs = take n (contents q) \<and> contents q' = drop n (contents q) \<and> invar q'"
proof (induction n arbitrary: q xs q')
  case 0
  then show ?case by simp
next
  case (Suc n)
  show ?case
  proof (cases "deq q")
    case None
    with Suc.prems show ?thesis using deq_None [of q] by auto
  next
    case (Some p)
    obtain x r where p: "p = (x, r)" by fastforce
    obtain ys r' where d: "drain n r = (ys, r')" by fastforce
    have "contents q = x # contents r" and "invar r"
      using deq_Some [of q x r] Suc.prems(1) Some p by auto
    with Suc.IH [OF _ d] Suc.prems(2) Some p d show ?thesis by auto
  qed
qed

end

locale refusing_queue = bounded_queue +
  assumes enq_full: "invar q \<Longrightarrow> length (contents q) = cap \<Longrightarrow> enq x q = q"
begin

lemma enq_contents: "invar q \<Longrightarrow> contents (enq x q) = take cap (contents q @ [x])"
  using enq_room [of q x] enq_full [of q x] contents_bound [of q]
  by (cases "length (contents q) < cap") auto

text \<open>A burst keeps the oldest events and drops the newest.\<close>

lemma enq_all_contents: "invar q \<Longrightarrow> contents (fold enq xs q) = take cap (contents q @ xs)"
proof (induction xs arbitrary: q)
  case Nil
  then show ?case using contents_bound [of q] by simp
next
  case (Cons x xs)
  have "take cap (take cap (contents q @ [x]) @ xs) = take cap (contents q @ x # xs)"
  proof (cases "length (contents q) < cap")
    case True
    then show ?thesis by simp
  next
    case False
    then have "length (contents q) = cap" using contents_bound [OF Cons.prems] by simp
    then show ?thesis by simp
  qed
  with Cons show ?case by (simp add: enq_invar enq_contents)
qed

end

locale overwriting_queue = bounded_queue +
  assumes enq_full: "invar q \<Longrightarrow> length (contents q) = cap \<Longrightarrow> contents (enq x q) = tl (contents q) @ [x]"
    and cap_pos: "0 < cap"
begin

lemma enq_contents:
  "invar q \<Longrightarrow> contents (enq x q) = drop (length (contents q) + 1 - cap) (contents q @ [x])"
  using enq_room [of q x] enq_full [of q x] contents_bound [of q] cap_pos
  by (cases "length (contents q) < cap") (auto simp: drop_Suc)

end

section \<open>The ring\<close>

record 'a ring =
  slots :: "'a list"
  head :: nat
  tail :: nat

definition ring_inv :: "nat \<Rightarrow> 'a ring \<Rightarrow> bool" where
  "ring_inv n q \<longleftrightarrow> 0 < n \<and> length (slots q) = n \<and> head q < n \<and> tail q < n"

definition ring_count :: "nat \<Rightarrow> 'a ring \<Rightarrow> nat" where
  "ring_count n q = (if head q \<le> tail q then tail q - head q else n - head q + tail q)"

definition ring_contents :: "nat \<Rightarrow> 'a ring \<Rightarrow> 'a list" where
  "ring_contents n q = map (\<lambda>k. slots q ! ((head q + k) mod n)) [0..<ring_count n q]"

definition ring_store :: "nat \<Rightarrow> 'a \<Rightarrow> 'a ring \<Rightarrow> 'a ring" where
  "ring_store n x q = q\<lparr>slots := (slots q)[tail q := x], tail := (tail q + 1) mod n\<rparr>"

definition ring_advance :: "nat \<Rightarrow> 'a ring \<Rightarrow> 'a ring" where
  "ring_advance n q = q\<lparr>head := (head q + 1) mod n\<rparr>"

lemma length_ring_contents [simp]: "length (ring_contents n q) = ring_count n q"
  by (simp add: ring_contents_def)

lemma ring_empty_iff: "ring_inv n q \<Longrightarrow> ring_contents n q = [] \<longleftrightarrow> head q = tail q"
  by (auto simp: ring_contents_def ring_count_def ring_inv_def)

lemma ring_count_less: "ring_inv n q \<Longrightarrow> ring_count n q < n"
  by (auto simp: ring_count_def ring_inv_def)

lemma ring_full_iff:
  "ring_inv n q \<Longrightarrow> (tail q + 1) mod n = head q \<longleftrightarrow> ring_count n q = n - 1"
  by (cases "tail q + 1 = n") (auto simp: ring_count_def ring_inv_def)

lemma mod_if_less: "(i :: nat) < 2 * n \<Longrightarrow> i mod n = (if i < n then i else i - n)"
  by (simp add: mod_if)

lemma ring_store_inv: "ring_inv n q \<Longrightarrow> ring_inv n (ring_store n x q)"
  by (auto simp: ring_inv_def ring_store_def)

lemma ring_store_contents:
  assumes "ring_inv n q" and "(tail q + 1) mod n \<noteq> head q"
  shows "ring_contents n (ring_store n x q) = ring_contents n q @ [x]"
proof -
  have cnt: "ring_count n (ring_store n x q) = Suc (ring_count n q)"
    using assms by (auto simp: ring_count_def ring_store_def ring_inv_def mod_if_less split: if_splits)
  have last: "(head q + ring_count n q) mod n = tail q"
    using assms by (auto simp: ring_count_def ring_inv_def mod_if_less)
  have "slots (ring_store n x q) ! ((head q + k) mod n) = slots q ! ((head q + k) mod n)"
    if "k < ring_count n q" for k
  proof -
    have "(head q + k) mod n \<noteq> tail q"
      using assms that by (auto simp: ring_count_def ring_inv_def mod_if_less split: if_splits)
    then show ?thesis by (simp add: ring_store_def)
  qed
  moreover have "slots (ring_store n x q) ! ((head q + ring_count n q) mod n) = x"
    using assms last by (simp add: ring_store_def ring_inv_def)
  moreover have "head (ring_store n x q) = head q" by (simp add: ring_store_def)
  ultimately show ?thesis
    unfolding ring_contents_def cnt by simp
qed

lemma ring_advance_inv: "ring_inv n q \<Longrightarrow> ring_inv n (ring_advance n q)"
  by (auto simp: ring_inv_def ring_advance_def)

lemma ring_advance_contents:
  assumes "ring_inv n q" and "head q \<noteq> tail q"
  shows "ring_contents n q = slots q ! head q # ring_contents n (ring_advance n q)"
proof -
  have cnt: "ring_count n q = Suc (ring_count n (ring_advance n q))"
    using assms by (auto simp: ring_count_def ring_advance_def ring_inv_def mod_if_less split: if_splits)
  have "((head q + 1) mod n + k) mod n = (head q + Suc k) mod n" for k
    by (simp add: mod_add_left_eq)
  then have "map (\<lambda>k. slots q ! ((head q + Suc k) mod n)) [0..<ring_count n (ring_advance n q)]
      = ring_contents n (ring_advance n q)"
    by (simp add: ring_contents_def ring_advance_def)
  moreover have "ring_contents n q
      = slots q ! (head q mod n) # map (\<lambda>k. slots q ! ((head q + Suc k) mod n)) [0..<ring_count n (ring_advance n q)]"
    unfolding ring_contents_def cnt upt_conv_Cons [OF zero_less_Suc] map_Suc_upt [symmetric]
    by (simp add: comp_def del: upt_Suc)
  ultimately show ?thesis using assms(1) by (simp add: ring_inv_def)
qed

lemma ring_advance_store:
  assumes "ring_inv n q" and "(tail q + 1) mod n = head q" and "1 < n"
  shows "ring_contents n (ring_store n x (ring_advance n q)) = tl (ring_contents n q) @ [x]"
proof -
  have ne: "head q \<noteq> tail q"
    using assms by (auto simp: ring_inv_def mod_if_less split: if_splits)
  have "(tail (ring_advance n q) + 1) mod n \<noteq> head (ring_advance n q)"
    using assms by (auto simp: ring_inv_def ring_advance_def mod_if_less split: if_splits)
  with assms(1) have "ring_contents n (ring_store n x (ring_advance n q)) = ring_contents n (ring_advance n q) @ [x]"
    by (intro ring_store_contents ring_advance_inv)
  with ring_advance_contents [OF assms(1) ne] show ?thesis by simp
qed

end
