(* ===== verification/Plato_Shim.thy ===== *)
theory Plato_Shim
  imports Framebuffer Ring_Buffer
begin

text \<open>
  \<^verbatim>\<open>components/system/src/plato_shim.c\<close>: the preloaded library that lets the Plato reader,
  built for another panel, run on this device. It intercepts \<open>ioctl\<close> (update requests of
  two other layouts are rewritten to the one of this kernel, the rotation is turned by 180
  degrees), \<open>open\<close>, \<open>close\<close>, \<open>poll\<close> and \<open>read\<close> (raw touch events are
  rewritten to five-event frames through a ring of 128 slots) and can write one log line
  per request.

  The functions behind the \<open>real_\<close> pointers are arguments of the definitions: the kernel's
  \<open>ioctl\<close> is a function of the calls made before, \<open>real_open\<close> and \<open>real_open64\<close>
  are optional functions, and the results of \<open>real_read\<close> are a list, one element per
  call.
\<close>

section \<open>Log lines\<close>

text \<open>\<^verbatim>\<open>lbuf\<close>: the bytes written so far to a buffer of 384.\<close>

type_synonym lbuf = string

abbreviation (input) lbuf_size :: nat where "lbuf_size \<equiv> 384"

definition lb_str :: "string \<Rightarrow> lbuf \<Rightarrow> lbuf" where
  "lb_str s l = (if length l + length s > lbuf_size then l else l @ s)"

text \<open>The digits from the right, the loop \<^verbatim>\<open>while (v)\<close>.\<close>

fun dec_digits :: "nat \<Rightarrow> string" where
  "dec_digits v = (if v = 0 then [] else char_of (48 + v mod 10) # dec_digits (v div 10))"

declare dec_digits.simps [simp del]

text \<open>The loop that reverses the first \<open>n\<close> bytes of \<open>t\<close> in place.\<close>

definition swap_ends :: "nat \<Rightarrow> string \<Rightarrow> string" where
  "swap_ends n t = fold (\<lambda>i t. t[i := t ! (n - 1 - i), n - 1 - i := t ! i]) [0..<n div 2] t"

definition hex_char :: "nat \<Rightarrow> char" where
  "hex_char d = (if d < 10 then char_of (48 + d) else char_of (97 + d))"

text \<open>The loop over the nibbles at bit positions 28, 24, ..., 0.\<close>

fun hex_loop :: "u32 \<Rightarrow> bool \<Rightarrow> nat list \<Rightarrow> string" where
  "hex_loop v started [] = []"
| "hex_loop v started (i # is) =
     (let d = unat (drop_bit i v AND 0xf) in
      if \<not> started \<and> d = 0 \<and> 0 < i then hex_loop v started is
      else hex_char d # hex_loop v True is)"

definition lb_u_text :: "u32 \<Rightarrow> bool \<Rightarrow> string" where
  "lb_u_text v hexa =
     (if hexa then ''0x'' @ hex_loop v False [28, 24, 20, 16, 12, 8, 4, 0]
      else let t = (if v = 0 then ''0'' else dec_digits (unat v)) in swap_ends (length t) t)"

definition lb_u :: "u32 \<Rightarrow> bool \<Rightarrow> lbuf \<Rightarrow> lbuf" where
  "lb_u v hexa l =
     (let t = lb_u_text v hexa in if length l + length t > lbuf_size then l else l @ t)"

definition lb_i :: "int \<Rightarrow> lbuf \<Rightarrow> lbuf" where
  "lb_i v l = (if v < 0 then lb_u (word_of_int (- v)) False (lb_str ''-'' l) else lb_u (word_of_int v) False l)"

definition log_rect :: "string \<Rightarrow> mxcfb_rect \<Rightarrow> lbuf \<Rightarrow> lbuf" where
  "log_rect tag r l =
     (let l = lb_str tag l; l = lb_u (rect_top r) False l; l = lb_str '','' l;
          l = lb_u (rect_left r) False l; l = lb_str '','' l;
          l = lb_u (rect_width r) False l; l = lb_str ''x'' l;
          l = lb_u (rect_height r) False l
      in lb_str '' '' l)"

definition log_update :: "string \<Rightarrow> mxcfb_update_data_v1 \<Rightarrow> lbuf \<Rightarrow> lbuf" where
  "log_update tag v1 l =
     (let l = lb_str tag l; l = log_rect '' dst='' (update_region v1) l;
          l = lb_str ''wf='' l; l = lb_u (waveform_mode v1) False l;
          l = lb_str '' mode='' l; l = lb_u (update_mode v1) False l;
          l = lb_str '' flags='' l; l = lb_u (flags v1) True l;
          l = lb_str '' marker='' l
      in lb_u (update_marker v1) False l)"

section \<open>Requests\<close>

record mxcfb_update_data_v2 =
  v2_update_region :: mxcfb_rect
  v2_waveform_mode :: u32
  v2_update_mode :: u32
  v2_update_marker :: u32
  v2_temp :: int
  v2_flags :: u32
  v2_dither_mode :: int
  v2_quant_bit :: int
  v2_alt_buffer_data :: mxcfb_alt_buffer_data

record mxcfb_alt_buffer_data_plato_v1 =
  pa_virt_addr :: u32
  pa_phys_addr :: u32
  pa_width :: u32
  pa_height :: u32
  pa_alt_update_region :: mxcfb_rect

record mxcfb_update_data_plato_v1 =
  pv_update_region :: mxcfb_rect
  pv_waveform_mode :: u32
  pv_update_mode :: u32
  pv_update_marker :: u32
  pv_temp :: int
  pv_flags :: u32
  pv_alt_buffer_data :: mxcfb_alt_buffer_data_plato_v1

record mxcfb_update_marker_data =
  md_update_marker :: u32
  md_collision_test :: u32

text \<open>The members of the kernel's \<^verbatim>\<open>fb_var_screeninfo\<close> that the shim reads; the rest as words.\<close>

record fb_var_screeninfo =
  var_xres :: u32
  var_yres :: u32
  var_xres_virtual :: u32
  var_yres_virtual :: u32
  var_xoffset :: u32
  var_yoffset :: u32
  var_bits_per_pixel :: u32
  var_vmode :: u32
  var_rotate :: u32
  var_rest :: "u32 list"

text \<open>
  An ioctl: the request number together with what its \<^verbatim>\<open>void *\<close> argument points to. \<open>None\<close>
  is a null pointer.
\<close>

datatype ioctl_call =
    SendUpdateV1 mxcfb_update_data_v1
  | SendUpdateV2 mxcfb_update_data_v2
  | SendUpdatePlatoV1 mxcfb_update_data_plato_v1
  | WaitV2 "u32 option"
  | WaitV1 mxcfb_update_marker_data
  | PanDisplay "fb_var_screeninfo option"
  | PutVar "fb_var_screeninfo option"
  | GetVar "fb_var_screeninfo option"
  | EviocGrab int
  | OtherRequest int "u8 list"

section \<open>State\<close>

record plato_input_event =
  pe_sec :: u32
  pe_usec :: u32
  pe_type :: int
  pe_code :: int
  pe_value :: int

abbreviation (input) SHIM_QUEUE_SIZE :: nat where "SHIM_QUEUE_SIZE \<equiv> 128"

datatype ps_effect =
    KernelIoctl int ioctl_call
  | KernelOpen string u32 u32
  | FdWrite int string
  | FdRewind int
  | KernelClose int

record ps_state =
  s_logfd :: int
  s_log :: "string list"
  s_queue :: "plato_input_event ring"
  s_touch_fd :: int
  s_is_down :: bool
  s_new_down :: bool
  s_tracking_id :: int
  s_last_x :: int
  s_last_y :: int
  s_trace :: "ps_effect list"

definition zero_event :: plato_input_event where
  "zero_event = \<lparr>pe_sec = 0, pe_usec = 0, pe_type = 0, pe_code = 0, pe_value = 0\<rparr>"

definition ps_init :: ps_state where
  "ps_init = \<lparr>s_logfd = -2, s_log = [],
     s_queue = \<lparr>slots = replicate SHIM_QUEUE_SIZE zero_event, head = 0, tail = 0\<rparr>,
     s_touch_fd = -1, s_is_down = False, s_new_down = False, s_tracking_id = 0,
     s_last_x = 0, s_last_y = 0, s_trace = []\<rparr>"

definition ps_do :: "ps_effect \<Rightarrow> ps_state \<Rightarrow> ps_state" where
  "ps_do e s = s\<lparr>s_trace := s_trace s @ [e]\<rparr>"

text \<open>
  \<open>log_init\<close>: the file is opened at most once; \<open>logfile\<close> is the descriptor that opening
  the configured file yields, -1 when no file is configured or it cannot be opened.
\<close>

definition log_init :: "int \<Rightarrow> ps_state \<Rightarrow> ps_state" where
  "log_init logfile s = (if s_logfd s \<noteq> -2 then s else s\<lparr>s_logfd := logfile\<rparr>)"

definition lb_flush :: "int \<Rightarrow> lbuf \<Rightarrow> ps_state \<Rightarrow> ps_state" where
  "lb_flush logfile l s =
     (let s = log_init logfile s in
      if s_logfd s < 0 then s
      else if length l + 1 < lbuf_size then s\<lparr>s_log := s_log s @ [l @ [CHR 0x0A]]\<rparr> else s)"

definition log_msg :: "int \<Rightarrow> string \<Rightarrow> ps_state \<Rightarrow> ps_state" where
  "log_msg logfile m s =
     (let s = log_init logfile s in if s_logfd s < 0 then s else s\<lparr>s_log := s_log s @ [m]\<rparr>)"

definition init_shim :: "int \<Rightarrow> ps_state \<Rightarrow> ps_state" where
  "init_shim logfile s =
     (let s = log_init logfile s in
      if s_logfd s \<ge> 0 then log_msg logfile (''=== shim load'' @ [CHR 0x0A]) s else s)"

section \<open>ioctl\<close>

type_synonym kernel = "ps_effect list \<Rightarrow> int \<Rightarrow> ioctl_call \<Rightarrow> int \<times> ioctl_call"

definition real_ioctl :: "kernel \<Rightarrow> int \<Rightarrow> ioctl_call \<Rightarrow> ps_state \<Rightarrow> int \<times> ioctl_call \<times> ps_state" where
  "real_ioctl k fd c s = (let (r, c') = k (s_trace s) fd c in (r, c', ps_do (KernelIoctl fd c) s))"

definition v1_of_v2 :: "mxcfb_update_data_v2 \<Rightarrow> mxcfb_update_data_v1" where
  "v1_of_v2 v2 = upd_zero\<lparr>
     update_region := v2_update_region v2,
     waveform_mode := v2_waveform_mode v2,
     update_mode := v2_update_mode v2,
     update_marker := v2_update_marker v2,
     temp := v2_temp v2,
     flags := v2_flags v2,
     alt_buffer_data := v2_alt_buffer_data v2\<rparr>"

definition v1_of_plato :: "mxcfb_update_data_plato_v1 \<Rightarrow> mxcfb_update_data_v1" where
  "v1_of_plato pv1 = upd_zero\<lparr>
     update_region := pv_update_region pv1,
     waveform_mode := pv_waveform_mode pv1,
     update_mode := pv_update_mode pv1,
     update_marker := pv_update_marker pv1,
     temp := pv_temp pv1,
     flags := pv_flags pv1,
     alt_buffer_data := \<lparr>phys_addr = pa_phys_addr (pv_alt_buffer_data pv1),
       alt_width = pa_width (pv_alt_buffer_data pv1),
       alt_height = pa_height (pv_alt_buffer_data pv1),
       alt_update_region = pa_alt_update_region (pv_alt_buffer_data pv1)\<rparr>\<rparr>"

definition log_v2 :: "mxcfb_update_data_v1 \<Rightarrow> int \<Rightarrow> lbuf" where
  "log_v2 v1 ret =
     (let l = log_update ''SU2 '' v1 []; a = alt_buffer_data v1;
          l = log_rect ''alt='' (alt_update_region a) l;
          l = lb_str ''altw='' l; l = lb_u (alt_width a) False l;
          l = lb_str '' alth='' l; l = lb_u (alt_height a) False l;
          l = lb_str '' altpa='' l; l = lb_u (phys_addr a) True l;
          l = lb_str '' -> '' l
      in lb_i ret l)"

definition log_plato_v1 :: "mxcfb_update_data_v1 \<Rightarrow> mxcfb_update_data_plato_v1 \<Rightarrow> int \<Rightarrow> lbuf" where
  "log_plato_v1 v1 pv1 ret =
     (let l = log_update ''SUP '' v1 []; a = pv_alt_buffer_data pv1;
          l = log_rect ''alt='' (pa_alt_update_region a) l;
          l = lb_str ''altw='' l; l = lb_u (pa_width a) False l;
          l = lb_str '' alth='' l; l = lb_u (pa_height a) False l;
          l = lb_str '' altpa='' l; l = lb_u (pa_phys_addr a) True l;
          l = lb_str '' virt='' l; l = lb_u (pa_virt_addr a) True l;
          l = lb_str '' -> '' l
      in lb_i ret l)"

definition log_wait :: "u32 \<Rightarrow> u32 \<Rightarrow> int \<Rightarrow> lbuf" where
  "log_wait marker collide ret =
     (let l = lb_str ''WU  marker='' []; l = lb_u marker False l;
          l = lb_str '' collide='' l; l = lb_u collide False l;
          l = lb_str '' -> '' l
      in lb_i ret l)"

definition log_pan :: "fb_var_screeninfo \<Rightarrow> int \<Rightarrow> lbuf" where
  "log_pan var ret =
     (let l = lb_str ''PAN xoff='' []; l = lb_u (var_xoffset var) False l;
          l = lb_str '' yoff='' l; l = lb_u (var_yoffset var) False l;
          l = lb_str '' mode='' l; l = lb_u (var_vmode var) True l;
          l = lb_str '' -> '' l
      in lb_i ret l)"

definition log_var :: "string \<Rightarrow> fb_var_screeninfo \<Rightarrow> lbuf" where
  "log_var tag var =
     (let l = lb_str tag []; l = lb_u (var_xres var) False l; l = lb_str ''x'' l; l = lb_u (var_yres var) False l;
          l = lb_str '' virt='' l; l = lb_u (var_xres_virtual var) False l; l = lb_str ''x'' l;
          l = lb_u (var_yres_virtual var) False l;
          l = lb_str '' off='' l; l = lb_u (var_xoffset var) False l; l = lb_str '','' l;
          l = lb_u (var_yoffset var) False l;
          l = lb_str '' rot='' l; l = lb_u (var_rotate var) False l;
          l = lb_str '' bpp='' l
      in lb_u (var_bits_per_pixel var) False l)"

definition turn :: "fb_var_screeninfo \<Rightarrow> fb_var_screeninfo" where
  "turn var = var\<lparr>var_rotate := (var_rotate var + 2) mod 4\<rparr>"

definition log_if :: "int \<Rightarrow> lbuf \<Rightarrow> ps_state \<Rightarrow> ps_state" where
  "log_if logfile l s = (if s_logfd s \<noteq> -1 then lb_flush logfile l s else s)"

text \<open>
  The result holds the return value, the argument as the caller finds it afterwards, and the
  state. What the kernel wrote into its argument is read back where the source reads it.
\<close>

definition ioctl :: "kernel \<Rightarrow> int \<Rightarrow> int \<Rightarrow> ioctl_call \<Rightarrow> ps_state \<Rightarrow> int \<times> ioctl_call \<times> ps_state" where
  "ioctl k logfile fd c s =
     (case c of
        SendUpdateV2 v2 \<Rightarrow>
          (let v1 = v1_of_v2 v2; (ret, c', s) = real_ioctl k fd (SendUpdateV1 v1) s;
               v1 = (case c' of SendUpdateV1 v \<Rightarrow> v | _ \<Rightarrow> v1)
           in (ret, c, log_if logfile (log_v2 v1 ret) s))
      | SendUpdatePlatoV1 pv1 \<Rightarrow>
          (let v1 = v1_of_plato pv1; (ret, c', s) = real_ioctl k fd (SendUpdateV1 v1) s;
               v1 = (case c' of SendUpdateV1 v \<Rightarrow> v | _ \<Rightarrow> v1)
           in (ret, c, log_if logfile (log_plato_v1 v1 pv1 ret) s))
      | WaitV2 arg \<Rightarrow>
          (let marker = (case arg of None \<Rightarrow> 0 | Some m \<Rightarrow> m);
               md = \<lparr>md_update_marker = marker, md_collision_test = 0\<rparr>;
               (ret, c', s) = real_ioctl k fd (WaitV1 md) s;
               md = (case c' of WaitV1 m \<Rightarrow> m | _ \<Rightarrow> md)
           in (ret, c, log_if logfile (log_wait marker (md_collision_test md) ret) s))
      | PanDisplay arg \<Rightarrow>
          (let (ret, c', s) = real_ioctl k fd c s
           in (ret, c', case c' of PanDisplay (Some var) \<Rightarrow> log_if logfile (log_pan var ret) s | _ \<Rightarrow> s))
      | PutVar (Some var) \<Rightarrow>
          (let (ret, c', s) = real_ioctl k fd (PutVar (Some (turn var))) s;
               var = (case c' of PutVar (Some v) \<Rightarrow> v | _ \<Rightarrow> turn var);
               var = turn var
           in (ret, PutVar (Some var), log_if logfile (lb_i ret (lb_str '' -> '' (log_var ''PUT v='' var))) s))
      | GetVar arg \<Rightarrow>
          (let (ret, c', s) = real_ioctl k fd c s
           in case c' of
                GetVar (Some var) \<Rightarrow>
                  if ret = 0 then let var = turn var in (ret, GetVar (Some var), log_if logfile (log_var ''GET v='' var) s)
                  else (ret, c', s)
              | _ \<Rightarrow> (ret, c', s))
      | EviocGrab g \<Rightarrow> (0, c, s)
      | _ \<Rightarrow> real_ioctl k fd c s)"

section \<open>open and close\<close>

type_synonym opener = "(string \<Rightarrow> u32 \<Rightarrow> u32 \<Rightarrow> int) option"

abbreviation (input) O_RDWR :: u32 where "O_RDWR \<equiv> 0x2"
abbreviation (input) O_CREAT :: u32 where "O_CREAT \<equiv> 0x40"

definition call_open :: "(string \<Rightarrow> u32 \<Rightarrow> u32 \<Rightarrow> int) \<Rightarrow> string \<Rightarrow> u32 \<Rightarrow> u32 \<Rightarrow> ps_state \<Rightarrow> int \<times> ps_state" where
  "call_open f path fl mode s = (f path fl mode, ps_do (KernelOpen path fl mode) s)"

text \<open>The first pointer that is set, or -1.\<close>

definition open_with :: "opener \<Rightarrow> opener \<Rightarrow> string \<Rightarrow> u32 \<Rightarrow> u32 \<Rightarrow> ps_state \<Rightarrow> int \<times> ps_state" where
  "open_with a b path fl mode s =
     (case a of Some f \<Rightarrow> call_open f path fl mode s
      | None \<Rightarrow> (case b of Some f \<Rightarrow> call_open f path fl mode s | None \<Rightarrow> (-1, s)))"

definition reset_touch :: "int \<Rightarrow> ps_state \<Rightarrow> ps_state" where
  "reset_touch fd s = s\<lparr>s_touch_fd := fd, s_queue := (s_queue s)\<lparr>head := 0, tail := 0\<rparr>,
     s_is_down := False, s_new_down := False\<rparr>"

text \<open>
  A non-null path name (mode 0666 is 0x1B6). In the fallback for \<open>rtc0\<close> the second pointer is
  called without a test: the result \<open>None\<close> is the call through a null pointer.
\<close>

definition handle_open ::
  "opener \<Rightarrow> opener \<Rightarrow> string \<Rightarrow> u32 \<Rightarrow> u32 \<Rightarrow> bool \<Rightarrow> ps_state \<Rightarrow> (int \<times> ps_state) option" where
  "handle_open real_open real_open64 pathname fl mode is_64 s =
     (let als = strstr pathname ''als_vis_data'';
          (fd_als, s) = (if als then open_with real_open real_open64 ''/tmp/als_vis_data'' (O_RDWR OR O_CREAT) 0x1B6 s
                         else (-1, s))
      in if als \<and> fd_als \<ge> 0
         then Some (fd_als, ps_do (FdRewind fd_als) (ps_do (FdWrite fd_als (''100'' @ [CHR 0x0A])) s))
         else
           let a = (if is_64 then real_open64 else real_open);
               b = (if is_64 then real_open else real_open64);
               (ret, s) = open_with a b pathname fl mode s
           in if ret < 0 \<and> strstr pathname ''rtc0''
              then (case a of Some f \<Rightarrow> Some (call_open f ''/dev/null'' fl mode s)
                    | None \<Rightarrow> (case b of Some f \<Rightarrow> Some (call_open f ''/dev/null'' fl mode s) | None \<Rightarrow> None))
              else if ret \<ge> 0 \<and> strstr pathname ''event1''
              then Some (ret, (reset_touch ret s)\<lparr>s_tracking_id := 0, s_last_x := 0, s_last_y := 0\<rparr>)
              else Some (ret, s))"

definition shim_open :: "opener \<Rightarrow> opener \<Rightarrow> string \<Rightarrow> u32 \<Rightarrow> u32 \<Rightarrow> ps_state \<Rightarrow> (int \<times> ps_state) option" where
  "shim_open real_open real_open64 pathname fl va_mode s =
     handle_open real_open real_open64 pathname fl (if fl AND O_CREAT \<noteq> 0 then va_mode else 0) False s"

definition shim_open64 :: "opener \<Rightarrow> opener \<Rightarrow> string \<Rightarrow> u32 \<Rightarrow> u32 \<Rightarrow> ps_state \<Rightarrow> (int \<times> ps_state) option" where
  "shim_open64 real_open real_open64 pathname fl va_mode s =
     handle_open real_open real_open64 pathname fl (if fl AND O_CREAT \<noteq> 0 then va_mode else 0) True s"

definition shim_close :: "(int \<Rightarrow> int) \<Rightarrow> int \<Rightarrow> ps_state \<Rightarrow> int \<times> ps_state" where
  "shim_close real_close fd s =
     (let s = (if fd = s_touch_fd s then reset_touch (-1) s else s)
      in (real_close fd, ps_do (KernelClose fd) s))"

section \<open>The event ring\<close>

definition enqueue_event :: "plato_input_event \<Rightarrow> plato_input_event ring \<Rightarrow> plato_input_event ring" where
  "enqueue_event e q =
     (let next = (tail q + 1) mod SHIM_QUEUE_SIZE;
          q = (if next = head q then q\<lparr>head := (head q + 1) mod SHIM_QUEUE_SIZE\<rparr> else q)
      in q\<lparr>slots := (slots q)[tail q := e], tail := next\<rparr>)"

definition take_event :: "plato_input_event ring \<Rightarrow> (plato_input_event \<times> plato_input_event ring) option" where
  "take_event q = (if head q \<noteq> tail q
     then Some (slots q ! head q, q\<lparr>head := (head q + 1) mod SHIM_QUEUE_SIZE\<rparr>) else None)"

section \<open>poll and read\<close>

record pollfd =
  poll_fd :: int
  poll_events :: u16
  poll_revents :: u16

abbreviation (input) POLLIN :: u16 where "POLLIN \<equiv> 1"

text \<open>\<open>readlink\<close> of the descriptor's entry, at most 127 bytes.\<close>

definition is_touch_fd :: "(int \<Rightarrow> string option) \<Rightarrow> int \<Rightarrow> ps_state \<Rightarrow> bool \<times> ps_state" where
  "is_touch_fd link fd s =
     (if fd < 0 then (False, s)
      else if fd = s_touch_fd s then (True, s)
      else if s_touch_fd s \<ge> 0 then (False, s)
      else case link fd of
        Some l \<Rightarrow> if l \<noteq> [] \<and> strstr (take 127 l) ''event1'' then (True, s\<lparr>s_touch_fd := fd\<rparr>) else (False, s)
      | None \<Rightarrow> (False, s))"

definition wants_touch :: "ps_state \<Rightarrow> pollfd \<Rightarrow> bool" where
  "wants_touch s f \<longleftrightarrow> poll_fd f = s_touch_fd s \<and> poll_events f AND POLLIN \<noteq> 0"

definition shim_poll ::
  "(pollfd list \<Rightarrow> int \<Rightarrow> int \<times> pollfd list) \<Rightarrow> pollfd list \<Rightarrow> int \<Rightarrow> ps_state \<Rightarrow> int \<times> pollfd list" where
  "shim_poll real_poll fds timeout s =
     (if s_touch_fd s \<ge> 0 \<and> head (s_queue s) \<noteq> tail (s_queue s) then
        let fds' = map (\<lambda>f. f\<lparr>poll_revents := if wants_touch s f then POLLIN else 0\<rparr>) fds;
            found = length (filter (wants_touch s) fds)
        in if found > 0 then (int found, fds') else real_poll fds' timeout
      else real_poll fds timeout)"

definition enqueue_frame :: "u32 \<Rightarrow> u32 \<Rightarrow> int \<Rightarrow> ps_state \<Rightarrow> ps_state" where
  "enqueue_frame sec usec major s =
     (let ev = (\<lambda>t c v. enqueue_event \<lparr>pe_sec = sec, pe_usec = usec, pe_type = t, pe_code = c, pe_value = v\<rparr>);
          q = s_queue s;
          q = ev EV_ABS ABS_MT_TRACKING_ID (s_tracking_id s) q;
          q = ev EV_ABS ABS_MT_POSITION_X (s_last_x s) q;
          q = ev EV_ABS ABS_MT_POSITION_Y (s_last_y s) q;
          q = ev EV_ABS ABS_MT_TOUCH_MAJOR major q;
          q = ev EV_SYN SYN_REPORT 0 q
      in s\<lparr>s_queue := q\<rparr>)"

definition raw_event :: "plato_input_event \<Rightarrow> ps_state \<Rightarrow> ps_state" where
  "raw_event r s =
     (if pe_type r = EV_ABS then
        if pe_code r = ABS_MT_TRACKING_ID then
          if pe_value r \<ge> 0 then s\<lparr>s_tracking_id := pe_value r\<rparr> else s
        else if pe_code r = ABS_MT_POSITION_X then s\<lparr>s_last_x := pe_value r\<rparr>
        else if pe_code r = ABS_MT_POSITION_Y then s\<lparr>s_last_y := pe_value r\<rparr>
        else s
      else if pe_type r = EV_KEY then
        if pe_code r = BTN_TOUCH then s\<lparr>s_new_down := (pe_value r \<noteq> 0)\<rparr> else s
      else if pe_type r = EV_SYN \<and> pe_code r = SYN_REPORT then
        if \<not> s_is_down s \<and> s_new_down s then
          enqueue_frame (pe_sec r) (pe_usec r) 100 (s\<lparr>s_is_down := True\<rparr>)
        else if s_is_down s \<and> s_new_down s then
          enqueue_frame (pe_sec r) (pe_usec r) 100 s
        else if s_is_down s \<and> \<not> s_new_down s then
          enqueue_frame (pe_sec r) (pe_usec r) 0 (s\<lparr>s_is_down := False\<rparr>)
        else s
      else s)"

text \<open>One result of \<open>real_read\<close>: the byte count, and the 16 structures of \<^verbatim>\<open>raw\<close> after it.\<close>

type_synonym raw_read = "int \<times> plato_input_event list"

definition raw_batch :: "raw_read \<Rightarrow> plato_input_event list" where
  "raw_batch r = take (nat (fst r div 16)) (snd r)"

text \<open>
  The loop that reads until the ring holds an event. \<open>None\<close>: the caller is still blocked
  in \<open>real_read\<close> when the given results are used up.
\<close>

fun fill_queue :: "raw_read list \<Rightarrow> ps_state \<Rightarrow> (int option \<times> raw_read list \<times> ps_state) option" where
  "fill_queue rs s =
     (if head (s_queue s) = tail (s_queue s) then
        (case rs of [] \<Rightarrow> None
         | r # rs' \<Rightarrow> if fst r \<le> 0 then Some (Some (fst r), rs', s)
                      else fill_queue rs' (fold raw_event (raw_batch r) s))
      else Some (None, rs, s))"

declare fill_queue.simps [simp del]

fun copy_out :: "nat \<Rightarrow> plato_input_event ring \<Rightarrow> plato_input_event list \<times> plato_input_event ring" where
  "copy_out 0 q = ([], q)"
| "copy_out (Suc n) q = (case take_event q of None \<Rightarrow> ([], q)
     | Some (e, q) \<Rightarrow> let (es, q) = copy_out n q in (e # es, q))"

datatype read_result =
    ReadTouch int "plato_input_event list"
  | ReadReal

definition shim_read ::
  "(int \<Rightarrow> string option) \<Rightarrow> raw_read list \<Rightarrow> int \<Rightarrow> nat \<Rightarrow> ps_state
    \<Rightarrow> (read_result \<times> raw_read list \<times> ps_state) option" where
  "shim_read link rs fd count s =
     (let (touch, s) = is_touch_fd link fd s in
      if \<not> touch then Some (ReadReal, rs, s)
      else case fill_queue rs s of
        None \<Rightarrow> None
      | Some (Some n, rs, s) \<Rightarrow> Some (ReadTouch n [], rs, s)
      | Some (None, rs, s) \<Rightarrow>
          let (out, q) = copy_out (count div 16) (s_queue s)
          in Some (ReadTouch (int (length out) * 16) out, rs, s\<lparr>s_queue := q\<rparr>))"

section \<open>The ring keeps the newest events\<close>

abbreviation pq_inv :: "plato_input_event ring \<Rightarrow> bool" where
  "pq_inv \<equiv> ring_inv SHIM_QUEUE_SIZE"

abbreviation pq_contents :: "plato_input_event ring \<Rightarrow> plato_input_event list" where
  "pq_contents \<equiv> ring_contents SHIM_QUEUE_SIZE"

lemma enqueue_event_ring:
  "enqueue_event e q = ring_store SHIM_QUEUE_SIZE e
     (if (tail q + 1) mod SHIM_QUEUE_SIZE = head q then ring_advance SHIM_QUEUE_SIZE q else q)"
  by (simp add: enqueue_event_def ring_store_def ring_advance_def Let_def)

lemma take_event_ring:
  "take_event q = (if head q \<noteq> tail q then Some (slots q ! head q, ring_advance SHIM_QUEUE_SIZE q) else None)"
  by (simp add: take_event_def ring_advance_def)

interpretation pq: overwriting_queue "127" enqueue_event take_event pq_contents pq_inv
proof unfold_locales
  fix q q' :: "plato_input_event ring" and x
  assume inv: "pq_inv q"
  show "take_event q = None \<longleftrightarrow> pq_contents q = []"
    using ring_empty_iff [OF inv] by (auto simp: take_event_ring)
  show "pq_contents q = x # pq_contents q' \<and> pq_inv q'" if "take_event q = Some (x, q')"
    using that ring_advance_contents [OF inv] ring_advance_inv [OF inv]
    by (auto simp: take_event_ring split: if_splits)
  show "pq_contents (enqueue_event x q) = pq_contents q @ [x]" if "length (pq_contents q) < 127"
    using that ring_store_contents [OF inv, of x] ring_full_iff [OF inv]
    by (simp add: enqueue_event_ring)
  show "pq_inv (enqueue_event x q)"
    by (simp add: enqueue_event_ring ring_store_inv ring_advance_inv inv)
  show "length (pq_contents q) \<le> 127"
    using ring_count_less [OF inv] by simp
  show "pq_contents (enqueue_event x q) = tl (pq_contents q) @ [x]" if "length (pq_contents q) = 127"
    using that ring_advance_store [OF inv, of x] ring_full_iff [OF inv]
    by (simp add: enqueue_event_ring)
qed simp

lemma copy_out_contents:
  "pq_inv q \<Longrightarrow> copy_out n q = (es, q') \<Longrightarrow>
     es = take n (pq_contents q) \<and> pq_contents q' = drop n (pq_contents q) \<and> pq_inv q'"
proof -
  assume inv: "pq_inv q" and out: "copy_out n q = (es, q')"
  have "copy_out n q = pq.drain n q" for n q
    by (induction n arbitrary: q) (auto simp: pq.drain.simps split: option.splits prod.splits)
  with pq.drain_contents [OF inv] out show ?thesis by simp
qed

section \<open>What the touch translation promises\<close>

text \<open>
  The contact as the raw events describe it, and the frame that a report produces; this is
  the reference the ring, the loops and the partial copies are compared with.
\<close>

record contact =
  c_down :: bool
  c_new :: bool
  c_id :: int
  c_x :: int
  c_y :: int

definition contact_of :: "ps_state \<Rightarrow> contact" where
  "contact_of s = \<lparr>c_down = s_is_down s, c_new = s_new_down s, c_id = s_tracking_id s,
     c_x = s_last_x s, c_y = s_last_y s\<rparr>"

definition frame :: "u32 \<Rightarrow> u32 \<Rightarrow> contact \<Rightarrow> int \<Rightarrow> plato_input_event list" where
  "frame sec usec c major = map (\<lambda>(t, code, v). \<lparr>pe_sec = sec, pe_usec = usec, pe_type = t, pe_code = code, pe_value = v\<rparr>)
     [(EV_ABS, ABS_MT_TRACKING_ID, c_id c), (EV_ABS, ABS_MT_POSITION_X, c_x c),
      (EV_ABS, ABS_MT_POSITION_Y, c_y c), (EV_ABS, ABS_MT_TOUCH_MAJOR, major), (EV_SYN, SYN_REPORT, 0)]"

definition contact_next :: "plato_input_event \<Rightarrow> contact \<Rightarrow> contact" where
  "contact_next r c =
     (if (pe_type r, pe_code r) = (EV_ABS, ABS_MT_TRACKING_ID) \<and> pe_value r \<ge> 0 then c\<lparr>c_id := pe_value r\<rparr>
      else if (pe_type r, pe_code r) = (EV_ABS, ABS_MT_POSITION_X) then c\<lparr>c_x := pe_value r\<rparr>
      else if (pe_type r, pe_code r) = (EV_ABS, ABS_MT_POSITION_Y) then c\<lparr>c_y := pe_value r\<rparr>
      else if (pe_type r, pe_code r) = (EV_KEY, BTN_TOUCH) then c\<lparr>c_new := pe_value r \<noteq> 0\<rparr>
      else if (pe_type r, pe_code r) = (EV_SYN, SYN_REPORT) then c\<lparr>c_down := c_new c\<rparr>
      else c)"

definition contact_out :: "plato_input_event \<Rightarrow> contact \<Rightarrow> plato_input_event list" where
  "contact_out r c =
     (if (pe_type r, pe_code r) = (EV_SYN, SYN_REPORT) \<and> (c_new c \<or> c_down c)
      then frame (pe_sec r) (pe_usec r) c (if c_new c then 100 else 0) else [])"

fun translate :: "plato_input_event list \<Rightarrow> contact \<Rightarrow> plato_input_event list" where
  "translate [] c = []"
| "translate (r # rs) c = contact_out r c @ translate rs (contact_next r c)"

lemma length_contact_out: "length (contact_out r c) \<le> 5"
  by (simp add: contact_out_def frame_def)

lemma translate_append: "translate (rs @ rs') c = translate rs c @ translate rs' (fold contact_next rs c)"
  by (induction rs arbitrary: c) auto

lemma enqueue_frame_fold:
  "enqueue_frame sec usec major s = s\<lparr>s_queue := fold enqueue_event (frame sec usec (contact_of s) major) (s_queue s)\<rparr>"
  by (simp add: enqueue_frame_def frame_def contact_of_def Let_def)

abbreviation pending :: "ps_state \<Rightarrow> plato_input_event list" where
  "pending s \<equiv> pq_contents (s_queue s)"

lemma raw_event_queue:
  "s_queue (raw_event r s) = fold enqueue_event (contact_out r (contact_of s)) (s_queue s)"
  by (simp add: raw_event_def enqueue_frame_fold contact_out_def frame_def) (simp add: contact_of_def)

lemma raw_event_contact: "contact_of (raw_event r s) = contact_next r (contact_of s)"
  by (auto simp: raw_event_def enqueue_frame_def Let_def contact_next_def contact_of_def)

lemma raw_events_refine:
  "pq_inv (s_queue s) \<Longrightarrow> length (pending s) + 5 * length rs \<le> 127 \<Longrightarrow>
     pending (fold raw_event rs s) = pending s @ translate rs (contact_of s)
     \<and> contact_of (fold raw_event rs s) = fold contact_next rs (contact_of s)
     \<and> pq_inv (s_queue (fold raw_event rs s))"
proof (induction rs arbitrary: s)
  case (Cons r rs)
  let ?o = "contact_out r (contact_of s)"
  have room: "length (pending s) + length ?o \<le> 127"
    using Cons.prems(2) length_contact_out [of r "contact_of s"] by simp
  have step: "pending (raw_event r s) = pending s @ ?o" "pq_inv (s_queue (raw_event r s))"
    using pq.enq_all_room [OF Cons.prems(1) room] by (simp_all add: raw_event_queue)
  have "length (pending (raw_event r s)) + 5 * length rs \<le> 127"
    using Cons.prems(2) length_contact_out [of r "contact_of s"] unfolding step(1) by simp
  from Cons.IH [OF step(2) this] show ?case
    by (simp add: step raw_event_contact del: length_ring_contents)
qed simp

text \<open>The other parts of the state stay as they are.\<close>

lemma raw_event_touch_fd [simp]: "s_touch_fd (raw_event r s) = s_touch_fd s"
  by (simp add: raw_event_def enqueue_frame_def Let_def)

lemma raw_events_touch_fd [simp]: "s_touch_fd (fold raw_event rs s) = s_touch_fd s"
  by (induction rs arbitrary: s) auto

text \<open>What \<open>read\<close> promises of the kernel: at most the 256 bytes asked for.\<close>

definition raw_ok :: "raw_read \<Rightarrow> bool" where
  "raw_ok r \<longleftrightarrow> fst r \<le> 256"

lemma raw_batch_length: "raw_ok r \<Longrightarrow> length (raw_batch r) \<le> 16"
  by (auto simp: raw_ok_def raw_batch_def min_def)

lemma fill_queue_refines:
  assumes "fill_queue rs s = Some (e, rs', s')" and "pq_inv (s_queue s)" and "list_all raw_ok rs"
  shows "\<exists>used. rs = used @ rs' \<and>
     pending s' = pending s @ translate (concat (map raw_batch used)) (contact_of s)
     \<and> contact_of s' = fold contact_next (concat (map raw_batch used)) (contact_of s)
     \<and> pq_inv (s_queue s') \<and> s_touch_fd s' = s_touch_fd s \<and> (e = None \<longrightarrow> pending s' \<noteq> [])
     \<and> (e \<noteq> None \<longrightarrow> pending s' = [])"
  using assms
proof (induction rs s arbitrary: e rs' s' rule: fill_queue.induct)
  case (1 rs s)
  show ?case
  proof (cases "head (s_queue s) = tail (s_queue s)")
    case False
    with 1 have "e = None \<and> rs' = rs \<and> s' = s" by (subst (asm) fill_queue.simps) simp
    with 1 False ring_empty_iff show ?thesis by (intro exI [of _ "[]"]) auto
  next
    case True
    with 1 ring_empty_iff have empty: "pending s = []" by blast
    obtain r qs where rs: "rs = r # qs"
      using 1 True by (cases rs) (auto simp: fill_queue.simps)
    show ?thesis
    proof (cases "fst r \<le> 0")
      case le: True
      with 1 True rs have "e = Some (fst r) \<and> rs' = qs \<and> s' = s" by (simp add: fill_queue.simps [of _ s])
      with 1 rs empty le show ?thesis by (intro exI [of _ "[r]"]) (simp add: raw_batch_def)
    next
      case gt: False
      let ?s = "fold raw_event (raw_batch r) s"
      have ok: "list_all raw_ok qs" and len: "length (raw_batch r) \<le> 16"
        using 1 rs raw_batch_length by auto
      have step: "pending ?s = translate (raw_batch r) (contact_of s)" "pq_inv (s_queue ?s)"
          "contact_of ?s = fold contact_next (raw_batch r) (contact_of s)"
        using raw_events_refine [of s "raw_batch r"] 1 len empty
        by (simp_all del: length_ring_contents)
      have "fill_queue qs ?s = Some (e, rs', s')"
        using 1 True gt rs by (simp add: fill_queue.simps [of _ s])
      from 1(1) [OF True rs gt this step(2) ok] obtain used where
        "qs = used @ rs'"
        "pending s' = pending ?s @ translate (concat (map raw_batch used)) (contact_of ?s)"
        "contact_of s' = fold contact_next (concat (map raw_batch used)) (contact_of ?s)"
        "pq_inv (s_queue s')" "s_touch_fd s' = s_touch_fd s"
        "e = None \<longrightarrow> pending s' \<noteq> []" "e \<noteq> None \<longrightarrow> pending s' = []"
        by (auto simp del: append_is_Nil_conv)
      with rs empty step show ?thesis
        by (intro exI [of _ "r # used"]) (simp add: translate_append)
    qed
  qed
qed

end
