(* ===== verification/Plato_Shim_Props.thy ===== *)
theory Plato_Shim_Props
  imports Plato_Shim
begin

text \<open>
  Properties of the Plato shim: the touch stream, the ioctl translation, the descriptor
  invariant and the log lines.
\<close>

section \<open>The touch stream\<close>

text \<open>
  A client that reads repeatedly on the touch descriptor, with any buffer sizes, until it is
  served all of them or blocks.
\<close>

fun reads :: "int \<Rightarrow> nat list \<Rightarrow> raw_read list \<Rightarrow> ps_state
    \<Rightarrow> plato_input_event list \<times> raw_read list \<times> ps_state" where
  "reads fd [] rs s = ([], rs, s)"
| "reads fd (c # cs) rs s =
     (case shim_read (\<lambda>_. None) rs fd c s of
        None \<Rightarrow> ([], rs, s)
      | Some (ReadReal, rs, s) \<Rightarrow> ([], rs, s)
      | Some (ReadTouch n out, rs, s) \<Rightarrow> let (outs, rs, s) = reads fd cs rs s in (out @ outs, rs, s))"

definition touch_ready :: "int \<Rightarrow> ps_state \<Rightarrow> bool" where
  "touch_ready fd s \<longleftrightarrow> fd \<ge> 0 \<and> s_touch_fd s = fd \<and> pq_inv (s_queue s)"

definition stream_step :: "raw_read list \<Rightarrow> ps_state \<Rightarrow> plato_input_event list \<Rightarrow> ps_state \<Rightarrow> bool" where
  "stream_step used s out s' \<longleftrightarrow>
     out @ pending s' = pending s @ translate (concat (map raw_batch used)) (contact_of s)
     \<and> contact_of s' = fold contact_next (concat (map raw_batch used)) (contact_of s)"

lemma stream_step_trans:
  "stream_step u s out s' \<Longrightarrow> stream_step u' s' out' s'' \<Longrightarrow> stream_step (u @ u') s (out @ out') s''"
  unfolding stream_step_def by (metis append.assoc concat_append fold_append comp_apply map_append translate_append)

lemma is_touch_fd_ready: "touch_ready fd s \<Longrightarrow> is_touch_fd link fd s = (True, s)"
  by (simp add: is_touch_fd_def touch_ready_def)

lemma shim_read_stream:
  assumes ready: "touch_ready fd s" and ok: "list_all raw_ok rs"
    and rd: "shim_read link rs fd c s = Some (res, rs', s')"
  obtains n out used where "res = ReadTouch n out" "rs = used @ rs'" "stream_step used s out s'" "touch_ready fd s'"
proof -
  obtain e rs1 s1 where fill: "fill_queue rs s = Some (e, rs1, s1)"
    using rd by (auto simp: shim_read_def is_touch_fd_ready [OF ready] split: option.splits)
  from fill_queue_refines [OF fill _ ok] ready obtain used where
    u: "rs = used @ rs1" "pending s1 = pending s @ translate (concat (map raw_batch used)) (contact_of s)"
       "contact_of s1 = fold contact_next (concat (map raw_batch used)) (contact_of s)" "touch_ready fd s1"
    by (auto simp: touch_ready_def)
  show ?thesis
  proof (cases e)
    case (Some n)
    with rd fill have "res = ReadTouch n [] \<and> rs' = rs1 \<and> s' = s1"
      by (simp add: shim_read_def is_touch_fd_ready [OF ready])
    with u show ?thesis by (intro that [of n "[]" used]) (auto simp: stream_step_def)
  next
    case None
    obtain out q where q: "copy_out (c div 16) (s_queue s1) = (out, q)" by fastforce
    have q': "out = take (c div 16) (pending s1)" "pq_contents q = drop (c div 16) (pending s1)" "pq_inv q"
      using copy_out_contents [OF _ q] u(4) by (auto simp: touch_ready_def)
    have s': "res = ReadTouch (int (length out) * 16) out \<and> rs' = rs1 \<and> s' = s1\<lparr>s_queue := q\<rparr>"
      using rd fill None q by (simp add: shim_read_def is_touch_fd_ready [OF ready])
    then have "contact_of s' = contact_of s1" by (simp add: contact_of_def)
    moreover have "out @ pending s' = pending s1" using s' q' by simp
    ultimately show ?thesis
      using s' u(1,3,4) q'(3) unfolding u(2)
      by (intro that [of "int (length out) * 16" out used]) (auto simp: stream_step_def touch_ready_def)
  qed
qed

lemma reads_stream:
  assumes "touch_ready fd s" and "list_all raw_ok rs" and "reads fd cs rs s = (out, rs', s')"
  shows "\<exists>used. rs = used @ rs' \<and> stream_step used s out s' \<and> touch_ready fd s'"
  using assms
proof (induction cs arbitrary: rs s out)
  case Nil
  then show ?case by (intro exI [of _ "[]"]) (simp add: stream_step_def)
next
  case (Cons c cs)
  show ?case
  proof (cases "shim_read (\<lambda>_. None) rs fd c s")
    case None
    with Cons.prems show ?thesis by (intro exI [of _ "[]"]) (simp add: stream_step_def)
  next
    case (Some p)
    obtain res rs1 s1 where p: "p = (res, rs1, s1)" by (cases p)
    from shim_read_stream [OF Cons.prems(1,2)] Some p obtain n o1 used where
      r: "res = ReadTouch n o1" "rs = used @ rs1" "stream_step used s o1 s1" "touch_ready fd s1"
      by metis
    obtain o2 where o2: "reads fd cs rs1 s1 = (o2, rs', s')" "out = o1 @ o2"
      using Cons.prems(3) Some p r(1) by (auto split: prod.splits)
    from Cons.IH [OF r(4) _ o2(1)] r(2) Cons.prems(2) obtain used' where
      "rs1 = used' @ rs'" "stream_step used' s1 o2 s'" "touch_ready fd s'"
      by auto
    with r o2 stream_step_trans show ?thesis by (intro exI [of _ "used @ used'"]) auto
  qed
qed

text \<open>
  C4. The reads of the touch device lose, repeat and reorder nothing: whatever buffer sizes
  the client reads with, what it has received followed by what is still in the ring is what
  was in the ring before followed by the translation of the raw events consumed from the
  kernel. In particular the ring, which overwrites its oldest entry when full, never
  overflows.
\<close>
theorem plato_read_stream:
  assumes "touch_ready fd s" and "list_all raw_ok rs" and "reads fd cs rs s = (out, rs', s')"
  shows "\<exists>used. rs = used @ rs' \<and>
     out @ pending s' = pending s @ translate (concat (map raw_batch used)) (contact_of s)
     \<and> touch_ready fd s'"
  using reads_stream [OF assms] by (auto simp: stream_step_def)

definition tap_batch :: raw_read where
  "tap_batch = (64, map (\<lambda>(t, c, v). \<lparr>pe_sec = 7, pe_usec = 9, pe_type = t, pe_code = c, pe_value = v\<rparr>)
     [(EV_ABS, ABS_MT_POSITION_X, 30), (EV_ABS, ABS_MT_POSITION_Y, 40), (EV_KEY, BTN_TOUCH, 1), (EV_SYN, SYN_REPORT, 0)])"

definition tap_state :: ps_state where
  "tap_state = ps_init\<lparr>s_touch_fd := 5\<rparr>"

text \<open>A touch at (30, 40), read with room for three events and then for one.\<close>

theorem plato_read_stream_witness:
  "\<exists>used. [tap_batch] = used @ fst (snd (reads 5 [48, 16] [tap_batch] tap_state))
     \<and> fst (reads 5 [48, 16] [tap_batch] tap_state) @ pending (snd (snd (reads 5 [48, 16] [tap_batch] tap_state)))
       = pending tap_state @ translate (concat (map raw_batch used)) (contact_of tap_state)
     \<and> touch_ready 5 (snd (snd (reads 5 [48, 16] [tap_batch] tap_state)))"
  by (rule plato_read_stream [of 5 tap_state "[tap_batch]" "[48, 16]"])
    (simp_all add: touch_ready_def tap_state_def tap_batch_def ps_init_def ring_inv_def raw_ok_def del: reads.simps)

section \<open>Frames\<close>

text \<open>
  A well-formed stream: frames of five events in a fixed order with one time stamp, where a
  release (touch size 0) comes only while a contact is down.
\<close>

fun frame_run :: "bool \<Rightarrow> plato_input_event list \<Rightarrow> bool" where
  "frame_run down [] = True"
| "frame_run down (a # b # c # d # e # es) =
     (map (\<lambda>v. (pe_type v, pe_code v)) [a, b, c, d, e]
        = [(EV_ABS, ABS_MT_TRACKING_ID), (EV_ABS, ABS_MT_POSITION_X), (EV_ABS, ABS_MT_POSITION_Y),
           (EV_ABS, ABS_MT_TOUCH_MAJOR), (EV_SYN, SYN_REPORT)]
      \<and> list_all (\<lambda>v. pe_sec v = pe_sec a \<and> pe_usec v = pe_usec a) [b, c, d, e]
      \<and> (pe_value d = 100 \<and> frame_run True es \<or> pe_value d = 0 \<and> down \<and> frame_run False es))"
| "frame_run down _ = False"

lemma frame_run_translate: "frame_run (c_down c) (translate rs c)"
proof (induction rs arbitrary: c)
  case (Cons r rs)
  from Cons.IH [of "contact_next r c"] show ?case
    by (auto simp: contact_out_def contact_next_def frame_def split: if_splits)
qed simp

text \<open>
  C34. From a touch device with no contact and nothing pending, everything Plato reads,
  however it cuts its reads, is a run of complete frames: tracking id, x, y, touch size and
  report, with one time stamp per frame, and a release is only reported after a press.
\<close>
theorem plato_frames_well_formed:
  assumes "touch_ready fd s" and "list_all raw_ok rs" and "reads fd cs rs s = (out, rs', s')"
    and "pending s = []" and "\<not> s_is_down s"
  shows "frame_run False (out @ pending s')"
proof -
  from reads_stream [OF assms(1-3)] obtain used where
    "out @ pending s' = translate (concat (map raw_batch used)) (contact_of s)"
    using assms(4) by (auto simp: stream_step_def)
  moreover have "c_down (contact_of s) = False" using assms(5) by (simp add: contact_of_def)
  ultimately show ?thesis using frame_run_translate by metis
qed

lemma tap_state_ready: "touch_ready 5 tap_state" "pending tap_state = []" "\<not> s_is_down tap_state"
  by (simp_all add: touch_ready_def tap_state_def ps_init_def ring_inv_def ring_contents_def ring_count_def)

theorem plato_frames_well_formed_witness:
  "frame_run False (fst (reads 5 [48, 16] [tap_batch] tap_state)
      @ pending (snd (snd (reads 5 [48, 16] [tap_batch] tap_state))))"
  by (rule plato_frames_well_formed [of 5 tap_state "[tap_batch]" "[48, 16]" _
        "fst (snd (reads 5 [48, 16] [tap_batch] tap_state))"])
    (simp_all add: tap_state_ready raw_ok_def tap_batch_def del: reads.simps)

section \<open>poll and read agree\<close>

text \<open>
  C38. As long as translated events are pending, \<open>poll\<close> on the touch descriptor answers at
  once with the number of entries that asked for input, marks exactly these, and does not
  consult the kernel; the \<open>read\<close> that follows returns at least one event without a call of
  the kernel's \<open>read\<close>, so no pending event waits for the next touch.
\<close>
theorem plato_poll_then_read:
  assumes "touch_ready fd s" and "pending s \<noteq> []" and "\<exists>f \<in> set fds. wants_touch s f" and "16 \<le> count"
  shows "shim_poll real_poll fds timeout s =
           (int (length (filter (wants_touch s) fds)),
            map (\<lambda>f. f\<lparr>poll_revents := if wants_touch s f then POLLIN else 0\<rparr>) fds)
    \<and> (\<exists>s'. shim_read link rs fd count s =
          Some (ReadTouch (16 * int (min (count div 16) (length (pending s)))) (take (count div 16) (pending s)), rs, s')
        \<and> pending s' = drop (count div 16) (pending s))
    \<and> take (count div 16) (pending s) \<noteq> []"
proof -
  have inv: "pq_inv (s_queue s)" and fd: "s_touch_fd s = fd" "fd \<ge> 0"
    using assms(1) by (auto simp: touch_ready_def)
  have ne: "head (s_queue s) \<noteq> tail (s_queue s)"
    using ring_empty_iff [OF inv] assms(2) by blast
  have "filter (wants_touch s) fds \<noteq> []" using assms(3) by (auto simp: filter_empty_conv)
  then have poll: "shim_poll real_poll fds timeout s = (int (length (filter (wants_touch s) fds)),
      map (\<lambda>f. f\<lparr>poll_revents := if wants_touch s f then POLLIN else 0\<rparr>) fds)"
    using ne fd by (simp add: shim_poll_def Let_def)
  obtain out q where q: "copy_out (count div 16) (s_queue s) = (out, q)" by fastforce
  have out: "out = take (count div 16) (pending s)" "pq_contents q = drop (count div 16) (pending s)"
    using copy_out_contents [OF inv q] by auto
  have "fill_queue rs s = Some (None, rs, s)" using ne by (simp add: fill_queue.simps)
  then have "shim_read link rs fd count s
      = Some (ReadTouch (int (length out) * 16) out, rs, s\<lparr>s_queue := q\<rparr>)"
    using q by (simp add: shim_read_def is_touch_fd_ready [OF assms(1)])
  moreover have "take (count div 16) (pending s) \<noteq> []" using assms(2,4) by auto
  ultimately show ?thesis
    using poll out by (auto simp: min.commute mult.commute)
qed

definition held_state :: ps_state where
  "held_state = tap_state\<lparr>s_queue := \<lparr>slots = replicate SHIM_QUEUE_SIZE zero_event, head = 126, tail = 2\<rparr>\<rparr>"

lemma held_state_ready: "touch_ready 5 held_state" "length (pending held_state) = 4"
  by (simp_all add: touch_ready_def held_state_def tap_state_def ps_init_def ring_inv_def ring_count_def)

theorem plato_poll_then_read_witness:
  "shim_poll (\<lambda>f t. (0, f)) [\<lparr>poll_fd = 5, poll_events = 1, poll_revents = 0\<rparr>] 100 held_state
     = (1, [\<lparr>poll_fd = 5, poll_events = 1, poll_revents = 1\<rparr>])"
proof -
  have "\<exists>f \<in> set [\<lparr>poll_fd = 5, poll_events = 1, poll_revents = 0\<rparr>]. wants_touch held_state f"
    by (simp add: wants_touch_def held_state_def tap_state_def)
  moreover have "pending held_state \<noteq> []" using held_state_ready(2) by fastforce
  ultimately have "shim_poll (\<lambda>f t. (0, f)) [\<lparr>poll_fd = 5, poll_events = 1, poll_revents = 0\<rparr>] 100 held_state =
      (int (length (filter (wants_touch held_state) [\<lparr>poll_fd = 5, poll_events = 1, poll_revents = 0\<rparr>])),
       map (\<lambda>f. f\<lparr>poll_revents := if wants_touch held_state f then POLLIN else 0\<rparr>)
         [\<lparr>poll_fd = 5, poll_events = 1, poll_revents = 0\<rparr>])"
    using plato_poll_then_read [OF held_state_ready(1), where count = 16] by blast
  then show ?thesis by (simp add: wants_touch_def held_state_def tap_state_def)
qed

section \<open>The descriptor invariant\<close>

text \<open>Any call of an intercepted function, with any behaviour of the functions behind it.\<close>

inductive ps_step :: "ps_state \<Rightarrow> ps_state \<Rightarrow> bool" where
  ps_ctor: "ps_step s (init_shim logfile s)"
| ps_ioctl: "ioctl k logfile fd c s = (r, c', s') \<Longrightarrow> ps_step s s'"
| ps_open: "shim_open ro ro64 path fl mode s = Some (r, s') \<Longrightarrow> ps_step s s'"
| ps_open64: "shim_open64 ro ro64 path fl mode s = Some (r, s') \<Longrightarrow> ps_step s s'"
| ps_close: "shim_close rc fd s = (r, s') \<Longrightarrow> ps_step s s'"
| ps_read: "shim_read link rs fd count s = Some (r, rs', s') \<Longrightarrow> ps_step s s'"

inductive ps_reachable :: "ps_state \<Rightarrow> bool" where
  start: "ps_reachable ps_init"
| step: "ps_reachable s \<Longrightarrow> ps_step s s' \<Longrightarrow> ps_reachable s'"

text \<open>The part of the state that the touch translation owns.\<close>

definition touch_part :: "ps_state \<Rightarrow> int \<times> plato_input_event ring \<times> contact" where
  "touch_part s = (s_touch_fd s, s_queue s, contact_of s)"

definition ps_inv :: "ps_state \<Rightarrow> bool" where
  "ps_inv s \<longleftrightarrow> pq_inv (s_queue s) \<and> -1 \<le> s_touch_fd s
     \<and> (s_touch_fd s < 0 \<longrightarrow> head (s_queue s) = tail (s_queue s) \<and> \<not> s_is_down s \<and> \<not> s_new_down s)"

lemma ps_inv_touch_part: "touch_part s' = touch_part s \<Longrightarrow> ps_inv s' = ps_inv s"
  by (auto simp: ps_inv_def touch_part_def contact_of_def)

lemma log_touch_part [simp]:
  "touch_part (ps_do e s) = touch_part s" "touch_part (log_init f s) = touch_part s"
  "touch_part (lb_flush f l s) = touch_part s" "touch_part (log_msg f m s) = touch_part s"
  "touch_part (log_if f l s) = touch_part s" "touch_part (init_shim f s) = touch_part s"
  by (simp_all add: touch_part_def contact_of_def ps_do_def log_init_def lb_flush_def log_msg_def log_if_def init_shim_def Let_def)

lemma real_ioctl_touch_part: "real_ioctl k fd c s = (r, c', s') \<Longrightarrow> touch_part s' = touch_part s"
  by (auto simp: real_ioctl_def split: prod.splits)

lemma ioctl_touch_part: "ioctl k f fd c s = (r, c', s') \<Longrightarrow> touch_part s' = touch_part s"
  by (cases c)
    (auto simp: ioctl_def Let_def dest: real_ioctl_touch_part
       split: prod.splits option.splits ioctl_call.splits if_splits)

lemma reset_touch_inv: "ps_inv s \<Longrightarrow> -1 \<le> fd \<Longrightarrow> ps_inv (reset_touch fd s)"
  by (simp add: ps_inv_def reset_touch_def ring_inv_def)

lemma open_with_touch_part: "open_with a b p fl m s = (r, s') \<Longrightarrow> touch_part s' = touch_part s"
  by (auto simp: open_with_def call_open_def split: option.splits)

lemma handle_open_inv:
  assumes inv: "ps_inv s" and res: "handle_open a b p fl m w s = Some (r, s')"
  shows "ps_inv s'"
proof -
  let ?als = "strstr p ''als_vis_data''"
  obtain fd s1 where als: "(if ?als then open_with a b ''/tmp/als_vis_data'' (O_RDWR OR O_CREAT) 0x1B6 s else (-1, s)) = (fd, s1)"
    by fastforce
  obtain ret s2 where op: "open_with (if w then b else a) (if w then a else b) p fl m s1 = (ret, s2)"
    by fastforce
  have t1: "touch_part s1 = touch_part s"
    using als open_with_touch_part by (auto split: if_splits)
  with op open_with_touch_part have t2: "touch_part s2 = touch_part s" by metis
  then have inv2: "ps_inv s2" using inv ps_inv_touch_part by blast
  consider "touch_part s' = touch_part s1" | "touch_part s' = touch_part s2"
    | "ret \<ge> 0" "s' = (reset_touch ret s2)\<lparr>s_tracking_id := 0, s_last_x := 0, s_last_y := 0\<rparr>"
    using res unfolding handle_open_def Let_def als op prod.case
    by (auto simp: call_open_def split: if_splits option.splits)
  then show ?thesis
  proof cases
    case 3
    with reset_touch_inv [OF inv2, of ret] show ?thesis by (simp add: ps_inv_def)
  qed (use inv t1 t2 ps_inv_touch_part in metis)+
qed

lemma raw_events_inv: "pq_inv (s_queue s) \<Longrightarrow> pq_inv (s_queue (fold raw_event rs s))"
  by (rule fold_keeps [where I = "\<lambda>s. pq_inv (s_queue s)"]) (simp_all add: raw_event_queue pq.enq_all_invar)

lemma fill_queue_inv:
  "fill_queue rs s = Some (e, rs', s') \<Longrightarrow> pq_inv (s_queue s) \<Longrightarrow>
     pq_inv (s_queue s') \<and> s_touch_fd s' = s_touch_fd s"
proof (induction rs arbitrary: s)
  case Nil
  then show ?case by (auto simp: fill_queue.simps split: if_splits)
next
  case (Cons r rs)
  show ?case
  proof (cases "head (s_queue s) = tail (s_queue s) \<and> 0 < fst r")
    case True
    with Cons.prems have "fill_queue rs (fold raw_event (raw_batch r) s) = Some (e, rs', s')"
      by (simp add: fill_queue.simps [of "r # rs"])
    from Cons.IH [OF this] Cons.prems(2) show ?thesis by (simp add: raw_events_inv)
  next
    case False
    with Cons.prems show ?thesis
      by (auto simp: fill_queue.simps [of "r # rs"] split: if_splits)
  qed
qed

lemma is_touch_fd_inv:
  assumes "ps_inv s" and "is_touch_fd link fd s = (b, s')"
  shows "ps_inv s'" and "b \<Longrightarrow> 0 \<le> s_touch_fd s'"
  using assms by (auto simp: is_touch_fd_def ps_inv_def split: if_splits option.splits)

lemma shim_read_inv:
  assumes inv: "ps_inv s" and rd: "shim_read link rs fd count s = Some (r, rs', s')"
  shows "ps_inv s'"
proof -
  obtain b s1 where t: "is_touch_fd link fd s = (b, s1)" by fastforce
  note t_inv = is_touch_fd_inv [OF inv t]
  show ?thesis
  proof (cases b)
    case False
    with rd t t_inv show ?thesis by (simp add: shim_read_def)
  next
    case True
    then obtain e rs2 s2 where fill: "fill_queue rs s1 = Some (e, rs2, s2)"
      using rd t by (auto simp: shim_read_def split: option.splits)
    have fd: "pq_inv (s_queue s2)" "0 \<le> s_touch_fd s2"
      using fill_queue_inv [OF fill] t_inv True by (auto simp: ps_inv_def)
    obtain out q where q: "copy_out (count div 16) (s_queue s2) = (out, q)" by fastforce
    then have "pq_inv q" using copy_out_contents [OF fd(1)] by blast
    with True fd rd t fill q show ?thesis
      by (auto simp: shim_read_def ps_inv_def split: option.splits)
  qed
qed

lemma ps_step_inv: "ps_step s s' \<Longrightarrow> ps_inv s \<Longrightarrow> ps_inv s'"
proof (induction rule: ps_step.induct)
  case (ps_ctor s f)
  then show ?case using ps_inv_touch_part [OF log_touch_part(6)] by blast
next
  case (ps_ioctl k f fd c s r c' s')
  then show ?case using ps_inv_touch_part [OF ioctl_touch_part] by blast
next
  case (ps_close rc fd s r s')
  then have "touch_part s' = touch_part (if fd = s_touch_fd s then reset_touch (-1) s else s)"
    by (auto simp: shim_close_def Let_def)
  with ps_close ps_inv_touch_part reset_touch_inv show ?case by (metis order_refl)
qed (auto simp: shim_open_def shim_open64_def dest: handle_open_inv shim_read_inv)

lemma ps_init_inv: "ps_inv ps_init"
  by (simp add: ps_inv_def ps_init_def ring_inv_def)

text \<open>
  C36. Through any sequence of intercepted calls, whatever the kernel answers, the ring
  indices stay inside the array, and while no touch descriptor is open nothing is pending
  and no contact is down: a device that is closed leaves nothing behind for the next one.
\<close>
theorem plato_descriptor_invariant:
  assumes "ps_reachable s"
  shows "ps_inv s \<and> (s_touch_fd s = -1 \<longrightarrow> pending s = [] \<and> \<not> c_down (contact_of s))"
proof -
  have "ps_inv s"
    using assms by (induction rule: ps_reachable.induct) (simp_all add: ps_init_inv ps_step_inv)
  then show ?thesis
    by (auto simp: ps_inv_def contact_of_def ring_empty_iff)
qed

theorem plato_descriptor_invariant_witness:
  "ps_inv (init_shim 3 ps_init) \<and> pending (init_shim 3 ps_init) = []"
proof -
  have "ps_reachable (init_shim 3 ps_init)" by (rule ps_reachable.step [OF ps_reachable.start ps_ctor])
  moreover have "s_touch_fd (init_shim 3 ps_init) = -1"
    using log_touch_part(6) [of 3 ps_init] by (simp add: touch_part_def) (simp add: ps_init_def)
  ultimately show ?thesis using plato_descriptor_invariant by blast
qed

section \<open>ioctl translation\<close>

lemma log_if_trace [simp]: "s_trace (log_if f l s) = s_trace s"
  by (simp add: log_if_def lb_flush_def log_init_def Let_def)

text \<open>
  An update request in the layout of the newer kernel or in Plato's own layout reaches
  this kernel as exactly one request of its own layout, on the same descriptor and with every
  field that layout has carried over; a wait carries the marker it was given, 0 without one;
  the caller gets the kernel's return value and finds its structure unchanged. A grab of an
  input device never reaches the kernel and is reported as done.
\<close>
theorem plato_ioctl_translation:
  "(let v1 = \<lparr>update_region = v2_update_region v2, waveform_mode = v2_waveform_mode v2,
        update_mode = v2_update_mode v2, update_marker = v2_update_marker v2, temp = v2_temp v2,
        flags = v2_flags v2, alt_buffer_data = v2_alt_buffer_data v2\<rparr>;
        (ret, c, s') = ioctl k logfile fd (SendUpdateV2 v2) s
    in ret = fst (k (s_trace s) fd (SendUpdateV1 v1)) \<and> c = SendUpdateV2 v2
       \<and> s_trace s' = s_trace s @ [KernelIoctl fd (SendUpdateV1 v1)])
   \<and> (let a = pv_alt_buffer_data pv1;
        v1 = \<lparr>update_region = pv_update_region pv1, waveform_mode = pv_waveform_mode pv1,
          update_mode = pv_update_mode pv1, update_marker = pv_update_marker pv1, temp = pv_temp pv1,
          flags = pv_flags pv1, alt_buffer_data = \<lparr>phys_addr = pa_phys_addr a, alt_width = pa_width a,
            alt_height = pa_height a, alt_update_region = pa_alt_update_region a\<rparr>\<rparr>;
        (ret, c, s') = ioctl k logfile fd (SendUpdatePlatoV1 pv1) s
      in ret = fst (k (s_trace s) fd (SendUpdateV1 v1)) \<and> c = SendUpdatePlatoV1 pv1
         \<and> s_trace s' = s_trace s @ [KernelIoctl fd (SendUpdateV1 v1)])
   \<and> (let md = \<lparr>md_update_marker = (case m of None \<Rightarrow> 0 | Some m \<Rightarrow> m), md_collision_test = 0\<rparr>;
        (ret, c, s') = ioctl k logfile fd (WaitV2 m) s
      in ret = fst (k (s_trace s) fd (WaitV1 md)) \<and> c = WaitV2 m
         \<and> s_trace s' = s_trace s @ [KernelIoctl fd (WaitV1 md)])
   \<and> ioctl k logfile fd (EviocGrab g) s = (0, EviocGrab g, s)"
proof -
  have v2: "v1_of_v2 v2 = \<lparr>update_region = v2_update_region v2, waveform_mode = v2_waveform_mode v2,
      update_mode = v2_update_mode v2, update_marker = v2_update_marker v2, temp = v2_temp v2,
      flags = v2_flags v2, alt_buffer_data = v2_alt_buffer_data v2\<rparr>"
    by (simp add: v1_of_v2_def upd_zero_def)
  have pv: "v1_of_plato pv1 = \<lparr>update_region = pv_update_region pv1, waveform_mode = pv_waveform_mode pv1,
      update_mode = pv_update_mode pv1, update_marker = pv_update_marker pv1, temp = pv_temp pv1,
      flags = pv_flags pv1, alt_buffer_data = \<lparr>phys_addr = pa_phys_addr (pv_alt_buffer_data pv1),
        alt_width = pa_width (pv_alt_buffer_data pv1), alt_height = pa_height (pv_alt_buffer_data pv1),
        alt_update_region = pa_alt_update_region (pv_alt_buffer_data pv1)\<rparr>\<rparr>"
    by (simp add: v1_of_plato_def upd_zero_def)
  show ?thesis
    by (auto simp: ioctl_def real_ioctl_def ps_do_def v2 [symmetric] pv [symmetric] Let_def split: prod.splits)
qed

lemma turn_turn: "var_rotate var < 4 \<Longrightarrow> turn (turn var) = var"
proof -
  assume "var_rotate var < 4"
  then have "unat (var_rotate var) < 4" by (simp add: word_less_nat_alt)
  then have "unat (var_rotate var) \<in> {0, 1, 2, 3}" by auto
  then have "var_rotate var \<in> {0, 1, 2, 3}" by (auto simp: word_unat_eq_iff)
  then show ?thesis by (auto simp: turn_def)
qed

text \<open>
  The rotation survives the half turn: with a driver that keeps the mode it is given
  and reports it back, the value Plato sets (0 to 3) is turned by 180 degrees on its way to
  the panel, Plato's own structure is unchanged after the call, and a later query returns
  exactly what Plato set.
\<close>
theorem plato_rotation_round_trip:
  assumes rot: "var_rotate var < 4"
    and put: "k (s_trace s) fd (PutVar (Some (turn var))) = (ret, PutVar (Some (turn var)))"
    and get: "\<And>w. k (s_trace s @ [KernelIoctl fd (PutVar (Some (turn var)))]) fd (GetVar (Some w)) = (0, GetVar (Some (turn var)))"
  shows "\<exists>s' s''. ioctl k logfile fd (PutVar (Some var)) s = (ret, PutVar (Some var), s')
     \<and> s_trace s' = s_trace s @ [KernelIoctl fd (PutVar (Some (var\<lparr>var_rotate := (var_rotate var + 2) mod 4\<rparr>)))]
     \<and> ioctl k logfile fd (GetVar (Some w)) s' = (0, GetVar (Some var), s'')"
  using put get [of w] by (simp add: ioctl_def real_ioctl_def ps_do_def Let_def turn_turn [OF rot])
    (simp add: turn_def)

definition demo_var :: fb_var_screeninfo where
  "demo_var = \<lparr>var_xres = 1404, var_yres = 1872, var_xres_virtual = 1408, var_yres_virtual = 3840,
     var_xoffset = 0, var_yoffset = 0, var_bits_per_pixel = 16, var_vmode = 0, var_rotate = 3, var_rest = []\<rparr>"

text \<open>A driver with one mode register: it stores what is put and reports the last value put.\<close>

fun last_put :: "ps_effect list \<Rightarrow> fb_var_screeninfo option" where
  "last_put [] = None"
| "last_put (KernelIoctl fd (PutVar (Some v)) # t) = (case last_put t of None \<Rightarrow> Some v | Some w \<Rightarrow> Some w)"
| "last_put (_ # t) = last_put t"

definition demo_kernel :: kernel where
  "demo_kernel tr fd c = (case c of GetVar (Some w) \<Rightarrow> (0, GetVar (last_put tr)) | _ \<Rightarrow> (0, c))"

theorem plato_rotation_round_trip_witness:
  "\<exists>s' s''. ioctl demo_kernel (-1) 4 (PutVar (Some demo_var)) ps_init = (0, PutVar (Some demo_var), s')
     \<and> s_trace s' = s_trace ps_init @ [KernelIoctl 4 (PutVar (Some (demo_var\<lparr>var_rotate := (var_rotate demo_var + 2) mod 4\<rparr>)))]
     \<and> ioctl demo_kernel (-1) 4 (GetVar (Some demo_var)) s' = (0, GetVar (Some demo_var), s'')"
  by (rule plato_rotation_round_trip) (simp_all add: demo_var_def demo_kernel_def ps_init_def)

section \<open>Log lines\<close>

lemma nth_swap:
  "i < length t \<Longrightarrow> j < length t \<Longrightarrow> k < length t \<Longrightarrow>
     t[i := t ! j, j := t ! i] ! k = t ! (if k = i then j else if k = j then i else k)"
  by (auto simp: nth_list_update)

lemma swap_index:
  assumes "Suc k \<le> n div 2" and "j < (n :: nat)"
  shows "(let i = if j = k then n - 1 - k else if j = n - 1 - k then k else j
          in if i < k \<or> n - k \<le> i then n - 1 - i else i)
    = (if j < Suc k \<or> n - Suc k \<le> j then n - 1 - j else j)"
  using assms unfolding Let_def by (auto split: if_splits)

lemma swap_ends_upto:
  assumes "k \<le> length t div 2"
  defines "r \<equiv> fold (\<lambda>i t'. t'[i := t' ! (length t - 1 - i), length t - 1 - i := t' ! i]) [0..<k] t"
  shows "length r = length t \<and>
     (\<forall>j < length t. r ! j = t ! (if j < k \<or> length t - k \<le> j then length t - 1 - j else j))"
  using assms(1) unfolding r_def
proof (induction k)
  case (Suc k)
  let ?f = "\<lambda>i t'. t'[i := t' ! (length t - 1 - i), length t - 1 - i := t' ! i]"
  let ?r = "fold ?f [0..<k] t"
  have IH: "length ?r = length t"
      "\<forall>j < length t. ?r ! j = t ! (if j < k \<or> length t - k \<le> j then length t - 1 - j else j)"
    using Suc by simp_all
  have bd: "k < length t" "length t - 1 - k < length t" using Suc.prems by auto
  have "fold ?f [0..<Suc k] t = ?f k ?r" by simp
  moreover have "?f k ?r ! j = t ! (if j < Suc k \<or> length t - Suc k \<le> j then length t - 1 - j else j)"
    if "j < length t" for j
  proof -
    let ?i = "if j = k then length t - 1 - k else if j = length t - 1 - k then k else j"
    have "?f k ?r ! j = ?r ! ?i"
      using nth_swap [of k ?r "length t - 1 - k" j] IH(1) bd that by simp
    also have "\<dots> = t ! (if ?i < k \<or> length t - k \<le> ?i then length t - 1 - ?i else ?i)"
      using IH(2) bd that by (cases "j = k"; cases "j = length t - 1 - k") simp_all
    also have "(if ?i < k \<or> length t - k \<le> ?i then length t - 1 - ?i else ?i)
        = (if j < Suc k \<or> length t - Suc k \<le> j then length t - 1 - j else j)"
      using swap_index [OF Suc.prems that] by (simp only: Let_def)
    finally show ?thesis .
  qed
  ultimately show ?case using IH(1) by simp
qed simp

lemma swap_ends_rev: "swap_ends (length t) t = rev t"
proof (rule nth_equalityI)
  note u = swap_ends_upto [of "length t div 2" t, folded swap_ends_def, OF order_refl]
  show "length (swap_ends (length t) t) = length (rev t)" using u by simp
  fix j assume "j < length (swap_ends (length t) t)"
  then have j: "j < length t" using u by simp
  have "j = length t - 1 - j" if "\<not> j < length t div 2" "\<not> length t - length t div 2 \<le> j"
    using that j by linarith
  with u j show "swap_ends (length t) t ! j = rev t ! j" by (auto simp: rev_nth)
qed

definition dec_value :: "string \<Rightarrow> nat" where
  "dec_value s = foldl (\<lambda>a c. 10 * a + (of_char c - 48)) 0 s"

definition is_digit :: "char \<Rightarrow> bool" where
  "is_digit c \<longleftrightarrow> (of_char c :: nat) \<in> {48..57}"

lemma of_char_digit: "of_char (char_of (48 + d mod 10 :: nat)) = (48 + d mod 10 :: nat)"
  by (simp add: of_char_of)

lemma dec_digits_value:
  "dec_value (rev (dec_digits v)) = v \<and> list_all is_digit (dec_digits v)
   \<and> (v < 10 ^ n \<longrightarrow> length (dec_digits v) \<le> n)"
proof (induction v arbitrary: n rule: dec_digits.induct)
  case (1 v)
  show ?case
  proof (cases "v = 0")
    case True
    then show ?thesis by (simp add: dec_digits.simps dec_value_def)
  next
    case False
    have "length (dec_digits v) \<le> n" if "v < 10 ^ n"
    proof (cases n)
      case 0
      with that False show ?thesis by simp
    next
      case (Suc m)
      with that have "v div 10 < 10 ^ m" by (simp add: less_mult_imp_div_less mult.commute)
      with 1 False Suc show ?thesis by (simp add: dec_digits.simps [of v])
    qed
    moreover have "dec_value (rev (dec_digits v)) = v" "list_all is_digit (dec_digits v)"
      using 1 False of_char_digit [of v]
      by (simp_all add: dec_digits.simps [of v] dec_value_def) (simp add: is_digit_def)
    ultimately show ?thesis by blast
  qed
qed

lemma lb_u_text_dec: "lb_u_text v False = (if v = 0 then ''0'' else rev (dec_digits (unat v)))"
  by (simp add: lb_u_text_def swap_ends_rev Let_def)

lemma dec_digits_last: "v \<noteq> 0 \<Longrightarrow> dec_digits v \<noteq> [] \<and> last (dec_digits v) \<noteq> CHR ''0''"
proof (induction v rule: dec_digits.induct)
  case (1 v)
  show ?case
  proof (cases "v div 10 = 0")
    case True
    then have "v mod 10 = v" "v < 10" by auto
    then have "of_char (char_of (48 + v mod 10)) \<noteq> (of_char (CHR ''0'') :: nat)"
      using 1(2) of_char_digit [of v] by simp
    then have "char_of (48 + v mod 10) \<noteq> CHR ''0''" by metis
    with True 1(2) show ?thesis by (simp add: dec_digits.simps [of v] dec_digits.simps [of 0])
  next
    case False
    with 1 show ?thesis by (simp add: dec_digits.simps [of v])
  qed
qed

text \<open>
  A number is logged in decimal correctly: at most ten digits, no leading zero except
  for zero itself, and reading the digits back gives the number, for every 32-bit value.
\<close>
theorem plato_log_decimal:
  "dec_value (lb_u_text v False) = unat v
   \<and> list_all is_digit (lb_u_text v False)
   \<and> 0 < length (lb_u_text v False) \<and> length (lb_u_text v False) \<le> 10
   \<and> (hd (lb_u_text v False) = CHR ''0'' \<longleftrightarrow> v = 0)"
proof (cases "v = 0")
  case True
  then show ?thesis by (simp add: lb_u_text_dec dec_value_def is_digit_def)
next
  case False
  have "unat v < 10 ^ 10" using unsigned_less [of v, where ?'a = nat] by simp
  then have "length (dec_digits (unat v)) \<le> 10" using dec_digits_value by blast
  with False dec_digits_value [of "unat v"] dec_digits_last [of "unat v"] show ?thesis
    by (auto simp: lb_u_text_dec hd_rev unat_eq_zero)
qed

lemma lb_str_room: "length l + length s \<le> 384 \<Longrightarrow> lb_str s l = l @ s"
  by (simp add: lb_str_def)

lemma hex_loop_length: "length (hex_loop v b is) \<le> length is"
  by (induction v b "is" rule: hex_loop.induct) (auto simp: Let_def)

lemma lb_u_text_length: "length (lb_u_text v hexa) \<le> 10"
proof (cases hexa)
  case True
  then show ?thesis
    using hex_loop_length [of v False "[28, 24, 20, 16, 12, 8, 4, 0]"] by (simp add: lb_u_text_def)
next
  case False
  have "unat v < 10 ^ 10" using unsigned_less [of v, where ?'a = nat] by simp
  with dec_digits_value False show ?thesis by (simp add: lb_u_text_dec)
qed

lemma lb_u_room: "length l \<le> 374 \<Longrightarrow> lb_u v hexa l = l @ lb_u_text v hexa"
  using lb_u_text_length [of v hexa] by (simp add: lb_u_def)

text \<open>
  A line as a list of pieces, each at most \<open>n\<close> long; as long as the sum fits the buffer the
  line is their concatenation.
\<close>

definition rect_text :: "mxcfb_rect \<Rightarrow> string" where
  "rect_text r = lb_u_text (rect_top r) False @ '','' @ lb_u_text (rect_left r) False @ '','' @
     lb_u_text (rect_width r) False @ ''x'' @ lb_u_text (rect_height r) False @ '' ''"

definition update_text :: "mxcfb_update_data_v1 \<Rightarrow> string" where
  "update_text v1 = '' dst='' @ rect_text (update_region v1) @ ''wf='' @ lb_u_text (waveform_mode v1) False @
     '' mode='' @ lb_u_text (update_mode v1) False @ '' flags='' @ lb_u_text (flags v1) True @
     '' marker='' @ lb_u_text (update_marker v1) False"

definition int_text :: "int \<Rightarrow> string" where
  "int_text v = (if v < 0 then ''-'' @ lb_u_text (word_of_int (- v)) False else lb_u_text (word_of_int v) False)"

lemma rect_text_length: "length (rect_text r) \<le> 44"
  using lb_u_text_length [of "rect_top r" False] lb_u_text_length [of "rect_left r" False]
    lb_u_text_length [of "rect_width r" False] lb_u_text_length [of "rect_height r" False]
  by (simp add: rect_text_def)

lemma update_text_length: "length (update_text v1) \<le> 113"
  using lb_u_text_length [of "waveform_mode v1" False] lb_u_text_length [of "update_mode v1" False]
    lb_u_text_length [of "flags v1" True] lb_u_text_length [of "update_marker v1" False]
    rect_text_length [of "update_region v1"]
  by (simp add: update_text_def)

lemma int_text_length: "length (int_text v) \<le> 11"
  using lb_u_text_length [of "word_of_int v" False] lb_u_text_length [of "word_of_int (- v)" False]
  by (simp add: int_text_def)

lemma log_rect_room:
  assumes "length l + length tag \<le> 330"
  shows "log_rect tag r l = l @ tag @ rect_text r"
  using assms lb_u_text_length [of "rect_top r" False] lb_u_text_length [of "rect_left r" False]
    lb_u_text_length [of "rect_width r" False] lb_u_text_length [of "rect_height r" False]
  by (simp add: log_rect_def lb_str_room lb_u_room rect_text_def Let_def)

lemma log_update_room:
  assumes "length tag = 4"
  shows "log_update tag v1 [] = tag @ update_text v1"
  using assms lb_u_text_length [of "waveform_mode v1" False] lb_u_text_length [of "update_mode v1" False]
    lb_u_text_length [of "flags v1" True] rect_text_length [of "update_region v1"]
  by (simp add: log_update_def log_rect_room lb_str_room lb_u_room update_text_def Let_def)

lemma lb_i_room: "length l \<le> 370 \<Longrightarrow> lb_i v l = l @ int_text v"
  by (simp add: lb_i_def int_text_def lb_str_room lb_u_room)

text \<open>
  No update is ever missing from the log or cut: for every request of Plato's layout
  and every return value the line holds all its fields in order, fits the buffer of 384 bytes
  and is written, with its line end, whenever a log file is open.
\<close>
theorem plato_log_line_complete:
  assumes "0 \<le> s_logfd s"
  shows "let pv1_alt = pv_alt_buffer_data pv1;
             line = ''SUP '' @ update_text v1 @ ''alt='' @ rect_text (pa_alt_update_region pv1_alt) @
               ''altw='' @ lb_u_text (pa_width pv1_alt) False @ '' alth='' @ lb_u_text (pa_height pv1_alt) False @
               '' altpa='' @ lb_u_text (pa_phys_addr pv1_alt) True @ '' virt='' @ lb_u_text (pa_virt_addr pv1_alt) True @
               '' -> '' @ int_text ret
         in log_plato_v1 v1 pv1 ret = line
            \<and> s_log (log_if logfile (log_plato_v1 v1 pv1 ret) s) = s_log s @ [line @ [CHR 0x0A]]"
proof -
  define a where "a = pv_alt_buffer_data pv1"
  note len = lb_u_text_length [of "pa_width a" False] lb_u_text_length [of "pa_height a" False]
    lb_u_text_length [of "pa_phys_addr a" True] lb_u_text_length [of "pa_virt_addr a" True]
    rect_text_length [of "pa_alt_update_region a"] update_text_length [of v1] int_text_length [of ret]
  have line: "log_plato_v1 v1 pv1 ret = ''SUP '' @ update_text v1 @ ''alt='' @ rect_text (pa_alt_update_region a) @
      ''altw='' @ lb_u_text (pa_width a) False @ '' alth='' @ lb_u_text (pa_height a) False @
      '' altpa='' @ lb_u_text (pa_phys_addr a) True @ '' virt='' @ lb_u_text (pa_virt_addr a) True @
      '' -> '' @ int_text ret"
    using len by (simp add: log_plato_v1_def log_update_room log_rect_room lb_str_room lb_u_room lb_i_room a_def Let_def)
  moreover have "length (log_plato_v1 v1 pv1 ret) + 1 < 384"
    unfolding line using len by simp
  ultimately show ?thesis
    using assms by (simp add: log_if_def lb_flush_def log_init_def a_def Let_def)
qed

definition demo_pv1 :: mxcfb_update_data_plato_v1 where
  "demo_pv1 = \<lparr>pv_update_region = rect_zero, pv_waveform_mode = 2, pv_update_mode = 1, pv_update_marker = 77,
     pv_temp = 0, pv_flags = 0, pv_alt_buffer_data =
       \<lparr>pa_virt_addr = 1, pa_phys_addr = 2, pa_width = 3, pa_height = 4, pa_alt_update_region = rect_zero\<rparr>\<rparr>"

theorem plato_log_line_complete_witness:
  "s_log (log_if 3 (log_plato_v1 (v1_of_plato demo_pv1) demo_pv1 (-1)) (ps_init\<lparr>s_logfd := 3\<rparr>))
     = [log_plato_v1 (v1_of_plato demo_pv1) demo_pv1 (-1) @ [CHR 0x0A]]"
proof -
  have fd: "0 \<le> s_logfd (ps_init\<lparr>s_logfd := 3\<rparr>)" by simp
  obtain line where "log_plato_v1 (v1_of_plato demo_pv1) demo_pv1 (-1) = line"
    and "s_log (log_if 3 (log_plato_v1 (v1_of_plato demo_pv1) demo_pv1 (-1)) (ps_init\<lparr>s_logfd := 3\<rparr>))
      = s_log (ps_init\<lparr>s_logfd := 3\<rparr>) @ [line @ [CHR 0x0A]]"
    using plato_log_line_complete [OF fd, of demo_pv1 "v1_of_plato demo_pv1" "-1" 3]
    unfolding Let_def by blast
  then show ?thesis by (simp add: ps_init_def)
qed

text \<open>
  Hexadecimal digits from ten on are printed as the letters k to p instead of a to f
  (the code adds the digit to \<open>'a'\<close> without subtracting ten), so every flag word or address
  with such a digit is unreadable in the log: 0x1F is logged as 0x1p.
\<close>
theorem plato_log_hex_letters:
  "map hex_char [10..<16] = ''klmnop'' \<and> lb_u_text 0x1F True = ''0x1p''
   \<and> map hex_char [0..<10] = ''0123456789'' \<and> lb_u_text 0x4000 True = ''0x4000''"
  by code_simp

end
