(* ===== verification/Sdl_Screen.thy ===== *)
theory Sdl_Screen
  imports Framebuffer
begin

text \<open>
  The drawing side of \<^verbatim>\<open>components/netsurf/src/sdl_fb0_shim.c\<close>: UTF-8 decoding, text, the
  URL bar, the layouts of the on-screen keyboard and its picture. The functions here act on
  the pixels; the test of \<^verbatim>\<open>fb_mem\<close> that each of them makes in the source is made by the
  callers in \<open>Sdl_Shim\<close>, once for a sequence of drawing calls.
\<close>

section \<open>UTF-8\<close>

text \<open>
  A pointer into a string is the memory it points to: the bytes of the string, the NUL, and
  whatever follows. The decoder trusts the first byte of a character and steps over the
  bytes it announces without looking for the NUL among them.
\<close>

abbreviation byte_at :: "char list \<Rightarrow> nat \<Rightarrow> u32" where
  "byte_at p k \<equiv> (if k < length p then of_char (p ! k) else 0)"

definition utf8_next :: "char list \<Rightarrow> (u32 \<times> char list) option" where
  "utf8_next p =
     (let c = byte_at p 0 in
      if c = 0 then None
      else if c < 0x80 then Some (c, drop 1 p)
      else if c AND 0xE0 = 0xC0 then
        Some (push_bit 6 (c AND 0x1F) OR (byte_at p 1 AND 0x3F), drop 2 p)
      else if c AND 0xF0 = 0xE0 then
        Some (push_bit 12 (c AND 0x0F) OR push_bit 6 (byte_at p 1 AND 0x3F) OR (byte_at p 2 AND 0x3F), drop 3 p)
      else Some (c, drop 1 p))"

lemma utf8_next_shorter: "utf8_next p = Some (cp, p') \<Longrightarrow> length p' < length p"
  by (auto simp: utf8_next_def Let_def split: if_splits)

function utf8_codes :: "char list \<Rightarrow> u32 list" where
  "utf8_codes p = (case utf8_next p of None \<Rightarrow> [] | Some (cp, p') \<Rightarrow> cp # utf8_codes p')"
  by pat_completeness auto

termination utf8_codes
  by (relation "measure length") (auto dest: utf8_next_shorter)

declare utf8_codes.simps [simp del]

definition utf8_string_len :: "char list \<Rightarrow> int" where
  "utf8_string_len p = int (length (utf8_codes p))"

text \<open>The encoding that a typed character gets before it is appended to the URL.\<close>

definition utf8_encode :: "u32 \<Rightarrow> string" where
  "utf8_encode cp =
     (if cp < 128 then [char_of (unat cp)]
      else if cp < 0x800 then [char_of (unat (0xC0 OR drop_bit 6 cp)), char_of (unat (0x80 OR (cp AND 0x3F)))]
      else [])"

section \<open>Text\<close>

definition glyph_for :: "u32 \<Rightarrow> nat list" where
  "glyph_for cp =
     (if cp \<ge> 32 \<and> cp \<le> 126 then font8x16 ! unat (cp - 32)
      else case get_cyrillic_font_index cp of
        Some i \<Rightarrow> font8x16_cyrillic ! i
      | None \<Rightarrow> font8x16 ! (63 - 32))"

definition fb_draw_utf8_char :: "int \<Rightarrow> int \<Rightarrow> u32 \<Rightarrow> int \<Rightarrow> u16 \<Rightarrow> u16 \<Rightarrow> fbmem \<Rightarrow> fbmem" where
  "fb_draw_utf8_char x y cp scale fg bg = draw_glyph x y (glyph_for cp) scale fg bg"

fun draw_codes :: "int \<Rightarrow> int \<Rightarrow> u32 list \<Rightarrow> int \<Rightarrow> u16 \<Rightarrow> u16 \<Rightarrow> fbmem \<Rightarrow> fbmem" where
  "draw_codes cx y [] scale fg bg m = m"
| "draw_codes cx y (cp # cps) scale fg bg m =
     draw_codes (cx + 8 * scale) y cps scale fg bg (fb_draw_utf8_char cx y cp scale fg bg m)"

definition fb_draw_utf8_string :: "int \<Rightarrow> int \<Rightarrow> char list \<Rightarrow> int \<Rightarrow> u16 \<Rightarrow> u16 \<Rightarrow> fbmem \<Rightarrow> fbmem" where
  "fb_draw_utf8_string x y p scale fg bg = draw_codes x y (utf8_codes p) scale fg bg"

definition fb_draw_utf8_string_centered ::
  "int \<Rightarrow> int \<Rightarrow> int \<Rightarrow> int \<Rightarrow> char list \<Rightarrow> int \<Rightarrow> u16 \<Rightarrow> u16 \<Rightarrow> fbmem \<Rightarrow> fbmem" where
  "fb_draw_utf8_string_centered box_x box_y box_w box_h p scale fg bg =
     (let str_w = utf8_string_len p * 8 * scale;
          str_h = 16 * scale;
          cx = box_x + c_div (box_w - str_w) 2;
          cy = box_y + c_div (box_h - str_h) 2
      in fb_draw_utf8_string cx cy p scale fg bg)"

abbreviation (input) COLOR_WHITE :: u16 where "COLOR_WHITE \<equiv> 0xFFFF"
abbreviation (input) COLOR_BLACK :: u16 where "COLOR_BLACK \<equiv> 0"
abbreviation (input) COLOR_BG :: u16 where "COLOR_BG \<equiv> 0xEF7D"
abbreviation (input) COLOR_KEY_BG :: u16 where "COLOR_KEY_BG \<equiv> 0xFFFF"
abbreviation (input) COLOR_SPECIAL_BG :: u16 where "COLOR_SPECIAL_BG \<equiv> 0xDEFB"
abbreviation (input) OSK_Y :: int where "OSK_Y \<equiv> 1272"
abbreviation (input) OSK_H :: int where "OSK_H \<equiv> 600"
abbreviation (input) OSK_W :: int where "OSK_W \<equiv> 1404"

section \<open>The URL bar\<close>

definition bytes :: "nat list \<Rightarrow> string" where
  "bytes ns = map char_of ns"

text \<open>\<open>junk\<close> is what the stack holds behind the buffers of these functions.\<close>

definition display_buf :: "char list \<Rightarrow> string \<Rightarrow> char list" where
  "display_buf junk url =
     (let b = snprintf_str 80 (''URL: '' @ url) in
      if length b > 64 then take 61 b @ ''...'' @ nul # drop 65 b @ nul # junk
      else b @ nul # junk)"

definition draw_url_bar_overlay :: "char list \<Rightarrow> string \<Rightarrow> fbmem \<Rightarrow> fbmem" where
  "draw_url_bar_overlay junk url = draws
     [draw_rect 145 6 1175 58 COLOR_WHITE,
      draw_rect_outline 145 6 1175 58 2 COLOR_BLACK,
      fb_draw_utf8_string 160 19 (display_buf junk url) 2 COLOR_BLACK COLOR_WHITE]"

text \<open>The text of the preview, with its colour.\<close>

definition preview_text :: "char list \<Rightarrow> bool \<Rightarrow> int \<Rightarrow> string \<Rightarrow> char list \<times> u16" where
  "preview_text junk url_bar_focused lang url =
     (if \<not> url_bar_focused \<or> url = [] then
        (if \<not> url_bar_focused
         then (if lang = 0 then ''Tap keys to type in the page field...''
               else bytes [0xD0, 0x92, 0xD0, 0xB2, 0xD0, 0xB5, 0xD0, 0xB4, 0xD0, 0xB8, 0xD1, 0x82, 0xD0, 0xB5, 0x20,
                     0xD1, 0x82, 0xD0, 0xB5, 0xD0, 0xBA, 0xD1, 0x81, 0xD1, 0x82, 0x20, 0xD0, 0xB2, 0x20, 0xD0, 0xBF,
                     0xD0, 0xBE, 0xD0, 0xBB, 0xD0, 0xB5, 0x20, 0xD1, 0x81, 0xD1, 0x82, 0xD1, 0x80, 0xD0, 0xB0, 0xD0,
                     0xBD, 0xD0, 0xB8, 0xD1, 0x86, 0xD1, 0x8B, 0x2E, 0x2E, 0x2E])
         else (if lang = 0 then ''Tap keys to type URL / Search query...''
               else bytes [0xD0, 0x92, 0xD0, 0xB2, 0xD0, 0xB5, 0xD0, 0xB4, 0xD0, 0xB8, 0xD1, 0x82, 0xD0, 0xB5, 0x20,
                     0xD0, 0xB0, 0xD0, 0xB4, 0xD1, 0x80, 0xD0, 0xB5, 0xD1, 0x81, 0x20, 0xD0, 0xB8, 0xD0, 0xBB, 0xD0,
                     0xB8, 0x20, 0xD0, 0xBF, 0xD0, 0xBE, 0xD0, 0xB8, 0xD1, 0x81, 0xD0, 0xBA, 0xD0, 0xBE, 0xD0, 0xB2,
                     0xD1, 0x8B, 0xD0, 0xB9, 0x20, 0xD0, 0xB7, 0xD0, 0xB0, 0xD0, 0xBF, 0xD1, 0x80, 0xD0, 0xBE, 0xD1,
                     0x81, 0x2E, 0x2E, 0x2E]), COLOR_SPECIAL_BG)
      else
        let osk_buf = snprintf_str 128 url in
        if length osk_buf > 58 then (drop (length osk_buf - 58) osk_buf @ nul # junk, COLOR_BLACK)
        else (osk_buf @ nul # junk, COLOR_BLACK))"

definition draw_osk_input_preview :: "char list \<Rightarrow> bool \<Rightarrow> int \<Rightarrow> string \<Rightarrow> fbmem \<Rightarrow> fbmem" where
  "draw_osk_input_preview junk url_bar_focused lang url =
     (let (text, fg) = preview_text junk url_bar_focused lang url in draws
        [draw_rect 202 1275 1000 46 COLOR_WHITE,
         draw_rect_outline 202 1275 1000 46 2 COLOR_BLACK,
         fb_draw_utf8_string 216 1282 text 2 fg COLOR_WHITE])"

section \<open>The keyboard layouts\<close>

datatype KeyAction =
    ACT_CHAR | ACT_BACKSPACE | ACT_ENTER | ACT_SPACE | ACT_SHIFT
  | ACT_SYMBOLS | ACT_LANG | ACT_HIDE | ACT_CLEAR | ACT_DOTCOM

record OSKKey =
  key_x :: int
  key_y :: int
  key_w :: int
  key_h :: int
  normal_label :: string
  shift_label :: string
  sym_label :: string
  action :: KeyAction
  key_sym :: int
  unicode_norm :: u32
  unicode_shift :: u32
  unicode_sym :: u32
  key_bg :: u16
  key_fg :: u16

text \<open>A key that types nothing, or the one character of its main label.\<close>

definition special_key :: "int \<Rightarrow> int \<Rightarrow> int \<Rightarrow> int \<Rightarrow> string \<Rightarrow> string \<Rightarrow> string \<Rightarrow> KeyAction \<Rightarrow> OSKKey" where
  "special_key x y w h nl sl yl act =
     \<lparr>key_x = x, key_y = y, key_w = w, key_h = h, normal_label = nl, shift_label = sl, sym_label = yl,
      action = act, key_sym = 0, unicode_norm = 0, unicode_shift = 0, unicode_sym = 0,
      key_bg = COLOR_SPECIAL_BG, key_fg = COLOR_BLACK\<rparr>"

definition char_key ::
  "int \<Rightarrow> int \<Rightarrow> int \<Rightarrow> int \<Rightarrow> string \<times> string \<times> string \<Rightarrow> u32 \<times> u32 \<times> u32 \<Rightarrow> OSKKey" where
  "char_key x y w h = (\<lambda>(nl, sl, yl) (n, s, ys).
     \<lparr>key_x = x, key_y = y, key_w = w, key_h = h, normal_label = nl, shift_label = sl, sym_label = yl,
      action = ACT_CHAR, key_sym = uint n, unicode_norm = n, unicode_shift = s, unicode_sym = ys,
      key_bg = COLOR_KEY_BG, key_fg = COLOR_BLACK\<rparr>)"

text \<open>A row of character keys: the \<open>i\<close>-th starts at \<open>x0 + i * dx\<close>.\<close>

definition key_row ::
  "int \<Rightarrow> int \<Rightarrow> int \<Rightarrow> int \<Rightarrow> int \<Rightarrow> ((string \<times> string \<times> string) \<times> u32 \<times> u32 \<times> u32) list \<Rightarrow> OSKKey list" where
  "key_row x0 dx y w h ks =
     map (\<lambda>(i, ls, cs). char_key (x0 + int i * dx) y w h ls cs) (zip [0..<length ks] ks)"

definition ascii_keys :: "string list \<Rightarrow> string list \<Rightarrow> string list
    \<Rightarrow> ((string \<times> string \<times> string) \<times> u32 \<times> u32 \<times> u32) list" where
  "ascii_keys ns ss ys =
     map (\<lambda>(n, s, y). ((n, s, y), of_char (hd n), of_char (hd s), of_char (hd y))) (zip ns (zip ss ys))"

definition ru_keys :: "string list \<Rightarrow> string list \<Rightarrow> u32 list \<Rightarrow> u32 list
    \<Rightarrow> ((string \<times> string \<times> string) \<times> u32 \<times> u32 \<times> u32) list" where
  "ru_keys ns ss cn cs =
     map (\<lambda>(n, s, a, b). ((n, s, n), a, b, a)) (zip ns (zip ss (zip cn cs)))"

definition header_keys :: "OSKKey list" where
  "header_keys =
     [special_key 12 1275 180 46 ''Hide Kbd'' ''Hide Kbd'' ''Hide Kbd'' ACT_HIDE,
      special_key 1212 1275 180 46 ''Clear'' ''Clear'' ''Clear'' ACT_CLEAR]"

definition backspace_key :: OSKKey where
  "backspace_key = (special_key 1172 1328 220 98 ''Backsp'' ''Backsp'' ''Backsp'' ACT_BACKSPACE)
     \<lparr>key_sym := 8, unicode_norm := 8\<rparr>"

definition bottom_row :: "string \<Rightarrow> string \<Rightarrow> string \<Rightarrow> string \<Rightarrow> string \<Rightarrow> OSKKey list" where
  "bottom_row abc lang space dotcom enter =
     [special_key 12 1744 170 104 ''?123'' ''?123'' abc ACT_SYMBOLS,
      special_key 190 1744 140 104 lang lang lang ACT_LANG,
      (special_key 338 1744 540 104 space space space ACT_SPACE)
        \<lparr>key_sym := 32, unicode_norm := 32, key_bg := COLOR_KEY_BG\<rparr>,
      special_key 886 1744 190 104 dotcom dotcom dotcom ACT_DOTCOM,
      (special_key 1084 1744 308 104 enter enter enter ACT_ENTER)\<lparr>key_sym := 13, unicode_norm := 13\<rparr>]"

definition english_layout :: "OSKKey list" where
  "english_layout =
     key_row 12 116 1328 110 98 (ascii_keys
      [''1'', ''2'', ''3'', ''4'', ''5'', ''6'', ''7'', ''8'', ''9'', ''0'']
      [''!'', ''@'', ''#'', ''$'', ''%'', ''^'', ''&'', ''*'', ''('', '')'']
      [''['', '']'', ''{'', ''}'', ''#'', ''%'', ''^'', ''*'', ''+'', ''=''])
     @ [backspace_key] @
     key_row 12 138 1432 130 98 (ascii_keys
      [''q'', ''w'', ''e'', ''r'', ''t'', ''y'', ''u'', ''i'', ''o'', ''p'']
      [''Q'', ''W'', ''E'', ''R'', ''T'', ''Y'', ''U'', ''I'', ''O'', ''P'']
      [''~'', ''-'', ''_'', ''='', ''+'', [CHR 0x5C], ''|'', ''<'', ''>'', ''/'']) @
     key_row 80 138 1536 130 98 (ascii_keys
      [''a'', ''s'', ''d'', ''f'', ''g'', ''h'', ''j'', ''k'', ''l'']
      [''A'', ''S'', ''D'', ''F'', ''G'', ''H'', ''J'', ''K'', ''L'']
      ['':'', '';'', [CHR 0x22], [CHR 0x27], ''?'', ''!'', ''@'', ''$'', ''&'']) @
     [special_key 12 1640 170 98 ''Shift'' ''SHIFT'' ''Shift'' ACT_SHIFT] @
     key_row 192 134 1640 126 98 (ascii_keys
      [''z'', ''x'', ''c'', ''v'', ''b'', ''n'', ''m'']
      [''Z'', ''X'', ''C'', ''V'', ''B'', ''N'', ''M'']
      [''('', '')'', ''['', '']'', ''{'', ''}'', ''_'']) @
     [char_key 1130 1640 126 98 (''.'', '','', ''.'') (46, 44, 46),
      char_key 1266 1640 126 98 (''/'', ''?'', ''/'') (47, 63, 47)]
     @ bottom_row ''ABC'' ''EN'' ''Space'' ''.com'' ''Go / Enter''"

definition russian_layout :: "OSKKey list" where
  "russian_layout =
     (let ns = [''1'', ''2'', ''3'', ''4'', ''5'', ''6'', ''7'', ''8'', ''9'', ''0'']
      in key_row 12 116 1328 110 98 (ascii_keys ns ns ns))
     @ [backspace_key] @
     key_row 12 125 1432 118 98 (ru_keys
      [bytes [0xD0, 0xB9], bytes [0xD1, 0x86], bytes [0xD1, 0x83], bytes [0xD0, 0xBA], bytes [0xD0, 0xB5],
      bytes [0xD0, 0xBD], bytes [0xD0, 0xB3], bytes [0xD1, 0x88], bytes [0xD1, 0x89], bytes [0xD0, 0xB7],
      bytes [0xD1, 0x85]]
      [bytes [0xD0, 0x99], bytes [0xD0, 0xA6], bytes [0xD0, 0xA3], bytes [0xD0, 0x9A], bytes [0xD0, 0x95],
      bytes [0xD0, 0x9D], bytes [0xD0, 0x93], bytes [0xD0, 0xA8], bytes [0xD0, 0xA9], bytes [0xD0, 0x97],
      bytes [0xD0, 0xA5]]
      [0x0439, 0x0446, 0x0443, 0x043A, 0x0435, 0x043D, 0x0433, 0x0448, 0x0449, 0x0437, 0x0445]
      [0x0419, 0x0426, 0x0423, 0x041A, 0x0415, 0x041D, 0x0413, 0x0428, 0x0429, 0x0417, 0x0425]) @
     key_row 12 125 1536 118 98 (ru_keys
      [bytes [0xD1, 0x84], bytes [0xD1, 0x8B], bytes [0xD0, 0xB2], bytes [0xD0, 0xB0], bytes [0xD0, 0xBF],
      bytes [0xD1, 0x80], bytes [0xD0, 0xBE], bytes [0xD0, 0xBB], bytes [0xD0, 0xB4], bytes [0xD0, 0xB6],
      bytes [0xD1, 0x8D]]
      [bytes [0xD0, 0xA4], bytes [0xD0, 0xAB], bytes [0xD0, 0x92], bytes [0xD0, 0x90], bytes [0xD0, 0x9F],
      bytes [0xD0, 0xA0], bytes [0xD0, 0x9E], bytes [0xD0, 0x9B], bytes [0xD0, 0x94], bytes [0xD0, 0x96],
      bytes [0xD0, 0xAD]]
      [0x0444, 0x044B, 0x0432, 0x0430, 0x043F, 0x0440, 0x043E, 0x043B, 0x0434, 0x0436, 0x044D]
      [0x0424, 0x042B, 0x0412, 0x0410, 0x041F, 0x0420, 0x041E, 0x041B, 0x0414, 0x0416, 0x042D]) @
     [special_key 12 1640 140 98 ''Shift'' ''SHIFT'' ''Shift'' ACT_SHIFT] @
     key_row 160 123 1640 116 98 (ru_keys
      [bytes [0xD1, 0x8F], bytes [0xD1, 0x87], bytes [0xD1, 0x81], bytes [0xD0, 0xBC], bytes [0xD0, 0xB8],
      bytes [0xD1, 0x82], bytes [0xD1, 0x8C], bytes [0xD0, 0xB1], bytes [0xD1, 0x8E], bytes [0xD1, 0x91]]
      [bytes [0xD0, 0xAF], bytes [0xD0, 0xA7], bytes [0xD0, 0xA1], bytes [0xD0, 0x9C], bytes [0xD0, 0x98],
      bytes [0xD0, 0xA2], bytes [0xD0, 0xAC], bytes [0xD0, 0x91], bytes [0xD0, 0xAE], bytes [0xD0, 0x81]]
      [0x044F, 0x0447, 0x0441, 0x043C, 0x0438, 0x0442, 0x044C, 0x0431, 0x044E, 0x0451]
      [0x042F, 0x0427, 0x0421, 0x041C, 0x0418, 0x0422, 0x042C, 0x0411, 0x042E, 0x0401])
     @ bottom_row (bytes [0xD0, 0x90, 0xD0, 0x91, 0xD0, 0x92]) ''RU''
         (bytes [0xD0, 0x9F, 0xD1, 0x80, 0xD0, 0xBE, 0xD0, 0xB1, 0xD0, 0xB5, 0xD0, 0xBB]) ''.ru''
         (bytes [0xD0, 0x92, 0xD0, 0xB2, 0xD0, 0xBE, 0xD0, 0xB4])"

abbreviation (input) MAX_OSK_KEYS :: nat where "MAX_OSK_KEYS \<equiv> 64"

definition build_osk_layout :: "int \<Rightarrow> OSKKey list" where
  "build_osk_layout lang = header_keys @ (if lang = 0 then english_layout else russian_layout)"

section \<open>Drawing the keyboard\<close>

definition key_label :: "bool \<Rightarrow> bool \<Rightarrow> OSKKey \<Rightarrow> string" where
  "key_label shift symbols k =
     (if symbols then sym_label k else if shift then shift_label k else normal_label k)"

definition label_scale :: "string \<Rightarrow> int" where
  "label_scale l = (if length l > 7 then 1 else if length l > 3 then 2 else 3)"

definition draw_osk_key :: "bool \<Rightarrow> bool \<Rightarrow> OSKKey \<Rightarrow> bool \<Rightarrow> fbmem \<Rightarrow> fbmem" where
  "draw_osk_key shift symbols k pressed =
     (let bg = (if pressed then 0 else key_bg k); fg = (if pressed then 0xFFFF else key_fg k);
          label = key_label shift symbols k
      in draws
        [draw_rect (key_x k) (key_y k) (key_w k) (key_h k) bg,
         draw_rect_outline (key_x k) (key_y k) (key_w k) (key_h k) 2 0,
         fb_draw_utf8_string_centered (key_x k) (key_y k) (key_w k) (key_h k) label (label_scale label) fg bg])"

definition draw_osk :: "char list \<Rightarrow> bool \<Rightarrow> int \<Rightarrow> bool \<Rightarrow> bool \<Rightarrow> string \<Rightarrow> fbmem \<Rightarrow> fbmem" where
  "draw_osk junk url_bar_focused lang shift symbols url = draws
     ([draw_rect 0 OSK_Y OSK_W OSK_H COLOR_BG,
       draw_rect 0 OSK_Y OSK_W 3 COLOR_BLACK,
       draw_osk_input_preview junk url_bar_focused lang url]
      @ map (\<lambda>k. draw_osk_key shift symbols k False) (build_osk_layout lang))"

section \<open>Where the drawing goes\<close>

text \<open>
  Text only writes pixels of the panel in its own rows, whatever the string decodes to: a
  string that is decoded past its end can be too long, but not too high.
\<close>

lemma stays_draw_codes:
  assumes "0 < s" and "Y \<le> y" and "y + 16 * s \<le> Y + H"
  shows "stays (rect_px 0 Y FB_STRIDE H) (draw_codes x y cps s fg bg)"
proof -
  have sub: "glyph_px x y g s fg bg \<subseteq> rect_px 0 Y FB_STRIDE H" for x g
    using assms by (auto simp: glyph_px_def rect_px_def)
  have "same_outside (rect_px 0 Y FB_STRIDE H) m (draw_codes x y cps s fg bg m')"
    if "same_outside (rect_px 0 Y FB_STRIDE H) m m'" for m m'
    using that
  proof (induction cps arbitrary: x m')
    case (Cons cp cps)
    then show ?case
      using assms(1) sub by (simp add: fb_draw_utf8_char_def draw_glyph_paint same_outside_paint)
  qed simp
  then show ?thesis by (simp add: stays_def same_outside_refl)
qed

lemma stays_utf8_string [frame_intros]:
  "0 < s \<Longrightarrow> Y \<le> y \<Longrightarrow> y + 16 * s \<le> Y + H \<Longrightarrow>
     stays (rect_px 0 Y FB_STRIDE H) (fb_draw_utf8_string x y p s fg bg)"
  by (simp add: fb_draw_utf8_string_def stays_draw_codes)

lemma stays_utf8_string_centered [frame_intros]:
  "0 < s \<Longrightarrow> Y \<le> y \<Longrightarrow> y + h \<le> Y + H \<Longrightarrow> 16 * s \<le> h \<Longrightarrow>
     stays (rect_px 0 Y FB_STRIDE H) (fb_draw_utf8_string_centered x y w h p s fg bg)"
  unfolding fb_draw_utf8_string_centered_def Let_def
  by (rule stays_utf8_string) (auto simp: c_div_nonneg)

lemma draws_append [simp]: "draws (fs @ gs) m = draws gs (draws fs m)"
  by (simp add: draws_def)

abbreviation bar_px :: "int set" where "bar_px \<equiv> rect_px 0 6 FB_STRIDE 58"
abbreviation osk_px :: "int set" where "osk_px \<equiv> rect_px 0 OSK_Y FB_STRIDE OSK_H"

lemma stays_url_bar: "stays bar_px (draw_url_bar_overlay junk url)"
  unfolding draw_url_bar_overlay_def
  by (rule stays_draws) (simp add: stays_draw_rect stays_draw_rect_outline stays_utf8_string)

lemma stays_preview: "stays osk_px (draw_osk_input_preview junk f lang url)"
  unfolding draw_osk_input_preview_def
  by (auto simp: stays_draw_rect stays_draw_rect_outline stays_utf8_string split: prod.split intro!: stays_draws)

section \<open>The layouts are sound\<close>

definition label_ok :: "OSKKey \<Rightarrow> string \<Rightarrow> bool" where
  "label_ok k l \<longleftrightarrow> l \<noteq> [] \<and> length l \<le> 15 \<and> 16 * label_scale l \<le> key_h k
     \<and> int (length l) * 8 * label_scale l \<le> key_w k"

definition key_ok :: "OSKKey \<Rightarrow> bool" where
  "key_ok k \<longleftrightarrow> 12 \<le> key_x k \<and> key_x k + key_w k \<le> OSK_W - 12 \<and> OSK_Y < key_y k \<and> key_y k + key_h k < OSK_Y + OSK_H
     \<and> 2 \<le> key_w k \<and> 2 \<le> key_h k
     \<and> label_ok k (normal_label k) \<and> label_ok k (shift_label k) \<and> label_ok k (sym_label k)"

definition keys_apart :: "OSKKey \<Rightarrow> OSKKey \<Rightarrow> bool" where
  "keys_apart k l \<longleftrightarrow> key_x k + key_w k \<le> key_x l \<or> key_x l + key_w l \<le> key_x k
     \<or> key_y k + key_h k \<le> key_y l \<or> key_y l + key_h l \<le> key_y k"

lemmas layout_defs = build_osk_layout_def header_keys_def english_layout_def russian_layout_def
  key_row_def ascii_keys_def ru_keys_def bottom_row_def backspace_key_def special_key_def char_key_def

lemma english_keys_ok: "list_all key_ok (build_osk_layout 0)"
  by (simp add: layout_defs upt_rec key_ok_def label_ok_def label_scale_def)

lemma russian_keys_ok: "list_all key_ok (build_osk_layout 1)"
  by (simp add: layout_defs upt_rec key_ok_def label_ok_def label_scale_def bytes_def Let_def)

lemma layout_cases: "build_osk_layout lang = build_osk_layout (if lang = 0 then 0 else 1)"
  by (simp add: build_osk_layout_def)

lemma layout_keys_ok: "k \<in> set (build_osk_layout lang) \<Longrightarrow> key_ok k"
  using english_keys_ok russian_keys_ok unfolding layout_cases [of lang] by (auto simp: list_all_iff split: if_splits)

text \<open>No two keys overlap, as an executable test over the list.\<close>

fun pairwise_apart :: "OSKKey list \<Rightarrow> bool" where
  "pairwise_apart [] = True"
| "pairwise_apart (k # ks) = (list_all (keys_apart k) ks \<and> pairwise_apart ks)"

lemma english_keys_apart: "pairwise_apart (build_osk_layout 0)" "length (build_osk_layout 0) \<le> 64"
  by (simp_all add: layout_defs upt_rec keys_apart_def)

lemma russian_keys_apart: "pairwise_apart (build_osk_layout 1)" "length (build_osk_layout 1) \<le> 64"
  by (simp_all add: layout_defs upt_rec keys_apart_def Let_def)

lemma layout_keys_apart: "pairwise_apart (build_osk_layout lang) \<and> length (build_osk_layout lang) \<le> 64"
  using english_keys_apart russian_keys_apart unfolding layout_cases [of lang] by simp

text \<open>A label never decodes to more characters than it has bytes, so it stays inside its key.\<close>

lemma utf8_codes_length: "length (utf8_codes p) \<le> length p"
proof (induction p rule: utf8_codes.induct)
  case (1 p)
  show ?case
  proof (cases "utf8_next p")
    case (Some r)
    obtain cp q where r: "r = (cp, q)" by fastforce
    then have "length (utf8_codes q) < length p"
      using 1 [OF Some r [symmetric]] utf8_next_shorter [of p cp q] Some by simp
    with Some r show ?thesis by (simp add: utf8_codes.simps [of p])
  qed (simp add: utf8_codes.simps)
qed

lemma draw_codes_within:
  assumes "0 < s"
  shows "X \<le> x \<Longrightarrow> x + int (length cps) * 8 * s \<le> X + W \<Longrightarrow> Y \<le> y \<Longrightarrow> y + 16 * s \<le> Y + H \<Longrightarrow>
     same_outside (rect_px X Y W H) m m' \<Longrightarrow> same_outside (rect_px X Y W H) m (draw_codes x y cps s fg bg m')"
proof (induction cps arbitrary: x m')
  case (Cons cp cps)
  have "0 \<le> int (length cps) * 8 * s" and "x + 8 * s + int (length cps) * 8 * s \<le> X + W"
    using Cons.prems(2) assms by (simp_all add: algebra_simps)
  moreover from this have "x + 8 * s \<le> X + W" by linarith
  moreover from this have "same_outside (rect_px X Y W H) m (draw_glyph x y (glyph_for cp) s fg bg m')"
    using Cons.prems assms by (intro draw_glyph_within) simp_all
  ultimately show ?case
    using Cons assms by (simp add: fb_draw_utf8_char_def)
qed simp

lemma stays_label:
  assumes "0 < s" and "int (length l) * 8 * s \<le> w" and "16 * s \<le> h"
  shows "stays (rect_px x y w h) (fb_draw_utf8_string_centered x y w h l s fg bg)"
proof -
  let ?n = "utf8_string_len l * 8 * s"
  have "?n \<le> int (length l) * 8 * s"
    using assms(1) utf8_codes_length [of l] by (simp add: utf8_string_len_def)
  then have "0 \<le> w - ?n" using assms(2) by linarith
  then have "x \<le> x + c_div (w - ?n) 2" "x + c_div (w - ?n) 2 + ?n \<le> x + w"
      "y \<le> y + c_div (h - 16 * s) 2" "y + c_div (h - 16 * s) 2 + 16 * s \<le> y + h"
    using assms(3) by (simp_all add: c_div_nonneg)
  with draw_codes_within [OF assms(1), of x "x + c_div (w - ?n) 2" "utf8_codes l" w y "y + c_div (h - 16 * s) 2" h]
  show ?thesis
    by (simp add: stays_def fb_draw_utf8_string_centered_def fb_draw_utf8_string_def utf8_string_len_def Let_def same_outside_refl)
qed

lemma stays_mono: "stays R f \<Longrightarrow> R \<subseteq> S \<Longrightarrow> stays S f"
  by (auto simp: stays_def intro: same_outside_mono)

abbreviation key_px :: "OSKKey \<Rightarrow> int set" where
  "key_px k \<equiv> rect_px (key_x k) (key_y k) (key_w k) (key_h k)"

lemma stays_key:
  assumes "key_ok k"
  shows "stays (key_px k) (draw_osk_key shift symbols k pressed)"
proof -
  let ?l = "key_label shift symbols k"
  have lab: "label_ok k ?l" using assms by (auto simp: key_ok_def key_label_def)
  then have "stays (key_px k) (fb_draw_utf8_string_centered (key_x k) (key_y k) (key_w k) (key_h k) ?l (label_scale ?l) fg bg)" for fg bg
    by (intro stays_label) (auto simp: label_ok_def label_scale_def)
  with assms show ?thesis
    unfolding draw_osk_key_def Let_def
    by (intro stays_draws) (auto simp: key_ok_def intro!: stays_draw_rect stays_draw_rect_outline)
qed

lemma key_px_osk: "key_ok k \<Longrightarrow> key_px k \<subseteq> osk_px"
  by (rule rect_px_mono) (auto simp: key_ok_def)

lemma stays_osk_key: "key_ok k \<Longrightarrow> stays osk_px (draw_osk_key shift symbols k pressed)"
  by (rule stays_mono [OF stays_key key_px_osk])

lemma stays_osk: "stays osk_px (draw_osk junk f lang shift symbols url)"
  unfolding draw_osk_def
  by (rule stays_draws)
    (auto simp: list_all_iff stays_preview stays_draw_rect dest!: layout_keys_ok intro!: stays_osk_key)

text \<open>The margin left of the keys shows the background of the keyboard.\<close>

lemma draws_outside: "list_all (stays R) fs \<Longrightarrow> i \<notin> R \<Longrightarrow> draws fs m i = m i"
  using stays_draws [of R fs] by (simp add: stays_def same_outside_def)

lemma osk_margin:
  assumes "0 \<le> x" and "x < 12" and "1325 \<le> y" and "y < OSK_Y + OSK_H"
  shows "draw_osk junk f lang shift symbols url m (y * FB_STRIDE + x) = COLOR_BG"
proof -
  let ?i = "y * FB_STRIDE + x" and ?R = "- {y * FB_STRIDE + x}"
  have i: "?i mod FB_STRIDE = x" "?i div FB_STRIDE = y" using assms by (simp_all add: pixel_addr)
  have "stays ?R (draw_osk_key shift symbols k False)" if "k \<in> set (build_osk_layout lang)" for k
    using layout_keys_ok [OF that] i assms
    by (intro stays_mono [OF stays_key]) (auto simp: rect_px_def key_ok_def)
  moreover have "stays ?R (draw_osk_input_preview junk f lang url)"
  proof -
    have "stays (rect_px 0 1275 FB_STRIDE 46) (draw_osk_input_preview junk f lang url)"
      unfolding draw_osk_input_preview_def
      by (auto simp: stays_draw_rect stays_draw_rect_outline stays_utf8_string split: prod.split intro!: stays_draws)
    then show ?thesis using i assms by (elim stays_mono) (auto simp: rect_px_def)
  qed
  moreover have "stays ?R (draw_rect 0 OSK_Y OSK_W 3 COLOR_BLACK)"
    using i assms by (intro stays_mono [OF stays_draw_rect [of 0 0 OSK_Y OSK_Y OSK_W OSK_W 3 3]]) (auto simp: rect_px_def)
  ultimately have "list_all (stays ?R) ([draw_rect 0 OSK_Y OSK_W 3 COLOR_BLACK, draw_osk_input_preview junk f lang url]
      @ map (\<lambda>k. draw_osk_key shift symbols k False) (build_osk_layout lang))"
    by (auto simp: list_all_iff)
  then have "draws ([draw_rect 0 OSK_Y OSK_W 3 COLOR_BLACK, draw_osk_input_preview junk f lang url]
      @ map (\<lambda>k. draw_osk_key shift symbols k False) (build_osk_layout lang)) m' ?i = m' ?i" for m'
    by (rule draws_outside) simp
  then have "draw_osk junk f lang shift symbols url m ?i = draw_rect 0 OSK_Y OSK_W OSK_H COLOR_BG m ?i"
    by (simp add: draw_osk_def)
  also have "\<dots> = COLOR_BG"
    using i assms by (simp add: draw_rect_paint paint_def rect_px_def)
  finally show ?thesis .
qed

end
