(* ===== verification/Sdl_Events.thy ===== *)
theory Sdl_Events
  imports Ring_Buffer
begin

text \<open>
  The event side of \<^verbatim>\<open>components/netsurf/src/sdl_fb0_shim.c\<close>: the SDL event types, the
  queue of 2048 slots between the input thread and the browser, the functions that put key
  presses and clicks into it, and the timer table. The queue refuses events when it is
  full.
\<close>

section \<open>SDL events\<close>

record SDL_keysym =
  scancode :: u8
  sym :: int
  unicode :: u16

record SDL_MouseMotionEvent =
  motion_state :: u8
  motion_x :: u16
  motion_y :: u16
  xrel :: "16 word"
  yrel :: "16 word"

record SDL_MouseButtonEvent =
  button_state :: u8
  button :: u8
  button_x :: u16
  button_y :: u16

text \<open>The union by its \<open>type\<close> member; \<open>OtherEvent\<close> are the types only the browser pushes.\<close>

datatype SDL_Event =
    KeyDown SDL_keysym
  | KeyUp SDL_keysym
  | MouseMotion SDL_MouseMotionEvent
  | MouseButtonDown SDL_MouseButtonEvent
  | MouseButtonUp SDL_MouseButtonEvent
  | OtherEvent u8 "u8 list"

abbreviation (input) SDLK_BACKSPACE :: int where "SDLK_BACKSPACE \<equiv> 8"
abbreviation (input) SDLK_TAB :: int where "SDLK_TAB \<equiv> 9"
abbreviation (input) SDLK_RETURN :: int where "SDLK_RETURN \<equiv> 13"
abbreviation (input) SDLK_ESCAPE :: int where "SDLK_ESCAPE \<equiv> 27"
abbreviation (input) SDLK_SPACE :: int where "SDLK_SPACE \<equiv> 32"
abbreviation (input) SDLK_u :: int where "SDLK_u \<equiv> 117"
abbreviation (input) SDLK_RIGHT :: int where "SDLK_RIGHT \<equiv> 275"
abbreviation (input) SDLK_HOME :: int where "SDLK_HOME \<equiv> 278"
abbreviation (input) SDLK_END :: int where "SDLK_END \<equiv> 279"
abbreviation (input) SDLK_PAGEUP :: int where "SDLK_PAGEUP \<equiv> 280"
abbreviation (input) SDLK_PAGEDOWN :: int where "SDLK_PAGEDOWN \<equiv> 281"
abbreviation (input) SDLK_LCTRL :: int where "SDLK_LCTRL \<equiv> 306"

section \<open>The queue\<close>

abbreviation (input) MAX_EVENTS :: nat where "MAX_EVENTS \<equiv> 2048"

type_synonym event_queue = "SDL_Event ring"

definition queue_event :: "SDL_Event \<Rightarrow> event_queue \<Rightarrow> event_queue" where
  "queue_event ev q =
     (let next = (tail q + 1) mod MAX_EVENTS in
      if next \<noteq> head q then q\<lparr>slots := (slots q)[tail q := ev], tail := next\<rparr> else q)"

definition dequeue_event :: "event_queue \<Rightarrow> (SDL_Event \<times> event_queue) option" where
  "dequeue_event q =
     (if head q = tail q then None
      else Some (slots q ! head q, q\<lparr>head := (head q + 1) mod MAX_EVENTS\<rparr>))"

abbreviation eq_inv :: "event_queue \<Rightarrow> bool" where
  "eq_inv \<equiv> ring_inv MAX_EVENTS"

abbreviation eq_contents :: "event_queue \<Rightarrow> SDL_Event list" where
  "eq_contents \<equiv> ring_contents MAX_EVENTS"

lemma queue_event_ring:
  "queue_event ev q = (if (tail q + 1) mod MAX_EVENTS \<noteq> head q then ring_store MAX_EVENTS ev q else q)"
  by (simp add: queue_event_def ring_store_def Let_def)

lemma dequeue_event_ring:
  "dequeue_event q = (if head q = tail q then None else Some (slots q ! head q, ring_advance MAX_EVENTS q))"
  by (simp add: dequeue_event_def ring_advance_def)

interpretation eq: refusing_queue "2047" queue_event dequeue_event eq_contents eq_inv
proof unfold_locales
  fix q q' :: event_queue and x
  assume inv: "eq_inv q"
  show "dequeue_event q = None \<longleftrightarrow> eq_contents q = []"
    using ring_empty_iff [OF inv] by (auto simp: dequeue_event_ring)
  show "eq_contents q = x # eq_contents q' \<and> eq_inv q'" if "dequeue_event q = Some (x, q')"
    using that ring_advance_contents [OF inv] ring_advance_inv [OF inv]
    by (auto simp: dequeue_event_ring split: if_splits)
  show "eq_contents (queue_event x q) = eq_contents q @ [x]" if "length (eq_contents q) < 2047"
    using that ring_store_contents [OF inv, of x] ring_full_iff [OF inv]
    by (auto simp: queue_event_ring)
  show "eq_inv (queue_event x q)"
    by (simp add: queue_event_ring ring_store_inv inv)
  show "length (eq_contents q) \<le> 2047"
    using ring_count_less [OF inv] by simp
  show "queue_event x q = q" if "length (eq_contents q) = 2047"
    using that ring_full_iff [OF inv] by (simp add: queue_event_ring)
qed

section \<open>Key presses and clicks\<close>

definition keysym :: "int \<Rightarrow> int \<Rightarrow> u32 \<Rightarrow> SDL_keysym" where
  "keysym sc s u = \<lparr>scancode = word_of_int sc, sym = s, unicode = ucast u\<rparr>"

definition osk_inject_key :: "int \<Rightarrow> u32 \<Rightarrow> event_queue \<Rightarrow> event_queue" where
  "osk_inject_key s u q =
     queue_event (KeyUp (keysym s s u)) (queue_event (KeyDown (keysym s s u)) q)"

definition send_ctrl_key :: "int \<Rightarrow> u32 \<Rightarrow> event_queue \<Rightarrow> event_queue" where
  "send_ctrl_key s u q =
     (let ctrl = keysym 0 SDLK_LCTRL 0; k = keysym (if s < 256 then s else 0) s u
      in queue_event (KeyUp ctrl) (queue_event (KeyUp k) (queue_event (KeyDown k) (queue_event (KeyDown ctrl) q))))"

definition button_at :: "u8 \<Rightarrow> int \<Rightarrow> int \<Rightarrow> SDL_MouseButtonEvent" where
  "button_at st x y = \<lparr>button_state = st, button = 1, button_x = word_of_int x, button_y = word_of_int y\<rparr>"

definition motion_to :: "u8 \<Rightarrow> int \<Rightarrow> int \<Rightarrow> int \<Rightarrow> int \<Rightarrow> SDL_MouseMotionEvent" where
  "motion_to st x y dx dy = \<lparr>motion_state = st, motion_x = word_of_int x, motion_y = word_of_int y,
     xrel = word_of_int dx, yrel = word_of_int dy\<rparr>"

definition simulate_click :: "int \<Rightarrow> int \<Rightarrow> event_queue \<Rightarrow> event_queue" where
  "simulate_click x y q =
     queue_event (MouseButtonUp (button_at 0 x y))
       (queue_event (MouseButtonDown (button_at 1 x y))
         (queue_event (MouseMotion (motion_to 0 x y 0 0)) q))"

definition queue_touch_motion :: "int \<Rightarrow> int \<Rightarrow> int \<Rightarrow> int \<Rightarrow> event_queue \<Rightarrow> event_queue" where
  "queue_touch_motion last_x last_y x y q =
     queue_event (MouseMotion (motion_to 0 x y (x - last_x) (y - last_y))) q"

definition clear_browser_url_bar :: "event_queue \<Rightarrow> event_queue" where
  "clear_browser_url_bar q =
     (let q = osk_inject_key SDLK_END 0 q;
          q = fold (\<lambda>_. osk_inject_key SDLK_RIGHT 0) [0..<15] q;
          q = send_ctrl_key SDLK_u 117 q;
          q = fold (\<lambda>_. osk_inject_key SDLK_BACKSPACE 8) [0..<50] q
      in send_ctrl_key SDLK_u 117 q)"

text \<open>Every one of these is a burst: a fixed list of events put into the queue in order.\<close>

definition key_press :: "int \<Rightarrow> u32 \<Rightarrow> SDL_Event list" where
  "key_press s u = [KeyDown (keysym s s u), KeyUp (keysym s s u)]"

definition ctrl_press :: "int \<Rightarrow> u32 \<Rightarrow> SDL_Event list" where
  "ctrl_press s u =
     (let ctrl = keysym 0 SDLK_LCTRL 0; k = keysym (if s < 256 then s else 0) s u
      in [KeyDown ctrl, KeyDown k, KeyUp k, KeyUp ctrl])"

definition click :: "int \<Rightarrow> int \<Rightarrow> SDL_Event list" where
  "click x y = [MouseMotion (motion_to 0 x y 0 0), MouseButtonDown (button_at 1 x y), MouseButtonUp (button_at 0 x y)]"

definition wipe :: "SDL_Event list" where
  "wipe = key_press SDLK_END 0 @ concat (replicate 15 (key_press SDLK_RIGHT 0)) @ ctrl_press SDLK_u 117
     @ concat (replicate 50 (key_press SDLK_BACKSPACE 8)) @ ctrl_press SDLK_u 117"

abbreviation burst :: "SDL_Event list \<Rightarrow> event_queue \<Rightarrow> event_queue" where
  "burst \<equiv> fold queue_event"

lemma osk_inject_key_burst: "osk_inject_key s u = burst (key_press s u)"
  by (rule ext) (simp add: osk_inject_key_def key_press_def)

lemma send_ctrl_key_burst: "send_ctrl_key s u = burst (ctrl_press s u)"
  by (rule ext) (simp add: send_ctrl_key_def ctrl_press_def Let_def)

lemma simulate_click_burst: "simulate_click x y = burst (click x y)"
  by (rule ext) (simp add: simulate_click_def click_def)

lemma repeat_burst: "fold (\<lambda>_. burst es) ns q = burst (concat (replicate (length ns) es)) q"
  by (induction ns arbitrary: q) simp_all

lemma clear_browser_url_bar_burst: "clear_browser_url_bar = burst wipe"
  by (rule ext)
    (simp only: clear_browser_url_bar_def wipe_def osk_inject_key_burst send_ctrl_key_burst repeat_burst
       Let_def fold_append comp_apply length_upt diff_zero)

lemmas burst_simps = osk_inject_key_burst send_ctrl_key_burst simulate_click_burst clear_browser_url_bar_burst

lemma length_key_press [simp]: "length (key_press s u) = 2"
  by (simp add: key_press_def)

lemma length_click [simp]: "length (click x y) = 3"
  by (simp add: click_def)

lemma length_wipe [simp]: "length wipe = 140"
  by (simp add: wipe_def ctrl_press_def Let_def length_concat sum_list_replicate)

section \<open>Timers\<close>

abbreviation (input) MAX_TIMERS :: nat where "MAX_TIMERS \<equiv> 16"

datatype timer = Timer (t_active: bool) (t_interval: u32) (t_expire: u64) (t_cb: "nat option")

type_synonym timers = "timer list"

text \<open>
  Callbacks are named by numbers; \<open>run_cb\<close> gives the effect of a callback: the next interval
  and the table after what it did. The index in the table stands for the \<^verbatim>\<open>SDL_TimerID\<close> pointer.
\<close>

type_synonym callbacks = "nat \<Rightarrow> u32 \<Rightarrow> timers \<Rightarrow> u32 \<times> timers"

definition no_timer :: timer where "no_timer = Timer False 0 0 None"

definition timers_init :: timers where "timers_init = replicate MAX_TIMERS no_timer"

fun first_free :: "timers \<Rightarrow> nat option" where
  "first_free [] = None"
| "first_free (t # ts) = (if \<not> t_active t then Some 0 else map_option Suc (first_free ts))"

definition SDL_AddTimer :: "u64 \<Rightarrow> u32 \<Rightarrow> nat option \<Rightarrow> timers \<Rightarrow> nat option \<times> timers" where
  "SDL_AddTimer now interval callback ts =
     (case callback of None \<Rightarrow> (None, ts)
      | Some cb \<Rightarrow> (case first_free ts of None \<Rightarrow> (None, ts)
          | Some i \<Rightarrow> (Some i, ts[i := Timer True interval (now + ucast interval) (Some cb)])))"

definition SDL_RemoveTimer :: "nat option \<Rightarrow> timers \<Rightarrow> bool \<times> timers" where
  "SDL_RemoveTimer ident ts =
     (case ident of None \<Rightarrow> (False, ts)
      | Some i \<Rightarrow> if i < length ts
          then (True, ts[i := Timer False (t_interval (ts ! i)) (t_expire (ts ! i)) None])
          else (False, ts))"

text \<open>
  One slot of the table in one pass of \<open>timer_worker\<close>. The lock is released around the
  callback; what the browser's thread does to the table meanwhile is \<open>others\<close>.
\<close>

definition timer_slot :: "callbacks \<Rightarrow> (timers \<Rightarrow> timers) \<Rightarrow> u64 \<Rightarrow> u64 \<Rightarrow> nat \<Rightarrow> timers \<Rightarrow> timers" where
  "timer_slot run_cb others now later i ts =
     (case t_cb (ts ! i) of
        Some cb \<Rightarrow>
          if t_active (ts ! i) \<and> t_expire (ts ! i) \<le> now then
            let (next, ts) = run_cb cb (t_interval (ts ! i)) ts; ts = others ts in
            if t_active (ts ! i) then
              if next = 0 then ts[i := Timer False (t_interval (ts ! i)) (t_expire (ts ! i)) None]
              else ts[i := Timer True next (later + ucast next) (t_cb (ts ! i))]
            else ts
          else ts
      | None \<Rightarrow> ts)"

definition timer_pass :: "callbacks \<Rightarrow> (timers \<Rightarrow> timers) \<Rightarrow> u64 \<Rightarrow> u64 \<Rightarrow> timers \<Rightarrow> timers" where
  "timer_pass run_cb others now later ts = fold (timer_slot run_cb others now later) [0..<MAX_TIMERS] ts"

definition timers_ok :: "timers \<Rightarrow> bool" where
  "timers_ok ts \<longleftrightarrow> length ts = MAX_TIMERS \<and> list_all (\<lambda>t. t_active t \<longrightarrow> t_cb t \<noteq> None) ts"

lemma first_free_None: "first_free ts = None \<longleftrightarrow> list_all t_active ts"
  by (induction ts) auto

lemma first_free_Some: "first_free ts = Some i \<Longrightarrow> i < length ts \<and> \<not> t_active (ts ! i)"
  by (induction ts arbitrary: i) (auto split: if_splits)

end
