(* ===== verification/Sdl_Shim.thy ===== *)
theory Sdl_Shim
  imports Sdl_Screen Sdl_Events
begin

text \<open>
  The state and the handlers of \<^verbatim>\<open>components/netsurf/src/sdl_fb0_shim.c\<close>: panel updates,
  the on-screen keyboard, the commands of the control FIFO, the input thread and the SDL
  functions the browser calls. Every function of the source is one step on the state; the
  threads of the source interleave at the granularity of these steps.
\<close>

section \<open>State\<close>

text \<open>\<^verbatim>\<open>fb_mem\<close> can be null, the \<^verbatim>\<open>MAP_FAILED\<close> of a failed \<open>mmap\<close>, or the panel.\<close>

datatype fb_map = FbNull | FbFailed | FbMapped fbmem

record sd_state =
  sd_fb :: fb_map
  sd_fb_fd :: int
  sd_updates :: "mxcfb_update_data_v1 list"
  sd_queue :: event_queue
  g_current_url :: "char list"
  g_url_bar_focused :: bool
  osk_active :: bool
  osk_lang :: int
  osk_shift :: bool
  osk_symbols :: bool
  osk_backup :: "fbmem option"
  osk_keys :: "OSKKey list"
  clip_h :: int
  last_touch_x :: int
  last_touch_y :: int
  touch_down :: bool
  first_full_frame :: bool
  sd_segv :: bool

text \<open>
  The surroundings: what the stack holds behind local buffers, whether \<open>malloc\<close> succeeds and
  what a fresh block holds.
\<close>

record sd_env =
  stack_junk :: "char list"
  malloc_ok :: bool
  malloc_mem :: fbmem

abbreviation (input) url_size :: nat where "url_size \<equiv> 1024"

definition default_url :: string where "default_url = ''https://lite.duckduckgo.com''"

definition sd_init :: sd_state where
  "sd_init = \<lparr>sd_fb = FbNull, sd_fb_fd = -1, sd_updates = [],
     sd_queue = \<lparr>slots = replicate MAX_EVENTS (OtherEvent 0 []), head = 0, tail = 0\<rparr>,
     g_current_url = default_url @ replicate (url_size - length default_url) nul,
     g_url_bar_focused = True, osk_active = False, osk_lang = 0, osk_shift = False, osk_symbols = False,
     osk_backup = None, osk_keys = [], clip_h = 0, last_touch_x = 0, last_touch_y = 0, touch_down = False,
     first_full_frame = True, sd_segv = False\<rparr>"

text \<open>The string in the URL buffer.\<close>

abbreviation url_of :: "sd_state \<Rightarrow> string" where
  "url_of s \<equiv> cstr (g_current_url s)"

text \<open>
  Drawing calls test \<^verbatim>\<open>fb_mem\<close> against null; with \<^verbatim>\<open>MAP_FAILED\<close> they write to an address
  that is not mapped.
\<close>

definition on_fb :: "(fbmem \<Rightarrow> fbmem) \<Rightarrow> sd_state \<Rightarrow> sd_state" where
  "on_fb f s = (case sd_fb s of
     FbNull \<Rightarrow> s
   | FbFailed \<Rightarrow> s\<lparr>sd_segv := True\<rparr>
   | FbMapped m \<Rightarrow> s\<lparr>sd_fb := FbMapped (f m)\<rparr>)"

definition on_queue :: "(event_queue \<Rightarrow> event_queue) \<Rightarrow> sd_state \<Rightarrow> sd_state" where
  "on_queue f s = s\<lparr>sd_queue := f (sd_queue s)\<rparr>"

section \<open>Panel updates\<close>

text \<open>The region rounded out to multiples of eight and cut at the panel; \<open>None\<close> when empty.\<close>

definition aligned_region :: "int \<Rightarrow> int \<Rightarrow> int \<Rightarrow> int \<Rightarrow> (int \<times> int \<times> int \<times> int) option" where
  "aligned_region left tp width height =
     (let al = left AND (-8); at = tp AND (-8);
          ar = (left + width + 7) AND (-8); ab = (tp + height + 7) AND (-8);
          ar = (if ar > FB_WIDTH then FB_WIDTH else ar);
          ab = (if ab > FB_HEIGHT then FB_HEIGHT else ab)
      in if ar \<le> al \<or> ab \<le> at then None else Some (al, at, ar - al, ab - at))"

definition epdc_refresh_area :: "int \<Rightarrow> int \<Rightarrow> int \<Rightarrow> int \<Rightarrow> u32 \<Rightarrow> u32 \<Rightarrow> u32 \<Rightarrow> sd_state \<Rightarrow> sd_state" where
  "epdc_refresh_area left tp width height waveform upd_mode fl s =
     (if sd_fb_fd s < 0 then s
      else case aligned_region left tp width height of None \<Rightarrow> s
      | Some (l, t, w, h) \<Rightarrow> s\<lparr>sd_updates := sd_updates s @
          [upd_zero\<lparr>update_region := \<lparr>rect_top = word_of_int t, rect_left = word_of_int l,
               rect_width = word_of_int w, rect_height = word_of_int h\<rparr>,
             waveform_mode := waveform, update_mode := upd_mode, temp := 4096, flags := fl\<rparr>]\<rparr>)"

definition epdc_refresh_fast :: "int \<Rightarrow> int \<Rightarrow> int \<Rightarrow> int \<Rightarrow> sd_state \<Rightarrow> sd_state" where
  "epdc_refresh_fast left tp width height = epdc_refresh_area left tp width height 1 0 2"

definition epdc_refresh_gray :: "int \<Rightarrow> int \<Rightarrow> int \<Rightarrow> int \<Rightarrow> sd_state \<Rightarrow> sd_state" where
  "epdc_refresh_gray left tp width height = epdc_refresh_area left tp width height 2 0 0"

definition epdc_refresh_full :: "int \<Rightarrow> int \<Rightarrow> int \<Rightarrow> int \<Rightarrow> sd_state \<Rightarrow> sd_state" where
  "epdc_refresh_full left tp width height = epdc_refresh_area left tp width height 2 1 0"

section \<open>The on-screen keyboard\<close>

definition show_url_bar :: "sd_env \<Rightarrow> sd_state \<Rightarrow> sd_state" where
  "show_url_bar e s = on_fb (draw_url_bar_overlay (stack_junk e) (url_of s)) s"

definition show_preview :: "sd_env \<Rightarrow> sd_state \<Rightarrow> sd_state" where
  "show_preview e s =
     on_fb (draw_osk_input_preview (stack_junk e) (g_url_bar_focused s) (osk_lang s) (url_of s)) s"

definition redraw_osk :: "sd_env \<Rightarrow> sd_state \<Rightarrow> sd_state" where
  "redraw_osk e s =
     on_fb (draw_osk (stack_junk e) (g_url_bar_focused s) (osk_lang s) (osk_shift s) (osk_symbols s) (url_of s))
       (s\<lparr>osk_keys := build_osk_layout (osk_lang s)\<rparr>)"

definition draw_key :: "OSKKey \<Rightarrow> bool \<Rightarrow> sd_state \<Rightarrow> sd_state" where
  "draw_key k pressed s = on_fb (draw_osk_key (osk_shift s) (osk_symbols s) k pressed) s"

definition save_osk_area :: "sd_env \<Rightarrow> sd_state \<Rightarrow> sd_state" where
  "save_osk_area e s =
     (let b = (case osk_backup s of Some b \<Rightarrow> Some b | None \<Rightarrow> if malloc_ok e then Some (malloc_mem e) else None)
      in case b of None \<Rightarrow> s
         | Some b \<Rightarrow> (case sd_fb s of
             FbMapped m \<Rightarrow> s\<lparr>osk_backup := Some (save_rect 0 OSK_Y FB_STRIDE OSK_H m b)\<rparr>
           | _ \<Rightarrow> s\<lparr>osk_backup := Some b, sd_segv := True\<rparr>))"

definition show_osk :: "sd_env \<Rightarrow> sd_state \<Rightarrow> sd_state" where
  "show_osk e s =
     (if osk_active s \<or> sd_fb s = FbNull then s
      else let s = save_osk_area e s;
               s = s\<lparr>osk_active := True, clip_h := OSK_Y\<rparr>;
               s = redraw_osk e s
           in epdc_refresh_gray 0 OSK_Y OSK_W OSK_H s)"

definition SDL_ShowKeyboardForTextInput :: "sd_env \<Rightarrow> sd_state \<Rightarrow> sd_state" where
  "SDL_ShowKeyboardForTextInput e s = show_osk e (s\<lparr>g_url_bar_focused := False\<rparr>)"

definition hide_osk :: "sd_state \<Rightarrow> sd_state" where
  "hide_osk s =
     (if \<not> osk_active s \<or> sd_fb s = FbNull then s
      else let s = s\<lparr>clip_h := FB_HEIGHT\<rparr>;
               s = (case osk_backup s of None \<Rightarrow> s
                    | Some b \<Rightarrow> on_fb (restore_rect 0 OSK_Y FB_STRIDE OSK_H b) s);
               s = s\<lparr>osk_active := False\<rparr>
           in epdc_refresh_full 0 OSK_Y OSK_W OSK_H s)"

definition toggle_osk :: "sd_env \<Rightarrow> sd_state \<Rightarrow> sd_state" where
  "toggle_osk e s = (if osk_active s then hide_osk s else show_osk e s)"

text \<open>Redrawing the two places that show the URL after it changed.\<close>

definition url_changed :: "sd_env \<Rightarrow> sd_state \<Rightarrow> sd_state" where
  "url_changed e s =
     (let s = epdc_refresh_fast 202 1275 1000 46 (show_preview e s)
      in epdc_refresh_fast 145 6 1175 58 (show_url_bar e s))"

section \<open>Typing\<close>

definition tolower :: "int \<Rightarrow> int" where
  "tolower c = (if 65 \<le> c \<and> c \<le> 90 then c + 32 else c)"

definition type_sym :: "u32 \<Rightarrow> int" where
  "type_sym cp = (if cp < 128 then tolower (uint cp) else sint cp)"

text \<open>The loops that type a string: line ends are skipped.\<close>

definition type_text :: "char list \<Rightarrow> event_queue \<Rightarrow> event_queue" where
  "type_text p q = fold (\<lambda>cp q. if cp = 10 \<or> cp = 13 then q else osk_inject_key (type_sym cp) cp q) (utf8_codes p) q"

text \<open>What Enter makes of the text in the URL bar: a search when it cannot be an address.\<close>

definition is_query :: "string \<Rightarrow> bool" where
  "is_query t \<longleftrightarrow> CHR '' '' \<in> set t \<or> (\<not> strstr t ''://'' \<and> CHR ''.'' \<notin> set t)"

definition enter_target :: "string \<Rightarrow> string" where
  "enter_target url =
     (let trimmed = dropWhile (\<lambda>c. c = CHR '' '') url in
      if is_query trimmed then
        let query_enc = take 1022 (map (\<lambda>c. if c = CHR '' '' then CHR ''+'' else c) trimmed)
        in snprintf_str 1024 (''https://lite.duckduckgo.com/lite/?q='' @ query_enc)
      else snprintf_str 1024 trimmed)"

definition key_hit :: "int \<Rightarrow> int \<Rightarrow> OSKKey \<Rightarrow> bool" where
  "key_hit x y k \<longleftrightarrow> x \<ge> key_x k \<and> x < key_x k + key_w k \<and> y \<ge> key_y k \<and> y < key_y k + key_h k"

definition key_code :: "bool \<Rightarrow> bool \<Rightarrow> OSKKey \<Rightarrow> u32" where
  "key_code shift symbols k =
     (if symbols then unicode_sym k else if shift then unicode_shift k else unicode_norm k)"

subsection \<open>The actions of the keys\<close>

definition act_clear :: "sd_env \<Rightarrow> sd_state \<Rightarrow> sd_state" where
  "act_clear e s =
     (let s = (if g_url_bar_focused s then s\<lparr>g_current_url := replicate url_size nul\<rparr> else s);
          s = epdc_refresh_fast 202 1275 1000 46 (show_preview e s)
      in if g_url_bar_focused s then
           let s = epdc_refresh_fast 145 6 1175 58 (show_url_bar e s)
           in on_queue (\<lambda>q. clear_browser_url_bar (simulate_click 300 35 q)) s
         else on_queue (\<lambda>q. fold (\<lambda>_. osk_inject_key SDLK_BACKSPACE 8) [0..<50] (send_ctrl_key SDLK_u 117 q)) s)"

definition act_backspace :: "sd_env \<Rightarrow> sd_state \<Rightarrow> sd_state" where
  "act_backspace e s =
     (let s = (if g_url_bar_focused s \<and> length (url_of s) > 0
               then url_changed e (s\<lparr>g_current_url := (g_current_url s)[length (url_of s) - 1 := nul]\<rparr>) else s)
      in on_queue (osk_inject_key SDLK_BACKSPACE 8) s)"

definition act_space :: "sd_env \<Rightarrow> sd_state \<Rightarrow> sd_state" where
  "act_space e s =
     (let s = (if g_url_bar_focused s \<and> length (url_of s) < url_size - 2
               then url_changed e (s\<lparr>g_current_url := strcat_buf (g_current_url s) '' ''\<rparr>) else s)
      in on_queue (osk_inject_key SDLK_SPACE 32) s)"

definition act_enter :: "sd_env \<Rightarrow> sd_state \<Rightarrow> sd_state" where
  "act_enter e s =
     (let s = (if g_url_bar_focused s \<and> length (url_of s) > 0 then
           let target = enter_target (url_of s);
               s = s\<lparr>g_current_url := strncpy_buf (g_current_url s) target (url_size - 1)\<rparr>;
               s = epdc_refresh_fast 145 6 1175 58 (show_url_bar e s)
           in on_queue (\<lambda>q. type_text (target @ nul # stack_junk e)
                (clear_browser_url_bar (simulate_click 300 35 q))) s
           else s);
         s = on_queue (osk_inject_key SDLK_RETURN 13) s
      in hide_osk s)"

definition act_dotcom :: "sd_env \<Rightarrow> sd_state \<Rightarrow> sd_state" where
  "act_dotcom e s =
     (let ext = (if osk_lang s = 0 then ''.com'' else ''.ru'');
          s = (if g_url_bar_focused s \<and> length (url_of s) < url_size - 6
               then url_changed e (s\<lparr>g_current_url := strcat_buf (g_current_url s) ext\<rparr>) else s)
      in on_queue (\<lambda>q. fold (\<lambda>c. osk_inject_key (of_char c) (of_char c)) ext q) s)"

definition act_char :: "sd_env \<Rightarrow> u32 \<Rightarrow> sd_state \<Rightarrow> sd_state" where
  "act_char e cp s =
     (let s = (if g_url_bar_focused s \<and> length (url_of s) < url_size - 6
               then url_changed e (s\<lparr>g_current_url := strcat_buf (g_current_url s) (utf8_encode cp)\<rparr>) else s)
      in on_queue (osk_inject_key (type_sym cp) cp) s)"

definition refresh_osk :: "sd_env \<Rightarrow> sd_state \<Rightarrow> sd_state" where
  "refresh_osk e s = epdc_refresh_gray 0 OSK_Y OSK_W OSK_H (redraw_osk e s)"

definition toggle_lang :: "sd_state \<Rightarrow> sd_state" where
  "toggle_lang s = s\<lparr>osk_lang := (if osk_lang s = 0 then 1 else 0)\<rparr>"

text \<open>Back to the unpressed picture of the key, after the actions that do not redraw all.\<close>

definition release_key :: "OSKKey \<Rightarrow> sd_state \<Rightarrow> sd_state" where
  "release_key k s = epdc_refresh_fast (key_x k) (key_y k) (key_w k) (key_h k) (draw_key k False s)"

definition press_key :: "sd_env \<Rightarrow> OSKKey \<Rightarrow> sd_state \<Rightarrow> sd_state" where
  "press_key e k s =
     (let s = epdc_refresh_fast (key_x k) (key_y k) (key_w k) (key_h k) (draw_key k True s) in
      case action k of
        ACT_HIDE \<Rightarrow> hide_osk s
      | ACT_CLEAR \<Rightarrow> release_key k (act_clear e s)
      | ACT_SHIFT \<Rightarrow> refresh_osk e (s\<lparr>osk_shift := \<not> osk_shift s\<rparr>)
      | ACT_SYMBOLS \<Rightarrow> refresh_osk e (s\<lparr>osk_symbols := \<not> osk_symbols s\<rparr>)
      | ACT_LANG \<Rightarrow> refresh_osk e (toggle_lang s)
      | ACT_BACKSPACE \<Rightarrow> release_key k (act_backspace e s)
      | ACT_SPACE \<Rightarrow> release_key k (act_space e s)
      | ACT_ENTER \<Rightarrow> act_enter e s
      | ACT_DOTCOM \<Rightarrow> release_key k (act_dotcom e s)
      | ACT_CHAR \<Rightarrow>
          let s = act_char e (key_code (osk_shift s) (osk_symbols s) k) s
          in if osk_shift s then refresh_osk e (s\<lparr>osk_shift := False\<rparr>) else release_key k s)"

definition handle_osk_touch :: "sd_env \<Rightarrow> int \<Rightarrow> int \<Rightarrow> sd_state \<Rightarrow> sd_state" where
  "handle_osk_touch e x y s =
     (case find (key_hit x y) (osk_keys s) of None \<Rightarrow> s | Some k \<Rightarrow> press_key e k s)"

section \<open>Commands of the FIFO\<close>

definition focus_url :: "sd_env \<Rightarrow> sd_state \<Rightarrow> sd_state" where
  "focus_url e s =
     show_osk e (on_queue (\<lambda>q. osk_inject_key SDLK_END 0 (simulate_click 300 35 q)) (s\<lparr>g_url_bar_focused := True\<rparr>))"

definition redraw_if_active :: "sd_env \<Rightarrow> sd_state \<Rightarrow> sd_state" where
  "redraw_if_active e s = (if osk_active s then refresh_osk e s else s)"

definition fifo_key :: "sd_env \<Rightarrow> string \<Rightarrow> sd_state \<Rightarrow> sd_state" where
  "fifo_key e k s =
     (if k = ''enter'' then on_queue (osk_inject_key SDLK_RETURN 13) s
      else if k = ''backspace'' then on_queue (osk_inject_key SDLK_BACKSPACE 8) s
      else if k = ''escape'' then on_queue (osk_inject_key SDLK_ESCAPE 27) s
      else if k = ''tab'' then on_queue (osk_inject_key SDLK_TAB 9) s
      else if k = ''pageup'' then on_queue (osk_inject_key SDLK_PAGEUP 0) s
      else if k = ''pagedown'' then on_queue (osk_inject_key SDLK_PAGEDOWN 0) s
      else if k = ''home'' then on_queue (osk_inject_key SDLK_HOME 0) s
      else if k = ''osk'' then toggle_osk e s
      else if k = ''lang'' then redraw_if_active e (toggle_lang s)
      else if k = ''shift'' then redraw_if_active e (s\<lparr>osk_shift := \<not> osk_shift s\<rparr>)
      else if k = ''sym'' then redraw_if_active e (s\<lparr>osk_symbols := \<not> osk_symbols s\<rparr>)
      else if k = ''back'' then on_queue (simulate_click 25 48) s
      else if k = ''focus_url'' then focus_url e s
      else s)"

definition fifo_text :: "sd_env \<Rightarrow> string \<Rightarrow> sd_state \<Rightarrow> sd_state" where
  "fifo_text e p s =
     (let s = (if length (url_of s) + length p < url_size - 1
               then epdc_refresh_fast 145 6 1175 58
                      (show_url_bar e (s\<lparr>g_current_url := strcat_buf (g_current_url s) p\<rparr>)) else s)
      in on_queue (type_text (p @ nul # stack_junk e)) s)"

definition fifo_url :: "sd_env \<Rightarrow> string \<Rightarrow> sd_state \<Rightarrow> sd_state" where
  "fifo_url e url s =
     (let s = s\<lparr>g_current_url := strncpy_buf (g_current_url s) url (url_size - 1)\<rparr>;
          s = epdc_refresh_fast 145 6 1175 58 (show_url_bar e s)
      in on_queue (\<lambda>q. osk_inject_key SDLK_RETURN 13
           (type_text (url @ nul # stack_junk e) (clear_browser_url_bar (simulate_click 300 35 q)))) s)"

text \<open>\<open>sscanf\<close> with \<^verbatim>\<open>%d,%d\<close>.\<close>

definition scan_pair :: "string \<Rightarrow> (int \<times> int) option" where
  "scan_pair str =
     (case scan_int str of None \<Rightarrow> None
      | Some (a, r) \<Rightarrow> if r \<noteq> [] \<and> hd r = CHR '','' then map_option (\<lambda>(b, _). (a, b)) (scan_int (tl r)) else None)"

definition fifo_click :: "string \<Rightarrow> sd_state \<Rightarrow> sd_state" where
  "fifo_click arg s =
     (case scan_pair arg of None \<Rightarrow> s
      | Some (cx, cy) \<Rightarrow>
          let s = (if cy \<ge> 75 then s\<lparr>g_url_bar_focused := False\<rparr> else s) in on_queue (simulate_click cx cy) s)"

definition handle_fifo_command :: "sd_env \<Rightarrow> string \<Rightarrow> sd_state \<Rightarrow> sd_state" where
  "handle_fifo_command e cmd s =
     (if take 4 cmd = ''KEY:'' then fifo_key e (drop 4 cmd) s
      else if take 5 cmd = ''TEXT:'' then fifo_text e (drop 5 cmd) s
      else if take 4 cmd = ''URL:'' then fifo_url e (drop 4 cmd) s
      else if take 6 cmd = ''CLICK:'' then fifo_click (drop 6 cmd) s
      else s)"

section \<open>The input thread\<close>

text \<open>The local variables of \<open>input_worker\<close> beside the shared state.\<close>

record worker =
  cur_x :: int
  cur_y :: int
  cur_down :: bool

definition clamp_to :: "int \<Rightarrow> int \<Rightarrow> int" where
  "clamp_to n v = (let v = (if v < 0 then 0 else v) in if v \<ge> n then n - 1 else v)"

definition mapped_point :: "worker \<Rightarrow> int \<times> int" where
  "mapped_point wk = (clamp_to FB_WIDTH (1403 - cur_y wk), clamp_to FB_HEIGHT (cur_x wk))"

text \<open>
  The handlers of a report return whether they leave the loop body with \<^verbatim>\<open>continue\<close>. First
  the report while the keyboard is shown.
\<close>

definition report_osk :: "sd_env \<Rightarrow> bool \<Rightarrow> int \<Rightarrow> int \<Rightarrow> sd_state \<Rightarrow> bool \<times> sd_state" where
  "report_osk e down mx my s =
     (if my \<ge> OSK_Y then
        (True, if down \<and> \<not> touch_down s then handle_osk_touch e mx my (s\<lparr>touch_down := True\<rparr>)
               else if \<not> down \<and> touch_down s then s\<lparr>touch_down := False\<rparr> else s)
      else if down \<and> \<not> touch_down s then
        let s = (hide_osk s)\<lparr>touch_down := True\<rparr>
        in (True, if my \<ge> 75 then on_queue (simulate_click mx my) s else s)
      else if \<not> down \<and> touch_down s then (True, s\<lparr>touch_down := False\<rparr>)
      else (False, s))"

text \<open>The two hot spots while it is hidden.\<close>

definition report_hotspot :: "sd_env \<Rightarrow> bool \<Rightarrow> int \<Rightarrow> int \<Rightarrow> sd_state \<Rightarrow> bool \<times> sd_state" where
  "report_hotspot e down mx my s =
     (if my < 75 \<and> mx \<ge> 140 \<and> down \<and> \<not> touch_down s then
        (True, focus_url e (s\<lparr>touch_down := True\<rparr>))
      else if mx \<ge> 1320 \<and> my \<ge> 1800 \<and> down \<and> \<not> touch_down s then
        (True, show_osk e (s\<lparr>touch_down := True\<rparr>))
      else (False, s))"

text \<open>The touch as mouse events for the browser.\<close>

definition report_mouse :: "bool \<Rightarrow> int \<Rightarrow> int \<Rightarrow> sd_state \<Rightarrow> sd_state" where
  "report_mouse down mx my s =
     (let s = (if my \<ge> 75 then s\<lparr>g_url_bar_focused := False\<rparr> else s);
          s = (if down \<and> \<not> touch_down s then
                 on_queue (\<lambda>q. queue_event (MouseButtonDown (button_at 1 mx my))
                     (queue_touch_motion (last_touch_x s) (last_touch_y s) mx my q))
                   (s\<lparr>touch_down := True\<rparr>)
               else if \<not> down \<and> touch_down s then
                 on_queue (queue_event (MouseButtonUp (button_at 0 mx my))) (s\<lparr>touch_down := False\<rparr>)
               else if touch_down s \<and> (mx \<noteq> last_touch_x s \<or> my \<noteq> last_touch_y s) then
                 on_queue (queue_event (MouseMotion (motion_to 1 mx my (mx - last_touch_x s) (my - last_touch_y s)))) s
               else s)
      in s\<lparr>last_touch_x := mx, last_touch_y := my\<rparr>)"

definition touch_report :: "sd_env \<Rightarrow> bool \<Rightarrow> int \<Rightarrow> int \<Rightarrow> sd_state \<Rightarrow> bool \<times> sd_state" where
  "touch_report e down mx my s =
     (let (cont, s) = (if osk_active s then report_osk e down mx my s else report_hotspot e down mx my s)
      in if cont then (True, s) else (False, report_mouse down mx my s))"

definition touch_event :: "sd_env \<Rightarrow> input_event \<Rightarrow> worker \<Rightarrow> sd_state \<Rightarrow> bool \<times> worker \<times> sd_state" where
  "touch_event e ev wk s =
     (if ev_type ev = EV_ABS then
        if ev_code ev = ABS_MT_POSITION_X \<or> ev_code ev = ABS_X then (False, wk\<lparr>cur_x := ev_value ev\<rparr>, s)
        else if ev_code ev = ABS_MT_POSITION_Y \<or> ev_code ev = ABS_Y then (False, wk\<lparr>cur_y := ev_value ev\<rparr>, s)
        else (False, wk, s)
      else if ev_type ev = EV_KEY \<and> ev_code ev = BTN_TOUCH then (False, wk\<lparr>cur_down := ev_value ev \<noteq> 0\<rparr>, s)
      else if ev_type ev = EV_SYN \<and> ev_code ev = SYN_REPORT then
        let (mx, my) = mapped_point wk; (cont, s) = touch_report e (cur_down wk) mx my s in (cont, wk, s)
      else (False, wk, s))"

definition button_event :: "sd_env \<Rightarrow> input_event \<Rightarrow> sd_state \<Rightarrow> sd_state" where
  "button_event e ev s =
     (if ev_type ev = EV_KEY \<and> ev_value ev = 1 then
        if ev_code ev = 191 then on_queue (osk_inject_key SDLK_PAGEUP 0) s
        else if ev_code ev = 192 then on_queue (osk_inject_key SDLK_PAGEDOWN 0) s
        else if ev_code ev = 193 then (if osk_active s then hide_osk s else on_queue (simulate_click 13 35) s)
        else if ev_code ev = 194 then toggle_osk e s
        else if ev_code ev = 102 then focus_url e s
        else s
      else s)"

text \<open>\<open>strtok\<close> with the delimiters CR and LF, over the part of the buffer before a NUL.\<close>

definition is_eol :: "char \<Rightarrow> bool" where
  "is_eol c \<longleftrightarrow> c = CHR 0x0D \<or> c = CHR 0x0A"

function strtok_lines :: "string \<Rightarrow> string list" where
  "strtok_lines str =
     (let t = dropWhile is_eol str in
      if t = [] then [] else takeWhile (\<lambda>c. \<not> is_eol c) t # strtok_lines (dropWhile (\<lambda>c. \<not> is_eol c) t))"
  by pat_completeness auto

termination strtok_lines
proof (relation "measure length", simp, goal_cases)
  case (1 str t)
  then have "t = hd t # tl t" "\<not> is_eol (hd t)" using hd_dropWhile [of is_eol str] by auto
  then have "dropWhile (\<lambda>c. \<not> is_eol c) t = dropWhile (\<lambda>c. \<not> is_eol c) (tl t)"
    by (metis dropWhile.simps(2))
  then have "length (dropWhile (\<lambda>c. \<not> is_eol c) t) \<le> length (tl t)"
    by (simp only: length_dropWhile_le)
  also have "\<dots> < length t" using 1(2) by (cases t) auto
  also have "\<dots> \<le> length str" using 1(1) by (simp add: length_dropWhile_le)
  finally show ?case by simp
qed

declare strtok_lines.simps [simp del]

text \<open>One read of the FIFO: at most 255 bytes, each line of them a command.\<close>

definition fifo_read :: "sd_env \<Rightarrow> string \<Rightarrow> sd_state \<Rightarrow> sd_state" where
  "fifo_read e buf s = fold (handle_fifo_command e) (strtok_lines (cstr (take 255 buf))) s"

text \<open>One iteration after \<open>poll\<close> reported which of the three descriptors can be read.\<close>

record inputs =
  in_touch :: "input_event option"
  in_keys :: "input_event option"
  in_fifo :: "string option"

definition worker_iter :: "sd_env \<Rightarrow> inputs \<Rightarrow> worker \<times> sd_state \<Rightarrow> worker \<times> sd_state" where
  "worker_iter e i = (\<lambda>(wk, s).
     (let (cont, wk, s) = (case in_touch i of None \<Rightarrow> (False, wk, s) | Some ev \<Rightarrow> touch_event e ev wk s) in
      if cont then (wk, s)
      else let s = (case in_keys i of None \<Rightarrow> s | Some ev \<Rightarrow> button_event e ev s);
               s = (case in_fifo i of None \<Rightarrow> s | Some buf \<Rightarrow> fifo_read e buf s)
           in (wk, s)))"

definition worker_run :: "sd_env \<Rightarrow> inputs list \<Rightarrow> worker \<times> sd_state \<Rightarrow> worker \<times> sd_state" where
  "worker_run e is ws = fold (worker_iter e) is ws"

definition worker_init :: worker where
  "worker_init = \<lparr>cur_x = 0, cur_y = 0, cur_down = False\<rparr>"

section \<open>The functions the browser calls\<close>

text \<open>
  The arguments of the command line, NUL-separated, as \<^verbatim>\<open>/proc/self/cmdline\<close> gives them: the
  first that starts like an address becomes the URL.
\<close>

fun cmdline_url :: "string \<Rightarrow> string option" where
  "cmdline_url [] = None"
| "cmdline_url (c # cs) =
     (let a = cstr (c # cs) in
      if take 7 a = ''http://'' \<or> take 8 a = ''https://'' then Some a
      else cmdline_url (drop (length a) cs))"

definition init_current_url :: "string option \<Rightarrow> sd_state \<Rightarrow> sd_state" where
  "init_current_url cmdline s =
     (case cmdline of None \<Rightarrow> s
      | Some b \<Rightarrow> (case cmdline_url (take 2047 b) of None \<Rightarrow> s
          | Some u \<Rightarrow> s\<lparr>g_current_url := strncpy_buf (g_current_url s) u (url_size - 1)\<rparr>))"

text \<open>
  \<open>opened\<close> is what opening the panel device returns, \<open>mapped\<close> the memory \<open>mmap\<close> gives.
\<close>

definition SDL_SetVideoMode :: "sd_env \<Rightarrow> int \<Rightarrow> fbmem option \<Rightarrow> string option \<Rightarrow> sd_state \<Rightarrow> bool \<times> sd_state" where
  "SDL_SetVideoMode e opened mapped cmdline s =
     (let s = (if sd_fb_fd s < 0 then s\<lparr>sd_fb_fd := (if opened < 0 then -1 else opened)\<rparr> else s) in
      if sd_fb_fd s < 0 then (False, s)
      else case mapped of
        None \<Rightarrow> (False, s\<lparr>sd_fb := FbFailed, sd_fb_fd := -1\<rparr>)
      | Some m \<Rightarrow>
          let s = s\<lparr>sd_fb := FbMapped (\<lambda>i. if 0 \<le> i \<and> i < FB_STRIDE * FB_HEIGHT then 0xFFFF else m i), clip_h := FB_HEIGHT\<rparr>;
              s = show_url_bar e (init_current_url cmdline s)
          in (True, epdc_refresh_full 0 0 FB_WIDTH FB_HEIGHT s))"

text \<open>Rows \<open>a\<close> to \<open>b - 1\<close> of the panel copied into the backup of the keyboard area.\<close>

definition update_backup :: "int \<Rightarrow> int \<Rightarrow> sd_state \<Rightarrow> sd_state" where
  "update_backup a b s =
     (case (osk_backup s, sd_fb s) of
        (Some bk, FbMapped m) \<Rightarrow>
          s\<lparr>osk_backup := Some (fold (\<lambda>cy bk. copy_words bk ((cy - OSK_Y) * FB_STRIDE) m (cy * FB_STRIDE) FB_STRIDE)
              [a..b - 1] bk)\<rparr>
      | (Some bk, _) \<Rightarrow> s\<lparr>sd_segv := True\<rparr>
      | (None, _) \<Rightarrow> s)"

text \<open>
  The rectangle of an update in the mixed signed and unsigned arithmetic of the source;
  \<open>None\<close> is the early return.
\<close>

definition clip_update :: "int \<Rightarrow> int \<Rightarrow> u32 \<Rightarrow> u32 \<Rightarrow> (int \<times> int \<times> u32 \<times> u32) option" where
  "clip_update x y w h =
     (let (x, y, w, h) = (if w = 0 \<or> h = 0 then (0, 0, 1404, 1872) else (x, y, w, h));
          (x, w) = (if x < 0 then (0, w + word_of_int x) else (x, w));
          (y, h) = (if y < 0 then (0, h + word_of_int y) else (y, h))
      in if x \<ge> FB_WIDTH \<or> y \<ge> FB_HEIGHT \<or> w = 0 \<or> h = 0 then None
         else Some (x, y, if word_of_int x + w > 1404 then word_of_int (FB_WIDTH - x) else w,
                          if word_of_int y + h > 1872 then word_of_int (FB_HEIGHT - y) else h))"

text \<open>What is left of the rectangle after the keyboard took its part: \<open>None\<close> when nothing.\<close>

definition osk_part :: "sd_env \<Rightarrow> int \<Rightarrow> u32 \<Rightarrow> sd_state \<Rightarrow> u32 option \<times> sd_state" where
  "osk_part e y h s =
     (if osk_active s \<and> y + sint h > OSK_Y then
        let start_y = (if y > OSK_Y then y else OSK_Y);
            end_y = (if y + sint h < FB_HEIGHT then y + sint h else FB_HEIGHT);
            s = redraw_osk e (update_backup start_y end_y s)
        in (if y \<ge> OSK_Y then None else Some (word_of_int (OSK_Y - y)), s)
      else (Some h, s))"

definition SDL_UpdateRect :: "sd_env \<Rightarrow> int \<Rightarrow> int \<Rightarrow> u32 \<Rightarrow> u32 \<Rightarrow> sd_state \<Rightarrow> sd_state" where
  "SDL_UpdateRect e x y w h s =
     (if sd_fb_fd s < 0 then s
      else case clip_update x y w h of
        None \<Rightarrow> s
      | Some (x, y, w, h) \<Rightarrow>
          let s = (if y < 75 \<and> x + sint w > 140 then show_url_bar e s else s);
              (h, s) = osk_part e y h s
          in case h of
               None \<Rightarrow> s
             | Some h \<Rightarrow>
                 if first_full_frame s \<and> w \<ge> 1000 \<and> h \<ge> 1000
                 then (epdc_refresh_full x y (sint w) (sint h) s)\<lparr>first_full_frame := False\<rparr>
                 else epdc_refresh_gray x y (sint w) (sint h) s)"

definition SDL_Flip :: "sd_env \<Rightarrow> sd_state \<Rightarrow> sd_state" where
  "SDL_Flip e s = SDL_UpdateRect e 0 0 0 0 s"

definition SDL_PollEvent :: "sd_state \<Rightarrow> (SDL_Event option) \<times> sd_state" where
  "SDL_PollEvent s = (case dequeue_event (sd_queue s) of None \<Rightarrow> (None, s)
     | Some (ev, q) \<Rightarrow> (Some ev, s\<lparr>sd_queue := q\<rparr>))"

definition SDL_PushEvent :: "SDL_Event \<Rightarrow> sd_state \<Rightarrow> sd_state" where
  "SDL_PushEvent ev s = on_queue (queue_event ev) s"

text \<open>
  \<open>SDL_WaitEvent\<close> polls every 5 ms; the list says what the input thread put into the queue
  before each attempt. \<open>None\<close>: still waiting after all of them.
\<close>

fun SDL_WaitEvent :: "SDL_Event list list \<Rightarrow> sd_state \<Rightarrow> (SDL_Event \<times> sd_state) option" where
  "SDL_WaitEvent [] s = None"
| "SDL_WaitEvent (es # ess) s =
     (let s = on_queue (burst es) s in
      case SDL_PollEvent s of (Some ev, s) \<Rightarrow> Some (ev, s) | (None, s) \<Rightarrow> SDL_WaitEvent ess s)"

definition SDL_Quit :: "sd_state \<Rightarrow> sd_state" where
  "SDL_Quit s = s\<lparr>osk_backup := None,
     sd_fb := (case sd_fb s of FbMapped m \<Rightarrow> FbNull | f \<Rightarrow> f), sd_fb_fd := -1\<rparr>"

end
