(* ===== verification/Sdl_Invariants.thy ===== *)
theory Sdl_Invariants
  imports Sdl_Shim
begin

text \<open>
  Invariants of the input thread of the SDL shim. The locale \<open>sd_invariant\<close> lists what a
  predicate on the state has to survive (the drawing primitives, panel updates, bursts of
  events, the few assignments to the URL buffer, showing and hiding the keyboard); inside it
  every handler and then the whole run of the input thread are shown to keep the predicate,
  once for all. It is interpreted for the bounds of the buffers and for the page behind the
  keyboard.
\<close>

section \<open>What the primitives leave alone\<close>

lemma on_fb_fields [simp]:
  "sd_queue (on_fb f s) = sd_queue s" "g_current_url (on_fb f s) = g_current_url s"
  "osk_active (on_fb f s) = osk_active s" "osk_keys (on_fb f s) = osk_keys s"
  "osk_backup (on_fb f s) = osk_backup s" "g_url_bar_focused (on_fb f s) = g_url_bar_focused s"
  "osk_shift (on_fb f s) = osk_shift s" "osk_symbols (on_fb f s) = osk_symbols s"
  "osk_lang (on_fb f s) = osk_lang s" "touch_down (on_fb f s) = touch_down s"
  "sd_fb_fd (on_fb f s) = sd_fb_fd s" "sd_updates (on_fb f s) = sd_updates s"
  by (simp_all add: on_fb_def split: fb_map.split)

lemma epdc_fields [simp]:
  "sd_queue (epdc_refresh_area a b c d w u f s) = sd_queue s"
  "g_current_url (epdc_refresh_area a b c d w u f s) = g_current_url s"
  "osk_active (epdc_refresh_area a b c d w u f s) = osk_active s"
  "osk_keys (epdc_refresh_area a b c d w u f s) = osk_keys s"
  "osk_backup (epdc_refresh_area a b c d w u f s) = osk_backup s"
  "g_url_bar_focused (epdc_refresh_area a b c d w u f s) = g_url_bar_focused s"
  "osk_shift (epdc_refresh_area a b c d w u f s) = osk_shift s"
  "osk_symbols (epdc_refresh_area a b c d w u f s) = osk_symbols s"
  "osk_lang (epdc_refresh_area a b c d w u f s) = osk_lang s"
  "touch_down (epdc_refresh_area a b c d w u f s) = touch_down s"
  "sd_fb (epdc_refresh_area a b c d w u f s) = sd_fb s"
  by (simp_all add: epdc_refresh_area_def split: option.split)

lemma on_queue_fields [simp]:
  "g_current_url (on_queue f s) = g_current_url s" "osk_active (on_queue f s) = osk_active s"
  "osk_keys (on_queue f s) = osk_keys s" "osk_backup (on_queue f s) = osk_backup s"
  "g_url_bar_focused (on_queue f s) = g_url_bar_focused s" "osk_shift (on_queue f s) = osk_shift s"
  "osk_symbols (on_queue f s) = osk_symbols s" "osk_lang (on_queue f s) = osk_lang s"
  "touch_down (on_queue f s) = touch_down s" "sd_fb (on_queue f s) = sd_fb s"
  "sd_queue (on_queue f s) = f (sd_queue s)"
  by (simp_all add: on_queue_def)

lemmas epdc_defs = epdc_refresh_fast_def epdc_refresh_gray_def epdc_refresh_full_def

lemma show_fields [simp]:
  "osk_active (show_url_bar e s) = osk_active s" "osk_active (show_preview e s) = osk_active s"
  "osk_active (redraw_osk e s) = osk_active s" "osk_active (draw_key k p s) = osk_active s"
  "osk_active (url_changed e s) = osk_active s"
  "g_current_url (show_url_bar e s) = g_current_url s" "g_current_url (show_preview e s) = g_current_url s"
  "g_current_url (redraw_osk e s) = g_current_url s" "g_current_url (draw_key k p s) = g_current_url s"
  "g_current_url (url_changed e s) = g_current_url s"
  "sd_queue (show_url_bar e s) = sd_queue s" "sd_queue (show_preview e s) = sd_queue s"
  "sd_queue (redraw_osk e s) = sd_queue s" "sd_queue (draw_key k p s) = sd_queue s"
  "sd_queue (url_changed e s) = sd_queue s"
  "g_url_bar_focused (show_preview e s) = g_url_bar_focused s"
  "osk_keys (show_url_bar e s) = osk_keys s" "osk_keys (show_preview e s) = osk_keys s"
  "osk_keys (draw_key k p s) = osk_keys s" "osk_keys (url_changed e s) = osk_keys s"
  "osk_backup (show_url_bar e s) = osk_backup s" "osk_backup (show_preview e s) = osk_backup s"
  "osk_backup (redraw_osk e s) = osk_backup s" "osk_backup (draw_key k p s) = osk_backup s"
  by (simp_all add: show_url_bar_def show_preview_def redraw_osk_def draw_key_def url_changed_def epdc_defs Let_def)

text \<open>Typing is a burst of events.\<close>

definition typed :: "u32 list \<Rightarrow> SDL_Event list" where
  "typed cps = concat (map (\<lambda>cp. key_press (type_sym cp) cp) (filter (\<lambda>cp. cp \<noteq> 10 \<and> cp \<noteq> 13) cps))"

lemma type_text_burst: "type_text p = burst (typed (utf8_codes p))"
proof
  fix q
  have "fold (\<lambda>cp q. if cp = 10 \<or> cp = 13 then q else osk_inject_key (type_sym cp) cp q) cps q = burst (typed cps) q" for cps
    by (induction cps arbitrary: q) (auto simp: typed_def osk_inject_key_burst)
  then show "type_text p q = burst (typed (utf8_codes p)) q" by (simp add: type_text_def)
qed

lemma type_chars_burst:
  "fold (\<lambda>c. osk_inject_key (of_char c) (of_char c)) str q
     = burst (concat (map (\<lambda>c. key_press (of_char c) (of_char c)) str)) q"
  by (induction str arbitrary: q) (simp_all add: osk_inject_key_burst)

section \<open>Invariants of the handlers\<close>

locale sd_invariant =
  fixes e :: sd_env and I :: "sd_state \<Rightarrow> bool"
  assumes bar: "I s \<Longrightarrow> I (show_url_bar e s)"
    and refresh: "I s \<Longrightarrow> I (epdc_refresh_area a b c d w u f s)"
    and events: "I s \<Longrightarrow> I (on_queue (burst es) s)"
    and flags: "I s \<Longrightarrow> I (s\<lparr>g_url_bar_focused := b1\<rparr>)" "I s \<Longrightarrow> I (s\<lparr>osk_shift := b2\<rparr>)"
      "I s \<Longrightarrow> I (s\<lparr>osk_symbols := b3\<rparr>)" "I s \<Longrightarrow> I (s\<lparr>osk_lang := l\<rparr>)" "I s \<Longrightarrow> I (s\<lparr>touch_down := b4\<rparr>)"
      "I s \<Longrightarrow> I (s\<lparr>last_touch_x := x, last_touch_y := y\<rparr>)"
    and url_clear: "I s \<Longrightarrow> I (s\<lparr>g_current_url := replicate 1024 nul\<rparr>)"
    and url_erase: "I s \<Longrightarrow> url_of s \<noteq> [] \<Longrightarrow> I (s\<lparr>g_current_url := (g_current_url s)[length (url_of s) - Suc 0 := nul]\<rparr>)"
    and url_append: "I s \<Longrightarrow> length (url_of s) + length t \<le> 1023 \<Longrightarrow> I (s\<lparr>g_current_url := strcat_buf (g_current_url s) t\<rparr>)"
    and url_set: "I s \<Longrightarrow> I (s\<lparr>g_current_url := strncpy_buf (g_current_url s) t 1023\<rparr>)"
    and show_kb: "I s \<Longrightarrow> I (show_osk e s)"
    and hide_kb: "I s \<Longrightarrow> I (hide_osk s)"
    and redraw: "I s \<Longrightarrow> osk_active s \<Longrightarrow> I (redraw_osk e s)"
    and preview: "I s \<Longrightarrow> osk_active s \<Longrightarrow> I (show_preview e s)"
    and key: "I s \<Longrightarrow> osk_active s \<Longrightarrow> key_ok k \<Longrightarrow> I (draw_key k p s)"
    and keys: "I s \<Longrightarrow> list_all key_ok (osk_keys s)"
begin

lemmas prims = bar refresh events flags url_clear show_kb hide_kb

lemma fast: "I s \<Longrightarrow> I (epdc_refresh_fast a b c d s)"
  by (simp add: epdc_defs refresh)

lemma keep_url_changed: "I s \<Longrightarrow> osk_active s \<Longrightarrow> I (url_changed e s)"
  by (simp add: url_changed_def Let_def fast bar preview)

lemma keep_refresh_osk: "I s \<Longrightarrow> osk_active s \<Longrightarrow> I (refresh_osk e s)"
  by (simp add: refresh_osk_def epdc_defs refresh redraw)

lemma keep_release: "I s \<Longrightarrow> osk_active s \<Longrightarrow> key_ok k \<Longrightarrow> I (release_key k s)"
  by (simp add: release_key_def fast key)

lemma events2: "I s \<Longrightarrow> I (on_queue (\<lambda>q. burst a (burst b q)) s)"
  using events [of s "b @ a"] by (simp add: on_queue_def)

lemma events3: "I s \<Longrightarrow> I (on_queue (\<lambda>q. burst a (burst b (burst c q))) s)"
  using events [of s "c @ b @ a"] by (simp add: on_queue_def)

lemma events4: "I s \<Longrightarrow> I (on_queue (\<lambda>q. burst a (burst b (burst c (burst d q)))) s)"
  using events [of s "d @ c @ b @ a"] by (simp add: on_queue_def)

lemmas keep_events = events events2 events3 events4

lemma keep_clear: "I s \<Longrightarrow> osk_active s \<Longrightarrow> I (act_clear e s)"
  by (auto simp: act_clear_def Let_def burst_simps repeat_burst epdc_defs
      intro!: keep_events refresh bar preview url_clear)

lemma keep_backspace: "I s \<Longrightarrow> osk_active s \<Longrightarrow> I (act_backspace e s)"
  by (auto simp: act_backspace_def Let_def burst_simps intro!: keep_events keep_url_changed url_erase)

lemma keep_space: "I s \<Longrightarrow> osk_active s \<Longrightarrow> I (act_space e s)"
  by (auto simp: act_space_def Let_def burst_simps intro!: keep_events keep_url_changed url_append)

lemma keep_dotcom: "I s \<Longrightarrow> osk_active s \<Longrightarrow> I (act_dotcom e s)"
  unfolding act_dotcom_def Let_def type_chars_burst
  by (rule events) (auto intro!: keep_url_changed url_append)

lemma keep_char: "I s \<Longrightarrow> osk_active s \<Longrightarrow> I (act_char e cp s)"
  by (auto simp: act_char_def Let_def burst_simps utf8_encode_def intro!: keep_events keep_url_changed url_append)

lemma keep_enter: "I s \<Longrightarrow> I (act_enter e s)"
  by (auto simp: act_enter_def Let_def burst_simps type_text_burst epdc_defs
      intro!: keep_events hide_kb refresh bar url_set)

lemma keep_press:
  assumes "I s" and "osk_active s" and "key_ok k"
  shows "I (press_key e k s)"
proof -
  let ?s = "epdc_refresh_fast (key_x k) (key_y k) (key_w k) (key_h k) (draw_key k True s)"
  have s: "I ?s" "osk_active ?s" using assms by (simp_all add: fast key) (simp add: epdc_defs)
  have act: "osk_active (act_clear e s) = osk_active s" "osk_active (act_backspace e s) = osk_active s"
      "osk_active (act_space e s) = osk_active s" "osk_active (act_dotcom e s) = osk_active s"
      "osk_active (act_char e cp s) = osk_active s" for s cp
    by (simp_all add: act_clear_def act_backspace_def act_space_def act_dotcom_def act_char_def epdc_defs Let_def)
  show ?thesis
    using s assms(3) unfolding press_key_def Let_def
    by (cases "action k")
      (simp_all add: act hide_kb keep_release keep_clear keep_backspace keep_space keep_dotcom keep_char
         keep_enter keep_refresh_osk flags toggle_lang_def del: epdc_fields)
qed

lemma keep_osk_touch: "I s \<Longrightarrow> osk_active s \<Longrightarrow> I (handle_osk_touch e x y s)"
  using keys [of s] by (auto simp: handle_osk_touch_def list_all_iff find_Some_iff intro!: keep_press split: option.split)

lemma keep_focus: "I s \<Longrightarrow> I (focus_url e s)"
  by (auto simp: focus_url_def burst_simps intro!: show_kb keep_events flags)

lemma keep_toggle: "I s \<Longrightarrow> I (toggle_osk e s)"
  by (simp add: toggle_osk_def show_kb hide_kb)

lemma keep_if_active: "I s \<Longrightarrow> I (redraw_if_active e s)"
  by (simp add: redraw_if_active_def keep_refresh_osk)

lemma keep_command: "I s \<Longrightarrow> I (handle_fifo_command e cmd s)"
proof -
  assume s: "I s"
  have "I (fifo_key e k s)" for k
    using s by (simp add: fifo_key_def burst_simps events keep_toggle keep_if_active toggle_lang_def flags keep_focus)
  moreover have "I (fifo_text e p s)" for p
    using s by (auto simp: fifo_text_def Let_def type_text_burst epdc_defs intro!: keep_events refresh bar url_append)
  moreover have "I (fifo_url e url s)" for url
    using s by (auto simp: fifo_url_def Let_def type_text_burst burst_simps epdc_defs intro!: keep_events refresh bar url_set)
  moreover have "I (fifo_click arg s)" for arg
    using s by (auto simp: fifo_click_def Let_def burst_simps intro!: keep_events flags split: option.split)
  ultimately show ?thesis using s by (simp add: handle_fifo_command_def)
qed

lemma event1: "I s \<Longrightarrow> I (on_queue (queue_event a) s)"
  using events [of s "[a]"] by (simp add: on_queue_def)

lemma event2: "I s \<Longrightarrow> I (on_queue (\<lambda>q. queue_event a (queue_event b q)) s)"
  using events [of s "[b, a]"] by (simp add: on_queue_def)

lemma keep_mouse: "I s \<Longrightarrow> I (report_mouse down mx my s)"
  unfolding report_mouse_def Let_def queue_touch_motion_def
  by (rule flags(6)) (auto intro!: event1 event2 flags)

lemma keep_report: "I s \<Longrightarrow> I (snd (touch_report e down mx my s))"
  by (auto simp: touch_report_def report_osk_def report_hotspot_def Let_def burst_simps
      intro!: keep_mouse keep_osk_touch keep_focus show_kb hide_kb flags keep_events)

lemma keep_touch: "I s \<Longrightarrow> I (snd (snd (touch_event e ev wk s)))"
proof -
  assume "I s"
  then have "I s'" if "touch_report e d x y s = (c, s')" for d x y c s'
    using keep_report [of s d x y] that by simp
  with \<open>I s\<close> show ?thesis by (auto simp: touch_event_def split: prod.split)
qed

lemma keep_button: "I s \<Longrightarrow> I (button_event e ev s)"
  by (simp add: button_event_def burst_simps events keep_toggle keep_focus hide_kb)

lemma keep_fifo: "I s \<Longrightarrow> I (fifo_read e buf s)"
  unfolding fifo_read_def by (rule fold_keeps [where I = I]) (simp_all add: keep_command)

lemma keep_iter: "I (snd ws) \<Longrightarrow> I (snd (worker_iter e i ws))"
proof -
  assume s: "I (snd ws)"
  obtain wk s0 where ws: "ws = (wk, s0)" by fastforce
  obtain c wk1 s1 where t: "(case in_touch i of None \<Rightarrow> (False, wk, s0) | Some ev \<Rightarrow> touch_event e ev wk s0) = (c, wk1, s1)"
    by (rule prod_cases3)
  have s1: "I s1" using t s ws keep_touch [of s0] by (auto split: option.splits) (metis snd_conv)
  then have "I (case in_keys i of None \<Rightarrow> s1 | Some ev \<Rightarrow> button_event e ev s1)"
    by (simp add: keep_button split: option.split)
  with s1 show ?thesis
    unfolding ws worker_iter_def Let_def t prod.case by (auto simp: keep_fifo split: option.split)
qed

lemma keep_run: "I (snd ws) \<Longrightarrow> I (snd (worker_run e is ws))"
  unfolding worker_run_def by (rule fold_keeps [where I = "\<lambda>ws. I (snd ws)"]) (simp_all add: keep_iter)

end

section \<open>The buffers\<close>

text \<open>
  The URL buffer keeps its size and the NUL in its last byte, the indices of the queue stay
  inside the array, and the key table holds at most 64 keys, each one a key of a layout.
\<close>

definition url_ok :: "char list \<Rightarrow> bool" where
  "url_ok b \<longleftrightarrow> length b = 1024 \<and> b ! 1023 = nul"

definition sd_ok :: "sd_state \<Rightarrow> bool" where
  "sd_ok s \<longleftrightarrow> url_ok (g_current_url s) \<and> eq_inv (sd_queue s) \<and> list_all key_ok (osk_keys s)
     \<and> length (osk_keys s) \<le> MAX_OSK_KEYS"

lemma url_ok_cbuf: "url_ok b \<Longrightarrow> cbuf_ok 1024 b"
  using nth_mem [of 1023 b] by (auto simp: url_ok_def cbuf_ok_def)

lemma url_ok_erase: "url_ok b \<Longrightarrow> url_ok (b[i := nul])"
  by (cases "i = 1023") (auto simp: url_ok_def)

lemma url_ok_strcat: "url_ok b \<Longrightarrow> length (cstr b) + length t \<le> 1023 \<Longrightarrow> url_ok (strcat_buf b t)"
  using strcat_buf_last [of b 1023 t] by (auto simp: url_ok_def) (simp add: strcat_buf_def)

lemma url_ok_strncpy: "url_ok b \<Longrightarrow> url_ok (strncpy_buf b t 1023)"
  by (auto simp: url_ok_def strncpy_buf_def nth_append)

lemma layout_list_ok: "list_all key_ok (build_osk_layout lang)"
  by (simp add: list_all_iff layout_keys_ok)

lemma layout_length: "length (build_osk_layout lang) \<le> MAX_OSK_KEYS"
  using layout_keys_apart [of lang] by simp

lemma sd_ok_save: "sd_ok s \<Longrightarrow> sd_ok (save_osk_area e s)"
  by (auto simp: save_osk_area_def sd_ok_def Let_def split: option.split fb_map.split)

lemma sd_ok_redraw: "sd_ok s \<Longrightarrow> sd_ok (redraw_osk e s)"
  by (simp add: sd_ok_def) (simp add: redraw_osk_def layout_list_ok layout_length)

lemma sd_ok_refresh: "sd_ok s \<Longrightarrow> sd_ok (epdc_refresh_area a b c d w u f s)"
  by (simp add: sd_ok_def)

lemma sd_ok_show: "sd_ok s \<Longrightarrow> sd_ok (show_osk e s)"
proof -
  assume "sd_ok s"
  then have "sd_ok ((save_osk_area e s)\<lparr>osk_active := True, clip_h := OSK_Y\<rparr>)"
    using sd_ok_save [of s e] by (simp add: sd_ok_def)
  with \<open>sd_ok s\<close> show ?thesis
    by (simp add: show_osk_def epdc_defs Let_def sd_ok_refresh sd_ok_redraw)
qed

lemma sd_ok_hide: "sd_ok s \<Longrightarrow> sd_ok (hide_osk s)"
  by (auto simp: hide_osk_def sd_ok_def epdc_defs Let_def split: option.split)

interpretation bounds: sd_invariant e sd_ok for e
proof unfold_locales
  fix s :: sd_state
  assume s: "sd_ok s"
  show "sd_ok (on_queue (burst es) s)" for es
    using s eq.enq_all_invar [of "sd_queue s" es] by (simp add: sd_ok_def)
  show "sd_ok (s\<lparr>g_current_url := (g_current_url s)[length (url_of s) - Suc 0 := nul]\<rparr>)"
    using s url_ok_erase by (simp add: sd_ok_def)
  show "sd_ok (s\<lparr>g_current_url := strcat_buf (g_current_url s) t\<rparr>)" if "length (url_of s) + length t \<le> 1023" for t
    using s that url_ok_strcat by (simp add: sd_ok_def)
  show "sd_ok (s\<lparr>g_current_url := strncpy_buf (g_current_url s) t 1023\<rparr>)" for t
    using s url_ok_strncpy by (simp add: sd_ok_def)
qed (simp_all add: sd_ok_show sd_ok_hide sd_ok_redraw sd_ok_refresh, simp_all add: sd_ok_def url_ok_def)

section \<open>The page behind the keyboard\<close>

text \<open>
  The panel still shows the picture \<open>m0\<close> outside the URL bar and, while the keyboard is up,
  outside its area, whose pixels are in the backup.
\<close>

definition page_kept :: "fbmem \<Rightarrow> sd_state \<Rightarrow> bool" where
  "page_kept m0 s \<longleftrightarrow> list_all key_ok (osk_keys s)
     \<and> (\<exists>m. sd_fb s = FbMapped m \<and>
          (if osk_active s
           then (\<exists>b. osk_backup s = Some b \<and> holds_rect 0 OSK_Y FB_STRIDE OSK_H b m0)
                \<and> same_outside (osk_px \<union> bar_px) m0 m
           else same_outside bar_px m0 m))"

lemma page_kept_cong:
  "osk_keys s' = osk_keys s \<Longrightarrow> sd_fb s' = sd_fb s \<Longrightarrow> osk_active s' = osk_active s \<Longrightarrow> osk_backup s' = osk_backup s
    \<Longrightarrow> page_kept m0 s' = page_kept m0 s"
  unfolding page_kept_def by (simp only:)

lemma bar_osk_disjoint: "bar_px \<inter> osk_px = {}"
  by (auto simp: rect_px_def)

lemma page_kept_bar:
  assumes "page_kept m0 s" and "stays bar_px f"
  shows "page_kept m0 (on_fb f s)"
proof -
  from assms(1) obtain m where m: "sd_fb s = FbMapped m" by (auto simp: page_kept_def)
  have "same_outside bar_px m (f m)" using assms(2) by (simp add: stays_def)
  with assms(1) m show ?thesis
    by (auto simp: page_kept_def on_fb_def same_outside_def split: if_splits)
qed

lemma page_kept_osk:
  assumes "page_kept m0 s" and "stays osk_px f" and "osk_active s"
  shows "page_kept m0 (on_fb f s)"
proof -
  from assms(1) obtain m where m: "sd_fb s = FbMapped m" by (auto simp: page_kept_def)
  have "same_outside osk_px m (f m)" using assms(2) by (simp add: stays_def)
  with assms m show ?thesis
    by (auto simp: page_kept_def on_fb_def same_outside_def split: if_splits)
qed

lemma page_kept_redraw: "page_kept m0 s \<Longrightarrow> osk_active s \<Longrightarrow> page_kept m0 (redraw_osk e s)"
  unfolding redraw_osk_def
  by (rule page_kept_osk) (simp_all add: stays_osk page_kept_def layout_list_ok)

lemma page_kept_refresh: "page_kept m0 s \<Longrightarrow> page_kept m0 (epdc_refresh_area a b c d w u f s)"
  by (subst page_kept_cong [of _ s]) simp_all

lemma page_kept_show:
  assumes s: "page_kept m0 s" and e: "malloc_ok e"
  shows "page_kept m0 (show_osk e s)"
proof (cases "osk_active s")
  case True
  with s show ?thesis by (simp add: show_osk_def)
next
  case False
  with s obtain m where m: "sd_fb s = FbMapped m" "same_outside bar_px m0 m" "list_all key_ok (osk_keys s)"
    by (auto simp: page_kept_def)
  obtain b where save: "save_osk_area e s = s\<lparr>osk_backup := Some (save_rect 0 OSK_Y FB_STRIDE OSK_H m b)\<rparr>"
    using m(1) e by (cases "osk_backup s") (auto simp: save_osk_area_def)
  have "m i = m0 i" if "i \<in> osk_px" for i
    using that bar_osk_disjoint m(2) by (auto simp: same_outside_def)
  then have "holds_rect 0 OSK_Y FB_STRIDE OSK_H (save_rect 0 OSK_Y FB_STRIDE OSK_H m b) m0"
    by (rule save_holds)
  with m have "page_kept m0 ((save_osk_area e s)\<lparr>osk_active := True, clip_h := OSK_Y\<rparr>)"
    by (auto simp: page_kept_def save same_outside_def)
  with False m(1) show ?thesis
    by (simp add: show_osk_def Let_def epdc_defs page_kept_refresh page_kept_redraw)
qed

lemma page_kept_hide:
  assumes s: "page_kept m0 s"
  shows "page_kept m0 (hide_osk s)"
proof (cases "osk_active s")
  case False
  with s show ?thesis by (simp add: hide_osk_def)
next
  case True
  with s obtain m b where m: "sd_fb s = FbMapped m" "osk_backup s = Some b"
      "holds_rect 0 OSK_Y FB_STRIDE OSK_H b m0" "same_outside (osk_px \<union> bar_px) m0 m" "list_all key_ok (osk_keys s)"
    by (auto simp: page_kept_def)
  have "same_outside bar_px m0 (restore_rect 0 OSK_Y FB_STRIDE OSK_H b m)"
    using m(3,4) by (intro restore_holds) auto
  with True m show ?thesis
    by (simp add: hide_osk_def Let_def epdc_defs page_kept_refresh) (simp add: page_kept_def on_fb_def)
qed

interpretation page: sd_invariant "\<lparr>stack_junk = junk, malloc_ok = True, malloc_mem = block\<rparr>" "page_kept m0"
  for junk block m0
proof unfold_locales
  fix s :: sd_state and k p
  assume s: "page_kept m0 s"
  let ?e = "\<lparr>stack_junk = junk, malloc_ok = True, malloc_mem = block\<rparr>"
  show "page_kept m0 (show_url_bar ?e s)"
    unfolding show_url_bar_def using s by (rule page_kept_bar) (rule stays_url_bar)
  show "page_kept m0 (show_preview ?e s)" if "osk_active s"
    unfolding show_preview_def using s stays_preview that by (rule page_kept_osk)
  show "page_kept m0 (draw_key k p s)" if "osk_active s" "key_ok k"
    unfolding draw_key_def using s stays_osk_key [OF that(2)] that(1) by (rule page_kept_osk)
  fix s :: sd_state
  assume s: "page_kept m0 s"
  note same = page_kept_cong [THEN iffD2, OF _ _ _ _ s]
  show "page_kept m0 (on_queue (burst es) s)" for es by (rule same) simp_all
  show "page_kept m0 (s\<lparr>g_url_bar_focused := b\<rparr>)" "page_kept m0 (s\<lparr>osk_shift := b\<rparr>)"
    "page_kept m0 (s\<lparr>osk_symbols := b\<rparr>)" "page_kept m0 (s\<lparr>touch_down := b\<rparr>)" for b by (rule same; simp)+
  show "page_kept m0 (s\<lparr>osk_lang := l\<rparr>)" "page_kept m0 (s\<lparr>last_touch_x := l, last_touch_y := l'\<rparr>)" for l l'
    by (rule same; simp)+
  show "page_kept m0 (s\<lparr>g_current_url := replicate 1024 nul\<rparr>)"
    "page_kept m0 (s\<lparr>g_current_url := (g_current_url s)[length (url_of s) - Suc 0 := nul]\<rparr>)"
    "page_kept m0 (s\<lparr>g_current_url := strcat_buf (g_current_url s) t\<rparr>)"
    "page_kept m0 (s\<lparr>g_current_url := strncpy_buf (g_current_url s) t 1023\<rparr>)" for t by (rule same; simp)+
  show "list_all key_ok (osk_keys s)" using s by (simp add: page_kept_def)
qed (simp_all add: page_kept_show page_kept_hide page_kept_redraw page_kept_refresh)

end
