(* ===== verification/Sdl_Shim_Props.thy ===== *)
theory Sdl_Shim_Props
  imports Sdl_Invariants
begin

text \<open>
  Properties of the SDL shim: buffers and queue, the page behind the keyboard, panel
  regions, text encoding, the keyboard, the commands of the FIFO, mouse events and timers.
\<close>

section \<open>Buffers\<close>

text \<open>Any step of the input thread or call of the browser, with any surroundings.\<close>

inductive sd_step :: "sd_state \<Rightarrow> sd_state \<Rightarrow> bool" where
  sd_input: "worker_iter e i (wk, s) = (wk', s') \<Longrightarrow> sd_step s s'"
| sd_text: "sd_step s (SDL_ShowKeyboardForTextInput e s)"
| sd_video: "SDL_SetVideoMode e opened mapped cmdline s = (r, s') \<Longrightarrow> sd_step s s'"
| sd_update: "sd_step s (SDL_UpdateRect e x y w h s)"
| sd_poll: "SDL_PollEvent s = (r, s') \<Longrightarrow> sd_step s s'"
| sd_push: "sd_step s (SDL_PushEvent ev s)"
| sd_quit: "sd_step s (SDL_Quit s)"

inductive sd_reachable :: "sd_state \<Rightarrow> bool" where
  sd_start: "sd_reachable sd_init"
| sd_next: "sd_reachable s \<Longrightarrow> sd_step s s' \<Longrightarrow> sd_reachable s'"

lemma sd_ok_init: "sd_ok sd_init"
  by (simp add: sd_ok_def sd_init_def url_ok_def ring_inv_def default_url_def nth_append)

lemma sd_ok_video: "sd_ok s \<Longrightarrow> SDL_SetVideoMode e opened mapped cmdline s = (r, s') \<Longrightarrow> sd_ok s'"
  by (auto simp: SDL_SetVideoMode_def Let_def init_current_url_def sd_ok_def epdc_defs url_ok_strncpy
      split: option.splits if_splits)

lemma sd_ok_part: "osk_part e y h s = (r, s') \<Longrightarrow> sd_ok s \<Longrightarrow> sd_ok s'"
proof -
  have "sd_ok (update_backup a b s)" if "sd_ok s" for a b
    using that by (auto simp: update_backup_def sd_ok_def split: option.split fb_map.split)
  then show "osk_part e y h s = (r, s') \<Longrightarrow> sd_ok s \<Longrightarrow> sd_ok s'"
    by (auto simp: osk_part_def Let_def sd_ok_redraw split: if_splits)
qed

lemma sd_ok_first_frame: "sd_ok (s\<lparr>first_full_frame := b\<rparr>) = sd_ok s"
  by (simp add: sd_ok_def)

lemma sd_ok_update: "sd_ok s \<Longrightarrow> sd_ok (SDL_UpdateRect e x y w h s)"
  by (auto simp: SDL_UpdateRect_def Let_def epdc_defs sd_ok_refresh sd_ok_first_frame bounds.bar
      dest!: sd_ok_part split: option.split prod.split)

lemma sd_step_ok: "sd_step s s' \<Longrightarrow> sd_ok s \<Longrightarrow> sd_ok s'"
proof (induction rule: sd_step.induct)
  case (sd_input e i wk s wk' s')
  then show ?case using bounds.keep_iter [of "(wk, s)" e i] by simp
next
  case (sd_text s e)
  then show ?case
    using bounds.flags(1) bounds.show_kb by (simp add: SDL_ShowKeyboardForTextInput_def)
next
  case (sd_poll s r s')
  then show ?case
    using eq.deq_Some by (fastforce simp: SDL_PollEvent_def sd_ok_def split: option.splits)
next
  case (sd_push s ev)
  then show ?case using bounds.event1 by (simp add: SDL_PushEvent_def)
qed (auto simp: sd_ok_video sd_ok_update, simp add: sd_ok_def SDL_Quit_def)

text \<open>
  C7. No sequence of touches, key presses, commands from the FIFO and calls of the browser
  writes outside the buffers: the URL always fits its 1024 bytes with a NUL in the last one,
  the queue indices stay inside the array, and the key table never holds more than its 64 keys,
  whose labels fit their arrays of 16 bytes and which lie in the keyboard area.
\<close>
theorem sdl_buffers_safe:
  assumes "sd_reachable s"
  shows "url_ok (g_current_url s) \<and> length (url_of s) \<le> 1023 \<and> eq_inv (sd_queue s)
     \<and> length (osk_keys s) \<le> MAX_OSK_KEYS \<and> list_all key_ok (osk_keys s)
     \<and> (\<forall>k\<in>set (osk_keys s). length (normal_label k) < 16 \<and> length (shift_label k) < 16 \<and> length (sym_label k) < 16)"
proof -
  have "sd_ok s" using assms by (induction rule: sd_reachable.induct) (simp_all add: sd_ok_init sd_step_ok)
  then show ?thesis using cstr_length_less [OF url_ok_cbuf, of "g_current_url s"]
    by (auto simp: sd_ok_def list_all_iff key_ok_def label_ok_def)
qed

definition plain_env :: sd_env where
  "plain_env = \<lparr>stack_junk = [], malloc_ok = True, malloc_mem = (\<lambda>_. 0)\<rparr>"

theorem sdl_buffers_safe_witness:
  "url_ok (g_current_url (SDL_UpdateRect plain_env 0 0 10 10 sd_init))"
  using sdl_buffers_safe [OF sd_reachable.sd_next [OF sd_reachable.sd_start sd_update]] by blast

section \<open>The page behind the keyboard\<close>

text \<open>
  C6. While only the input thread runs, so that the browser draws nothing meanwhile: whatever is
  typed, tapped and commanded while the keyboard comes and goes, once it is hidden the panel
  shows the page again, pixel for pixel, outside the URL bar. (An \<open>SDL_UpdateRect\<close> under the
  keyboard is not covered: it can leave the page damaged.)
\<close>
theorem osk_restores_page:
  assumes "sd_fb s = FbMapped m0" and "\<not> osk_active s" and "list_all key_ok (osk_keys s)" and "malloc_ok e"
    and "worker_run e is (wk, s) = (wk', s')" and "\<not> osk_active s'"
  shows "\<exists>m. sd_fb s' = FbMapped m \<and> same_outside bar_px m0 m"
proof -
  obtain junk block where e: "e = \<lparr>stack_junk = junk, malloc_ok = True, malloc_mem = block\<rparr>"
    using assms(4) by (cases e) auto
  have "page_kept m0 s" using assms(1-3) by (simp add: page_kept_def same_outside_refl)
  then have "page_kept m0 s'"
    using page.keep_run [of m0 "(wk, s)" junk block "is"] assms(5) unfolding e by simp
  with assms(6) show ?thesis by (simp add: page_kept_def)
qed

definition blank_state :: sd_state where
  "blank_state = sd_init\<lparr>sd_fb := FbMapped (\<lambda>_. 0xFFFF), sd_fb_fd := 3\<rparr>"

text \<open>The keyboard button pressed twice.\<close>

definition kb_button :: inputs where
  "kb_button = \<lparr>in_touch = None, in_keys = Some \<lparr>ev_type = EV_KEY, ev_code = 194, ev_value = 1\<rparr>, in_fifo = None\<rparr>"

theorem osk_restores_page_witness:
  "\<exists>m. sd_fb (snd (worker_run plain_env [kb_button, kb_button] (worker_init, blank_state))) = FbMapped m
     \<and> same_outside bar_px (\<lambda>_. 0xFFFF) m"
proof (rule osk_restores_page [of blank_state _ plain_env "[kb_button, kb_button]" worker_init
      "fst (worker_run plain_env [kb_button, kb_button] (worker_init, blank_state))"])
  have on: "osk_active (show_osk plain_env blank_state)"
    by (simp add: show_osk_def blank_state_def sd_init_def epdc_defs Let_def)
  have fb: "sd_fb (show_osk plain_env blank_state) \<noteq> FbNull"
    by (simp add: show_osk_def blank_state_def sd_init_def epdc_defs redraw_osk_def save_osk_area_def plain_env_def on_fb_def Let_def)
  show "\<not> osk_active (snd (worker_run plain_env [kb_button, kb_button] (worker_init, blank_state)))"
    using on fb
    by (simp add: worker_run_def worker_iter_def kb_button_def button_event_def toggle_osk_def blank_state_def sd_init_def)
      (simp add: hide_osk_def epdc_defs Let_def)
qed (simp_all add: blank_state_def sd_init_def plain_env_def)

lemma show_osk_panel:
  assumes "sd_fb s = FbMapped m0" and "\<not> osk_active s" and "malloc_ok e"
  obtains m b f lang sh sy url where "sd_fb (show_osk e s) = FbMapped (draw_osk (stack_junk e) f lang sh sy url m)"
    "osk_backup (show_osk e s) = Some b" "osk_active (show_osk e s)"
    "sd_fb_fd (show_osk e s) = sd_fb_fd s"
proof -
  obtain b where save: "save_osk_area e s = s\<lparr>osk_backup := Some (save_rect 0 OSK_Y FB_STRIDE OSK_H m0 b)\<rparr>"
    using assms by (cases "osk_backup s") (auto simp: save_osk_area_def)
  show ?thesis
    by (rule that) (use assms in \<open>auto simp: show_osk_def save Let_def epdc_defs redraw_osk_def on_fb_def
        epdc_refresh_area_def aligned_region_def split: option.split\<close>)
qed

lemma copy_rows_nth:
  assumes "a \<le> y" and "y < b" and "0 \<le> x" and "x < FB_STRIDE"
  shows "fold (\<lambda>cy bk. copy_words bk ((cy - OSK_Y) * FB_STRIDE) m (cy * FB_STRIDE) FB_STRIDE) [a..b - 1] bk
     ((y - OSK_Y) * FB_STRIDE + x) = m (y * FB_STRIDE + x)"
proof -
  let ?pic = "\<lambda>i. m (i + OSK_Y * FB_STRIDE)"
  let ?R = "\<lambda>cy. {i. (cy - OSK_Y) * FB_STRIDE \<le> i \<and> i < (cy - OSK_Y) * FB_STRIDE + FB_STRIDE}"
  have "(\<lambda>bk. copy_words bk ((cy - OSK_Y) * FB_STRIDE) m (cy * FB_STRIDE) FB_STRIDE) = paint (?R cy) ?pic" for cy
    by (auto simp: fun_eq_iff copy_words_def paint_def algebra_simps)
  then have "fold (\<lambda>cy bk. copy_words bk ((cy - OSK_Y) * FB_STRIDE) m (cy * FB_STRIDE) FB_STRIDE) [a..b - 1] bk
      = paint (\<Union>cy \<in> set [a..b - 1]. ?R cy) ?pic bk"
    by (simp add: fold_paint [where R = ?R])
  moreover have "(y - OSK_Y) * FB_STRIDE + x \<in> (\<Union>cy \<in> set [a..b - 1]. ?R cy)"
    using assms by (intro UN_I [of y]) auto
  ultimately show ?thesis by (simp add: paint_def algebra_simps)
qed

text \<open>
  A page update that reaches under the keyboard damages the page: the shim copies whole
  rows of the panel into its backup, the keyboard's own pixels beside the updated rectangle
  included. After a 100 x 50 update at (700, 1300) and hiding the keyboard, the pixel at
  (5, 1330), far outside the updated rectangle, has the keyboard's background colour,
  whatever the page had there.
\<close>
theorem update_under_keyboard_damages_page:
  assumes "sd_fb s = FbMapped m0" and "\<not> osk_active s" and "0 \<le> sd_fb_fd s" and "malloc_ok e"
  shows "\<exists>m. sd_fb (hide_osk (SDL_UpdateRect e 700 1300 100 50 (show_osk e s))) = FbMapped m
     \<and> m (1330 * FB_STRIDE + 5) = COLOR_BG"
proof -
  from show_osk_panel [OF assms(1,2,4)] obtain m b f lang sh sy url where sh:
    "sd_fb (show_osk e s) = FbMapped (draw_osk (stack_junk e) f lang sh sy url m)"
    "osk_backup (show_osk e s) = Some b" "osk_active (show_osk e s)" "sd_fb_fd (show_osk e s) = sd_fb_fd s"
    by metis
  let ?m = "draw_osk (stack_junk e) f lang sh sy url m"
  let ?b = "fold (\<lambda>cy bk. copy_words bk ((cy - OSK_Y) * FB_STRIDE) ?m (cy * FB_STRIDE) FB_STRIDE) [1300..1350 - 1] b"
  have "?m (1330 * FB_STRIDE + 5) = COLOR_BG" using osk_margin [of 5 1330] by simp
  then have b: "?b ((1330 - OSK_Y) * FB_STRIDE + 5) = COLOR_BG"
    using copy_rows_nth [of 1300 1330 1350 5 ?m b] by simp
  let ?s = "SDL_UpdateRect e 700 1300 100 50 (show_osk e s)"
  have "?s = redraw_osk e (update_backup 1300 1350 (show_osk e s))"
    using sh assms(3) by (simp add: SDL_UpdateRect_def clip_update_def osk_part_def Let_def)
  then obtain m2 where s2: "sd_fb ?s = FbMapped m2" "osk_backup ?s = Some ?b" "osk_active ?s"
    using sh by (simp add: update_backup_def redraw_osk_def on_fb_def)
  have "sd_fb (hide_osk ?s) = FbMapped (restore_rect 0 OSK_Y FB_STRIDE OSK_H ?b m2)"
    using s2 by (simp add: hide_osk_def Let_def epdc_defs on_fb_def del: fold.simps)
  moreover have "restore_rect 0 OSK_Y FB_STRIDE OSK_H ?b m2 (1330 * FB_STRIDE + 5) = COLOR_BG"
    using b by (simp add: restore_rect_paint paint_def rect_px_def del: fold.simps)
  ultimately show ?thesis by blast
qed

theorem update_under_keyboard_damages_page_witness:
  "\<exists>m. sd_fb (hide_osk (SDL_UpdateRect plain_env 700 1300 100 50 (show_osk plain_env blank_state))) = FbMapped m
     \<and> m (1330 * FB_STRIDE + 5) = COLOR_BG"
  by (rule update_under_keyboard_damages_page) (simp_all add: blank_state_def sd_init_def plain_env_def)

section \<open>Panel regions\<close>

lemma and_minus_8: "x AND (-8) = 8 * (x div 8)" for x :: int
proof -
  have "x AND (-8) = x AND NOT (mask 3)" by (simp add: mask_eq_exp_minus_1 not_int_def)
  also have "\<dots> = push_bit 3 (drop_bit 3 x)" by (rule bit_eqI) (auto simp: bit_simps)
  finally show ?thesis by (simp add: push_bit_eq_mult drop_bit_eq_div)
qed

text \<open>
  The region handed to the panel for a rectangle that touches it is never empty, starts
  at multiples of eight, lies inside the panel and covers the part of the rectangle that is
  on the panel; it exceeds the rectangle by less than eight pixels on each side.
\<close>
theorem epdc_region_sound:
  assumes "0 \<le> left" and "left < FB_WIDTH" and "0 \<le> tp" and "tp < FB_HEIGHT" and "0 < width" and "0 < height"
  shows "\<exists>al at w h. aligned_region left tp width height = Some (al, at, w, h)
     \<and> 8 dvd al \<and> 8 dvd at \<and> 0 \<le> al \<and> 0 \<le> at \<and> 0 < w \<and> 0 < h
     \<and> al + w \<le> FB_WIDTH \<and> at + h \<le> FB_HEIGHT
     \<and> al \<le> left \<and> left < al + 8 \<and> at \<le> tp \<and> tp < at + 8
     \<and> min (left + width) FB_WIDTH \<le> al + w \<and> min (tp + height) FB_HEIGHT \<le> at + h
     \<and> al + w < left + width + 8 \<and> at + h < tp + height + 8"
proof -
  define al at where "al = 8 * (left div 8)" and "at = 8 * (tp div 8)"
  define ar ab where "ar = min (8 * ((left + width + 7) div 8)) FB_WIDTH" and "ab = min (8 * ((tp + height + 7) div 8)) FB_HEIGHT"
  note d = al_def at_def ar_def ab_def
  have lt: "al < ar" "at < ab" using assms unfolding d by linarith+
  then have r: "aligned_region left tp width height = Some (al, at, ar - al, ab - at)"
    unfolding aligned_region_def and_minus_8 Let_def d by (auto simp: min_def)
  have "al \<le> left" "left < al + 8" "at \<le> tp" "tp < at + 8"
      "min (left + width) FB_WIDTH \<le> ar" "min (tp + height) FB_HEIGHT \<le> ab"
      "ar < left + width + 8" "ab < tp + height + 8" "ar \<le> FB_WIDTH" "ab \<le> FB_HEIGHT"
    unfolding d by linarith+
  moreover have "0 \<le> al" "0 \<le> at" "8 dvd al" "8 dvd at" using assms by (simp_all add: d)
  ultimately show ?thesis
    using lt unfolding r
    by (intro exI [of _ al] exI [of _ at] exI [of _ "ar - al"] exI [of _ "ab - at"]) simp
qed

theorem epdc_region_sound_witness:
  "aligned_region 1395 100 20 20 = Some (1392, 96, 12, 24)"
proof -
  obtain al at w h where r: "aligned_region 1395 100 20 20 = Some (al, at, w, h)"
    "8 dvd al" "8 dvd at" "al \<le> 1395" "1395 < al + 8" "at \<le> 100" "100 < at + 8"
    "al + w \<le> FB_WIDTH" "min (1395 + 20) FB_WIDTH \<le> al + w" "min (100 + 20) FB_HEIGHT \<le> at + h" "at + h < 100 + 20 + 8"
    using epdc_region_sound [of 1395 100 20 20] by auto
  have "al = 1392" "at = 96" using r(2-7) by presburger+
  moreover from this have "w = 12" using r(8,9) by simp
  moreover have "h = 24" using r(1) by (simp add: aligned_region_def and_minus_8 Let_def)
  ultimately show ?thesis using r(1) by simp
qed

section \<open>Text\<close>

lemma of_char_char_of: "(of_char (char_of n) :: u32) = of_nat (n mod 256)"
  by (metis of_char_of of_nat_of_char)

definition lead_byte :: "u32 \<Rightarrow> bool" where
  "lead_byte h \<longleftrightarrow> (let c = of_char (char_of (unat (0xC0 OR h))) :: u32 in
     c \<noteq> 0 \<and> \<not> c < 0x80 \<and> c AND 0xE0 = 0xC0 \<and> c AND 0x1F = h)"

definition tail_byte :: "u32 \<Rightarrow> bool" where
  "tail_byte l \<longleftrightarrow> (of_char (char_of (unat (0x80 OR l))) :: u32) AND 0x3F = l"

lemma all_lead_bytes: "list_all (\<lambda>n. lead_byte (of_nat n)) [0..<32]"
  by (simp add: upt_rec lead_byte_def of_char_char_of)

lemma all_tail_bytes: "list_all (\<lambda>n. tail_byte (of_nat n)) [0..<64]"
  by (simp add: upt_rec tail_byte_def of_char_char_of)

lemma small_word: "unat w < n \<Longrightarrow> list_all (\<lambda>k. P (of_nat k)) [0..<n] \<Longrightarrow> P (w :: 'a::len word)"
  by (auto simp: list_all_iff dest!: bspec [of _ _ "unat w"])

lemma utf8_next_encode:
  assumes "0 < cp" and "cp < 0x800"
  shows "utf8_next (utf8_encode cp @ p) = Some (cp, p)"
proof (cases "cp < 128")
  case True
  then have "unat cp < 128" by (simp add: word_less_nat_alt)
  then have "(of_char (char_of (unat cp)) :: u32) = cp" by (simp add: of_char_char_of)
  with True assms show ?thesis by (auto simp: utf8_next_def utf8_encode_def)
next
  case False
  let ?h = "drop_bit 6 cp" and ?l = "cp AND 0x3F"
  have "unat cp < 2048" using assms(2) by (simp add: word_less_nat_alt)
  then have "unat ?h < 32" by (simp only: unat_drop_bit_eq) (simp add: drop_bit_eq_div)
  then have "lead_byte ?h" using all_lead_bytes by (rule small_word)
  moreover have l: "?l = take_bit 6 cp" by (simp add: take_bit_eq_mask mask_eq_exp_minus_1)
  then have "unat ?l < 64" by (simp only: unsigned_take_bit_eq) (simp add: take_bit_eq_mod)
  then have "tail_byte ?l" using all_tail_bytes by (rule small_word)
  moreover have "push_bit 6 ?h OR ?l = cp" unfolding l by (rule bit_word_eqI) (auto simp: bit_simps)
  ultimately show ?thesis
    using False assms(2) by (simp add: utf8_next_def utf8_encode_def lead_byte_def tail_byte_def Let_def)
qed

lemma utf8_codes_encoded:
  "list_all (\<lambda>cp. 0 < cp \<and> cp < 0x800) cps \<Longrightarrow> utf8_codes (concat (map utf8_encode cps) @ nul # junk) = cps"
proof (induction cps)
  case Nil
  then show ?case by (simp add: utf8_codes.simps utf8_next_def)
next
  case (Cons cp cps)
  then show ?case by (simp add: utf8_codes.simps [of "utf8_encode cp @ _"] utf8_next_encode)
qed

text \<open>
  C16. Typed text survives encoding and decoding: the bytes that the keyboard appends for
  any characters below U+0800, which covers both layouts, decode to exactly these
  characters, and the decoder stops at the NUL behind them whatever follows it.
\<close>
theorem utf8_round_trip:
  assumes "list_all (\<lambda>cp. 0 < cp \<and> cp < 0x800) cps"
  shows "utf8_codes (concat (map utf8_encode cps) @ nul # junk) = cps"
  using assms by (rule utf8_codes_encoded)

theorem utf8_round_trip_witness: "utf8_codes (concat (map utf8_encode [0x44F, 0x61]) @ nul # ''tail'') = [0x44F, 0x61]"
  by (rule utf8_round_trip) simp

text \<open>
  Backspace removes one byte, not one character. After typing the two-byte letter U+044F
  into the empty URL bar and pressing Backspace, a dangling lead byte is left, and the
  preview drawn next decodes the NUL as its second byte and runs on into whatever the stack
  holds behind the buffer.
\<close>
theorem backspace_splits_character:
  assumes "sd_ok s" and "g_url_bar_focused s" and "url_of s = utf8_encode 0x44F"
  shows "url_of (act_backspace e s) = [char_of (0xD1 :: nat)]
     \<and> utf8_codes (fst (preview_text junk True lang (url_of (act_backspace e s)))) = 0x440 # utf8_codes junk"
proof -
  have enc: "utf8_encode 0x44F = [char_of (0xD1 :: nat), char_of (0x8F :: nat)]" by (simp add: utf8_encode_def)
  have ne: "char_of (0xD1 :: nat) \<noteq> nul" "char_of (0x8F :: nat) \<noteq> nul" by (simp_all add: char_of_def)
  obtain r where b: "g_current_url s = [char_of (0xD1 :: nat), char_of (0x8F :: nat)] @ r"
    using assms(3) unfolding enc cstr_def by (metis takeWhile_dropWhile_id)
  have u: "url_of (act_backspace e s) = [char_of (0xD1 :: nat)]"
    using assms(2,3) ne by (simp add: act_backspace_def Let_def enc b cstr_def)
  moreover have "utf8_next (char_of (0xD1 :: nat) # nul # junk) = Some (0x440, junk)"
    by (simp add: utf8_next_def of_char_char_of Let_def)
  ultimately show ?thesis
    by (simp add: preview_text_def snprintf_str_def utf8_codes.simps [of "char_of _ # _"] Let_def)
qed

definition ya_state :: sd_state where
  "ya_state = sd_init\<lparr>g_current_url := utf8_encode 0x44F @ replicate 1022 nul\<rparr>"

theorem backspace_splits_character_witness:
  "url_of (act_backspace plain_env ya_state) = [char_of (0xD1 :: nat)]
   \<and> utf8_codes (fst (preview_text ''secret'' True 0 (url_of (act_backspace plain_env ya_state)))) = 0x440 # utf8_codes ''secret''"
proof (rule backspace_splits_character)
  have len: "length (utf8_encode 0x44F) = 2" by (simp add: utf8_encode_def)
  then show "sd_ok ya_state"
    using sd_ok_init by (simp add: ya_state_def sd_ok_def url_ok_def nth_append)
  show "url_of ya_state = utf8_encode 0x44F"
    by (simp add: ya_state_def utf8_encode_def cstr_def char_of_def)
qed (simp add: ya_state_def sd_init_def)

section \<open>The keyboard\<close>

lemma find_apart:
  "pairwise_apart ks \<Longrightarrow> k \<in> set ks \<Longrightarrow> key_hit x y k \<Longrightarrow> find (key_hit x y) ks = Some k"
proof (induction ks)
  case (Cons l ks)
  have "key_hit x y l \<Longrightarrow> l = k"
  proof (rule ccontr)
    assume "key_hit x y l" and "l \<noteq> k"
    then have "keys_apart l k" using Cons.prems by (auto simp: list_all_iff)
    then show False using Cons.prems(3) \<open>key_hit x y l\<close> by (auto simp: keys_apart_def key_hit_def)
  qed
  with Cons show ?case by auto
qed simp

text \<open>
  C37. In both layouts a touch inside a key presses exactly that key: the keys (at most the 64
  the table holds) lie in the keyboard area, no two overlap, and every label fits its key, so
  the order in which the code searches them does not matter.
\<close>
theorem osk_touch_finds_key:
  assumes "osk_keys s = build_osk_layout lang" and "k \<in> set (build_osk_layout lang)" and "key_hit x y k"
  shows "handle_osk_touch e x y s = press_key e k s
     \<and> OSK_Y \<le> y \<and> y < OSK_Y + OSK_H \<and> 0 \<le> x \<and> x < OSK_W \<and> length (osk_keys s) \<le> 64"
  using assms layout_keys_apart [of lang] find_apart [of "build_osk_layout lang" k x y] layout_keys_ok [OF assms(2)]
  by (auto simp: handle_osk_touch_def key_ok_def key_hit_def)

theorem osk_touch_finds_key_witness:
  "handle_osk_touch plain_env 100 1300 (sd_init\<lparr>osk_keys := build_osk_layout 1\<rparr>)
     = press_key plain_env (special_key 12 1275 180 46 ''Hide Kbd'' ''Hide Kbd'' ''Hide Kbd'' ACT_HIDE) (sd_init\<lparr>osk_keys := build_osk_layout 1\<rparr>)"
  using osk_touch_finds_key [of "sd_init\<lparr>osk_keys := build_osk_layout 1\<rparr>" 1
      "special_key 12 1275 180 46 ''Hide Kbd'' ''Hide Kbd'' ''Hide Kbd'' ACT_HIDE" 100 1300 plain_env]
  by (simp add: build_osk_layout_def header_keys_def key_hit_def special_key_def)

section \<open>Commands\<close>

lemma c_string_encode: "0 < cp \<Longrightarrow> c_string (utf8_encode cp)"
proof -
  assume cp: "0 < cp"
  have nz: "char_of n \<noteq> nul" if "0 < n" "n < 256" for n :: nat
  proof
    assume "char_of n = nul"
    then have "of_char (char_of n) = (0 :: nat)" by simp
    then show False using that by (simp add: of_char_of)
  qed
  have "cp < 128 \<Longrightarrow> char_of (unat cp) \<noteq> nul"
    using cp by (intro nz) (auto simp: word_less_nat_alt)
  moreover have "char_of (unat (0xC0 OR drop_bit 6 cp)) \<noteq> nul" if "cp < 0x800"
  proof -
    have "unat cp < 2048" using that by (simp add: word_less_nat_alt)
    then have "unat (drop_bit 6 cp) < 32" by (simp only: unat_drop_bit_eq) (simp add: drop_bit_eq_div)
    then have "lead_byte (drop_bit 6 cp)" using all_lead_bytes by (rule small_word)
    then show ?thesis by (auto simp: lead_byte_def Let_def)
  qed
  moreover have "char_of (unat (0x80 OR (cp AND 0x3F))) \<noteq> nul"
  proof -
    have bit: "bit (0x80 OR (cp AND 0x3F)) 7" by (simp add: bit_simps)
    have "bit (unat (0x80 OR (cp AND 0x3F))) 7" using bit by (simp add: bit_unsigned_iff)
    then show ?thesis by (auto simp: char_of_def)
  qed
  ultimately show ?thesis by (auto simp: utf8_encode_def c_string_def)
qed

lemma c_string_concat: "list_all (\<lambda>cp. 0 < cp) cps \<Longrightarrow> c_string (concat (map utf8_encode cps))"
  by (induction cps) (auto simp: c_string_encode, simp add: c_string_def)

lemma typed_length: "length (typed cps) \<le> 2 * length cps"
  by (induction cps) (simp_all add: typed_def)

text \<open>
  A URL command sent to an empty queue arrives whole and in order: a click into the
  address bar, the wipe of its old contents, one press and release per character, and
  Return; nothing is dropped for up to 951 characters, and the URL shown by the shim is the
  one sent.
\<close>
lemma fifo_url_typed_in_order:
  assumes "sd_ok s" and "eq_contents (sd_queue s) = []"
    and "list_all (\<lambda>cp. 0 < cp \<and> cp < 0x800 \<and> cp \<noteq> 10 \<and> cp \<noteq> 13) cps" and "length cps \<le> 951"
  shows "eq_contents (sd_queue (handle_fifo_command e (''URL:'' @ concat (map utf8_encode cps)) s))
       = click 300 35 @ wipe @ concat (map (\<lambda>cp. key_press (type_sym cp) cp) cps) @ key_press SDLK_RETURN 13
     \<and> url_of (handle_fifo_command e (''URL:'' @ concat (map utf8_encode cps)) s) = take 1023 (concat (map utf8_encode cps))"
proof -
  let ?u = "concat (map utf8_encode cps)"
  have cps: "list_all (\<lambda>cp. 0 < cp \<and> cp < 0x800) cps" "list_all (\<lambda>cp. 0 < cp) cps"
    using assms(3) by (auto simp: list_all_iff)
  have codes: "utf8_codes (?u @ nul # stack_junk e) = cps"
    using cps(1) by (rule utf8_codes_encoded)
  have typed: "typed cps = concat (map (\<lambda>cp. key_press (type_sym cp) cp) cps)"
    using assms(3) by (induction cps) (auto simp: typed_def)
  let ?es = "click 300 35 @ wipe @ typed cps @ key_press SDLK_RETURN 13"
  have q: "sd_queue (handle_fifo_command e (''URL:'' @ ?u) s) = burst ?es (sd_queue s)"
    by (simp add: handle_fifo_command_def fifo_url_def Let_def epdc_defs burst_simps type_text_burst codes)
  have "length (eq_contents (sd_queue s)) + length ?es \<le> 2047"
    using assms(2,4) typed_length [of cps] by simp
  then have "eq_contents (burst ?es (sd_queue s)) = ?es"
    using eq.enq_all_room [of "sd_queue s" ?es] assms(1,2) by (simp add: sd_ok_def del: fold_append)
  moreover have "url_of (handle_fifo_command e (''URL:'' @ ?u) s) = take 1023 ?u"
    using strncpy_buf_ok(3) [of "g_current_url s" 1023 ?u] assms(1) c_string_concat [OF cps(2)]
    by (simp add: handle_fifo_command_def fifo_url_def Let_def epdc_defs sd_ok_def url_ok_def)
  ultimately show ?thesis unfolding q typed by blast
qed

section \<open>Updates of the browser\<close>

text \<open>
  An update rectangle that lies completely left of the panel is not dropped but refreshed
  over the whole width: its width is an unsigned number, becomes huge instead of negative
  when the part left of the panel is subtracted, and is then cut to the panel's width.
\<close>
theorem offscreen_update_refreshes_width:
  assumes "x < 0" and "- (2 ^ 31) \<le> x" and "0 < w" and "uint w + x < 0"
    and "0 \<le> y" and "y + uint h \<le> FB_HEIGHT" and "0 < h"
  shows "clip_update x y w h = Some (0, y, 1404, h)"
proof -
  have h: "0 < uint h" using assms(7) by (simp add: word_less_def)
  have w: "0 \<le> uint w" by simp
  have "uint (w + word_of_int x) = (uint w + x) mod 2 ^ 32"
    by (simp add: uint_word_ariths uint_word_of_int mod_simps)
  also have "\<dots> = (uint w + x + 2 ^ 32) mod 2 ^ 32" by (rule mod_add_self2 [symmetric])
  also have "\<dots> = uint w + x + 2 ^ 32"
  proof (rule mod_pos_pos_trivial)
    have "- 2147483648 \<le> x" using assms(2) by simp
    with w have "0 \<le> uint w + x + 4294967296" by linarith
    then show "0 \<le> uint w + x + 2 ^ 32" by simp
    show "uint w + x + 2 ^ 32 < 2 ^ 32" using assms(4) by simp
  qed
  finally have big: "uint (w + word_of_int x) = uint w + x + 2 ^ 32" .
  have "- 2147483648 \<le> x" using assms(2) by simp
  with w have "1404 < uint w + x + 4294967296" by linarith
  with big have w': "w + word_of_int x > 1404" by (simp add: word_less_def)
  then have w0: "w + word_of_int x \<noteq> 0" by auto
  have "uint (word_of_int y + h) = y + uint h"
    using assms(5,6) h by (simp add: uint_word_ariths uint_word_of_int mod_simps)
  then have "\<not> word_of_int y + h > 1872"
    using assms(6) by (simp add: word_less_def)
  then show ?thesis
    using assms w' w0 h by (auto simp: clip_update_def Let_def)
qed

theorem offscreen_update_refreshes_width_witness: "clip_update (-50) 100 20 30 = Some (0, 100, 1404, 30)"
  by (rule offscreen_update_refreshes_width) simp_all

section \<open>Mouse events\<close>

text \<open>The button as the browser sees it; \<open>None\<close> after a press while down or a release while up.\<close>

fun pressed :: "bool \<Rightarrow> SDL_Event list \<Rightarrow> bool option" where
  "pressed d [] = Some d"
| "pressed d (MouseButtonDown b # es) = (if d then None else pressed True es)"
| "pressed d (MouseButtonUp b # es) = (if d then pressed False es else None)"
| "pressed d (ev # es) = pressed d es"

lemma pressed_append: "pressed d (es @ es') = Option.bind (pressed d es) (\<lambda>d. pressed d es')"
  by (induction d es rule: pressed.induct) simp_all

definition mouse_events :: "bool \<Rightarrow> int \<Rightarrow> int \<Rightarrow> sd_state \<Rightarrow> SDL_Event list" where
  "mouse_events down mx my s =
     (if down \<and> \<not> touch_down s then
        [MouseMotion (motion_to 0 mx my (mx - last_touch_x s) (my - last_touch_y s)), MouseButtonDown (button_at 1 mx my)]
      else if \<not> down \<and> touch_down s then [MouseButtonUp (button_at 0 mx my)]
      else if touch_down s \<and> (mx \<noteq> last_touch_x s \<or> my \<noteq> last_touch_y s)
      then [MouseMotion (motion_to 1 mx my (mx - last_touch_x s) (my - last_touch_y s))] else [])"

lemma report_mouse_queue: "sd_queue (report_mouse down mx my s) = burst (mouse_events down mx my s) (sd_queue s)"
  by (simp add: report_mouse_def mouse_events_def queue_touch_motion_def Let_def)

lemma report_mouse_down: "touch_down (report_mouse down mx my s) = down"
  by (simp add: report_mouse_def Let_def)

lemma mouse_events_pressed: "pressed (touch_down s) (mouse_events down mx my s) = Some down"
  by (simp add: mouse_events_def)

text \<open>
  Touches that go to the browser become well-formed mouse input: for any sequence of
  reports (up to 1023 before the browser reads), the button events put into the queue
  alternate between press and release, every press is preceded by a motion to the same
  point, and at the end the button is down for the browser exactly when the finger is.
\<close>
theorem mouse_reports_alternate:
  assumes "eq_inv (sd_queue s)" and "eq_contents (sd_queue s) = []" and "\<not> touch_down s" and "length rs \<le> 1023"
  shows "let s' = fold (\<lambda>(down, mx, my). report_mouse down mx my) rs s in
     pressed False (eq_contents (sd_queue s')) = Some (touch_down s')
     \<and> touch_down s' = (if rs = [] then False else fst (last rs))"
proof -
  have "eq_inv (sd_queue s') \<and> pressed False (eq_contents (sd_queue s')) = Some (touch_down s')
      \<and> length (eq_contents (sd_queue s')) \<le> 2 * length rs \<and> touch_down s' = (if rs = [] then False else fst (last rs))"
    if "s' = fold (\<lambda>(down, mx, my). report_mouse down mx my) rs s" "length rs \<le> 1023" for s'
    using that
  proof (induction rs arbitrary: s' rule: rev_induct)
    case Nil
    then show ?case using assms by simp
  next
    case (snoc r rs)
    obtain down mx my where r: "r = (down, mx, my)" by (cases r)
    define t where "t = fold (\<lambda>(down, mx, my). report_mouse down mx my) rs s"
    have IH: "eq_inv (sd_queue t)" "pressed False (eq_contents (sd_queue t)) = Some (touch_down t)"
        "length (eq_contents (sd_queue t)) \<le> 2 * length rs"
      using snoc.IH [of t] snoc.prems(2) t_def by auto
    have len: "length (mouse_events down mx my t) \<le> 2" by (simp add: mouse_events_def)
    have "length (eq_contents (sd_queue t)) + length (mouse_events down mx my t) \<le> 2047"
      using IH(3) len snoc.prems(2) by simp
    note q = eq.enq_all_room [OF IH(1) this]
    have s': "s' = report_mouse down mx my t" using snoc.prems(1) r t_def by simp
    show ?case
      using q IH len unfolding s'
      by (simp add: report_mouse_queue report_mouse_down pressed_append mouse_events_pressed r del: length_ring_contents)
  qed
  from this [OF refl assms(4)] show ?thesis by (simp add: Let_def)
qed

theorem mouse_reports_alternate_witness:
  "let s' = fold (\<lambda>(down, mx, my). report_mouse down mx my) [(True, 10, 100), (True, 12, 100), (False, 12, 100)] sd_init in
     pressed False (eq_contents (sd_queue s')) = Some (touch_down s')
     \<and> touch_down s' = (if [(True, 10, 100), (True, 12, 100), (False, 12 :: int, 100 :: int)] = [] then False
         else fst (last [(True, 10, 100), (True, 12, 100), (False, 12 :: int, 100 :: int)]))"
  by (rule mouse_reports_alternate)
    (simp_all add: sd_init_def ring_inv_def ring_contents_def ring_count_def)

lemma hide_osk_idle:
  "osk_active s \<Longrightarrow> sd_fb s = FbMapped m \<Longrightarrow>
     \<not> osk_active (hide_osk s) \<and> sd_queue (hide_osk s) = sd_queue s \<and> touch_down (hide_osk s) = touch_down s"
  by (simp add: hide_osk_def epdc_defs Let_def split: option.split)

text \<open>
  Dismissing the keyboard with its Hide key sends the browser a release without a press:
  the key hides the keyboard while the finger is down, and the lifting finger is then taken
  for the end of a touch on the page.
\<close>
theorem hide_key_sends_stray_release:
  assumes "osk_active s" and "sd_fb s = FbMapped m" and "osk_keys s = build_osk_layout lang" and "\<not> touch_down s"
    and "eq_inv (sd_queue s)" and "eq_contents (sd_queue s) = []"
  shows "let s1 = snd (touch_report e True 100 1300 s); s2 = snd (touch_report e False 100 1300 s1)
     in eq_contents (sd_queue s2) = [MouseButtonUp (button_at 0 100 1300)]
        \<and> pressed False (eq_contents (sd_queue s2)) = None"
proof -
  let ?k = "special_key 12 1275 180 46 ''Hide Kbd'' ''Hide Kbd'' ''Hide Kbd'' ACT_HIDE"
  let ?t = "s\<lparr>touch_down := True\<rparr>"
  let ?p = "epdc_refresh_fast 12 1275 180 46 (draw_key ?k True ?t)"
  have k: "?k \<in> set (build_osk_layout lang)" "key_hit 100 1300 ?k"
    by (simp_all add: build_osk_layout_def header_keys_def key_hit_def special_key_def)
  have "find (key_hit 100 1300) (osk_keys ?t) = Some ?k"
    using find_apart [OF _ k] layout_keys_apart assms(3) by simp
  then have "handle_osk_touch e 100 1300 ?t = hide_osk ?p"
    by (simp add: handle_osk_touch_def press_key_def special_key_def Let_def)
  then have s1: "snd (touch_report e True 100 1300 s) = hide_osk ?p"
    using assms(1,4) by (simp add: touch_report_def report_osk_def)
  obtain m' where "sd_fb ?p = FbMapped m'" using assms(2) by (simp add: epdc_defs draw_key_def on_fb_def)
  moreover have "osk_active ?p" using assms(1) by (simp add: epdc_defs)
  ultimately have p: "\<not> osk_active (hide_osk ?p)" "sd_queue (hide_osk ?p) = sd_queue s" "touch_down (hide_osk ?p)"
    using hide_osk_idle [of ?p m'] by (simp_all add: epdc_defs draw_key_def)
  then have "snd (touch_report e False 100 1300 (hide_osk ?p)) = report_mouse False 100 1300 (hide_osk ?p)"
    by (simp add: touch_report_def report_hotspot_def)
  then have "eq_contents (sd_queue (snd (touch_report e False 100 1300 (hide_osk ?p)))) = [MouseButtonUp (button_at 0 100 1300)]"
    using p assms(6) eq.enq_room [OF assms(5), of "MouseButtonUp (button_at 0 100 1300)"]
    by (simp add: report_mouse_queue mouse_events_def del: length_ring_contents)
  then show ?thesis unfolding s1 Let_def by simp
qed

definition kb_state :: sd_state where
  "kb_state = blank_state\<lparr>osk_active := True, osk_keys := build_osk_layout 0, osk_backup := Some (\<lambda>_. 0)\<rparr>"

theorem hide_key_sends_stray_release_witness:
  "let s1 = snd (touch_report plain_env True 100 1300 kb_state); s2 = snd (touch_report plain_env False 100 1300 s1)
   in eq_contents (sd_queue s2) = [MouseButtonUp (button_at 0 100 1300)]
      \<and> pressed False (eq_contents (sd_queue s2)) = None"
  by (rule hide_key_sends_stray_release [where lang = 0 and m = "\<lambda>_. 0xFFFF"])
    (simp_all add: kb_state_def blank_state_def sd_init_def ring_inv_def ring_contents_def ring_count_def)

section \<open>Timers\<close>

lemma timer_slot_other:
  assumes "\<And>c iv ts. run_cb c iv ts = (nxt c iv, ts)" and "j \<noteq> i"
  shows "timer_slot run_cb (\<lambda>ts. ts) now later i ts ! j = ts ! j"
    and "length (timer_slot run_cb (\<lambda>ts. ts) now later i ts) = length ts"
  using assms(2) by (simp_all add: timer_slot_def assms(1) Let_def split: option.split)

definition timer_next :: "callbacks \<Rightarrow> u64 \<Rightarrow> u64 \<Rightarrow> timers \<Rightarrow> timer \<Rightarrow> timer" where
  "timer_next run_cb now later ts t =
     (case t_cb t of
        Some cb \<Rightarrow> if t_active t \<and> t_expire t \<le> now
          then (let next = fst (run_cb cb (t_interval t) ts) in
             if next = 0 then Timer False (t_interval t) (t_expire t) None
             else Timer True next (later + ucast next) (Some cb))
          else t
      | None \<Rightarrow> t)"

text \<open>
  One pass of the timer thread, with callbacks that leave the timers alone, fires exactly
  the timers that are due: each is armed again for the interval its callback returned, or
  freed when that is 0, and no other slot changes.
\<close>
theorem timer_pass_fires_due:
  assumes "length ts = MAX_TIMERS" and "\<And>c iv ts. run_cb c iv ts = (nxt c iv, ts)"
  shows "timer_pass run_cb (\<lambda>ts. ts) now later ts = map (timer_next run_cb now later ts) ts"
proof -
  let ?f = "timer_slot run_cb (\<lambda>ts. ts) now later"
  have slot: "?f i us ! i = timer_next run_cb now later ts (us ! i)" if "i < length us" for i us
    using that by (auto simp: timer_slot_def timer_next_def assms(2) Let_def split: option.split)
  have "length (fold ?f [0..<n] ts) = length ts \<and>
      (\<forall>j < length ts. fold ?f [0..<n] ts ! j = (if j < n then timer_next run_cb now later ts (ts ! j) else ts ! j))"
    if "n \<le> MAX_TIMERS" for n
    using that
  proof (induction n)
    case (Suc n)
    let ?u = "fold ?f [0..<n] ts"
    have IH: "length ?u = length ts" "\<And>j. j < length ts \<Longrightarrow> ?u ! j = (if j < n then timer_next run_cb now later ts (ts ! j) else ts ! j)"
      using Suc by auto
    have "?f n ?u ! j = (if j < Suc n then timer_next run_cb now later ts (ts ! j) else ts ! j)" if "j < length ts" for j
      using timer_slot_other(1) [OF assms(2), where i = n and ts = ?u] slot [of n ?u] IH that by (cases "j = n") auto
    moreover have "length (?f n ?u) = length ts"
      using timer_slot_other(2) [OF assms(2), where i = n and j = "Suc n" and ts = ?u] IH by simp
    ultimately show ?case by simp
  qed simp
  from this [of MAX_TIMERS] assms(1) show ?thesis
    by (intro nth_equalityI) (auto simp: timer_pass_def)
qed

theorem timer_pass_fires_due_witness:
  "timer_pass (\<lambda>c iv ts. (iv, ts)) (\<lambda>ts. ts) 50 60 (timers_init[3 := Timer True 20 40 (Some 1)]) ! 3
     = Timer True 20 80 (Some 1)"
  using timer_pass_fires_due [of "timers_init[3 := Timer True 20 40 (Some 1)]" "\<lambda>c iv ts. (iv, ts)" "\<lambda>c iv. iv" 50 60]
  by (simp add: timers_init_def timer_next_def)

text \<open>
  A callback that cancels its own timer and starts another one loses the new timer: the
  new timer gets the same slot, and when the callback returns 0 for the old one, the timer
  thread frees the slot.
\<close>
theorem timer_restarted_in_callback_is_lost:
  assumes "length ts = MAX_TIMERS" and "i < MAX_TIMERS" and "t_active (ts ! i)" and "t_cb (ts ! i) = Some cb"
    and "t_expire (ts ! i) \<le> now" and "list_all t_active (take i ts)"
    and "run_cb cb (t_interval (ts ! i)) ts = (0, snd (SDL_AddTimer later iv (Some cb') (snd (SDL_RemoveTimer (Some i) ts))))"
  shows "fst (SDL_AddTimer later iv (Some cb') (snd (SDL_RemoveTimer (Some i) ts))) = Some i
     \<and> \<not> t_active (timer_slot run_cb (\<lambda>ts. ts) now later i ts ! i)"
proof -
  have free: "first_free (xs @ t # ys) = Some (length xs)" if "list_all t_active xs" "\<not> t_active t" for xs t ys
    using that by (induction xs) auto
  let ?r = "snd (SDL_RemoveTimer (Some i) ts)"
  have r: "?r = take i ts @ Timer False (t_interval (ts ! i)) (t_expire (ts ! i)) None # drop (Suc i) ts"
    using assms(1,2) by (simp add: SDL_RemoveTimer_def upd_conv_take_nth_drop)
  have "first_free ?r = Some i"
    unfolding r using free [OF assms(6)] assms(1,2) by simp
  then have add: "SDL_AddTimer later iv (Some cb') ?r = (Some i, ?r[i := Timer True iv (later + ucast iv) (Some cb')])"
    by (simp add: SDL_AddTimer_def)
  have len: "i < length ?r" using assms(1,2) by (simp add: SDL_RemoveTimer_def)
  show ?thesis
    using assms(3-5,7) len unfolding add by (simp add: timer_slot_def Let_def)
qed

theorem timer_restarted_in_callback_is_lost_witness:
  "\<not> t_active (timer_slot (\<lambda>c iv ts. (0, snd (SDL_AddTimer 100 500 (Some 2) (snd (SDL_RemoveTimer (Some 0) ts)))))
      (\<lambda>ts. ts) 90 100 0 (timers_init[0 := Timer True 20 40 (Some 1)]) ! 0)"
  using timer_restarted_in_callback_is_lost [of "timers_init[0 := Timer True 20 40 (Some 1)]" 0 1 90
      "\<lambda>c iv ts. (0, snd (SDL_AddTimer 100 500 (Some 2) (snd (SDL_RemoveTimer (Some 0) ts))))" 100 500 2]
  by (simp add: timers_init_def)

end
