(* ===== verification/App_Switcher.thy ===== *)
theory App_Switcher
  imports Framebuffer
begin

text \<open>
  \<^verbatim>\<open>components/system/src/app-switcher.c\<close>: the dialog that opens on a double tap of Home. It
  stops the running application, draws over the panel, follows the touch screen and, in the
  end, restores the panel and lets the application go on, or starts another one. The variant
  \<^verbatim>\<open>patches/app-switcher-dialog.c\<close> is the same program without the battery text.
\<close>

section \<open>Data\<close>

record Button =
  btn_id :: int
  btn_x :: int
  btn_y :: int
  btn_w :: int
  btn_h :: int
  btn_text :: string
  btn_subtext :: string
  btn_primary :: bool

abbreviation (input) BTN_KOREADER :: int where "BTN_KOREADER \<equiv> 1"
abbreviation (input) BTN_PLATO :: int where "BTN_PLATO \<equiv> 2"
abbreviation (input) BTN_NETSURF :: int where "BTN_NETSURF \<equiv> 3"
abbreviation (input) BTN_MUSIC_PREV :: int where "BTN_MUSIC_PREV \<equiv> 4"
abbreviation (input) BTN_MUSIC_PLAY :: int where "BTN_MUSIC_PLAY \<equiv> 5"
abbreviation (input) BTN_MUSIC_NEXT :: int where "BTN_MUSIC_NEXT \<equiv> 6"
abbreviation (input) BTN_MUSIC_SHUFFLE :: int where "BTN_MUSIC_SHUFFLE \<equiv> 7"
abbreviation (input) BTN_FRONTLIGHT :: int where "BTN_FRONTLIGHT \<equiv> 8"
abbreviation (input) BTN_CLOSE :: int where "BTN_CLOSE \<equiv> 9"

definition mk_button :: "int \<Rightarrow> int \<Rightarrow> int \<Rightarrow> int \<Rightarrow> int \<Rightarrow> string \<Rightarrow> string \<Rightarrow> bool \<Rightarrow> Button" where
  "mk_button i x y w h t st pr =
     \<lparr>btn_id = i, btn_x = x, btn_y = y, btn_w = w, btn_h = h, btn_text = t, btn_subtext = st, btn_primary = pr\<rparr>"

definition buttons :: "Button list" where
  "buttons =
     [mk_button BTN_KOREADER      202 360  1000 120 ''KOReader'' ''PDF, EPUB, MOBI Document Viewer'' False,
      mk_button BTN_PLATO         202 500  1000 120 ''Plato Reader'' ''Fast Touch-Driven Rust Reader'' False,
      mk_button BTN_NETSURF       202 640  1000 120 ''NetSurf Web Browser'' ''Lightweight Web Browsing'' False,
      mk_button BTN_MUSIC_PREV    202 980  230  100 ''|<< Prev'' [] False,
      mk_button BTN_MUSIC_PLAY    452 980  270  100 ''Play / Pause'' [] True,
      mk_button BTN_MUSIC_NEXT    742 980  230  100 ''Next >>|'' [] False,
      mk_button BTN_MUSIC_SHUFFLE 992 980  210  100 ''Shuffle'' [] False,
      mk_button BTN_FRONTLIGHT    202 1160 1000 110 ''Toggle Frontlight (Cool/Warm)'' ''Switch Frontlight On / Off'' False,
      mk_button BTN_CLOSE         202 1290 1000 110 ''Close / Keep Reading'' ''Resume current book or page'' True]"

abbreviation (input) DLG_X :: int where "DLG_X \<equiv> 132"
abbreviation (input) DLG_Y :: int where "DLG_Y \<equiv> 200"
abbreviation (input) DLG_W :: int where "DLG_W \<equiv> 1140"
abbreviation (input) DLG_H :: int where "DLG_H \<equiv> 1470"
abbreviation (input) GRAY_LT :: u16 where "GRAY_LT \<equiv> 0xDEFB"
abbreviation (input) GRAY_DK :: u16 where "GRAY_DK \<equiv> 0x4208"

datatype sw_effect =
    SwRefresh mxcfb_update_data_v1
  | SwSystem string
  | SwWrite string string
  | SwCreate string
  | SwUnlink string
  | SwGrab bool

record sw_state =
  sw_fb :: fbmem
  sw_backup :: "fbmem option"
  active_app :: string
  sw_buttons :: "Button list"
  last_raw_x :: int
  last_raw_y :: int
  is_contact_down :: bool
  was_contact_down :: bool
  pressed_btn :: "nat option"
  chosen_action :: int
  g_running :: bool
  sw_trace :: "sw_effect list"

text \<open>
  What the program finds: the output of the audio control script (which depends on what was
  done before), the contents of the files it reads, the results of opening and mapping the
  panel, the block \<open>malloc\<close> returns, the descriptor of the touch screen, and which files
  can be written.
\<close>

record sw_env =
  music_out :: "sw_effect list \<Rightarrow> string option"
  bat_capacity :: "string option"
  bat_status :: "string option"
  current_app_file :: "string option"
  active_reader_file :: "string option"
  fb_opens :: bool
  fb_maps :: "fbmem option"
  dlg_block :: "fbmem option"
  touch_opens :: bool
  can_write :: "string \<Rightarrow> bool"

definition sw_do :: "sw_effect \<Rightarrow> sw_state \<Rightarrow> sw_state" where
  "sw_do f s = s\<lparr>sw_trace := sw_trace s @ [f]\<rparr>"

definition sw_refresh :: "int \<Rightarrow> int \<Rightarrow> int \<Rightarrow> int \<Rightarrow> sw_state \<Rightarrow> sw_state" where
  "sw_refresh l t w h s = sw_do (SwRefresh (epdc_refresh_data l t w h 1)) s"

definition sw_draw :: "(fbmem \<Rightarrow> fbmem) \<Rightarrow> sw_state \<Rightarrow> sw_state" where
  "sw_draw f s = s\<lparr>sw_fb := f (sw_fb s)\<rparr>"

section \<open>Texts\<close>

text \<open>The part of a path after its last slash.\<close>

definition base_name :: "string \<Rightarrow> string" where
  "base_name t = rev (takeWhile (\<lambda>c. c \<noteq> CHR ''/'') (rev t))"

record music =
  m_status :: string
  m_track :: string
  m_shuffle :: bool

definition music_line :: "string \<Rightarrow> music \<Rightarrow> music" where
  "music_line raw mu =
     (let line = chomp raw in
      if take 7 line = ''STATUS:'' then mu\<lparr>m_status := take 31 (drop 7 line)\<rparr>
      else if take 6 line = ''TRACK:'' then mu\<lparr>m_track := take 255 (base_name (drop 6 line))\<rparr>
      else if take 9 line = ''SHUFFLE:1'' then mu\<lparr>m_shuffle := True\<rparr>
      else mu)"

definition query_music_status :: "string option \<Rightarrow> music" where
  "query_music_status out =
     (let mu = \<lparr>m_status = ''STOPPED'', m_track = [], m_shuffle = False\<rparr>
      in case out of None \<Rightarrow> mu | Some f \<Rightarrow> fold music_line (fgets_all 512 f) mu)"

definition battery_tag :: "string \<Rightarrow> string" where
  "battery_tag status =
     (if status = ''Charging'' then ''CHG''
      else if status = ''Discharging'' then ''DIS''
      else if status = ''Full'' then ''FULL''
      else if status = ''Not charging'' then ''-''
      else ''?'')"

definition query_battery_status :: "string option \<Rightarrow> string option \<Rightarrow> string" where
  "query_battery_status capfile statfile =
     (let cap = (case capfile of None \<Rightarrow> -1 | Some f \<Rightarrow> (case scan_int f of None \<Rightarrow> -1 | Some (n, _) \<Rightarrow> n)) in
      if cap < 0 \<or> cap > 100 then snprintf_str 48 ''BAT n/a''
      else let status = (case statfile of None \<Rightarrow> [] | Some f \<Rightarrow> chomp (fgets_str 32 f))
           in snprintf_str 48 (''BAT '' @ dec_str (nat cap) @ ''% '' @ battery_tag status))"

definition button_label :: "string \<Rightarrow> Button \<Rightarrow> string" where
  "button_label app b =
     (if (btn_id b = BTN_KOREADER \<and> app = ''koreader'') \<or> (btn_id b = BTN_PLATO \<and> app = ''plato'')
         \<or> (btn_id b = BTN_NETSURF \<and> app = ''netsurf'')
      then snprintf_str 128 (btn_text b @ ''  [Running]'')
      else take 127 (btn_text b))"

section \<open>Drawing\<close>

definition draw_button_widget :: "string \<Rightarrow> Button \<Rightarrow> bool \<Rightarrow> fbmem \<Rightarrow> fbmem" where
  "draw_button_widget app b pressed =
     (let bg = (if pressed then 0 else 0xFFFF); fg = (if pressed then 0xFFFF else 0);
          label = button_label app b
      in draws ([draw_rect (btn_x b) (btn_y b) (btn_w b) (btn_h b) bg,
            draw_rect_outline (btn_x b) (btn_y b) (btn_w b) (btn_h b) 4 0]
          @ (if btn_subtext b \<noteq> [] then
               [draw_string_centered (btn_x b) (btn_y b + 16) (btn_w b) 36 label 2 fg bg,
                draw_string_centered (btn_x b) (btn_y b + 60) (btn_w b) 24 (btn_subtext b) 1 fg bg]
             else
               [draw_string_centered (btn_x b) (btn_y b) (btn_w b) (btn_h b) label
                  (if btn_h b \<ge> 90 then 2 else 1) fg bg])))"

definition music_picture :: "music \<Rightarrow> (fbmem \<Rightarrow> fbmem) list" where
  "music_picture mu =
     (let info = snprintf_str 256 (if m_track mu \<noteq> [] then ''Track: '' @ take 45 (m_track mu)
                                   else ''Track: (No track loaded)'');
          state_str = snprintf_str 128 (''Status: '' @ pad_right 8 (m_status mu) @ ''  |  Shuffle: ''
                        @ pad_right 3 (if m_shuffle mu then ''ON'' else ''OFF''))
      in [draw_rect 202 800 1000 160 0xFFFF,
          draw_rect_outline 202 800 1000 160 3 GRAY_DK,
          draw_rect 202 800 1000 36 GRAY_LT,
          draw_string (202 + 20) (800 + 8) ''BACKGROUND MUSIC PLAYER (3.5mm & BLUETOOTH)'' 1 0 GRAY_LT,
          draw_string (202 + 20) (800 + 50) info 2 0 0xFFFF,
          draw_string (202 + 20) (800 + 98) state_str 2 GRAY_DK 0xFFFF])"

definition relabel :: "music \<Rightarrow> Button list \<Rightarrow> Button list" where
  "relabel mu bs = map (\<lambda>b.
     if btn_id b = BTN_MUSIC_PLAY
     then b\<lparr>btn_text := (if m_status mu = ''PLAYING'' then ''Pause [||]'' else ''Play [>]'')\<rparr>
     else if btn_id b = BTN_MUSIC_SHUFFLE
     then b\<lparr>btn_text := (if m_shuffle mu then ''Shuf: ON'' else ''Shuf: OFF'')\<rparr>
     else b) bs"

definition draw_music_section :: "sw_env \<Rightarrow> sw_state \<Rightarrow> sw_state" where
  "draw_music_section e s =
     (let mu = query_music_status (music_out e (sw_trace s));
          bs = relabel mu (sw_buttons s)
      in sw_draw (draws (music_picture mu
            @ map (\<lambda>i. draw_button_widget (active_app s) (bs ! i) False) [3, 4, 5, 6]))
          (s\<lparr>sw_buttons := bs\<rparr>))"

text \<open>The head of the dialog; the battery text is missing in the variant.\<close>

definition dialog_head :: "string option \<Rightarrow> (fbmem \<Rightarrow> fbmem) list" where
  "dialog_head batt =
     [draw_rect DLG_X DLG_Y DLG_W DLG_H 0xFFFF,
      draw_rect_outline DLG_X DLG_Y DLG_W DLG_H 6 0,
      draw_rect DLG_X DLG_Y DLG_W 90 0,
      draw_string_centered DLG_X DLG_Y DLG_W 90 ''NOOK APPLICATION SWITCHER'' 2 0xFFFF 0]
     @ (case batt of None \<Rightarrow> []
        | Some b \<Rightarrow> [draw_string (DLG_X + DLG_W - int (length b) * 16 - 24) (DLG_Y + 29) b 2 0xFFFF 0])
     @ [draw_string 202 315 ''SELECT APPLICATION TO RUN:'' 2 GRAY_DK 0xFFFF]"

definition dialog_with :: "string option \<Rightarrow> sw_env \<Rightarrow> sw_state \<Rightarrow> sw_state" where
  "dialog_with batt e s =
     (let s = sw_draw (draws (dialog_head batt
               @ map (\<lambda>i. draw_button_widget (active_app s) (sw_buttons s ! i) False) [0, 1, 2])) s;
          s = draw_music_section e s
      in sw_draw (draws (map (\<lambda>i. draw_button_widget (active_app s) (sw_buttons s ! i) False) [7, 8])) s)"

definition draw_dialog :: "sw_env \<Rightarrow> sw_state \<Rightarrow> sw_state" where
  "draw_dialog e s = dialog_with (Some (query_battery_status (bat_capacity e) (bat_status e))) e s"

definition draw_dialog_plain :: "sw_env \<Rightarrow> sw_state \<Rightarrow> sw_state" where
  "draw_dialog_plain e s = dialog_with None e s"

section \<open>The application behind the dialog\<close>

definition find_active_app :: "sw_env \<Rightarrow> string" where
  "find_active_app e =
     (let f = (case current_app_file e of Some f \<Rightarrow> Some f | None \<Rightarrow> active_reader_file e);
          app = (case f of None \<Rightarrow> [] | Some f \<Rightarrow> chomp (fgets_str 32 f))
      in if app = [] then ''koreader'' else app)"

definition suspend_active_app :: "sw_state \<Rightarrow> sw_state" where
  "suspend_active_app s =
     (if active_app s = ''koreader'' then sw_do (SwSystem ''killall -STOP luajit 2>/dev/null || true'') s
      else if active_app s = ''plato'' then
        sw_do (SwSystem ''killall -STOP ld-2.19.so 2>/dev/null; killall -STOP plato 2>/dev/null || true'') s
      else if active_app s = ''netsurf'' then sw_do (SwSystem ''killall -STOP netsurf-fb 2>/dev/null || true'') s
      else s)"

definition resume_active_app :: "sw_state \<Rightarrow> sw_state" where
  "resume_active_app s =
     (if active_app s = ''koreader'' then sw_do (SwSystem ''killall -CONT luajit 2>/dev/null || true'') s
      else if active_app s = ''plato'' then
        sw_do (SwSystem ''killall -CONT ld-2.19.so 2>/dev/null; killall -CONT plato 2>/dev/null || true'') s
      else if active_app s = ''netsurf'' then sw_do (SwSystem ''killall -CONT netsurf-fb 2>/dev/null || true'') s
      else s)"

section \<open>Touch\<close>

definition sw_clamp :: "int \<Rightarrow> int \<Rightarrow> int" where
  "sw_clamp n v = (let v = (if v < 0 then 0 else v) in if v \<ge> n then n - 1 else v)"

definition screen_point :: "sw_state \<Rightarrow> int \<times> int" where
  "screen_point s = (sw_clamp FB_WIDTH (1403 - last_raw_y s), sw_clamp FB_HEIGHT (last_raw_x s))"

definition in_button :: "int \<Rightarrow> int \<Rightarrow> Button \<Rightarrow> bool" where
  "in_button x y b \<longleftrightarrow> x \<ge> btn_x b - 35 \<and> x \<le> btn_x b + btn_w b + 35
     \<and> y \<ge> btn_y b - 15 \<and> y \<le> btn_y b + btn_h b + 15"

fun find_button :: "int \<Rightarrow> int \<Rightarrow> Button list \<Rightarrow> nat option" where
  "find_button x y [] = None"
| "find_button x y (b # bs) = (if in_button x y b then Some 0 else map_option Suc (find_button x y bs))"

definition show_button :: "nat \<Rightarrow> bool \<Rightarrow> sw_state \<Rightarrow> sw_state" where
  "show_button i pressed s =
     (let b = sw_buttons s ! i
      in sw_refresh (btn_x b) (btn_y b) (btn_w b) (btn_h b)
           (sw_draw (draw_button_widget (active_app s) b pressed) s))"

definition touch_mark :: "int \<Rightarrow> int \<Rightarrow> sw_state \<Rightarrow> sw_state" where
  "touch_mark x y s = sw_refresh (x - 8) (y - 8) 16 16 (sw_draw (draw_rect (x - 6) (y - 6) 12 12 0) s)"

definition mark_pressed :: "int \<Rightarrow> int \<Rightarrow> sw_state \<Rightarrow> sw_state" where
  "mark_pressed x y s = s\<lparr>pressed_btn := find_button x y (sw_buttons s)\<rparr>"

definition on_press :: "sw_state \<Rightarrow> sw_state" where
  "on_press s =
     (let s = s\<lparr>was_contact_down := True\<rparr> in
      if last_raw_x s \<ge> 0 \<and> last_raw_y s \<ge> 0 then
        let (x, y) = screen_point s;
            s = mark_pressed x y (touch_mark x y s)
        in case pressed_btn s of None \<Rightarrow> s | Some i \<Rightarrow> show_button i True s
      else s)"

definition music_button :: "sw_env \<Rightarrow> string \<Rightarrow> sw_state \<Rightarrow> sw_state" where
  "music_button e cmd s = sw_refresh 202 800 1000 300 (draw_music_section e (sw_do (SwSystem cmd) s))"

definition run_button :: "sw_env \<Rightarrow> int \<Rightarrow> sw_state \<Rightarrow> sw_state" where
  "run_button e i s =
     (if i = BTN_MUSIC_PREV then music_button e ''/opt/audiocontrol.sh prev 2>/dev/null'' s
      else if i = BTN_MUSIC_PLAY then music_button e ''/opt/audiocontrol.sh pause 2>/dev/null'' s
      else if i = BTN_MUSIC_NEXT then music_button e ''/opt/audiocontrol.sh next 2>/dev/null'' s
      else if i = BTN_MUSIC_SHUFFLE then music_button e ''/opt/audiocontrol.sh shuffle 2>/dev/null'' s
      else if i = BTN_FRONTLIGHT then sw_do (SwSystem ''/opt/scripts/toggle_frontlight.sh &'') s
      else s\<lparr>chosen_action := i, g_running := False\<rparr>)"

definition outside_dialog :: "int \<Rightarrow> int \<Rightarrow> bool" where
  "outside_dialog x y \<longleftrightarrow> x < DLG_X - 20 \<or> x > DLG_X + DLG_W + 20 \<or> y < DLG_Y - 20 \<or> y > DLG_Y + DLG_H + 20"

text \<open>The action of a release: that of the pressed button or else of the one under the finger.\<close>

definition act_on_target :: "sw_env \<Rightarrow> int \<Rightarrow> int \<Rightarrow> sw_state \<Rightarrow> sw_state" where
  "act_on_target e x y s =
     (let target = (case pressed_btn s of Some i \<Rightarrow> Some i | None \<Rightarrow> find_button x y (sw_buttons s));
          s = (case target of None \<Rightarrow> s | Some i \<Rightarrow> run_button e (btn_id (sw_buttons s ! i)) s)
      in s\<lparr>pressed_btn := None\<rparr>)"

definition on_release :: "sw_env \<Rightarrow> sw_state \<Rightarrow> sw_state" where
  "on_release e s =
     (let s = s\<lparr>was_contact_down := False\<rparr> in
      if last_raw_x s \<ge> 0 \<and> last_raw_y s \<ge> 0 then
        let (x, y) = screen_point s;
            s = (case pressed_btn s of None \<Rightarrow> s | Some i \<Rightarrow> show_button i False s)
        in if outside_dialog x y then s\<lparr>chosen_action := BTN_CLOSE, g_running := False\<rparr>
           else act_on_target e x y s
      else s)"

definition sw_report :: "sw_env \<Rightarrow> sw_state \<Rightarrow> sw_state" where
  "sw_report e s =
     (if \<not> was_contact_down s \<and> is_contact_down s then on_press s
      else if was_contact_down s \<and> \<not> is_contact_down s then on_release e s
      else s)"

definition sw_event :: "sw_env \<Rightarrow> input_event \<Rightarrow> sw_state \<Rightarrow> sw_state" where
  "sw_event e ev s =
     (if ev_type ev = EV_ABS then
        if ev_code ev = 53 \<or> ev_code ev = 0 then s\<lparr>last_raw_x := ev_value ev\<rparr>
        else if ev_code ev = 54 \<or> ev_code ev = 1 then s\<lparr>last_raw_y := ev_value ev\<rparr>
        else if ev_code ev = 57 then
          if ev_value ev = -1 then s\<lparr>is_contact_down := False\<rparr>
          else if ev_value ev \<ge> 0 then s\<lparr>is_contact_down := True\<rparr> else s
        else s
      else if ev_type ev = EV_KEY \<and> ev_code ev = 330 then s\<lparr>is_contact_down := ev_value ev \<noteq> 0\<rparr>
      else if ev_type ev = EV_SYN \<and> ev_code ev = 0 then sw_report e s
      else s)"

section \<open>The program\<close>

text \<open>
  One wake-up of \<open>select\<close>: the events that can be read, with the signals that arrive in
  between. The inner loop reads on after a signal; it is left only when a release has been
  acted on and \<open>g_running\<close> is then clear.
\<close>

datatype sw_read = SwEv input_event | SwSig

definition release_due :: "input_event \<Rightarrow> sw_state \<Rightarrow> bool" where
  "release_due ev s \<longleftrightarrow> ev_type ev = EV_SYN \<and> ev_code ev = 0 \<and> was_contact_down s \<and> \<not> is_contact_down s
     \<and> last_raw_x s \<ge> 0 \<and> last_raw_y s \<ge> 0"

fun sw_reads :: "sw_env \<Rightarrow> sw_read list \<Rightarrow> sw_state \<Rightarrow> sw_state" where
  "sw_reads e [] s = s"
| "sw_reads e (SwSig # rs) s = sw_reads e rs (s\<lparr>g_running := False\<rparr>)"
| "sw_reads e (SwEv ev # rs) s =
     (let t = sw_event e ev s
      in if release_due ev s \<and> \<not> g_running t then t else sw_reads e rs t)"

text \<open>
  What the main loop waits for: events of the touch screen, a signal, or a failure of
  \<open>select\<close>, which leaves the loop. Nothing more happens once \<open>g_running\<close> is clear.
\<close>

datatype sw_input = SwTouch "sw_read list" | SwSignal | SwSelectError

definition sw_turn :: "sw_env \<Rightarrow> sw_input \<Rightarrow> sw_state \<Rightarrow> sw_state" where
  "sw_turn e i s =
     (if \<not> g_running s then s
      else case i of
        SwTouch rs \<Rightarrow> if touch_opens e then sw_reads e rs s else s
      | SwSignal \<Rightarrow> s\<lparr>g_running := False\<rparr>
      | SwSelectError \<Rightarrow> s\<lparr>g_running := False\<rparr>)"

definition restore_dialog :: "sw_state \<Rightarrow> sw_state" where
  "restore_dialog s =
     (let s = (case sw_backup s of None \<Rightarrow> s | Some b \<Rightarrow> sw_draw (restore_rect DLG_X DLG_Y DLG_W DLG_H b) s)
      in resume_active_app (sw_refresh DLG_X DLG_Y DLG_W DLG_H s))"

definition write_file :: "sw_env \<Rightarrow> string \<Rightarrow> string \<Rightarrow> sw_state \<Rightarrow> sw_state" where
  "write_file e path txt s = (if can_write e path then sw_do (SwWrite path (txt @ [CHR 0x0A])) s else s)"

definition choose_koreader :: "sw_env \<Rightarrow> sw_state \<Rightarrow> sw_state" where
  "choose_koreader e s =
     (if active_app s = ''koreader'' then restore_dialog s
      else sw_do (SwSystem ''killall -9 ld-2.19.so 2>/dev/null; killall -9 plato 2>/dev/null; killall -9 netsurf-fb 2>/dev/null || true'')
             (write_file e ''/tmp/active_reader'' ''koreader'' (write_file e ''/tmp/current_app'' ''koreader'' s)))"

definition choose_plato :: "sw_env \<Rightarrow> sw_state \<Rightarrow> sw_state" where
  "choose_plato e s =
     (if active_app s = ''plato'' then restore_dialog s
      else sw_do (SwSystem ''killall -9 luajit 2>/dev/null; killall -9 netsurf-fb 2>/dev/null || true'')
             (write_file e ''/tmp/active_reader'' ''plato'' (write_file e ''/tmp/current_app'' ''plato'' s)))"

definition choose_netsurf :: "sw_env \<Rightarrow> sw_state \<Rightarrow> sw_state" where
  "choose_netsurf e s =
     sw_do (SwSystem ''/opt/start_browser.sh &'')
       (sw_do (SwSystem ''killall -9 ld-2.19.so 2>/dev/null; killall -9 plato 2>/dev/null; killall -9 luajit 2>/dev/null || true'')
         (write_file e ''/tmp/current_app'' ''netsurf'' s))"

definition sw_finish :: "sw_env \<Rightarrow> sw_state \<Rightarrow> sw_state" where
  "sw_finish e s =
     (let s = (if touch_opens e then sw_do (SwGrab False) s else s);
          s = (if chosen_action s = BTN_KOREADER then choose_koreader e s
               else if chosen_action s = BTN_PLATO then choose_plato e s
               else if chosen_action s = BTN_NETSURF then choose_netsurf e s
               else restore_dialog s)
      in sw_do (SwUnlink ''/tmp/switcher_active'') s)"

definition sw_start :: "sw_env \<Rightarrow> fbmem \<Rightarrow> sw_state" where
  "sw_start e fb = suspend_active_app
     \<lparr>sw_fb = fb, sw_backup = None, active_app = find_active_app e, sw_buttons = buttons,
      last_raw_x = -1, last_raw_y = -1, is_contact_down = False, was_contact_down = False,
      pressed_btn = None, chosen_action = 0, g_running = True, sw_trace = [SwCreate ''/tmp/switcher_active'']\<rparr>"

text \<open>The dialog is drawn over the saved panel; \<open>dlg\<close> is the drawing function.\<close>

definition sw_open :: "(sw_env \<Rightarrow> sw_state \<Rightarrow> sw_state) \<Rightarrow> sw_env \<Rightarrow> sw_state \<Rightarrow> sw_state" where
  "sw_open dlg e s =
     (let s = s\<lparr>sw_backup := map_option (save_rect DLG_X DLG_Y DLG_W DLG_H (sw_fb s)) (dlg_block e)\<rparr>;
          s = sw_refresh DLG_X DLG_Y DLG_W DLG_H (dlg e s)
      in if touch_opens e then sw_do (SwGrab True) s else s)"

definition sw_abort :: "sw_state \<Rightarrow> sw_state" where
  "sw_abort s = sw_do (SwUnlink ''/tmp/switcher_active'') (resume_active_app s)"

text \<open>
  The whole program: exit code and final state. \<open>None\<close>: it still waits for input after the
  given list.
\<close>

definition sw_main_with ::
  "(sw_env \<Rightarrow> sw_state \<Rightarrow> sw_state) \<Rightarrow> sw_env \<Rightarrow> sw_input list \<Rightarrow> (int \<times> sw_state) option" where
  "sw_main_with dlg e is =
     (case (fb_opens e, fb_maps e) of
        (True, Some fb) \<Rightarrow>
          let s = fold (sw_turn e) is (sw_open dlg e (sw_start e fb))
          in if g_running s then None else Some (0, sw_finish e s)
      | _ \<Rightarrow> Some (1, sw_abort (sw_start e (\<lambda>_. 0))))"

definition sw_main :: "sw_env \<Rightarrow> sw_input list \<Rightarrow> (int \<times> sw_state) option" where
  "sw_main = sw_main_with draw_dialog"

definition sw_main_plain :: "sw_env \<Rightarrow> sw_input list \<Rightarrow> (int \<times> sw_state) option" where
  "sw_main_plain = sw_main_with draw_dialog_plain"

end
