(* ===== verification/App_Switcher_Props.thy ===== *)
theory App_Switcher_Props
  imports App_Switcher
begin

text \<open>
  Properties of the application switcher. The locale \<open>dialog_invariant\<close> lists what a
  predicate on the state has to survive while the dialog is open: drawing inside the dialog,
  the mark of a touch, harmless effects, changes of the loop variables. Inside it the whole
  event loop is shown to keep the predicate. It is interpreted for the panel behind the
  dialog (\<open>panel\<close>) and for the commands that the program has issued (\<open>orders\<close>).
\<close>

section \<open>Texts fit into the dialog\<close>

abbreviation dlg_px :: "int set" where
  "dlg_px \<equiv> rect_px DLG_X DLG_Y DLG_W DLG_H"

lemma fold_music_bounds:
  "length (m_status mu) \<le> 31 \<Longrightarrow> length (m_track mu) \<le> 255 \<Longrightarrow>
   length (m_status (fold music_line ls mu)) \<le> 31 \<and> length (m_track (fold music_line ls mu)) \<le> 255"
  by (induction ls arbitrary: mu) (auto simp: music_line_def Let_def)

lemma music_bounds:
  "length (m_status (query_music_status out)) \<le> 31" "length (m_track (query_music_status out)) \<le> 255"
  using fold_music_bounds [of "\<lparr>m_status = ''STOPPED'', m_track = [], m_shuffle = False\<rparr>"]
  by (auto simp: query_music_status_def Let_def split: option.split)

lemma length_snprintf: "length (snprintf_str n s) \<le> n - 1"
  by (simp add: snprintf_str_def)

lemma battery_length: "length (query_battery_status c f) \<le> 47"
  using length_snprintf [of 48] by (simp add: query_battery_status_def Let_def)

text \<open>The buttons keep their places; only two texts change, and never to a long one.\<close>

definition geometry :: "Button \<Rightarrow> int \<times> int \<times> int \<times> int \<times> int \<times> string" where
  "geometry b = (btn_id b, btn_x b, btn_y b, btn_w b, btn_h b, btn_subtext b)"

definition buttons_ok :: "Button list \<Rightarrow> bool" where
  "buttons_ok bs \<longleftrightarrow> map geometry bs = map geometry buttons
     \<and> list_all (\<lambda>b. length (btn_text b) \<le> (if btn_h b = 100 then 12 else 29)) bs"

definition button_ok :: "Button \<Rightarrow> bool" where
  "button_ok b \<longleftrightarrow> 202 \<le> btn_x b \<and> 210 \<le> btn_w b \<and> btn_x b + btn_w b \<le> 1202
     \<and> 360 \<le> btn_y b \<and> 100 \<le> btn_h b \<and> btn_y b + btn_h b \<le> 1400
     \<and> (btn_h b \<noteq> 100 \<longrightarrow> btn_w b = 1000) \<and> (btn_h b = 100 \<longrightarrow> btn_id b \<notin> {1, 2, 3})
     \<and> length (btn_text b) \<le> (if btn_h b = 100 then 12 else 29) \<and> length (btn_subtext b) \<le> 31
     \<and> (btn_h b = 100 \<longrightarrow> btn_subtext b = [])"

lemma buttons_ok_start: "buttons_ok buttons"
  by (simp add: buttons_ok_def buttons_def mk_button_def)

lemma buttons_ok_relabel: "buttons_ok bs \<Longrightarrow> buttons_ok (relabel mu bs)"
proof -
  assume ok: "buttons_ok bs"
  have "map geometry (relabel mu bs) = map geometry bs"
    by (simp add: relabel_def geometry_def)
  moreover have "length (btn_text b) \<le> (if btn_h b = 100 then 12 else 29)" if "b \<in> set (relabel mu bs)" for b
    using that ok by (auto simp: relabel_def buttons_ok_def list_all_iff split: if_splits)
  ultimately show ?thesis
    using ok by (simp add: buttons_ok_def list_all_iff)
qed

lemma buttons_length: "buttons_ok bs \<Longrightarrow> length bs = 9"
  by (drule arg_cong [of _ _ length, OF conjunct1 [OF buttons_ok_def [THEN iffD1]]]) (simp add: buttons_def)

lemma buttons_ok_nth:
  assumes "buttons_ok bs" and "i < 9"
  shows "button_ok (bs ! i)"
proof -
  have "\<forall>g \<in> set (map geometry buttons). case g of (d, x, y, w, h, sub) \<Rightarrow>
      202 \<le> x \<and> 210 \<le> w \<and> x + w \<le> 1202 \<and> 360 \<le> y \<and> 100 \<le> h \<and> y + h \<le> 1400
      \<and> (h \<noteq> 100 \<longrightarrow> w = 1000) \<and> (h = 100 \<longrightarrow> d \<notin> {1, 2, 3}) \<and> length sub \<le> 31 \<and> (h = 100 \<longrightarrow> sub = [])"
    by (simp add: buttons_def mk_button_def geometry_def)
  moreover have "geometry (bs ! i) \<in> set (map geometry buttons)"
    using assms buttons_length [OF assms(1)] by (metis buttons_ok_def length_map nth_map nth_mem)
  moreover have "length (btn_text (bs ! i)) \<le> (if btn_h (bs ! i) = 100 then 12 else 29)"
    using assms buttons_length [OF assms(1)] by (simp add: buttons_ok_def list_all_length)
  ultimately show ?thesis
    by (force simp: button_ok_def geometry_def)
qed

lemma label_length: "length (button_label app b) \<le> length (btn_text b) + 11"
  "btn_id b \<notin> {1, 2, 3} \<Longrightarrow> length (button_label app b) \<le> length (btn_text b)"
  by (auto simp: button_label_def snprintf_str_def)

lemma stays_button:
  assumes "button_ok b"
  shows "stays dlg_px (draw_button_widget app b pressed)"
proof (cases "btn_h b = 100")
  case True
  then have "length (button_label app b) \<le> 12"
    using assms label_length(2) [of b app] by (simp add: button_ok_def)
  with True assms show ?thesis
    unfolding draw_button_widget_def Let_def
    by (intro stays_draws) (simp add: button_ok_def stays_draw_rect stays_draw_rect_outline stays_draw_string_centered)
next
  case False
  then have "length (button_label app b) \<le> 40"
    using assms label_length(1) [of app b] by (simp add: button_ok_def)
  with False assms show ?thesis
    unfolding draw_button_widget_def Let_def
    by (intro stays_draws) (auto simp: button_ok_def stays_draw_rect stays_draw_rect_outline intro!: stays_draw_string_centered)
qed

lemma stays_music_picture:
  assumes "length (m_status mu) \<le> 31" and "f \<in> set (music_picture mu)"
  shows "stays dlg_px f"
proof -
  have "length (take 45 (m_track mu)) \<le> 45" by simp
  then show ?thesis
    using assms
    by (auto simp: music_picture_def Let_def snprintf_str_def pad_right_def
        intro!: stays_draw_rect stays_draw_rect_outline stays_draw_string)
qed

lemma stays_dialog_head:
  assumes "\<And>b. batt = Some b \<Longrightarrow> length b \<le> 47" and "f \<in> set (dialog_head batt)"
  shows "stays dlg_px f"
  using assms
  by (auto simp: dialog_head_def intro!: stays_draw_rect stays_draw_rect_outline stays_draw_string
      stays_draw_string_centered split: option.splits)

section \<open>Invariants of the event loop\<close>

text \<open>Buttons in their places, and a pressed button is one of them.\<close>

definition loop_ok :: "sw_state \<Rightarrow> bool" where
  "loop_ok s \<longleftrightarrow> buttons_ok (sw_buttons s) \<and> (\<forall>i. pressed_btn s = Some i \<longrightarrow> i < 9)"

text \<open>Effects of the open dialog: nothing that signals a process, writes a file or grabs.\<close>

definition harmless_commands :: "string list" where
  "harmless_commands =
     [''/opt/audiocontrol.sh prev 2>/dev/null'', ''/opt/audiocontrol.sh pause 2>/dev/null'',
      ''/opt/audiocontrol.sh next 2>/dev/null'', ''/opt/audiocontrol.sh shuffle 2>/dev/null'',
      ''/opt/scripts/toggle_frontlight.sh &'']"

definition harmless :: "sw_effect \<Rightarrow> bool" where
  "harmless f \<longleftrightarrow> (case f of SwRefresh _ \<Rightarrow> True | SwSystem c \<Rightarrow> c \<in> set harmless_commands | _ \<Rightarrow> False)"

lemma find_button_less: "find_button x y bs = Some i \<Longrightarrow> i < length bs"
  by (induction bs arbitrary: i) (auto split: if_splits)

lemma sw_draw_fields [simp]:
  "sw_buttons (sw_draw f s) = sw_buttons s" "pressed_btn (sw_draw f s) = pressed_btn s"
  "active_app (sw_draw f s) = active_app s" "sw_trace (sw_draw f s) = sw_trace s"
  "g_running (sw_draw f s) = g_running s" "sw_backup (sw_draw f s) = sw_backup s"
  "last_raw_x (sw_draw f s) = last_raw_x s" "last_raw_y (sw_draw f s) = last_raw_y s"
  "chosen_action (sw_draw f s) = chosen_action s" "sw_fb (sw_draw f s) = f (sw_fb s)"
  by (simp_all add: sw_draw_def)

lemma sw_do_fields [simp]:
  "sw_buttons (sw_do f s) = sw_buttons s" "pressed_btn (sw_do f s) = pressed_btn s"
  "active_app (sw_do f s) = active_app s" "sw_trace (sw_do f s) = sw_trace s @ [f]"
  "g_running (sw_do f s) = g_running s" "sw_backup (sw_do f s) = sw_backup s"
  "last_raw_x (sw_do f s) = last_raw_x s" "last_raw_y (sw_do f s) = last_raw_y s"
  "chosen_action (sw_do f s) = chosen_action s" "sw_fb (sw_do f s) = sw_fb s"
  by (simp_all add: sw_do_def)

lemma loop_ok_prims [simp]: "loop_ok (sw_draw f s) = loop_ok s" "loop_ok (sw_do g s) = loop_ok s"
  "loop_ok (sw_refresh a b c d s) = loop_ok s"
  by (simp_all add: sw_refresh_def loop_ok_def)

lemma loop_ok_show_button [simp]: "loop_ok (show_button i p s) = loop_ok s"
  by (simp add: show_button_def Let_def)

lemma loop_ok_music [simp]: "loop_ok s \<Longrightarrow> loop_ok (draw_music_section e s)"
  by (simp add: draw_music_section_def Let_def loop_ok_def buttons_ok_relabel)

lemma loop_ok_run: "loop_ok s \<Longrightarrow> loop_ok (run_button e i s)"
  by (simp add: run_button_def music_button_def) (simp add: loop_ok_def)

lemma loop_ok_pressed: "loop_ok s \<Longrightarrow> pressed_btn s = Some i \<Longrightarrow> i < 9"
  by (simp add: loop_ok_def)

lemma loop_ok_mark: "loop_ok s \<Longrightarrow> loop_ok (mark_pressed x y (touch_mark x' y' s))"
  by (auto simp: mark_pressed_def touch_mark_def loop_ok_def sw_refresh_def buttons_length dest: find_button_less)

lemma loop_ok_press:
  assumes "loop_ok s"
  shows "loop_ok (on_press s)"
proof -
  have "loop_ok (s\<lparr>was_contact_down := True\<rparr>)" using assms by (simp add: loop_ok_def)
  then show ?thesis by (simp add: on_press_def Let_def loop_ok_mark split: prod.split option.split)
qed

lemma loop_ok_release:
  assumes "loop_ok s"
  shows "loop_ok (on_release e s)"
proof -
  have "loop_ok (s\<lparr>was_contact_down := False\<rparr>)" using assms by (simp add: loop_ok_def)
  moreover have "loop_ok (t\<lparr>chosen_action := a, g_running := b\<rparr>)" "loop_ok (t\<lparr>pressed_btn := None\<rparr>)" if "loop_ok t" for t a b
    using that by (simp_all add: loop_ok_def)
  ultimately show ?thesis
    by (simp add: on_release_def act_on_target_def Let_def loop_ok_run split: prod.split option.split)
qed

lemma loop_ok_event:
  assumes "loop_ok s"
  shows "loop_ok (sw_event e ev s)"
proof -
  have "loop_ok (s\<lparr>last_raw_x := v\<rparr>)" "loop_ok (s\<lparr>last_raw_y := v\<rparr>)" "loop_ok (s\<lparr>is_contact_down := c\<rparr>)" for v c
    using assms by (simp_all add: loop_ok_def)
  with assms show ?thesis by (simp add: sw_event_def sw_report_def loop_ok_press loop_ok_release)
qed

lemma loop_ok_reads: "loop_ok s \<Longrightarrow> loop_ok (sw_reads e rs s)"
proof (induction e rs s rule: sw_reads.induct)
  case (2 e rs s)
  have "loop_ok (s\<lparr>g_running := False\<rparr>)" using 2(2) by (simp add: loop_ok_def)
  then show ?case by (simp add: 2(1))
next
  case (3 e ev rs s)
  then show ?case by (simp add: Let_def loop_ok_event)
qed simp

lemma loop_ok_turn:
  assumes "loop_ok s"
  shows "loop_ok (sw_turn e i s)"
proof -
  have "loop_ok (s\<lparr>g_running := False\<rparr>)" using assms by (simp add: loop_ok_def)
  with assms show ?thesis by (simp add: sw_turn_def loop_ok_reads split: sw_input.split)
qed

locale dialog_invariant =
  fixes J :: "sw_state \<Rightarrow> bool"
  assumes draw: "J s \<Longrightarrow> stays dlg_px f \<Longrightarrow> J (sw_draw f s)"
    and mark: "J s \<Longrightarrow> J (touch_mark x y s)"
    and issue: "J s \<Longrightarrow> harmless g \<Longrightarrow> J (sw_do g s)"
    and vars: "J s \<Longrightarrow> sw_fb t = sw_fb s \<Longrightarrow> sw_backup t = sw_backup s \<Longrightarrow> active_app t = active_app s
      \<Longrightarrow> sw_trace t = sw_trace s \<Longrightarrow> J t"
begin

lemma refresh: "J s \<Longrightarrow> J (sw_refresh a b c d s)"
  by (simp add: sw_refresh_def issue harmless_def)

lemma show_button: "loop_ok s \<Longrightarrow> i < 9 \<Longrightarrow> J s \<Longrightarrow> J (show_button i p s)"
  by (simp add: show_button_def Let_def loop_ok_def refresh draw stays_button buttons_ok_nth)

lemma music_section:
  assumes "loop_ok s" and "J s"
  shows "J (draw_music_section e s)"
proof -
  let ?mu = "query_music_status (music_out e (sw_trace s))"
  have ok: "buttons_ok (relabel ?mu (sw_buttons s))"
    using assms by (simp add: loop_ok_def buttons_ok_relabel)
  then have "list_all (stays dlg_px) (map (\<lambda>i. draw_button_widget (active_app s) (relabel ?mu (sw_buttons s) ! i) False) [3, 4, 5, 6])"
    by (simp add: stays_button buttons_ok_nth)
  moreover have "list_all (stays dlg_px) (music_picture ?mu)"
    using music_bounds(1) by (auto simp: list_all_iff intro: stays_music_picture)
  moreover have "J (s\<lparr>sw_buttons := relabel ?mu (sw_buttons s)\<rparr>)"
    using assms(2) by (rule vars) simp_all
  ultimately show ?thesis
    unfolding draw_music_section_def Let_def by (intro draw stays_draws) simp_all
qed

lemma run_button:
  assumes "loop_ok s" and "J s"
  shows "J (run_button e i s)"
proof -
  have "J (s\<lparr>chosen_action := i, g_running := False\<rparr>)"
    using assms(2) by (rule vars) simp_all
  then show ?thesis
    using assms by (simp add: run_button_def music_button_def refresh music_section issue harmless_def harmless_commands_def)
qed

lemma on_press:
  assumes "loop_ok s" and "J s"
  shows "J (on_press s)"
proof -
  let ?d = "s\<lparr>was_contact_down := True\<rparr>"
  have d: "loop_ok ?d" "J ?d" using assms by (auto simp: loop_ok_def intro: vars)
  have "loop_ok (mark_pressed x y (touch_mark x y ?d))" for x y
    using d(1) by (simp add: loop_ok_mark)
  moreover have "J (mark_pressed x y (touch_mark x y ?d))" for x y
    by (rule vars [OF mark [OF d(2)]]) (simp_all add: mark_pressed_def)
  ultimately show ?thesis
    using d by (auto simp: on_press_def Let_def intro!: show_button elim: loop_ok_pressed [rotated] split: prod.split option.split)
qed

lemma on_release:
  assumes "loop_ok s" and "J s"
  shows "J (on_release e s)"
proof -
  let ?d = "s\<lparr>was_contact_down := False\<rparr>"
  let ?u = "case pressed_btn s of None \<Rightarrow> ?d | Some i \<Rightarrow> show_button i False ?d"
  have d: "loop_ok ?d" "J ?d" using assms by (auto simp: loop_ok_def intro: vars)
  have u: "loop_ok ?u" "J ?u"
    using d by (auto simp: show_button loop_ok_pressed split: option.split)
  have "J (act_on_target e x y t)" if t: "loop_ok t" "J t" for x y t
  proof -
    have "J (t'\<lparr>pressed_btn := None\<rparr>)" if "J t'" for t' by (rule vars [OF that]) simp_all
    then show ?thesis
      using t by (simp add: act_on_target_def Let_def run_button split: option.split)
  qed
  moreover have "J (t\<lparr>chosen_action := a, g_running := b\<rparr>)" if "J t" for t a b
    by (rule vars [OF that]) simp_all
  ultimately show ?thesis
    using d u by (simp add: on_release_def Let_def split: prod.split)
qed

lemma event:
  assumes "loop_ok s" and "J s"
  shows "J (sw_event e ev s)"
proof -
  have "J (s\<lparr>last_raw_x := v\<rparr>)" "J (s\<lparr>last_raw_y := v\<rparr>)" "J (s\<lparr>is_contact_down := c\<rparr>)" for v c
    using assms(2) by (auto intro: vars)
  with assms show ?thesis
    by (simp add: sw_event_def sw_report_def on_press on_release)
qed

lemma reads: "loop_ok s \<Longrightarrow> J s \<Longrightarrow> J (sw_reads e rs s)"
proof (induction e rs s rule: sw_reads.induct)
  case (2 e rs s)
  have "loop_ok (s\<lparr>g_running := False\<rparr>)" "J (s\<lparr>g_running := False\<rparr>)"
    using 2(2,3) by (auto simp: loop_ok_def intro: vars)
  then show ?case by (simp add: 2(1))
next
  case (3 e ev rs s)
  then show ?case by (simp add: Let_def event loop_ok_event)
qed simp

lemma turn:
  assumes "loop_ok s" and "J s"
  shows "J (sw_turn e i s)"
proof -
  have "J (s\<lparr>g_running := False\<rparr>)" using assms(2) by (rule vars) simp_all
  with assms show ?thesis by (simp add: sw_turn_def reads split: sw_input.split)
qed

lemma loop:
  assumes "loop_ok s" and "J s"
  shows "J (fold (sw_turn e) is s)"
  using fold_keeps [where I = "\<lambda>s. loop_ok s \<and> J s" and act = "sw_turn e"] assms
  by (blast intro: turn loop_ok_turn)

end

section \<open>The panel and the commands\<close>

text \<open>The pixels of the mark that the program has drawn for a touch.\<close>

definition marked :: "int \<Rightarrow> sw_effect list \<Rightarrow> bool" where
  "marked i tr \<longleftrightarrow> (\<exists>x y. SwRefresh (epdc_refresh_data (x - 8) (y - 8) 16 16 1) \<in> set tr
     \<and> i \<in> rect_px (x - 6) (y - 6) 12 12)"

definition panel_kept :: "fbmem \<Rightarrow> fbmem option \<Rightarrow> sw_state \<Rightarrow> bool" where
  "panel_kept m b s \<longleftrightarrow> sw_backup s = b
     \<and> (\<forall>i. i \<notin> dlg_px \<longrightarrow> sw_fb s i = m i \<or> sw_fb s i = 0 \<and> marked i (sw_trace s))"

definition ordered :: "string \<Rightarrow> sw_effect list \<Rightarrow> sw_state \<Rightarrow> bool" where
  "ordered app tr s \<longleftrightarrow> active_app s = app \<and> (\<exists>fs. sw_trace s = tr @ fs \<and> list_all harmless fs)"

lemma marked_mono: "marked i tr \<Longrightarrow> marked i (tr @ fs)"
  by (auto simp: marked_def)

interpretation panel: dialog_invariant "panel_kept m b"
proof unfold_locales
  fix s f
  assume "panel_kept m b s" and "stays dlg_px f"
  then show "panel_kept m b (sw_draw f s)" by (simp add: panel_kept_def stays_def same_outside_def)
next
  fix s x y
  assume J: "panel_kept m b s"
  have "marked i (sw_trace (touch_mark x y s))" if "i \<in> rect_px (x - 6) (y - 6) 12 12" for i
    using that by (auto simp: marked_def touch_mark_def sw_refresh_def)
  with J show "panel_kept m b (touch_mark x y s)"
    by (auto simp: panel_kept_def touch_mark_def sw_refresh_def draw_rect_paint paint_def intro: marked_mono)
next
  fix s g
  assume "panel_kept m b s"
  then show "panel_kept m b (sw_do g s)" by (auto simp: panel_kept_def intro: marked_mono)
next
  fix s t :: sw_state
  assume "panel_kept m b s" and "sw_fb t = sw_fb s" and "sw_backup t = sw_backup s" and "sw_trace t = sw_trace s"
  then show "panel_kept m b t" by (simp add: panel_kept_def)
qed

interpretation orders: dialog_invariant "ordered app tr"
proof unfold_locales
  fix s x y
  assume "ordered app tr s"
  then show "ordered app tr (touch_mark x y s)"
    by (auto simp: ordered_def touch_mark_def sw_refresh_def harmless_def)
next
  fix s t :: sw_state
  assume "ordered app tr s" and "active_app t = active_app s" and "sw_trace t = sw_trace s"
  then show "ordered app tr t" by (simp add: ordered_def)
qed (auto simp: ordered_def)

text \<open>Opening the dialog establishes both.\<close>

context dialog_invariant
begin

lemma dialog_opens:
  assumes "loop_ok s" and "J s" and batt: "\<And>b. batt = Some b \<Longrightarrow> length b \<le> 47"
  shows "J (dialog_with batt e s)"
proof -
  let ?h = "sw_draw (draws (dialog_head batt @ map (\<lambda>i. draw_button_widget (active_app s) (sw_buttons s ! i) False) [0, 1, 2])) s"
  have "list_all (stays dlg_px) (dialog_head batt)"
    using batt by (auto simp: list_all_iff intro: stays_dialog_head)
  moreover have "list_all (stays dlg_px) (map (\<lambda>i. draw_button_widget (active_app s) (sw_buttons s ! i) False) [0, 1, 2])"
    using assms(1) by (simp add: stays_button buttons_ok_nth loop_ok_def)
  ultimately have h: "J ?h" using assms(2) by (intro draw stays_draws) simp_all
  moreover have "loop_ok ?h" using assms(1) by simp
  ultimately have "J (draw_music_section e ?h)" and "loop_ok (draw_music_section e ?h)"
    by (simp_all only: music_section loop_ok_music)
  then show ?thesis
    unfolding dialog_with_def Let_def
    by (intro draw stays_draws) (simp_all add: stays_button buttons_ok_nth loop_ok_def)
qed

end

lemma loop_ok_dialog: "loop_ok s \<Longrightarrow> loop_ok (dialog_with batt e s)"
  by (simp add: dialog_with_def Let_def)

text \<open>The running state of the program after any inputs.\<close>

definition sw_running :: "(sw_env \<Rightarrow> sw_state \<Rightarrow> sw_state) \<Rightarrow> sw_env \<Rightarrow> fbmem \<Rightarrow> sw_input list \<Rightarrow> sw_state" where
  "sw_running dlg e fb is = fold (sw_turn e) is (sw_open dlg e (sw_start e fb))"

definition good_dialog :: "(sw_env \<Rightarrow> sw_state \<Rightarrow> sw_state) \<Rightarrow> bool" where
  "good_dialog dlg \<longleftrightarrow> dlg \<in> {draw_dialog, draw_dialog_plain}"

lemma good_dialogs [simp]: "good_dialog draw_dialog" "good_dialog draw_dialog_plain"
  by (simp_all add: good_dialog_def)

lemma good_dialog_opens:
  assumes "good_dialog dlg" and "loop_ok s"
  shows "loop_ok (dlg e s)" and "dialog_invariant J \<Longrightarrow> J s \<Longrightarrow> J (dlg e s)"
proof -
  have "\<exists>batt. dlg e s = dialog_with batt e s \<and> (\<forall>b. batt = Some b \<longrightarrow> length b \<le> 47)"
    using assms(1) battery_length unfolding good_dialog_def insert_iff empty_iff
    by (metis draw_dialog_def draw_dialog_plain_def option.distinct(1) option.inject)
  then obtain batt where "dlg e s = dialog_with batt e s" and "\<And>b. batt = Some b \<Longrightarrow> length b \<le> 47" by blast
  then show "loop_ok (dlg e s)" and "dialog_invariant J \<Longrightarrow> J s \<Longrightarrow> J (dlg e s)"
    using dialog_invariant.dialog_opens [of J s batt e] assms(2) by (simp_all add: loop_ok_dialog)
qed

lemma sw_start_fields [simp]:
  "sw_fb (sw_start e fb) = fb" "active_app (sw_start e fb) = find_active_app e"
  "sw_buttons (sw_start e fb) = buttons" "pressed_btn (sw_start e fb) = None"
  "g_running (sw_start e fb)" "chosen_action (sw_start e fb) = 0"
  "was_contact_down (sw_start e fb) = False" "is_contact_down (sw_start e fb) = False"
  by (simp_all add: sw_start_def suspend_active_app_def)
    (simp_all add: sw_do_def)

lemma loop_ok_start: "loop_ok (sw_start e fb)"
  by (simp add: loop_ok_def buttons_ok_start)

lemma loop_ok_open:
  assumes "good_dialog dlg"
  shows "loop_ok (sw_open dlg e (sw_start e fb))"
proof -
  have "loop_ok ((sw_start e fb)\<lparr>sw_backup := b\<rparr>)" for b
    using loop_ok_start by (simp add: loop_ok_def)
  then show ?thesis by (simp add: sw_open_def Let_def good_dialog_opens(1) [OF assms])
qed

definition dlg_backup :: "sw_env \<Rightarrow> fbmem \<Rightarrow> fbmem option" where
  "dlg_backup e fb = map_option (save_rect DLG_X DLG_Y DLG_W DLG_H fb) (dlg_block e)"

lemma running_panel:
  assumes "good_dialog dlg"
  shows "panel_kept fb (dlg_backup e fb) (sw_running dlg e fb is)"
proof -
  let ?s = "(sw_start e fb)\<lparr>sw_backup := dlg_backup e fb\<rparr>"
  have "loop_ok ?s" using loop_ok_start by (simp add: loop_ok_def)
  moreover have "panel_kept fb (dlg_backup e fb) ?s" by (simp add: panel_kept_def)
  ultimately have "panel_kept fb (dlg_backup e fb) (dlg e ?s)"
    using good_dialog_opens(2) [OF assms _ panel.dialog_invariant_axioms] by blast
  then have "panel_kept fb (dlg_backup e fb) (sw_do g (sw_refresh x y w h (dlg e ?s)))" for g x y w h
    by (auto simp: panel_kept_def sw_refresh_def intro: marked_mono)
  moreover have "panel_kept fb (dlg_backup e fb) (sw_refresh x y w h (dlg e ?s))" for x y w h
    using \<open>panel_kept fb (dlg_backup e fb) (dlg e ?s)\<close> by (rule panel.refresh)
  ultimately have "panel_kept fb (dlg_backup e fb) (sw_open dlg e (sw_start e fb))"
    by (simp add: sw_open_def Let_def dlg_backup_def)
  then show ?thesis
    unfolding sw_running_def by (rule panel.loop [OF loop_ok_open [OF assms]])
qed

text \<open>The trace of the open dialog: the marker file, the stop command, the grab, harmless effects.\<close>

definition started_trace :: "sw_env \<Rightarrow> sw_effect list" where
  "started_trace e = sw_trace (sw_start e (\<lambda>_. 0))"

lemma sw_trace_start: "sw_trace (sw_start e fb) = started_trace e"
  by (simp add: started_trace_def sw_start_def suspend_active_app_def)

lemma running_orders:
  assumes "good_dialog dlg"
  obtains fs gs where "sw_trace (sw_running dlg e fb is) = started_trace e @ fs @ (if touch_opens e then [SwGrab True] else []) @ gs"
    and "list_all harmless fs" and "list_all harmless gs" and "active_app (sw_running dlg e fb is) = find_active_app e"
proof -
  let ?s = "(sw_start e fb)\<lparr>sw_backup := dlg_backup e fb\<rparr>"
  have "loop_ok ?s" using loop_ok_start by (simp add: loop_ok_def)
  moreover have "ordered (find_active_app e) (started_trace e) ?s" by (simp add: ordered_def sw_trace_start)
  ultimately have "ordered (find_active_app e) (started_trace e) (dlg e ?s)"
    using good_dialog_opens(2) [OF assms _ orders.dialog_invariant_axioms] by blast
  then have "ordered (find_active_app e) (started_trace e) (sw_refresh DLG_X DLG_Y DLG_W DLG_H (dlg e ?s))"
    by (rule orders.refresh)
  then obtain fs where fs: "list_all harmless fs"
    and tr: "sw_trace (sw_open dlg e (sw_start e fb)) = started_trace e @ fs @ (if touch_opens e then [SwGrab True] else [])"
    and app: "active_app (sw_open dlg e (sw_start e fb)) = find_active_app e"
    by (auto simp: ordered_def sw_open_def Let_def dlg_backup_def)
  let ?tr = "sw_trace (sw_open dlg e (sw_start e fb))"
  have "ordered (find_active_app e) ?tr (sw_open dlg e (sw_start e fb))" by (simp add: ordered_def app)
  then have "ordered (find_active_app e) ?tr (sw_running dlg e fb is)"
    unfolding sw_running_def by (rule orders.loop [OF loop_ok_open [OF assms]])
  then show ?thesis
    using that fs by (auto simp: ordered_def tr)
qed

section \<open>The end of the program\<close>

lemma sw_main_cases:
  assumes "sw_main_with dlg e is = Some (code, s)"
  obtains (failed) "code = 1" "s = sw_abort (sw_start e (\<lambda>_. 0))" "\<not> fb_opens e \<or> fb_maps e = None"
  | (finished) fb where "code = 0" "fb_opens e" "fb_maps e = Some fb" "s = sw_finish e (sw_running dlg e fb is)"
  using assms by (auto simp: sw_main_with_def sw_running_def Let_def split: bool.splits option.splits if_splits)

lemma resume_fields [simp]:
  "sw_fb (resume_active_app s) = sw_fb s" "chosen_action (resume_active_app s) = chosen_action s"
  "active_app (resume_active_app s) = active_app s"
  by (simp_all add: resume_active_app_def)

lemma write_file_fields [simp]:
  "sw_fb (write_file e p t s) = sw_fb s" "chosen_action (write_file e p t s) = chosen_action s"
  "active_app (write_file e p t s) = active_app s"
  by (simp_all add: write_file_def)

lemmas choose_defs = choose_koreader_def choose_plato_def choose_netsurf_def

lemma finish_action: "chosen_action (sw_finish e s) = chosen_action s"
  by (simp add: sw_finish_def Let_def choose_defs restore_dialog_def sw_refresh_def split: option.split)

text \<open>The choices after which the dialog goes away and the same application goes on.\<close>

definition same_app :: "int \<Rightarrow> string \<Rightarrow> bool" where
  "same_app a app \<longleftrightarrow> a \<noteq> BTN_NETSURF \<and> (a = BTN_KOREADER \<longrightarrow> app = ''koreader'') \<and> (a = BTN_PLATO \<longrightarrow> app = ''plato'')"

lemma finish_same_app:
  assumes "same_app (chosen_action s) (active_app s)"
  shows "sw_finish e s = sw_do (SwUnlink ''/tmp/switcher_active'')
           (restore_dialog (if touch_opens e then sw_do (SwGrab False) s else s))"
  using assms by (auto simp: sw_finish_def Let_def same_app_def choose_defs)

lemma restore_marked: "marked i (sw_trace s) \<Longrightarrow> marked i (sw_trace (restore_dialog s))"
  by (auto simp: restore_dialog_def Let_def resume_active_app_def sw_refresh_def marked_def split: option.split)

text \<open>
  C14. Closing the dialog gives the panel back: when the program ends without switching to
  another application and the copy of the panel could be made, every pixel is as it was
  before the dialog opened, except for the black marks of touches outside the dialog. Inside
  the dialog nothing remains, whatever was pressed, played or redrawn meanwhile.\<close>

theorem switcher_close_restores_panel:
  assumes "sw_main e is = Some (0, s)" and "fb_maps e = Some fb" and "dlg_block e = Some b"
    and "same_app (chosen_action s) (find_active_app e)"
  shows "sw_fb s i = fb i \<or> i \<notin> dlg_px \<and> sw_fb s i = 0 \<and> marked i (sw_trace s)"
proof -
  let ?r = "sw_running draw_dialog e fb is"
  from assms(1,2) have s: "s = sw_finish e ?r"
    unfolding sw_main_def by (auto elim: sw_main_cases)
  have "active_app ?r = find_active_app e" by (rule running_orders [of draw_dialog e fb "is"]) simp_all
  with assms(4) have fin: "s = sw_do (SwUnlink ''/tmp/switcher_active'')
      (restore_dialog (if touch_opens e then sw_do (SwGrab False) ?r else ?r))"
    by (simp add: s finish_action finish_same_app)
  have kept: "panel_kept fb (dlg_backup e fb) ?r" by (simp add: running_panel)
  then have "sw_fb s = restore_rect DLG_X DLG_Y DLG_W DLG_H (save_rect DLG_X DLG_Y DLG_W DLG_H fb b) (sw_fb ?r)"
    by (simp add: fin restore_dialog_def Let_def sw_refresh_def panel_kept_def dlg_backup_def assms(3))
  moreover have "holds_rect DLG_X DLG_Y DLG_W DLG_H (save_rect DLG_X DLG_Y DLG_W DLG_H fb b) fb"
    by (rule save_holds) simp
  ultimately have "i \<in> dlg_px \<Longrightarrow> sw_fb s i = fb i" and "i \<notin> dlg_px \<Longrightarrow> sw_fb s i = sw_fb ?r i"
    by (simp_all add: restore_rect_paint paint_def holds_rect_def)
  moreover have "marked i (sw_trace ?r) \<Longrightarrow> marked i (sw_trace s)"
    by (auto simp: fin intro!: marked_mono restore_marked)
  ultimately show ?thesis using kept by (cases "i \<in> dlg_px") (auto simp: panel_kept_def)
qed

section \<open>The processes\<close>

text \<open>
  What the commands of the program do to a process that exists when it starts.
  \<open>signals sig p cmd\<close>: the shell command runs \<^verbatim>\<open>killall -sig p\<close>.
\<close>

datatype proc = Runs | Stopped | Gone

definition signals :: "string \<Rightarrow> string \<Rightarrow> string \<Rightarrow> bool" where
  "signals sig p cmd = strstr cmd (''killall -'' @ sig @ '' '' @ p @ '' 2>'')"

definition after_effect :: "string \<Rightarrow> sw_effect \<Rightarrow> proc \<Rightarrow> proc" where
  "after_effect p f st = (case f of
       SwSystem c \<Rightarrow> if signals ''9'' p c then Gone
         else if signals ''STOP'' p c \<and> st = Runs then Stopped
         else if signals ''CONT'' p c \<and> st = Stopped then Runs else st
     | _ \<Rightarrow> st)"

definition app_programs :: "string list" where
  "app_programs = [''luajit'', ''ld-2.19.so'', ''plato'', ''netsurf-fb'']"

text \<open>The programs that a choice ends.\<close>

definition ended_by :: "int \<Rightarrow> string \<Rightarrow> string list" where
  "ended_by a app =
     (if a = BTN_KOREADER \<and> app \<noteq> ''koreader'' then [''ld-2.19.so'', ''plato'', ''netsurf-fb'']
      else if a = BTN_PLATO \<and> app \<noteq> ''plato'' then [''luajit'', ''netsurf-fb'']
      else if a = BTN_NETSURF then [''ld-2.19.so'', ''plato'', ''luajit'']
      else [])"

lemma commands_signal_nothing:
  "list_all (\<lambda>c. list_all (\<lambda>p. list_all (\<lambda>sig. \<not> signals sig p c) [''9'', ''STOP'', ''CONT'']) app_programs)
     (''/opt/start_browser.sh &'' # harmless_commands)"
  by code_simp

lemma harmless_proc: "list_all harmless fs \<Longrightarrow> p \<in> set app_programs \<Longrightarrow> fold (after_effect p) fs st = st"
proof (induction fs arbitrary: st)
  case (Cons f fs)
  then have "after_effect p f st = st"
    using commands_signal_nothing
    by (auto simp: harmless_def after_effect_def list_all_iff split: sw_effect.splits)
  with Cons show ?case by simp
qed simp

text \<open>The programs of an application, and the effect of each command on each of them.\<close>

definition programs_of :: "string \<Rightarrow> string list" where
  "programs_of app = (if app = ''koreader'' then [''luajit''] else if app = ''plato'' then [''ld-2.19.so'', ''plato'']
     else if app = ''netsurf'' then [''netsurf-fb''] else [])"

definition stop_of :: "string \<Rightarrow> string \<Rightarrow> proc \<Rightarrow> proc" where
  "stop_of app p st = (if p \<in> set (programs_of app) \<and> st = Runs then Stopped else st)"

definition cont_of :: "string \<Rightarrow> string \<Rightarrow> proc \<Rightarrow> proc" where
  "cont_of app p st = (if p \<in> set (programs_of app) \<and> st = Stopped then Runs else st)"

definition kill_of :: "string list \<Rightarrow> string \<Rightarrow> proc \<Rightarrow> proc" where
  "kill_of ps p st = (if p \<in> set ps then Gone else st)"

definition does :: "string \<Rightarrow> (string \<Rightarrow> proc \<Rightarrow> proc) \<Rightarrow> bool" where
  "does c f = list_all (\<lambda>p. list_all (\<lambda>st. after_effect p (SwSystem c) st = f p st) [Runs, Stopped, Gone]) app_programs"

lemma doesD: "does c f \<Longrightarrow> p \<in> set app_programs \<Longrightarrow> after_effect p (SwSystem c) st = f p st"
  by (cases st) (auto simp: does_def list_all_iff)

lemma stop_commands: "list_all (\<lambda>(app, c). does c (stop_of app))
   [(''koreader'', ''killall -STOP luajit 2>/dev/null || true''),
    (''plato'', ''killall -STOP ld-2.19.so 2>/dev/null; killall -STOP plato 2>/dev/null || true''),
    (''netsurf'', ''killall -STOP netsurf-fb 2>/dev/null || true'')]"
  by code_simp

lemma cont_commands: "list_all (\<lambda>(app, c). does c (cont_of app))
   [(''koreader'', ''killall -CONT luajit 2>/dev/null || true''),
    (''plato'', ''killall -CONT ld-2.19.so 2>/dev/null; killall -CONT plato 2>/dev/null || true''),
    (''netsurf'', ''killall -CONT netsurf-fb 2>/dev/null || true'')]"
  by code_simp

lemma kill_commands: "list_all (\<lambda>(ps, c). does c (kill_of ps))
   [([''ld-2.19.so'', ''plato'', ''netsurf-fb''],
      ''killall -9 ld-2.19.so 2>/dev/null; killall -9 plato 2>/dev/null; killall -9 netsurf-fb 2>/dev/null || true''),
    ([''luajit'', ''netsurf-fb''], ''killall -9 luajit 2>/dev/null; killall -9 netsurf-fb 2>/dev/null || true''),
    ([''ld-2.19.so'', ''plato'', ''luajit''],
      ''killall -9 ld-2.19.so 2>/dev/null; killall -9 plato 2>/dev/null; killall -9 luajit 2>/dev/null || true''),
    ([], ''/opt/start_browser.sh &'')]"
  by code_simp

text \<open>The state of a process after a trace.\<close>

definition proc_after :: "string \<Rightarrow> sw_effect list \<Rightarrow> proc \<Rightarrow> proc" where
  "proc_after p tr st = fold (after_effect p) tr st"

lemma proc_after_simps [simp]:
  "proc_after p [] st = st" "proc_after p (tr @ tr') st = proc_after p tr' (proc_after p tr st)"
  "proc_after p [SwRefresh u] st = st" "proc_after p [SwWrite q t] st = st" "proc_after p [SwCreate q] st = st"
  "proc_after p [SwUnlink q] st = st" "proc_after p [SwGrab g] st = st"
  by (simp_all add: proc_after_def after_effect_def)

lemma proc_started:
  "p \<in> set app_programs \<Longrightarrow> proc_after p (started_trace e) st = stop_of (find_active_app e) p st"
  using stop_commands
  by (auto simp: started_trace_def sw_start_def suspend_active_app_def proc_after_def doesD) (simp_all add: after_effect_def stop_of_def programs_of_def)

lemma proc_resume:
  "p \<in> set app_programs \<Longrightarrow> proc_after p (sw_trace (resume_active_app s)) st
     = cont_of (active_app s) p (proc_after p (sw_trace s) st)"
  using cont_commands
  by (auto simp: resume_active_app_def proc_after_def doesD) (simp_all add: cont_of_def programs_of_def)

lemma cont_stop: "st \<noteq> Stopped \<Longrightarrow> cont_of app p (stop_of app p st) = st"
  by (auto simp: cont_of_def stop_of_def)

lemma proc_write: "proc_after p (sw_trace (write_file e q t s)) st = proc_after p (sw_trace s) st"
  by (simp add: write_file_def)

lemma proc_restore:
  "p \<in> set app_programs \<Longrightarrow> proc_after p (sw_trace (restore_dialog s)) st
     = cont_of (active_app s) p (proc_after p (sw_trace s) st)"
  by (simp add: restore_dialog_def Let_def proc_resume sw_refresh_def split: option.split)

lemma proc_issue:
  "does c f \<Longrightarrow> p \<in> set app_programs \<Longrightarrow> proc_after p (sw_trace (sw_do (SwSystem c) s)) st = f p (proc_after p (sw_trace s) st)"
  by (simp add: doesD proc_after_def)

lemma proc_running:
  assumes "good_dialog dlg" and "p \<in> set app_programs"
  shows "proc_after p (sw_trace (sw_running dlg e fb is)) st = stop_of (find_active_app e) p st"
proof -
  obtain fs gs where "sw_trace (sw_running dlg e fb is) = started_trace e @ fs @ (if touch_opens e then [SwGrab True] else []) @ gs"
    and "list_all harmless fs" and "list_all harmless gs"
    using running_orders [OF assms(1)] by blast
  then show ?thesis
    using assms(2) harmless_proc [of _ p] by (simp add: proc_started) (simp add: proc_after_def)
qed

text \<open>The effect of the program's last part on a process.\<close>

lemma proc_finish:
  assumes "p \<in> set app_programs"
  shows "proc_after p (sw_trace (sw_finish e s)) st
    = (if same_app (chosen_action s) (active_app s) then cont_of (active_app s) p (proc_after p (sw_trace s) st)
       else kill_of (ended_by (chosen_action s) (active_app s)) p (proc_after p (sw_trace s) st))"
proof (cases "same_app (chosen_action s) (active_app s)")
  case True
  with assms show ?thesis by (simp add: finish_same_app proc_restore)
next
  case False
  let ?g = "if touch_opens e then sw_do (SwGrab False) s else s"
  let ?after = "\<lambda>t. proc_after p (sw_trace t) st"
  have none: "kill_of [] p x = x" for x by (simp add: kill_of_def)
  note kills = kill_commands [unfolded list.pred_inject prod.case]
  note issue = proc_issue [OF conjunct1 [OF kills] assms] proc_issue [OF conjunct1 [OF conjunct2 [OF kills]] assms]
    proc_issue [OF conjunct1 [OF conjunct2 [OF conjunct2 [OF kills]]] assms]
    proc_issue [OF conjunct1 [OF conjunct2 [OF conjunct2 [OF conjunct2 [OF kills]]]] assms]
  have unl: "?after (sw_do (SwUnlink q) t) = ?after t" for q t by simp
  have g: "?after ?g = ?after s" "active_app ?g = active_app s" by simp_all
  have
    "active_app s \<noteq> ''koreader'' \<Longrightarrow> ?after (choose_koreader e ?g) = kill_of [''ld-2.19.so'', ''plato'', ''netsurf-fb''] p (?after s)"
    "active_app s \<noteq> ''plato'' \<Longrightarrow> ?after (choose_plato e ?g) = kill_of [''luajit'', ''netsurf-fb''] p (?after s)"
    "?after (choose_netsurf e ?g) = kill_of [''ld-2.19.so'', ''plato'', ''luajit''] p (?after s)"
    by (simp_all only: choose_defs g if_False issue none proc_write)
  with False show ?thesis
    unfolding sw_finish_def Let_def unl by (auto simp: same_app_def ended_by_def)
qed

lemma kill_stop:
  assumes "\<not> same_app a app" and "\<not> (a = BTN_NETSURF \<and> app = ''netsurf'')" and "st \<noteq> Stopped"
  shows "kill_of (ended_by a app) p (stop_of app p st) = (if p \<in> set (ended_by a app) then Gone else st)"
  using assms by (auto simp: kill_of_def stop_of_def same_app_def ended_by_def programs_of_def)

lemma same_app_ends: "same_app a app \<Longrightarrow> ended_by a app = []"
  by (simp add: same_app_def ended_by_def)

text \<open>
  C13. Which programs survive the dialog: whatever was touched in between, when the switcher
  ends (also when it could not open the panel), a process of the reading programs is in the
  state it was in before, unless the choice ends it. No program is left stopped. The one
  exception is NetSurf chosen while NetSurf is the active application.\<close>

theorem switcher_processes:
  assumes "sw_main e is = Some (code, s)" and "p \<in> set app_programs" and "st \<noteq> Stopped"
    and "\<not> (chosen_action s = BTN_NETSURF \<and> find_active_app e = ''netsurf'')"
  shows "proc_after p (sw_trace s) st
    = (if p \<in> set (ended_by (chosen_action s) (find_active_app e)) then Gone else st)"
  using assms(1) unfolding sw_main_def
proof (cases rule: sw_main_cases)
  case failed
  then have "proc_after p (sw_trace s) st = st"
    using assms(2,3) by (simp add: sw_abort_def proc_resume sw_trace_start proc_started cont_stop)
  moreover have "chosen_action s = 0" by (simp add: failed sw_abort_def)
  ultimately show ?thesis by (simp add: ended_by_def)
next
  case (finished fb)
  let ?r = "sw_running draw_dialog e fb is"
  have app: "active_app ?r = find_active_app e" by (rule running_orders [of draw_dialog e fb "is"]) simp_all
  have "proc_after p (sw_trace s) st
    = (if same_app (chosen_action s) (find_active_app e) then cont_of (find_active_app e) p (stop_of (find_active_app e) p st)
       else kill_of (ended_by (chosen_action s) (find_active_app e)) p (stop_of (find_active_app e) p st))"
    using assms(2) by (simp add: finished(4) proc_finish proc_running app finish_action)
  then show ?thesis
    using assms(3,4) by (simp add: cont_stop kill_stop same_app_ends)
qed

section \<open>The end of a run\<close>

lemma signal_stops: "\<not> g_running (sw_turn e SwSignal s)"
  by (simp add: sw_turn_def)

definition grabs :: "sw_effect list \<Rightarrow> sw_effect list" where
  "grabs tr = filter (\<lambda>f. case f of SwGrab _ \<Rightarrow> True | _ \<Rightarrow> False) tr"

lemma grabs_simps [simp]: "grabs [] = []" "grabs (tr @ tr') = grabs tr @ grabs tr'"
  "grabs (SwGrab g # tr) = SwGrab g # grabs tr" "grabs (SwSystem c # tr) = grabs tr" "grabs (SwRefresh u # tr) = grabs tr"
  "grabs (SwUnlink q # tr) = grabs tr" "grabs (SwCreate q # tr) = grabs tr" "grabs (SwWrite q t # tr) = grabs tr"
  by (simp_all add: grabs_def)

lemma grabs_harmless: "list_all harmless fs \<Longrightarrow> grabs fs = []"
  by (induction fs) (auto simp: grabs_def harmless_def split: sw_effect.splits)

lemma grabs_prims [simp]:
  "grabs (sw_trace (write_file e p t s)) = grabs (sw_trace s)"
  "grabs (sw_trace (resume_active_app s)) = grabs (sw_trace s)"
  "grabs (sw_trace (restore_dialog s)) = grabs (sw_trace s)"
  by (simp_all add: write_file_def resume_active_app_def restore_dialog_def sw_refresh_def Let_def split: option.split)

lemma grabs_finish: "grabs (sw_trace (sw_finish e s)) = grabs (sw_trace s) @ (if touch_opens e then [SwGrab False] else [])"
  by (simp add: sw_finish_def Let_def choose_defs)

lemma grabs_started: "grabs (started_trace e) = []"
  by (simp add: started_trace_def sw_start_def suspend_active_app_def)

text \<open>
  C35. A signal always ends the switcher, whatever happened before: it removes the marker file
  \<^verbatim>\<open>/tmp/switcher_active\<close> as its last act, and the touch screen, if it was grabbed, is
  released again. When the panel cannot be opened or mapped the exit code is 1, nothing is
  grabbed and nothing drawn.\<close>

theorem switcher_signal_ends:
  "\<exists>code s. sw_main e (is @ [SwSignal]) = Some (code, s)
     \<and> last (sw_trace s) = SwUnlink ''/tmp/switcher_active''
     \<and> (if fb_opens e \<and> fb_maps e \<noteq> None
        then code = 0 \<and> grabs (sw_trace s) = (if touch_opens e then [SwGrab True, SwGrab False] else [])
        else code = 1 \<and> grabs (sw_trace s) = [] \<and> sw_fb s = (\<lambda>_. 0))"
proof (cases "fb_opens e \<and> fb_maps e \<noteq> None")
  case True
  then obtain fb where fb: "fb_maps e = Some fb" by auto
  let ?r = "sw_running draw_dialog e fb (is @ [SwSignal])"
  obtain fs gs where "sw_trace ?r = started_trace e @ fs @ (if touch_opens e then [SwGrab True] else []) @ gs"
    and "list_all harmless fs" and "list_all harmless gs"
    using running_orders [OF good_dialogs(1)] by blast
  then have "grabs (sw_trace (sw_finish e ?r)) = (if touch_opens e then [SwGrab True, SwGrab False] else [])"
    by (simp add: grabs_finish grabs_started grabs_harmless)
  moreover have "\<not> g_running ?r" by (simp add: sw_running_def signal_stops)
  then have "sw_main e (is @ [SwSignal]) = Some (0, sw_finish e ?r)"
    using True fb by (simp add: sw_main_def sw_main_with_def sw_running_def Let_def)
  moreover have "last (sw_trace (sw_finish e ?r)) = SwUnlink ''/tmp/switcher_active''"
    by (simp add: sw_finish_def Let_def)
  ultimately show ?thesis using True by auto
next
  case False
  then have "sw_main e (is @ [SwSignal]) = Some (1, sw_abort (sw_start e (\<lambda>_. 0)))"
    by (auto simp: sw_main_def sw_main_with_def split: bool.split option.split)
  then show ?thesis
    using False by (auto simp: sw_abort_def sw_trace_start grabs_started)
qed

section \<open>The hit test\<close>

definition inside_button :: "int \<Rightarrow> int \<Rightarrow> Button \<Rightarrow> bool" where
  "inside_button x y b \<longleftrightarrow> btn_x b \<le> x \<and> x < btn_x b + btn_w b \<and> btn_y b \<le> y \<and> y < btn_y b + btn_h b"

lemma find_button_geometry:
  "map geometry bs = map geometry bs' \<Longrightarrow> find_button x y bs = find_button x y bs'"
proof (induction bs arbitrary: bs')
  case (Cons b bs)
  then obtain b' bs'' where "bs' = b' # bs''" by (cases bs') auto
  with Cons show ?case by (auto simp: geometry_def in_button_def)
qed simp

text \<open>The hit areas and the visible areas of the nine buttons.\<close>

lemma find_button_closed:
  "find_button x y buttons =
     (if 167 \<le> x \<and> x \<le> 1237 \<and> 345 \<le> y \<and> y \<le> 495 then Some 0
      else if 167 \<le> x \<and> x \<le> 1237 \<and> 485 \<le> y \<and> y \<le> 635 then Some 1
      else if 167 \<le> x \<and> x \<le> 1237 \<and> 625 \<le> y \<and> y \<le> 775 then Some 2
      else if 167 \<le> x \<and> x \<le> 467 \<and> 965 \<le> y \<and> y \<le> 1095 then Some 3
      else if 417 \<le> x \<and> x \<le> 757 \<and> 965 \<le> y \<and> y \<le> 1095 then Some 4
      else if 707 \<le> x \<and> x \<le> 1007 \<and> 965 \<le> y \<and> y \<le> 1095 then Some 5
      else if 957 \<le> x \<and> x \<le> 1237 \<and> 965 \<le> y \<and> y \<le> 1095 then Some 6
      else if 167 \<le> x \<and> x \<le> 1237 \<and> 1145 \<le> y \<and> y \<le> 1285 then Some 7
      else if 167 \<le> x \<and> x \<le> 1237 \<and> 1275 \<le> y \<and> y \<le> 1415 then Some 8
      else None)"
  by (simp add: buttons_def mk_button_def in_button_def)

lemma inside_button_closed:
  "inside_button x y (buttons ! 0) = (202 \<le> x \<and> x < 1202 \<and> 360 \<le> y \<and> y < 480)"
  "inside_button x y (buttons ! 1) = (202 \<le> x \<and> x < 1202 \<and> 500 \<le> y \<and> y < 620)"
  "inside_button x y (buttons ! 2) = (202 \<le> x \<and> x < 1202 \<and> 640 \<le> y \<and> y < 760)"
  "inside_button x y (buttons ! 3) = (202 \<le> x \<and> x < 432 \<and> 980 \<le> y \<and> y < 1080)"
  "inside_button x y (buttons ! 4) = (452 \<le> x \<and> x < 722 \<and> 980 \<le> y \<and> y < 1080)"
  "inside_button x y (buttons ! 5) = (742 \<le> x \<and> x < 972 \<and> 980 \<le> y \<and> y < 1080)"
  "inside_button x y (buttons ! 6) = (992 \<le> x \<and> x < 1202 \<and> 980 \<le> y \<and> y < 1080)"
  "inside_button x y (buttons ! 7) = (202 \<le> x \<and> x < 1202 \<and> 1160 \<le> y \<and> y < 1270)"
  "inside_button x y (buttons ! 8) = (202 \<le> x \<and> x < 1202 \<and> 1290 \<le> y \<and> y < 1400)"
  by (simp_all add: buttons_def mk_button_def inside_button_def)

lemma button_columns:
  "btn_x (buttons ! 0) = 202" "btn_x (buttons ! 1) = 202" "btn_x (buttons ! 2) = 202" "btn_x (buttons ! 3) = 202" "btn_x (buttons ! 4) = 452" "btn_x (buttons ! 5) = 742" "btn_x (buttons ! 6) = 992" "btn_x (buttons ! 7) = 202" "btn_x (buttons ! 8) = 202"
  by (simp_all add: buttons_def mk_button_def)

text \<open>
  The button a touch presses: a touch on the visible area of a button presses that
  button, except that the leftmost 16 columns of Play, Next and Shuffle press their left
  neighbour, because the hit areas reach 35 pixels beyond a button and the gap is only 20
  wide.\<close>

theorem switcher_hit_test:
  assumes "buttons_ok bs" and "k < 9" and "inside_button x y (bs ! k)"
  shows "find_button x y bs = Some (if k \<in> {4, 5, 6} \<and> x < btn_x (bs ! k) + 16 then k - 1 else k)"
proof -
  have len: "length bs = 9" using assms(1) by (rule buttons_length)
  have "map geometry bs = map geometry buttons" using assms(1) by (simp add: buttons_ok_def)
  note geo = this
  have f: "find_button x y bs = find_button x y buttons" by (rule find_button_geometry [OF geo])
  have "geometry (bs ! k) = geometry (buttons ! k)"
    using len assms(2) geo by (metis length_map nth_map)
  then have in': "inside_button x y (buttons ! k)" and x: "btn_x (bs ! k) = btn_x (buttons ! k)"
    using assms(3) by (simp_all add: geometry_def inside_button_def)
  have "k \<in> {0, 1, 2, 3, 4, 5, 6, 7, 8}" using assms(2) by auto
  then show ?thesis
    using in' unfolding f x find_button_closed
    by (elim insertE emptyE) (simp_all add: inside_button_closed button_columns del: One_nat_def)
qed

theorem switcher_hit_test_witness:
  "buttons_ok buttons \<and> inside_button 460 1000 (buttons ! 4) \<and> find_button 460 1000 buttons = Some 3"
proof -
  have "inside_button 460 1000 (buttons ! 4)" by (simp add: inside_button_closed)
  then show ?thesis
    using switcher_hit_test [of buttons 4 460 1000] buttons_ok_start by (simp add: button_columns)
qed

section \<open>Two taps\<close>

text \<open>The events of a short tap at the raw coordinates \<open>rx ry\<close>.\<close>

definition ev3 :: "int \<Rightarrow> int \<Rightarrow> int \<Rightarrow> sw_read" where
  "ev3 t c v = SwEv \<lparr>ev_type = t, ev_code = c, ev_value = v\<rparr>"

definition tap :: "int \<Rightarrow> int \<Rightarrow> sw_read list" where
  "tap rx ry = [ev3 EV_ABS 53 rx, ev3 EV_ABS 54 ry, ev3 EV_ABS 57 0, ev3 EV_SYN 0 0, ev3 EV_ABS 57 (-1), ev3 EV_SYN 0 0]"

definition lifted :: "sw_state \<Rightarrow> bool" where
  "lifted s \<longleftrightarrow> g_running s \<and> \<not> was_contact_down s \<and> \<not> is_contact_down s"

text \<open>A tap is a press and a release at the point.\<close>

lemma screen_point_cong: "last_raw_x t = last_raw_x s \<Longrightarrow> last_raw_y t = last_raw_y s \<Longrightarrow> screen_point t = screen_point s"
  by (simp add: screen_point_def)

lemma prims_touch [simp]:
  "was_contact_down (sw_draw f s) = was_contact_down s" "is_contact_down (sw_draw f s) = is_contact_down s"
  "was_contact_down (sw_do g s) = was_contact_down s" "is_contact_down (sw_do g s) = is_contact_down s"
  by (simp_all add: sw_draw_def sw_do_def)

lemma show_button_fields [simp]:
  "was_contact_down (show_button i p s) = was_contact_down s" "is_contact_down (show_button i p s) = is_contact_down s"
  "last_raw_x (show_button i p s) = last_raw_x s" "last_raw_y (show_button i p s) = last_raw_y s"
  "pressed_btn (show_button i p s) = pressed_btn s" "sw_buttons (show_button i p s) = sw_buttons s"
  "g_running (show_button i p s) = g_running s" "chosen_action (show_button i p s) = chosen_action s"
  by (simp_all add: show_button_def Let_def sw_refresh_def)

lemma mark_fields [simp]:
  "was_contact_down (touch_mark x y s) = was_contact_down s" "is_contact_down (touch_mark x y s) = is_contact_down s"
  "last_raw_x (touch_mark x y s) = last_raw_x s" "last_raw_y (touch_mark x y s) = last_raw_y s"
  "sw_buttons (touch_mark x y s) = sw_buttons s"
  "g_running (touch_mark x y s) = g_running s" "chosen_action (touch_mark x y s) = chosen_action s"
  by (simp_all add: touch_mark_def sw_refresh_def)

lemma mark_pressed_fields [simp]:
  "was_contact_down (mark_pressed x y s) = was_contact_down s" "is_contact_down (mark_pressed x y s) = is_contact_down s"
  "last_raw_x (mark_pressed x y s) = last_raw_x s" "last_raw_y (mark_pressed x y s) = last_raw_y s"
  "sw_buttons (mark_pressed x y s) = sw_buttons s" "sw_fb (mark_pressed x y s) = sw_fb s"
  "g_running (mark_pressed x y s) = g_running s" "chosen_action (mark_pressed x y s) = chosen_action s"
  "pressed_btn (mark_pressed x y s) = find_button x y (sw_buttons s)"
  by (simp_all add: mark_pressed_def)

lemma on_press_fields [simp]:
  "was_contact_down (on_press s)" "is_contact_down (on_press s) = is_contact_down s"
  "last_raw_x (on_press s) = last_raw_x s" "last_raw_y (on_press s) = last_raw_y s"
  "sw_buttons (on_press s) = sw_buttons s" "g_running (on_press s) = g_running s"
  "chosen_action (on_press s) = chosen_action s"
  by (simp_all add: on_press_def Let_def split: prod.split option.split)

lemma tap_events:
  assumes "lifted s" and "rx \<ge> 0" and "ry \<ge> 0"
  shows "sw_reads e (tap rx ry) s
    = on_release e (on_press (s\<lparr>last_raw_x := rx, last_raw_y := ry, is_contact_down := True\<rparr>)\<lparr>is_contact_down := False\<rparr>)"
  using assms by (simp add: tap_def ev3_def sw_event_def sw_report_def release_due_def lifted_def Let_def)

lemma lifted_open:
  assumes "good_dialog dlg"
  shows "lifted (sw_open dlg e (sw_start e fb))"
proof -
  have dw: "lifted (dialog_with batt e t) = lifted t" for batt t
    by (simp add: lifted_def dialog_with_def draw_music_section_def Let_def)
  have "lifted ((sw_start e fb)\<lparr>sw_backup := b\<rparr>)" for b by (simp add: lifted_def)
  moreover have "lifted (dlg e t) = lifted t" for t
    using assms dw unfolding good_dialog_def insert_iff empty_iff by (metis draw_dialog_def draw_dialog_plain_def)
  ultimately show ?thesis by (simp add: sw_open_def Let_def lifted_def sw_refresh_def)
qed

lemma tap_choice:
  assumes "loop_ok s" and "lifted s" and "rx \<ge> 0" and "ry \<ge> 0"
    and pt: "x = sw_clamp FB_WIDTH (1403 - ry)" "y = sw_clamp FB_HEIGHT rx"
    and hit: "find_button x y buttons = Some i" "\<not> outside_dialog x y" "btn_id (buttons ! i) \<in> {1, 2, 3, 9}"
  shows "chosen_action (sw_reads e (tap rx ry) s) = btn_id (buttons ! i)" and "\<not> g_running (sw_reads e (tap rx ry) s)"
proof -
  let ?t = "s\<lparr>last_raw_x := rx, last_raw_y := ry, is_contact_down := True\<rparr>"
  have geo: "map geometry (sw_buttons s) = map geometry buttons" and len: "length (sw_buttons s) = 9"
    using assms(1) by (simp_all add: loop_ok_def buttons_ok_def buttons_length)
  then have find: "find_button x y (sw_buttons s) = Some i" using find_button_geometry hit(1) by metis
  then have "i < 9" using len by (auto dest: find_button_less)
  then have "geometry (sw_buttons s ! i) = geometry (buttons ! i)" using geo len by (metis length_map nth_map)
  then have id: "btn_id (sw_buttons s ! i) = btn_id (buttons ! i)" by (simp add: geometry_def)
  have pnt: "screen_point u = (x, y)" if "last_raw_x u = rx" "last_raw_y u = ry" for u
    by (simp add: screen_point_def that pt)
  have pressed: "pressed_btn (on_press ?t) = Some i"
    using assms(3,4) find by (simp add: on_press_def Let_def pnt)
  show "chosen_action (sw_reads e (tap rx ry) s) = btn_id (buttons ! i)" and "\<not> g_running (sw_reads e (tap rx ry) s)"
    using assms(3,4) hit(2,3) id pressed
    by (simp_all add: tap_events [OF assms(2-4)] on_release_def pnt act_on_target_def run_button_def Let_def)
       (auto simp: run_button_def)
qed

lemma sw_main_one_turn:
  assumes "fb_opens e" and "fb_maps e = Some fb" and "\<not> g_running (sw_running draw_dialog e fb is)"
  shows "sw_main e is = Some (0, sw_finish e (sw_running draw_dialog e fb is))"
  using assms by (simp add: sw_main_def sw_main_with_def sw_running_def Let_def)

lemma running_tap:
  assumes "touch_opens e"
  shows "sw_running dlg e fb [SwTouch rs] = (let s = sw_open dlg e (sw_start e fb) in if g_running s then sw_reads e rs s else s)"
  using assms by (simp add: sw_running_def sw_turn_def Let_def)

text \<open>
  The exception of the process property is real: a tap on the NetSurf button while
  NetSurf is the active application leaves the running browser stopped for good; the
  switcher ends, starts a second browser, and never continues or ends the first.\<close>

theorem switcher_leaves_netsurf_stopped:
  assumes "fb_opens e" and "fb_maps e = Some fb" and "touch_opens e" and "find_active_app e = ''netsurf''"
  shows "\<exists>s. sw_main e [SwTouch (tap 700 703)] = Some (0, s) \<and> chosen_action s = BTN_NETSURF
     \<and> SwSystem ''/opt/start_browser.sh &'' \<in> set (sw_trace s)
     \<and> proc_after ''netsurf-fb'' (sw_trace s) Runs = Stopped"
proof -
  let ?o = "sw_open draw_dialog e (sw_start e fb)" and ?r = "sw_running draw_dialog e fb [SwTouch (tap 700 703)]"
  have open_ok: "loop_ok ?o" "lifted ?o" by (simp_all add: loop_ok_open lifted_open)
  then have r: "?r = sw_reads e (tap 700 703) ?o"
    by (simp add: running_tap [OF assms(3)] lifted_def)
  have hit: "find_button 700 700 buttons = Some 2" unfolding find_button_closed by simp
  have id: "btn_id (buttons ! 2) = BTN_NETSURF" by (simp add: buttons_def mk_button_def)
  have pt: "(700 :: int) = sw_clamp FB_WIDTH (1403 - 703)" "(700 :: int) = sw_clamp FB_HEIGHT 700" "\<not> outside_dialog 700 700"
    by (simp_all add: sw_clamp_def outside_dialog_def)
  note tapped = tap_choice [OF open_ok _ _ pt(1,2) hit pt(3), unfolded id]
  have "chosen_action ?r = BTN_NETSURF" and stop: "\<not> g_running ?r"
    unfolding r by (rule tapped; simp)+
  moreover have app: "active_app ?r = ''netsurf''"
    by (rule running_orders [of draw_dialog e fb "[SwTouch (tap 700 703)]"]) (simp_all add: assms(4))
  ultimately have "proc_after ''netsurf-fb'' (sw_trace (sw_finish e ?r)) Runs = Stopped"
    by (simp add: proc_finish app_programs_def proc_running assms(4) same_app_def ended_by_def kill_of_def stop_of_def programs_of_def)
  moreover have "SwSystem ''/opt/start_browser.sh &'' \<in> set (sw_trace (sw_finish e ?r))"
    using \<open>chosen_action ?r = BTN_NETSURF\<close> by (simp add: sw_finish_def Let_def choose_defs)
  ultimately show ?thesis
    using \<open>chosen_action ?r = BTN_NETSURF\<close> sw_main_one_turn [OF assms(1,2) stop] by (simp add: finish_action)
qed

text \<open>
  The marks of the panel property are real too: a tap outside the dialog closes it, and
  the pixel under the finger stays black on the panel of the resumed application.\<close>

theorem switcher_outside_tap_leaves_mark:
  assumes "fb_opens e" and "fb_maps e = Some fb" and "touch_opens e" and "rx \<ge> 0" and "ry \<ge> 0"
    and "x = sw_clamp FB_WIDTH (1403 - ry)" and "y = sw_clamp FB_HEIGHT rx" and "outside_dialog x y"
  shows "\<exists>s. sw_main e [SwTouch (tap rx ry)] = Some (0, s) \<and> chosen_action s = BTN_CLOSE
     \<and> sw_fb s (y * FB_STRIDE + x) = 0"
proof -
  let ?o = "sw_open draw_dialog e (sw_start e fb)" and ?r = "sw_running draw_dialog e fb [SwTouch (tap rx ry)]"
  let ?i = "y * FB_STRIDE + x" and ?t = "?o\<lparr>last_raw_x := rx, last_raw_y := ry, is_contact_down := True\<rparr>"
  have open_ok: "loop_ok ?o" "lifted ?o" by (simp_all add: loop_ok_open lifted_open)
  then have r: "?r = sw_reads e (tap rx ry) ?o"
    by (simp add: running_tap [OF assms(3)] lifted_def)
  have pnt: "screen_point u = (x, y)" if "last_raw_x u = rx" "last_raw_y u = ry" for u
    by (simp add: screen_point_def that assms(6,7))
  have xy: "0 \<le> x" "x < FB_WIDTH" "0 \<le> y" "y < FB_HEIGHT" by (simp_all add: assms(6,7) sw_clamp_def Let_def)
  then have addr: "?i mod FB_STRIDE = x" "?i div FB_STRIDE = y" by simp_all
  have "find_button x y buttons = None"
    using assms(8) unfolding outside_dialog_def find_button_closed by (elim disjE) simp_all
  then have "find_button x y (sw_buttons ?o) = None"
    using open_ok(1) find_button_geometry [of "sw_buttons ?o" buttons] by (simp add: loop_ok_def buttons_ok_def)
  then have pressed: "pressed_btn (on_press ?t) = None" and black: "sw_fb (on_press ?t) ?i = 0"
    using assms(4,5) xy by (simp_all add: on_press_def Let_def pnt)
      (simp add: touch_mark_def sw_refresh_def draw_rect_paint paint_def rect_px_def addr)
  have "chosen_action ?r = BTN_CLOSE" and stop: "\<not> g_running ?r" and "sw_fb ?r ?i = 0"
    using assms(4,5,8) pressed black
    by (simp_all add: r tap_events [OF open_ok(2) assms(4,5)] on_release_def pnt Let_def)
  moreover have "?i \<notin> dlg_px" using assms(8) xy by (auto simp: outside_dialog_def rect_px_def)
  ultimately have "sw_fb (sw_finish e ?r) ?i = 0"
    by (simp add: finish_same_app same_app_def restore_dialog_def Let_def sw_refresh_def restore_rect_paint paint_def split: option.split)
  then show ?thesis
    using \<open>chosen_action ?r = BTN_CLOSE\<close> sw_main_one_turn [OF assms(1,2) stop] by (simp add: finish_action)
qed

section \<open>Witnesses\<close>

definition demo_env :: sw_env where
  "demo_env = \<lparr>music_out = (\<lambda>_. None), bat_capacity = None, bat_status = None,
     current_app_file = Some (''netsurf'' @ [CHR 0x0A]), active_reader_file = None, fb_opens = True,
     fb_maps = Some (\<lambda>_. 0xFFFF), dlg_block = Some (\<lambda>_. 0), touch_opens = True, can_write = (\<lambda>_. True)\<rparr>"

lemma demo_env_fields [simp]: "fb_opens demo_env" "fb_maps demo_env = Some (\<lambda>_. 0xFFFF)" "dlg_block demo_env = Some (\<lambda>_. 0)"
  "touch_opens demo_env" "find_active_app demo_env = ''netsurf''"
  by (simp_all add: demo_env_def find_active_app_def fgets_str_def chomp_def)

lemma close_tap:
  assumes "fb_opens e" and "fb_maps e = Some fb" and "touch_opens e"
  obtains s where "sw_main e [SwTouch (tap 1340 703)] = Some (0, s)" and "chosen_action s = BTN_CLOSE"
proof -
  let ?o = "sw_open draw_dialog e (sw_start e fb)" and ?r = "sw_running draw_dialog e fb [SwTouch (tap 1340 703)]"
  have open_ok: "loop_ok ?o" "lifted ?o" by (simp_all add: loop_ok_open lifted_open)
  then have r: "?r = sw_reads e (tap 1340 703) ?o" by (simp add: running_tap [OF assms(3)] lifted_def)
  have hit: "find_button 700 1340 buttons = Some 8" unfolding find_button_closed by simp
  have id: "btn_id (buttons ! 8) = BTN_CLOSE" by (simp add: buttons_def mk_button_def)
  have pt: "(700 :: int) = sw_clamp FB_WIDTH (1403 - 703)" "(1340 :: int) = sw_clamp FB_HEIGHT 1340" "\<not> outside_dialog 700 1340"
    by (simp_all add: sw_clamp_def outside_dialog_def)
  note tapped = tap_choice [OF open_ok _ _ pt(1,2) hit pt(3), unfolded id]
  have "chosen_action ?r = BTN_CLOSE" and stop: "\<not> g_running ?r"
    unfolding r by (rule tapped; simp)+
  then show ?thesis
    using that sw_main_one_turn [OF assms(1,2) stop] by (simp add: finish_action)
qed

theorem switcher_close_restores_panel_witness:
  "\<exists>s. sw_main demo_env [SwTouch (tap 1340 703)] = Some (0, s) \<and> sw_fb s (300 * FB_STRIDE + 300) = 0xFFFF"
proof -
  obtain s where s: "sw_main demo_env [SwTouch (tap 1340 703)] = Some (0, s)" "chosen_action s = BTN_CLOSE"
    using close_tap [of demo_env] by (metis demo_env_fields(1,2,4))
  have "300 * FB_STRIDE + 300 \<in> dlg_px" by (simp add: rect_px_def)
  with switcher_close_restores_panel [OF s(1), of "\<lambda>_. 0xFFFF" "\<lambda>_. 0" "300 * FB_STRIDE + 300"] s(2)
  have "sw_fb s (300 * FB_STRIDE + 300) = 0xFFFF" by (simp add: same_app_def)
  with s(1) show ?thesis by blast
qed

theorem switcher_processes_witness:
  "\<exists>s. sw_main demo_env [SwTouch (tap 1340 703)] = Some (0, s) \<and> proc_after ''netsurf-fb'' (sw_trace s) Runs = Runs"
proof -
  obtain s where s: "sw_main demo_env [SwTouch (tap 1340 703)] = Some (0, s)" "chosen_action s = BTN_CLOSE"
    using close_tap [of demo_env] by (metis demo_env_fields(1,2,4))
  then show ?thesis
    using switcher_processes [OF s(1), of "''netsurf-fb''" Runs] by (simp add: app_programs_def ended_by_def)
qed

theorem switcher_leaves_netsurf_stopped_witness:
  "\<exists>s. sw_main demo_env [SwTouch (tap 700 703)] = Some (0, s) \<and> proc_after ''netsurf-fb'' (sw_trace s) Runs = Stopped"
  using switcher_leaves_netsurf_stopped [OF demo_env_fields(1,2,4,5)] by blast

theorem switcher_outside_tap_leaves_mark_witness:
  "\<exists>s. sw_main demo_env [SwTouch (tap 100 1303)] = Some (0, s) \<and> sw_fb s (100 * FB_STRIDE + 100) = 0"
proof -
  have pt: "(100 :: int) = sw_clamp FB_WIDTH (1403 - 1303)" "(100 :: int) = sw_clamp FB_HEIGHT 100" "outside_dialog 100 100"
    by (simp_all add: sw_clamp_def outside_dialog_def)
  have "(0 :: int) \<le> 100" "(0 :: int) \<le> 1303" by simp_all
  then show ?thesis
    using switcher_outside_tap_leaves_mark [OF demo_env_fields(1,2,4) _ _ pt] by blast
qed

end
