(* ===== verification/Web_Key.thy ===== *)
theory Web_Key
  imports Nook_Prelude
begin

text \<open>
  \<^verbatim>\<open>components/netsurf/src/nook-webkey.c\<close>: the web server through which a phone types into the
  browser. A request is read once, its path selects a command, the command goes to the FIFO
  that the SDL shim reads. Sockets and the FIFO are inputs and effects; the text of the
  start page is the effect \<open>ReplyPage\<close>.
\<close>

section \<open>Decoding\<close>

definition isxdigit :: "char \<Rightarrow> bool" where
  "isxdigit c \<longleftrightarrow> (let n = (of_char c :: nat) in 48 \<le> n \<and> n \<le> 57 \<or> 65 \<le> n \<and> n \<le> 70 \<or> 97 \<le> n \<and> n \<le> 102)"

definition xval :: "char \<Rightarrow> nat" where
  "xval c = (let n = (of_char c :: nat) in if n \<le> 57 then n - 48 else if n \<le> 70 then n - 55 else n - 87)"

text \<open>The loop, with the number of bytes that still fit.\<close>

fun decode_loop :: "nat \<Rightarrow> string \<Rightarrow> string" where
  "decode_loop 0 src = []"
| "decode_loop (Suc r) [] = []"
| "decode_loop (Suc r) (c # cs) =
     (if c = CHR ''%'' \<and> 2 \<le> length cs \<and> isxdigit (cs ! 0) \<and> isxdigit (cs ! 1)
      then char_of (16 * xval (cs ! 0) + xval (cs ! 1)) # decode_loop r (drop 2 cs)
      else if c = CHR ''+'' then CHR '' '' # decode_loop r cs
      else c # decode_loop r cs)"

definition url_decode :: "string \<Rightarrow> nat \<Rightarrow> char list" where
  "url_decode src max_len = decode_loop (max_len - 1) src @ [nul]"

section \<open>Requests\<close>

text \<open>\<open>sscanf\<close> with \<^verbatim>\<open>%ns\<close>: white space, then at most \<open>n\<close> other bytes.\<close>

definition scan_word :: "nat \<Rightarrow> string \<Rightarrow> string \<times> string" where
  "scan_word n s = (let t = dropWhile is_space s; w = take n (takeWhile (\<lambda>c. \<not> is_space c) t) in (w, drop (length w) t))"

definition request_path :: "string \<Rightarrow> string" where
  "request_path buf = (let (_, r) = scan_word 15 buf in fst (scan_word 1023 r))"

text \<open>\<open>strstr\<close> with its result, the rest of the string from the first occurrence on.\<close>

fun strstr_at :: "string \<Rightarrow> string \<Rightarrow> string option" where
  "strstr_at [] needle = (if needle = [] then Some [] else None)"
| "strstr_at (c # hay) needle =
     (if take (length needle) (c # hay) = needle then Some (c # hay) else strstr_at hay needle)"

definition int_str :: "int \<Rightarrow> string" where
  "int_str n = (if n < 0 then CHR ''-'' # dec_str (nat (- n)) else dec_str (nat n))"

datatype wk_effect = Reply string | ReplyPage | ToFifo string | CloseClient

definition crlf :: string where "crlf = [CHR 0x0D, CHR 0x0A]"

definition resp_ok :: string where
  "resp_ok = ''HTTP/1.1 200 OK'' @ crlf @ ''Content-Type: text/plain'' @ crlf @ ''Content-Length: 2'' @ crlf
     @ ''Connection: close'' @ crlf @ crlf @ ''OK''"

definition resp_404 :: string where
  "resp_404 = ''HTTP/1.1 404 Not Found'' @ crlf @ ''Content-Length: 9'' @ crlf @ ''Connection: close'' @ crlf @ crlf @ ''Not Found''"

text \<open>
  The FIFO, opened without blocking: \<open>None\<close> when nobody listens, otherwise the number of
  bytes the pipe takes.
\<close>

definition fifo_write :: "nat option \<Rightarrow> string \<Rightarrow> wk_effect list" where
  "fifo_write room cmd = (case room of None \<Rightarrow> [] | Some n \<Rightarrow> [ToFifo (take n cmd)])"

definition command_line :: "nat \<Rightarrow> string \<Rightarrow> string \<Rightarrow> string" where
  "command_line n tag arg = snprintf_str n (tag @ arg @ [CHR 0x0A])"

definition click_arg :: "string \<Rightarrow> string" where
  "click_arg path =
     (let cx = (case strstr_at path ''x='' of None \<Rightarrow> 0 | Some p \<Rightarrow> atoi (drop 2 p));
          cy = (case strstr_at path ''y='' of None \<Rightarrow> 0 | Some p \<Rightarrow> atoi (drop 2 p))
      in int_str cx @ '','' @ int_str cy)"

definition respond :: "nat option \<Rightarrow> string \<Rightarrow> wk_effect list" where
  "respond room path =
     (if path = ''/'' \<or> path = ''/index.html'' then [ReplyPage]
      else if take 7 path = ''/cmd?k='' then
        fifo_write room (command_line 128 ''KEY:'' (cstr (url_decode (drop 7 path) 64))) @ [Reply resp_ok]
      else if take 7 path = ''/key?c='' then
        fifo_write room (command_line 64 ''TEXT:'' (cstr (url_decode (drop 7 path) 32))) @ [Reply resp_ok]
      else if take 8 path = ''/text?s='' then
        fifo_write room (command_line 600 ''TEXT:'' (cstr (url_decode (drop 8 path) 512))) @ [Reply resp_ok]
      else if take 7 path = ''/url?u='' then
        fifo_write room (command_line 600 ''URL:'' (cstr (url_decode (drop 7 path) 512))) @ [Reply resp_ok]
      else if take 7 path = ''/click?'' then
        fifo_write room (command_line 64 ''CLICK:'' (click_arg path)) @ [Reply resp_ok]
      else [Reply resp_404])"

text \<open>One client: the bytes of the first read (\<open>None\<close>: it failed; nothing: the peer closed).\<close>

definition handle_client :: "nat option \<Rightarrow> string option \<Rightarrow> wk_effect list" where
  "handle_client room req =
     (case req of None \<Rightarrow> [CloseClient]
      | Some bytes \<Rightarrow> if bytes = [] then [CloseClient]
          else respond room (request_path (cstr (take 2047 bytes))) @ [CloseClient])"

text \<open>
  The server: which set-up call fails, and what \<open>accept\<close> delivers. The exit code is
  \<open>None\<close> while it serves.
\<close>

datatype wk_accept = Client "nat option" "string option" | AcceptIntr | AcceptError

fun serve :: "wk_accept list \<Rightarrow> wk_effect list \<times> int option" where
  "serve [] = ([], None)"
| "serve (Client room req # as) = (let (fs, r) = serve as in (handle_client room req @ fs, r))"
| "serve (AcceptIntr # as) = serve as"
| "serve (AcceptError # as) = ([], Some 0)"

definition wk_main :: "bool \<Rightarrow> bool \<Rightarrow> bool \<Rightarrow> wk_accept list \<Rightarrow> wk_effect list \<times> int option" where
  "wk_main socket_ok bind_ok listen_ok as =
     (if \<not> socket_ok \<or> \<not> bind_ok \<or> \<not> listen_ok then ([], Some 1) else serve as)"

section \<open>Decoding inverts the encoding of the page\<close>

text \<open>\<open>encodeURIComponent\<close> on the bytes of a text, as the start page calls it.\<close>

definition uri_plain :: "char \<Rightarrow> bool" where
  "uri_plain c \<longleftrightarrow> (let n = (of_char c :: nat) in 48 \<le> n \<and> n \<le> 57 \<or> 65 \<le> n \<and> n \<le> 90 \<or> 97 \<le> n \<and> n \<le> 122
     \<or> c \<in> set ''-_.!~*()'' \<or> n = 39)"

definition xdigit :: "nat \<Rightarrow> char" where
  "xdigit d = char_of (if d < 10 then 48 + d else 55 + d)"

definition encode_char :: "char \<Rightarrow> string" where
  "encode_char c = (if uri_plain c then [c]
     else [CHR ''%'', xdigit (of_char c div 16), xdigit (of_char c mod 16)])"

abbreviation encodeURIComponent :: "string \<Rightarrow> string" where
  "encodeURIComponent s \<equiv> concat (map encode_char s)"

lemma xdigit_val: "d < 16 \<Longrightarrow> isxdigit (xdigit d)" "d < 16 \<Longrightarrow> xval (xdigit d) = d"
  by (auto simp: isxdigit_def xdigit_def xval_def Let_def)

lemma of_char_less: "(of_char c :: nat) < 256"
  by (rule nat_of_char_less_256)

lemma uri_plain_not_special: "uri_plain c \<Longrightarrow> c \<noteq> CHR ''%'' \<and> c \<noteq> CHR ''+'' \<and> \<not> is_space c \<and> c \<noteq> nul"
  by (auto simp: uri_plain_def is_space_def Let_def)

lemma decode_encode_char:
  "decode_loop (Suc r) (encode_char c @ s) = c # decode_loop r s"
proof (cases "uri_plain c")
  case True
  then show ?thesis using uri_plain_not_special [OF True] by (simp add: encode_char_def)
next
  case False
  have "(of_char c :: nat) div 16 < 16" using of_char_less [of c] by (simp add: less_mult_imp_div_less)
  moreover have "(of_char c :: nat) mod 16 < 16" by simp
  ultimately show ?thesis
    using False by (simp add: encode_char_def xdigit_val numeral_2_eq_2)
qed

lemma decode_encode: "decode_loop r (encodeURIComponent s @ t) = take r s @ decode_loop (r - length s) t"
proof (induction s arbitrary: r)
  case (Cons c s)
  then show ?case by (cases r) (simp_all add: decode_encode_char)
qed simp

lemma decode_encode_all: "decode_loop r (encodeURIComponent s) = take r s"
  using decode_encode [of r s "[]"] by (cases "r - length s") simp_all

lemma decode_length: "length (decode_loop r s) \<le> r"
  by (induction r s rule: decode_loop.induct) auto

end
