(* ===== verification/Web_Key_Props.thy ===== *)
theory Web_Key_Props
  imports Web_Key Sdl_Shim_Props
begin

text \<open>
  Properties of the phone keyboard: the decoder against the encoder of the start page, and
  the way of a text from the phone through the server and the FIFO to the key events that
  the browser receives.
\<close>

text \<open>
  C29. The decoder never writes more bytes than its buffer has, whatever the request holds,
  and it gives back every text that the start page encoded, cut to the buffer.\<close>

theorem url_decode_round_trip:
  assumes "0 < n" and "c_string s"
  shows "length (url_decode src n) \<le> n \<and> cstr (url_decode (encodeURIComponent s) n) = take (n - 1) s"
proof
  show "length (url_decode src n) \<le> n"
    using assms(1) decode_length [of "n - 1" src] by (simp add: url_decode_def)
  show "cstr (url_decode (encodeURIComponent s) n) = take (n - 1) s"
    using assms(2) by (simp add: url_decode_def decode_encode_all)
qed

section \<open>The path of a request\<close>

lemma cstr_append: "c_string p \<Longrightarrow> cstr (p @ r) = p @ cstr r"
  by (induction p) (auto simp: cstr_def c_string_def)

lemma cstr_id: "c_string p \<Longrightarrow> cstr p = p"
  using cstr_append [of p "[]"] by (simp add: cstr_def)

lemma c_string_literals [simp]: "c_string ''TEXT:''" "c_string ''URL:''" "c_string [CHR 0x0A]"
  by (simp_all add: c_string_def)

lemma encode_char_clean: "x \<in> set (encode_char c) \<Longrightarrow> \<not> is_space x \<and> x \<noteq> nul"
proof -
  have "list_all (\<lambda>d. \<not> is_space (xdigit d) \<and> xdigit d \<noteq> nul) [0..<16]" by code_simp
  then have clean: "\<not> is_space (xdigit d) \<and> xdigit d \<noteq> nul" if "d < 16" for d
    using that by (simp add: list_all_iff)
  assume "x \<in> set (encode_char c)"
  moreover have "(of_char c :: nat) div 16 < 16" using of_char_less [of c] by (simp add: less_mult_imp_div_less)
  ultimately show ?thesis
    using clean uri_plain_not_special [of c]
    by (auto simp: encode_char_def is_space_def split: if_splits)
qed

lemma encode_clean: "list_all (\<lambda>x. \<not> is_space x \<and> x \<noteq> nul) (encodeURIComponent s)"
  using encode_char_clean by (fastforce simp: list_all_iff)

lemma encode_length: "length (encodeURIComponent s) \<le> 3 * length s"
  by (induction s) (auto simp: encode_char_def)

lemma takeWhile_spaced: "list_all (\<lambda>x. \<not> is_space x) p \<Longrightarrow> takeWhile (\<lambda>c. \<not> is_space c) (p @ CHR '' '' # r) = p"
  by (induction p) (auto simp: is_space_def)

lemma request_path_get:
  assumes "list_all (\<lambda>x. \<not> is_space x) p" and "p \<noteq> []" and "length p \<le> 1023"
  shows "request_path (''GET '' @ p @ CHR '' '' # r) = p"
proof -
  have "dropWhile is_space (p @ t) = p @ t" for t
    using assms(1,2) by (cases p) auto
  moreover have "is_space (CHR '' '')" "\<not> is_space (CHR ''G'')" "\<not> is_space (CHR ''E'')" "\<not> is_space (CHR ''T'')"
    by (simp_all add: is_space_def)
  ultimately show ?thesis
    using assms by (simp add: request_path_def scan_word_def Let_def takeWhile_spaced)
qed

text \<open>The request that the browser of the phone sends.\<close>

definition get_request :: "string \<Rightarrow> string \<Rightarrow> string \<Rightarrow> string" where
  "get_request route s rest = ''GET '' @ route @ encodeURIComponent s @ '' HTTP/1.1'' @ rest"

lemma handle_get:
  assumes "list_all (\<lambda>x. \<not> is_space x \<and> x \<noteq> nul) route" and "route \<noteq> []" and "length route \<le> 8" and "length s \<le> 338"
  shows "handle_client room (Some (get_request route s rest)) = respond room (route @ encodeURIComponent s) @ [CloseClient]"
proof -
  let ?p = "route @ encodeURIComponent s"
  have len: "length ?p \<le> 1023" using encode_length [of s] assms(3,4) by simp
  have clean: "list_all (\<lambda>x. \<not> is_space x) ?p" "list_all (\<lambda>x. x \<noteq> nul) ?p"
    using assms(1) encode_clean [of s] by (auto simp: list_all_iff)
  let ?b = "take 2047 (get_request route s rest)"
  obtain r where "?b = ''GET '' @ ?p @ CHR '' '' # r"
    using len by (auto simp: get_request_def take_Cons')
  moreover have "c_string (''GET '' @ ?p @ '' '')" using clean(2) by (auto simp: c_string_def list_all_iff)
  then have "cstr (''GET '' @ ?p @ CHR '' '' # r) = ''GET '' @ ?p @ CHR '' '' # cstr r" for r
    using cstr_append [of "''GET '' @ ?p @ '' ''" r] by simp
  ultimately have "request_path (cstr ?b) = ?p"
    using request_path_get [OF clean(1) _ len] assms(2) by simp
  then show ?thesis by (simp add: handle_client_def get_request_def)
qed

theorem url_decode_round_trip_witness:
  "cstr (url_decode (encodeURIComponent ''a b%c'') 512) = ''a b%c''"
  using url_decode_round_trip [of 512 "''a b%c''" "[]"] by (simp add: c_string_def)

section \<open>From the phone to the browser\<close>

definition fifo_bytes :: "wk_effect list \<Rightarrow> string" where
  "fifo_bytes fs = concat (map (\<lambda>f. case f of ToFifo b \<Rightarrow> b | _ \<Rightarrow> []) fs)"

text \<open>The command line that the FIFO gets from a request with a short enough text.\<close>

lemma respond_lines:
  assumes "c_string s"
  shows "length s \<le> 511 \<Longrightarrow> 600 \<le> n \<Longrightarrow>
      fifo_bytes (respond (Some n) (''/url?u='' @ encodeURIComponent s)) = ''URL:'' @ s @ [CHR 0x0A]"
    and "length s \<le> 511 \<Longrightarrow> 600 \<le> n \<Longrightarrow>
      fifo_bytes (respond (Some n) (''/text?s='' @ encodeURIComponent s)) = ''TEXT:'' @ s @ [CHR 0x0A]"
  using assms by (simp_all add: respond_def fifo_write_def fifo_bytes_def command_line_def snprintf_str_def
      url_decode_def decode_encode_all)

lemma strtok_lines_cons:
  assumes "l \<noteq> []" and "list_all (\<lambda>c. \<not> is_eol c) l"
  shows "strtok_lines (l @ CHR 0x0A # r) = l # strtok_lines r" and "strtok_lines l = [l]"
proof -
  have hd: "dropWhile is_eol (l @ t) = l @ t" for t using assms by (cases l) auto
  have "takeWhile (\<lambda>c. \<not> is_eol c) (l @ CHR 0x0A # r) = l" "dropWhile (\<lambda>c. \<not> is_eol c) (l @ CHR 0x0A # r) = CHR 0x0A # r"
    using assms(2) by (auto simp: takeWhile_append2 dropWhile_append2 list_all_iff is_eol_def)
  moreover have "strtok_lines (CHR 0x0A # r) = strtok_lines r"
    by (subst (1 2) strtok_lines.simps) (simp add: is_eol_def)
  ultimately show "strtok_lines (l @ CHR 0x0A # r) = l # strtok_lines r"
    using assms(1) by (subst strtok_lines.simps) (simp add: hd)
  have "takeWhile (\<lambda>c. \<not> is_eol c) l = l" "dropWhile (\<lambda>c. \<not> is_eol c) l = []"
    using assms(2) by (auto simp: takeWhile_eq_all_conv dropWhile_eq_Nil_conv list_all_iff)
  moreover have "strtok_lines [] = []" by (subst strtok_lines.simps) simp
  ultimately show "strtok_lines l = [l]"
    using assms(1) hd [of "[]"] by (subst strtok_lines.simps) (simp only: append_Nil2 Let_def if_False)
qed

lemma strtok_lines_Nil [simp]: "strtok_lines [] = []"
  by (subst strtok_lines.simps) simp

lemma high_byte: "bit w 7 \<Longrightarrow> \<not> is_eol (char_of (unat (w :: u32)))"
  by (auto simp: is_eol_def char_of_def bit_unsigned_iff)

lemma no_eol_encode: "cp \<noteq> 10 \<Longrightarrow> cp \<noteq> 13 \<Longrightarrow> list_all (\<lambda>c. \<not> is_eol c) (utf8_encode cp)"
proof -
  assume cp: "cp \<noteq> 10" "cp \<noteq> 13"
  have "cp < 128 \<Longrightarrow> \<not> is_eol (char_of (unat cp))"
  proof
    assume lt: "cp < 128" and "is_eol (char_of (unat cp))"
    then have "char_of (unat cp) = CHR 0x0D \<or> char_of (unat cp) = CHR 0x0A" by (simp add: is_eol_def)
    then have "of_char (char_of (unat cp)) = (of_char (CHR 0x0D) :: nat) \<or> of_char (char_of (unat cp)) = (of_char (CHR 0x0A) :: nat)"
      by metis
    moreover have "unat cp < 128" using lt by (simp add: word_less_nat_alt)
    ultimately have "unat cp = unat (13 :: u32) \<or> unat cp = unat (10 :: u32)" by (simp add: of_char_of)
    then show False using cp by (metis word_unat_eq_iff)
  qed
  moreover have "bit (0xC0 OR drop_bit 6 cp) 7" "bit (0x80 OR (cp AND 0x3F)) 7" by (simp_all add: bit_simps)
  ultimately show ?thesis by (simp add: utf8_encode_def high_byte)
qed

lemma no_eol_encoded:
  "list_all (\<lambda>cp. 0 < cp \<and> cp < 0x800 \<and> cp \<noteq> 10 \<and> cp \<noteq> 13) cps \<Longrightarrow> list_all (\<lambda>c. \<not> is_eol c) (concat (map utf8_encode cps))"
  by (induction cps) (auto simp: no_eol_encode)

lemma encoded_length:
  "list_all (\<lambda>cp. 0 < cp \<and> cp < 0x800 \<and> cp \<noteq> 10 \<and> cp \<noteq> 13) cps \<Longrightarrow> length cps \<le> length (concat (map utf8_encode cps))"
  by (induction cps) (auto simp: utf8_encode_def)

text \<open>
  C10. What a phone sends to be opened arrives in the browser: for every text of up to 250
  bytes the request of the start page makes the server write one command, and the shim,
  reading the FIFO with an empty event queue, clicks into the address bar, wipes it, presses
  one key per character in order, and Return. The URL that the shim shows is the text.\<close>

theorem phone_url_reaches_browser:
  assumes "sd_ok st" and "eq_contents (sd_queue st) = []"
    and "list_all (\<lambda>cp. 0 < cp \<and> cp < 0x800 \<and> cp \<noteq> 10 \<and> cp \<noteq> 13) cps"
    and "u = concat (map utf8_encode cps)" and "length u \<le> 250" and "600 \<le> n"
  shows "let st' = fifo_read e (fifo_bytes (handle_client (Some n) (Some (get_request ''/url?u='' u rest)))) st
     in eq_contents (sd_queue st') = click 300 35 @ wipe @ concat (map (\<lambda>cp. key_press (type_sym cp) cp) cps)
            @ key_press SDLK_RETURN 13 \<and> url_of st' = u"
proof -
  have u: "c_string u" using assms(3) unfolding assms(4) by (intro c_string_concat) (auto simp: list_all_iff)
  have eol: "list_all (\<lambda>c. \<not> is_eol c) u" using assms(3) unfolding assms(4) by (rule no_eol_encoded)
  have "length cps \<le> length u" using assms(3) unfolding assms(4) by (rule encoded_length)
  then have cps: "length cps \<le> 951" using assms(5) by simp
  have "handle_client (Some n) (Some (get_request ''/url?u='' u rest))
      = respond (Some n) (''/url?u='' @ encodeURIComponent u) @ [CloseClient]"
    using assms(5) by (intro handle_get) (simp_all add: is_space_def)
  then have "fifo_bytes (handle_client (Some n) (Some (get_request ''/url?u='' u rest))) = ''URL:'' @ u @ [CHR 0x0A]"
    using respond_lines(1) [OF u, of n] assms(5,6) by (simp add: fifo_bytes_def)
  moreover have "cstr (take 255 (''URL:'' @ u @ [CHR 0x0A])) = (''URL:'' @ u) @ [CHR 0x0A]"
    using cstr_append [of "''URL:'' @ u @ [CHR 0x0A]" "[]"] u assms(5) by (simp add: c_string_def cstr_def)
  moreover have "strtok_lines ((''URL:'' @ u) @ [CHR 0x0A]) = [''URL:'' @ u]"
    using strtok_lines_cons(1) [of "''URL:'' @ u" "[]"] eol by (simp add: is_eol_def)
  ultimately have "fifo_read e (fifo_bytes (handle_client (Some n) (Some (get_request ''/url?u='' u rest)))) st
      = handle_fifo_command e (''URL:'' @ u) st"
    by (simp add: fifo_read_def)
  then show ?thesis
    using fifo_url_typed_in_order [OF assms(1-3) cps, of e] assms(5) unfolding assms(4) Let_def by simp
qed

text \<open>
  A line end in a text is not typed but starts a new command: whoever can send a text to
  be typed can make the shim run any command, such as opening an address.\<close>

theorem phone_text_injects_command:
  assumes "c_string s" and "c_string t" and "list_all (\<lambda>c. \<not> is_eol c) s" and "list_all (\<lambda>c. \<not> is_eol c) t"
    and "t \<noteq> []" and "length s + length t \<le> 248" and "600 \<le> n"
  shows "fifo_read e (fifo_bytes (handle_client (Some n) (Some (get_request ''/text?s='' (s @ CHR 0x0A # t) rest)))) st
       = handle_fifo_command e t (handle_fifo_command e (''TEXT:'' @ s) st)"
proof -
  let ?u = "s @ CHR 0x0A # t"
  have u: "c_string ?u" using assms(1,2) by (simp add: c_string_def)
  have "handle_client (Some n) (Some (get_request ''/text?s='' ?u rest))
      = respond (Some n) (''/text?s='' @ encodeURIComponent ?u) @ [CloseClient]"
    using assms(6) by (intro handle_get) (simp_all add: is_space_def)
  then have "fifo_bytes (handle_client (Some n) (Some (get_request ''/text?s='' ?u rest))) = ''TEXT:'' @ ?u @ [CHR 0x0A]"
    using respond_lines(2) [OF u, of n] assms(6,7) by (simp add: fifo_bytes_def)
  moreover have "cstr (take 255 (''TEXT:'' @ ?u @ [CHR 0x0A])) = (''TEXT:'' @ s) @ CHR 0x0A # t @ [CHR 0x0A]"
    using cstr_append [of "''TEXT:'' @ ?u @ [CHR 0x0A]" "[]"] u assms(6) by (simp add: c_string_def cstr_def)
  moreover have "strtok_lines ((''TEXT:'' @ s) @ CHR 0x0A # t @ [CHR 0x0A]) = [''TEXT:'' @ s, t]"
    using strtok_lines_cons(1) [of "''TEXT:'' @ s"] strtok_lines_cons(1) [of t "[]"] assms(3-5) by (simp add: is_eol_def)
  ultimately show ?thesis by (simp add: fifo_read_def)
qed

text \<open>
  A long text is cut: the shim reads 255 bytes of the FIFO at a time, so of a text with
  more than 250 bytes only the first 250 are typed; the rest is taken for a command of its
  own, although the server accepts texts of 511 bytes.\<close>

theorem phone_long_text_is_cut:
  assumes "c_string s" and "list_all (\<lambda>c. \<not> is_eol c) s" and "250 < length s" and "length s \<le> 338" and "600 \<le> n"
    and "b = fifo_bytes (handle_client (Some n) (Some (get_request ''/text?s='' s rest)))"
  shows "fifo_read e (drop 255 b) (fifo_read e b st)
       = handle_fifo_command e (drop 250 s) (handle_fifo_command e (''TEXT:'' @ take 250 s) st)"
proof -
  have "handle_client (Some n) (Some (get_request ''/text?s='' s rest))
      = respond (Some n) (''/text?s='' @ encodeURIComponent s) @ [CloseClient]"
    using assms(4) by (intro handle_get) (simp_all add: is_space_def)
  then have b: "b = ''TEXT:'' @ s @ [CHR 0x0A]"
    using respond_lines(2) [OF assms(1), of n] assms(4-6) by (simp add: fifo_bytes_def)
  have parts: "c_string (drop 250 s)" "list_all (\<lambda>c. \<not> is_eol c) (take 250 s)" "list_all (\<lambda>c. \<not> is_eol c) (drop 250 s)"
    using assms(1,2) by (auto simp: c_string_def list_all_iff dest: in_set_dropD in_set_takeD)
  have first: "strtok_lines (cstr (take 255 b)) = [''TEXT:'' @ take 250 s]"
  proof -
    have "take 255 b = ''TEXT:'' @ take 250 s" using assms(3) by (simp add: b)
    moreover have "cstr (''TEXT:'' @ take 250 s) = ''TEXT:'' @ take 250 s"
      using assms(1) by (simp only: cstr_id c_string_append c_string_take c_string_literals)
    ultimately show ?thesis
      using strtok_lines_cons(2) [of "''TEXT:'' @ take 250 s"] parts(2) by (simp add: is_eol_def)
  qed
  have "drop 255 b = drop 250 s @ [CHR 0x0A]" using assms(3) by (simp add: b)
  moreover have "cstr (take 255 (drop 250 s @ [CHR 0x0A])) = drop 250 s @ [CHR 0x0A]"
    using cstr_id [of "drop 250 s @ [CHR 0x0A]"] parts(1) assms(4) by simp
  moreover have "strtok_lines (drop 250 s @ [CHR 0x0A]) = [drop 250 s]"
    using strtok_lines_cons(1) [of "drop 250 s" "[]"] parts(3) assms(3) by simp
  ultimately show ?thesis using first by (simp add: fifo_read_def)
qed

section \<open>Witnesses\<close>

theorem phone_url_reaches_browser_witness:
  "url_of (fifo_read plain_env (fifo_bytes (handle_client (Some 4096) (Some (get_request ''/url?u='' ''a.b'' [])))) sd_init) = ''a.b''"
proof -
  have u: "''a.b'' = concat (map utf8_encode [0x61, 0x2E, 0x62])" by code_simp
  have empty: "eq_contents (sd_queue sd_init) = []"
    by (simp add: sd_init_def ring_contents_def ring_count_def)
  have "list_all (\<lambda>cp. 0 < cp \<and> cp < 0x800 \<and> cp \<noteq> 10 \<and> cp \<noteq> 13) [0x61, 0x2E, 0x62 :: u32]" by simp
  from phone_url_reaches_browser [OF sd_ok_init empty this u, of 4096 plain_env "[]"]
  show ?thesis by (simp add: Let_def)
qed

theorem phone_text_injects_command_witness:
  "fifo_read plain_env (fifo_bytes (handle_client (Some 4096) (Some (get_request ''/text?s='' (''hi'' @ CHR 0x0A # ''URL:x.org'') [])))) sd_init
     = handle_fifo_command plain_env ''URL:x.org'' (handle_fifo_command plain_env (''TEXT:'' @ ''hi'') sd_init)"
  by (rule phone_text_injects_command) (simp_all add: c_string_def is_eol_def)

theorem phone_long_text_is_cut_witness:
  "fifo_read plain_env (drop 255 (fifo_bytes (handle_client (Some 4096) (Some (get_request ''/text?s='' (replicate 300 (CHR ''a'')) [])))))
      (fifo_read plain_env (fifo_bytes (handle_client (Some 4096) (Some (get_request ''/text?s='' (replicate 300 (CHR ''a'')) [])))) sd_init)
     = handle_fifo_command plain_env (drop 250 (replicate 300 (CHR ''a'')))
         (handle_fifo_command plain_env (''TEXT:'' @ take 250 (replicate 300 (CHR ''a''))) sd_init)"
  by (rule phone_long_text_is_cut [OF _ _ _ _ _ refl]) (simp_all add: c_string_def is_eol_def list_all_iff)

end
