(* ===== verification/Mtp_Bytes.thy ===== *)
theory Mtp_Bytes
  imports Nook_Prelude
begin

text \<open>
  The byte level of the MTP responder under \<^verbatim>\<open>components/system/src/umtprd\<close>: the bounded
  writers and the readers of \<^verbatim>\<open>mtp_helpers.c\<close>, the conversion between UTF-8 file names and
  the UTF-16 strings of the protocol in \<^verbatim>\<open>usbstring.c\<close>, and the containers built with them
  (\<^verbatim>\<open>build_response\<close> of \<^verbatim>\<open>mtp.c\<close>, \<^verbatim>\<open>build_event_dataset\<close> of \<^verbatim>\<open>mtp_datasets.c\<close>).
  A buffer is the list of its bytes; the writers thread the pair of the current offset and
  the buffer, the offset -1 meaning that an earlier write did not fit.
\<close>

type_synonym bytes = "u8 list"
type_synonym poke = "int \<times> bytes"

section \<open>Writing and reading numbers\<close>

definition put_bytes :: "nat \<Rightarrow> bytes \<Rightarrow> bytes \<Rightarrow> bytes" where
  "put_bytes i bs b = take i b @ bs @ drop (i + length bs) b"

definition le_bytes :: "nat \<Rightarrow> 'a::len word \<Rightarrow> bytes" where
  "le_bytes n w = map (\<lambda>k. ucast (drop_bit (8 * k) w)) [0..<n]"

text \<open>
  The common shape: an error stays an error, a write that would reach the end of the buffer
  fails, everything else is written and the offset moves on.
\<close>

definition poke_bytes :: "int \<Rightarrow> bytes \<Rightarrow> poke \<Rightarrow> poke" where
  "poke_bytes maxsize bs p =
     (case p of (index, b) \<Rightarrow>
        if index < 0 then (index, b)
        else if index + int (length bs) \<ge> maxsize then (-1, b)
        else (index + int (length bs), put_bytes (nat index) bs b))"

definition poke32 :: "int \<Rightarrow> u32 \<Rightarrow> poke \<Rightarrow> poke" where
  "poke32 maxsize d = poke_bytes maxsize (le_bytes 4 d)"

definition poke16 :: "int \<Rightarrow> u16 \<Rightarrow> poke \<Rightarrow> poke" where
  "poke16 maxsize d = poke_bytes maxsize (le_bytes 2 d)"

definition poke08 :: "int \<Rightarrow> u8 \<Rightarrow> poke \<Rightarrow> poke" where
  "poke08 maxsize d = poke_bytes maxsize [d]"

text \<open>The readers check nothing; a byte outside the buffer is read as zero here.\<close>

definition rd :: "bytes \<Rightarrow> nat \<Rightarrow> u8" where
  "rd b i = (if i < length b then b ! i else 0)"

definition peek :: "bytes \<Rightarrow> nat \<Rightarrow> nat \<Rightarrow> u32" where
  "peek b index typesize = fold (\<lambda>k d. d OR push_bit (8 * k) (ucast (rd b (index + k)))) [0..<typesize] 0"

definition peek64 :: "bytes \<Rightarrow> nat \<Rightarrow> nat \<Rightarrow> u64" where
  "peek64 b index typesize = fold (\<lambda>k d. d OR push_bit (8 * k) (ucast (rd b (index + k)))) [0..<typesize] 0"

text \<open>An array, with the number of its elements in front when \<open>prefixed\<close>.\<close>

definition poke_array :: "int \<Rightarrow> nat \<Rightarrow> bytes \<Rightarrow> bool \<Rightarrow> poke \<Rightarrow> poke" where
  "poke_array maxsize elementsize bs prefixed =
     poke_bytes maxsize ((if prefixed then le_bytes 4 (of_nat (length bs div elementsize) :: u32) else []) @ bs)"

section \<open>Strings\<close>

text \<open>\<open>utf8_encode\<close> of \<^verbatim>\<open>usbstring.c\<close>, without the terminating NUL; no bytes is the error result.\<close>

definition usb_utf8_encode :: "u32 \<Rightarrow> bytes" where
  "usb_utf8_encode u =
     (if u \<le> 0x7F then [ucast u]
      else if u \<le> 0x7FF then [ucast ((drop_bit 6 u AND 0x1F) OR 0xC0), ucast ((u AND 0x3F) OR 0x80)]
      else if u \<le> 0xFFFF then
        [ucast ((drop_bit 12 u AND 0x0F) OR 0xE0), ucast ((drop_bit 6 u AND 0x3F) OR 0x80), ucast ((u AND 0x3F) OR 0x80)]
      else if u \<le> 0x10FFFF then
        [ucast ((drop_bit 18 u AND 0x07) OR 0xF0), ucast ((drop_bit 12 u AND 0x3F) OR 0x80),
         ucast ((drop_bit 6 u AND 0x3F) OR 0x80), ucast ((u AND 0x3F) OR 0x80)]
      else [])"

text \<open>
  \<open>unicode2charstring\<close>: the UTF-16 units up to a zero unit, as long as the encoded text and
  its NUL fit. The result is the text and whether it was cut. \<open>used\<close> counts the bytes
  already written.
\<close>

fun unicode2char_loop :: "int \<Rightarrow> int \<Rightarrow> u16 list \<Rightarrow> bytes \<times> int" where
  "unicode2char_loop maxstrsize used [] = ([], 0)"
| "unicode2char_loop maxstrsize used (u # us) =
     (if u = 0 then ([], 0)
      else let c = usb_utf8_encode (ucast u);
               c = (if c = [] then [0x3F] else c)
           in if used + int (length c) < maxstrsize
              then let (s, r) = unicode2char_loop maxstrsize (used + int (length c)) us in (c @ s, r)
              else ([], 1))"

definition unicode2charstring :: "int \<Rightarrow> u16 list \<Rightarrow> bytes \<times> int" where
  "unicode2charstring maxstrsize us = unicode2char_loop maxstrsize 0 us"

text \<open>The UTF-16 units of a string in a dataset, read by the handlers two bytes at a time.\<close>

definition read_units :: "bytes \<Rightarrow> nat \<Rightarrow> nat \<Rightarrow> u16 list" where
  "read_units b index n = map (\<lambda>k. ucast (peek b (index + 2 * k) 2)) [0..<n]"

text \<open>The length of a UTF-8 sequence by its first byte: its leading one bits, at least one.\<close>

definition utf8_size :: "u8 \<Rightarrow> nat" where
  "utf8_size c = (let n = length (takeWhile (\<lambda>k. bit c k) [7, 6, 5, 4, 3, 2, 1, 0]) in if n = 0 then 1 else n)"

definition utf2unicode :: "bytes \<Rightarrow> u16 \<times> nat" where
  "utf2unicode s =
     (let b1 = rd s 0; b2 = rd s 1; b3 = rd s 2 in
      case utf8_size b1 of
        Suc 0 \<Rightarrow> (ucast b1, 1)
      | Suc (Suc 0) \<Rightarrow>
          if b2 AND 0xC0 \<noteq> 0x80 then (0, 0)
          else (((push_bit 6 (ucast (b1 AND 0x1F)) OR ucast (b2 AND 0x3F)) AND 0xFF)
                 OR push_bit 8 (ucast (drop_bit 2 (b1 AND 0x1F))), 2)
      | Suc (Suc (Suc 0)) \<Rightarrow>
          if b2 AND 0xC0 \<noteq> 0x80 \<or> b3 AND 0xC0 \<noteq> 0x80 then (0, 0)
          else (((push_bit 6 (ucast (b2 AND 0x3F)) OR ucast (b3 AND 0x3F)) AND 0x00FF)
                 OR push_bit 8 (push_bit 4 (ucast (b1 AND 0x0F)) OR ucast (drop_bit 2 (b2 AND 0x3F))), 3)
      | _ \<Rightarrow> (0, 0))"

text \<open>
  The loop of \<open>char2unicodestring\<close> for the capacity of 255 units with which it is called:
  \<open>n\<close> counts the units written. It returns the number of units, or nothing when the buffer
  is too small.
\<close>

function char2unicode_loop :: "int \<Rightarrow> nat \<Rightarrow> bytes \<Rightarrow> poke \<Rightarrow> (nat \<times> bytes) option \<times> bytes" where
  "char2unicode_loop maxsize n s p =
     (let (unicode, ofs) = utf2unicode s; s' = drop ofs s; p' = poke_bytes maxsize (le_bytes 2 unicode) p in
      if fst p' < 0 then (None, snd p)
      else if unicode \<noteq> 0 \<and> ofs \<noteq> 0 \<and> n + 1 < 255 then char2unicode_loop maxsize (n + 1) s' p'
      else (Some (n + 1, s'), snd p'))"
  by pat_completeness auto

termination char2unicode_loop
  by (relation "measure (\<lambda>(_, n, _, _). 255 - n)") auto

declare char2unicode_loop.simps [simp del]

definition char2unicodestring :: "int \<Rightarrow> bytes \<Rightarrow> poke \<Rightarrow> int \<times> bytes" where
  "char2unicodestring maxsize s p =
     (let start = fst p in
      case char2unicode_loop maxsize 0 s p of
        (None, b) \<Rightarrow> (-1, b)
      | (Some (n, _), b) \<Rightarrow>
          if n \<ge> 255 then
            if start + (255 * 2 - 2) \<ge> maxsize then (-1, b)
            else (255, put_bytes (nat start + 508) [0, 0] b)
          else (int n, b))"

definition poke_string :: "int \<Rightarrow> bytes \<Rightarrow> poke \<Rightarrow> poke" where
  "poke_string maxsize str p =
     (case p of (index, b) \<Rightarrow>
        if index < 0 then (index, b)
        else if index + 1 \<ge> maxsize then (-1, b)
        else let b = put_bytes (nat index) [0] b in
          if str = [] then (index + 1, b)
          else case char2unicodestring maxsize str (index + 1, b) of
            (len, b) \<Rightarrow> if len < 0 then (-1, b)
              else (index + 1 + len * 2, put_bytes (nat index) [word_of_int len] b))"

text \<open>The writers as data; a dataset is a list of calls, folded over the offset and the buffer.\<close>

datatype field = F32 u32 | F16 u16 | F08 u8 | FArray nat bytes bool | FString bytes

fun poke_field :: "int \<Rightarrow> field \<Rightarrow> poke \<Rightarrow> poke" where
  "poke_field M (F32 d) = poke32 M d"
| "poke_field M (F16 d) = poke16 M d"
| "poke_field M (F08 d) = poke08 M d"
| "poke_field M (FArray k bs pre) = poke_array M k bs pre"
| "poke_field M (FString s) = poke_string M s"

text \<open>
  \<open>utf8_to_utf16le\<close> for the USB string descriptors: \<open>None\<close> is the failure. A continuation byte
  must have both upper bits set.
\<close>

fun utf8_to_utf16le :: "nat \<Rightarrow> bytes \<Rightarrow> u16 list option" where
  "utf8_to_utf16le 0 s = Some []"
| "utf8_to_utf16le (Suc len) [] = Some []"
| "utf8_to_utf16le (Suc len) (c # s) =
     (if c = 0 then Some []
      else if \<not> bit c 7 then map_option (\<lambda>us. ucast c # us) (utf8_to_utf16le len s)
      else if c AND 0xE0 = 0xC0 then
        (if rd s 0 AND 0xC0 \<noteq> 0xC0 then None
         else map_option (\<lambda>us. (push_bit 6 (ucast (c AND 0x1F)) OR ucast (rd s 0 AND 0x3F)) # us)
                (utf8_to_utf16le len (drop 1 s)))
      else if c AND 0xF0 = 0xE0 then
        (if rd s 0 AND 0xC0 \<noteq> 0xC0 \<or> rd s 1 AND 0xC0 \<noteq> 0xC0 then None
         else let u = push_bit 12 (ucast (c AND 0x0F)) OR push_bit 6 (ucast (rd s 0 AND 0x3F)) OR ucast (rd s 1 AND 0x3F)
           in if 0xD800 \<le> u \<and> u \<le> 0xDFFF then None
              else map_option (\<lambda>us. u # us) (utf8_to_utf16le len (drop 2 s)))
      else None)"

text \<open>The string descriptor with the number \<open>id\<close>: its bytes, or nothing for a stall.\<close>

definition usb_gadget_get_string :: "u16 \<Rightarrow> (int \<times> bytes) list \<Rightarrow> int \<Rightarrow> bytes option" where
  "usb_gadget_get_string language strings sid =
     (if sid = 0 then Some [4, 3, ucast language, ucast (drop_bit 8 language)]
      else case find (\<lambda>(i, _). i = sid) strings of
        None \<Rightarrow> None
      | Some (_, s) \<Rightarrow>
          (case utf8_to_utf16le (if length s > 126 then 126 else length s) s of
             None \<Rightarrow> None
           | Some us \<Rightarrow> Some ([of_nat ((length us + 1) * 2), 3] @ concat (map (le_bytes 2) us))))"

section \<open>Containers\<close>

record MTP_PACKET_HEADER =
  hdr_length :: u32
  hdr_operation :: u16
  hdr_code :: u16
  hdr_tx_id :: u32

definition header_bytes :: "MTP_PACKET_HEADER \<Rightarrow> bytes" where
  "header_bytes h = le_bytes 4 (hdr_length h) @ le_bytes 2 (hdr_operation h) @ le_bytes 2 (hdr_code h) @ le_bytes 4 (hdr_tx_id h)"

definition build_response :: "u32 \<Rightarrow> u16 \<Rightarrow> u16 \<Rightarrow> int \<Rightarrow> bytes \<Rightarrow> bytes \<Rightarrow> poke" where
  "build_response tx_id typ status maxsize datain b =
     (let h = \<lparr>hdr_length = of_nat (12 + length datain), hdr_operation = typ, hdr_code = status, hdr_tx_id = tx_id\<rparr>;
          p = poke_array maxsize 1 (header_bytes h) False (0, b)
      in if datain \<noteq> [] then poke_array maxsize 1 datain False p else p)"

abbreviation (input) MTP_CONTAINER_TYPE_EVENT :: u16 where "MTP_CONTAINER_TYPE_EVENT \<equiv> 4"

definition build_event_dataset :: "u32 \<Rightarrow> int \<Rightarrow> u32 \<Rightarrow> u32 list \<Rightarrow> bytes \<Rightarrow> poke" where
  "build_event_dataset session_id maxsize event parameters b =
     (let p = fold (poke32 maxsize) parameters
               (poke32 maxsize session_id
                 (poke16 maxsize (ucast event)
                   (poke16 maxsize MTP_CONTAINER_TYPE_EVENT (poke32 maxsize 0 (0, b)))))
      in if fst p \<ge> 0 then (fst p, snd (poke32 maxsize (word_of_int (fst p)) (0, snd p))) else p)"

end
