(* ===== verification/Mtp_Bytes_Props.thy ===== *)
theory Mtp_Bytes_Props
  imports Mtp_Bytes
begin

text \<open>
  Properties of the byte level: a writer stays inside the buffer and changes nothing before
  its offset (locale \<open>buffer_writer\<close>, interpreted for every writer), numbers and file names
  survive the way into a dataset and back.
\<close>

section \<open>Writers stay inside the buffer\<close>

definition writes :: "int \<Rightarrow> (poke \<Rightarrow> poke) \<Rightarrow> bool" where
  "writes M f \<longleftrightarrow> (\<forall>i b. int (length b) = M \<longrightarrow>
     length (snd (f (i, b))) = length b
     \<and> (i < 0 \<longrightarrow> f (i, b) = (i, b))
     \<and> (0 \<le> i \<longrightarrow> fst (f (i, b)) = -1 \<or> i \<le> fst (f (i, b)) \<and> (fst (f (i, b)) = i \<or> fst (f (i, b)) < M))
     \<and> (0 \<le> i \<longrightarrow> take (nat i) (snd (f (i, b))) = take (nat i) b)
     \<and> (0 \<le> i \<and> 0 \<le> fst (f (i, b)) \<longrightarrow> drop (nat (fst (f (i, b)))) (snd (f (i, b))) = drop (nat (fst (f (i, b)))) b))"

locale buffer_writer =
  fixes M :: int and f :: "poke \<Rightarrow> poke"
  assumes writer: "writes M f"
begin

lemma keeps_length: "int (length b) = M \<Longrightarrow> length (snd (f (i, b))) = length b"
  using writer unfolding writes_def by blast

lemma error_stays: "int (length b) = M \<Longrightarrow> i < 0 \<Longrightarrow> f (i, b) = (i, b)"
  using writer unfolding writes_def by blast

lemma offset: "int (length b) = M \<Longrightarrow> 0 \<le> i \<Longrightarrow> fst (f (i, b)) = -1 \<or> i \<le> fst (f (i, b)) \<and> (fst (f (i, b)) = i \<or> fst (f (i, b)) < M)"
  using writer unfolding writes_def by blast

lemma before: "int (length b) = M \<Longrightarrow> 0 \<le> i \<Longrightarrow> take (nat i) (snd (f (i, b))) = take (nat i) b"
  using writer unfolding writes_def by blast

lemma behind: "int (length b) = M \<Longrightarrow> 0 \<le> i \<Longrightarrow> 0 \<le> fst (f (i, b)) \<Longrightarrow>
    drop (nat (fst (f (i, b)))) (snd (f (i, b))) = drop (nat (fst (f (i, b)))) b"
  using writer unfolding writes_def by blast

end

lemma length_put_bytes [simp]: "i + length bs \<le> length b \<Longrightarrow> length (put_bytes i bs b) = length b"
  by (simp add: put_bytes_def)

lemma take_put_bytes [simp]: "i \<le> length b \<Longrightarrow> k \<le> i \<Longrightarrow> take k (put_bytes i bs b) = take k b"
  by (simp add: put_bytes_def min_def)

lemma drop_put_bytes [simp]: "i \<le> length b \<Longrightarrow> i + length bs \<le> k \<Longrightarrow> drop k (put_bytes i bs b) = drop k b"
  by (simp add: put_bytes_def)

lemma length_le_bytes [simp]: "length (le_bytes n w) = n"
  by (simp add: le_bytes_def)

lemma writes_poke_bytes: "writes M (poke_bytes M bs)"
  unfolding writes_def
proof (intro allI impI)
  fix i :: int and b :: bytes
  assume M: "int (length b) = M"
  consider "i < 0" | "0 \<le> i" "i + int (length bs) \<ge> M" | "0 \<le> i" "nat i + length bs < length b"
    using M by linarith
  then show "length (snd (poke_bytes M bs (i, b))) = length b
     \<and> (i < 0 \<longrightarrow> poke_bytes M bs (i, b) = (i, b))
     \<and> (0 \<le> i \<longrightarrow> fst (poke_bytes M bs (i, b)) = -1
          \<or> i \<le> fst (poke_bytes M bs (i, b)) \<and> (fst (poke_bytes M bs (i, b)) = i \<or> fst (poke_bytes M bs (i, b)) < M))
     \<and> (0 \<le> i \<longrightarrow> take (nat i) (snd (poke_bytes M bs (i, b))) = take (nat i) b)
     \<and> (0 \<le> i \<and> 0 \<le> fst (poke_bytes M bs (i, b)) \<longrightarrow>
          drop (nat (fst (poke_bytes M bs (i, b)))) (snd (poke_bytes M bs (i, b))) = drop (nat (fst (poke_bytes M bs (i, b)))) b)"
    using M by cases (simp_all add: poke_bytes_def nat_add_distrib)
qed

text \<open>Writers compose.\<close>

lemma writes_compose:
  assumes "writes M f" and "writes M g"
  shows "writes M (\<lambda>p. g (f p))"
  unfolding writes_def
proof (intro allI impI)
  fix i :: int and b :: bytes
  assume M: "int (length b) = M"
  obtain j c where j: "f (i, b) = (j, c)" by (cases "f (i, b)")
  obtain k d where k: "g (j, c) = (k, d)" by (cases "g (j, c)")
  note f = buffer_writer.keeps_length [OF buffer_writer.intro [OF assms(1)] M, of i]
    buffer_writer.error_stays [OF buffer_writer.intro [OF assms(1)] M, of i]
    buffer_writer.offset [OF buffer_writer.intro [OF assms(1)] M, of i]
    buffer_writer.before [OF buffer_writer.intro [OF assms(1)] M, of i]
    buffer_writer.behind [OF buffer_writer.intro [OF assms(1)] M, of i]
  have M': "int (length c) = M" using f(1) j M by simp
  note g = buffer_writer.keeps_length [OF buffer_writer.intro [OF assms(2)] M', of j]
    buffer_writer.error_stays [OF buffer_writer.intro [OF assms(2)] M', of j]
    buffer_writer.offset [OF buffer_writer.intro [OF assms(2)] M', of j]
    buffer_writer.before [OF buffer_writer.intro [OF assms(2)] M', of j]
    buffer_writer.behind [OF buffer_writer.intro [OF assms(2)] M', of j]
  have len: "length d = length b" using f(1) g(1) j k by simp
  moreover have "i < 0 \<longrightarrow> (k, d) = (i, b)" using f(2) g(2) j k by auto
  moreover have "0 \<le> i \<longrightarrow> k = -1 \<or> i \<le> k \<and> (k = i \<or> k < M)" using f(3) g(2,3) j k by fastforce
  moreover have "0 \<le> i \<longrightarrow> take (nat i) d = take (nat i) b"
  proof
    assume i: "0 \<le> i"
    show "take (nat i) d = take (nat i) b"
    proof (cases "j < 0")
      case True
      then show ?thesis using f(4) g(2) i j k by simp
    next
      case False
      then have le: "nat i \<le> nat j" using f(3) i j by auto
      have "take (nat i) d = take (nat i) (take (nat j) d)" using le by (simp add: min_absorb1)
      also have "\<dots> = take (nat i) (take (nat j) c)" using g(4) k False by simp
      also have "\<dots> = take (nat i) b" using f(4) i j le by (simp add: min_absorb1)
      finally show ?thesis .
    qed
  qed
  moreover have "0 \<le> i \<and> 0 \<le> k \<longrightarrow> drop (nat k) d = drop (nat k) b"
  proof
    assume ik: "0 \<le> i \<and> 0 \<le> k"
    then have j0: "0 \<le> j" using f(3) g(2) j k by force
    then have le: "nat j \<le> nat k" using g(3) ik k by auto
    have "drop (nat k) d = drop (nat k) c" using g(5) ik k j0 by simp
    also have "\<dots> = drop (nat k - nat j) (drop (nat j) c)" using le by simp
    also have "\<dots> = drop (nat k - nat j) (drop (nat j) b)" using f(5) ik j j0 by simp
    finally show "drop (nat k) d = drop (nat k) b" using le by simp
  qed
  ultimately show "length (snd (g (f (i, b)))) = length b
     \<and> (i < 0 \<longrightarrow> g (f (i, b)) = (i, b))
     \<and> (0 \<le> i \<longrightarrow> fst (g (f (i, b))) = -1 \<or> i \<le> fst (g (f (i, b))) \<and> (fst (g (f (i, b))) = i \<or> fst (g (f (i, b))) < M))
     \<and> (0 \<le> i \<longrightarrow> take (nat i) (snd (g (f (i, b)))) = take (nat i) b)
     \<and> (0 \<le> i \<and> 0 \<le> fst (g (f (i, b))) \<longrightarrow> drop (nat (fst (g (f (i, b))))) (snd (g (f (i, b)))) = drop (nat (fst (g (f (i, b))))) b)"
    by (simp add: j k)
qed

lemma put_bytes_append:
  "i + length xs + length ys \<le> length b \<Longrightarrow> put_bytes (i + length xs) ys (put_bytes i xs b) = put_bytes i (xs @ ys) b"
  by (simp add: put_bytes_def min_absorb2 ac_simps)

lemma put_bytes_over:
  assumes "i + length (xs @ ys) \<le> length b" and "length zs = length ys"
  shows "put_bytes (i + length xs) zs (put_bytes i (xs @ ys) b) = put_bytes i (xs @ zs) b"
  using assms by (simp add: put_bytes_def min_absorb2 ac_simps)

lemma put_bytes_front:
  assumes "i + length (xs @ ys) \<le> length b" and "length zs = length xs"
  shows "put_bytes i zs (put_bytes i (xs @ ys) b) = put_bytes i (zs @ ys) b"
  using assms by (simp add: put_bytes_def min_absorb2 ac_simps)

text \<open>The units that the loop writes.\<close>

function units :: "nat \<Rightarrow> bytes \<Rightarrow> u16 list" where
  "units n s = (let (u, k) = utf2unicode s in u # (if u \<noteq> 0 \<and> k \<noteq> 0 \<and> n + 1 < 255 then units (n + 1) (drop k s) else []))"
  by pat_completeness auto

termination units
  by (relation "measure (\<lambda>(n, _). 255 - n)") auto

declare units.simps [simp del]

abbreviation unit_bytes :: "u16 list \<Rightarrow> bytes" where
  "unit_bytes us \<equiv> concat (map (le_bytes 2) us)"

lemma length_unit_bytes [simp]: "length (unit_bytes us) = 2 * length us"
  by (induction us) auto

lemma units_length: "n < 255 \<Longrightarrow> 0 < length (units n s) \<and> n + length (units n s) \<le> 255"
proof (induction n s rule: units.induct)
  case (1 n s)
  show ?case
  proof (cases "utf2unicode s")
    case (Pair u k)
    then show ?thesis using 1 by (auto simp: units.simps [of n s])
  qed
qed

text \<open>The loop writes them all, or fails after some of them.\<close>

lemma char2unicode_loop_units:
  assumes "0 \<le> i" and "int (length b) = M" and "i \<le> M"
  shows "if i + 2 * int (length (units n s)) < M
     then \<exists>r. char2unicode_loop M n s (i, b) = (Some (n + length (units n s), r), put_bytes (nat i) (unit_bytes (units n s)) b)
     else \<exists>us. char2unicode_loop M n s (i, b) = (None, put_bytes (nat i) (unit_bytes us) b) \<and> i + 2 * int (length us) \<le> M"
  using assms
proof (induction n s arbitrary: i b rule: units.induct)
  case (1 n s)
  obtain u k where uk: "utf2unicode s = (u, k)" by (cases "utf2unicode s")
  note loop = char2unicode_loop.simps [of M n s "(i, b)"] and us = units.simps [of n s]
  show ?case
  proof (cases "i + 2 < M")
    case False
    have "char2unicode_loop M n s (i, b) = (None, put_bytes (nat i) (unit_bytes []) b)"
      using False 1(2) by (simp add: loop uk poke_bytes_def put_bytes_def)
    moreover have "\<not> i + 2 * int (length (units n s)) < M"
      using False by (simp add: us uk)
    ultimately show ?thesis using 1(4) by (auto intro!: exI [of _ "[]"])
  next
    case True
    let ?b = "put_bytes (nat i) (le_bytes 2 u) b"
    have p: "poke_bytes M (le_bytes 2 u) (i, b) = (i + 2, ?b)"
      using True 1(2) by (simp add: poke_bytes_def)
    have len: "int (length ?b) = M" using True 1(2,3) by (subst length_put_bytes) auto
    show ?thesis
    proof (cases "u \<noteq> 0 \<and> k \<noteq> 0 \<and> n + 1 < 255")
      case False
      then show ?thesis using True 1(2) p by (auto simp: loop us uk)
    next
      case True
      have nat: "nat (i + 2) = nat i + length (le_bytes 2 u)" using 1(2) by simp
      have join: "put_bytes (nat (i + 2)) (unit_bytes us) ?b = put_bytes (nat i) (unit_bytes (u # us)) b"
        if "i + 2 + 2 * int (length us) \<le> M" for us
        unfolding nat using that 1(2,3) by (subst put_bytes_append) auto
      have "char2unicode_loop M n s (i, b) = char2unicode_loop M (n + 1) (drop k s) (i + 2, ?b)"
        using True 1(2) p by (simp add: loop uk)
      moreover have "units n s = u # units (n + 1) (drop k s)" using True by (simp add: us uk)
      moreover have "if i + 2 + 2 * int (length (units (n + 1) (drop k s))) < M
         then \<exists>r. char2unicode_loop M (n + 1) (drop k s) (i + 2, ?b)
            = (Some (n + 1 + length (units (n + 1) (drop k s)), r), put_bytes (nat (i + 2)) (unit_bytes (units (n + 1) (drop k s))) ?b)
         else \<exists>us. char2unicode_loop M (n + 1) (drop k s) (i + 2, ?b) = (None, put_bytes (nat (i + 2)) (unit_bytes us) ?b)
            \<and> i + 2 + 2 * int (length us) \<le> M"
        using \<open>i + 2 < M\<close> 1(2) len by (intro 1(1) [OF uk [symmetric] refl True]) auto
      ultimately show ?thesis
        using join by (fastforce split: if_splits intro: exI [of _ "u # _"])
    qed
  qed
qed

text \<open>The bytes of a string in a dataset.\<close>

definition string_bytes :: "bytes \<Rightarrow> bytes" where
  "string_bytes s = (if s = [] then [0]
     else let us = units 0 s; us = (if length us = 255 then take 254 us @ [0] else us)
       in of_nat (length us) # unit_bytes us)"

lemma string_bytes_length: "s \<noteq> [] \<Longrightarrow> length (string_bytes s) = 1 + 2 * length (units 0 s)"
  by (simp add: string_bytes_def Let_def)

lemma unit_bytes_append: "unit_bytes (xs @ ys) = unit_bytes xs @ unit_bytes ys"
  by simp

lemma char2unicodestring_units:
  assumes "0 \<le> i" and "int (length b) = M" and "i < M"
    and us: "us = (if length (units 0 s) = 255 then take 254 (units 0 s) @ [0] else units 0 s)"
  shows "if i + 2 * int (length (units 0 s)) < M
     then char2unicodestring M s (i, b) = (int (length (units 0 s)), put_bytes (nat i) (unit_bytes us) b)
     else \<exists>vs. char2unicodestring M s (i, b) = (-1, put_bytes (nat i) (unit_bytes vs) b) \<and> i + 2 * int (length vs) \<le> M"
proof (cases "i + 2 * int (length (units 0 s)) < M")
  case False
  then obtain vs where "char2unicode_loop M 0 s (i, b) = (None, put_bytes (nat i) (unit_bytes vs) b)"
    and "i + 2 * int (length vs) \<le> M"
    using char2unicode_loop_units [OF assms(1,2), of 0 s] assms(3) by auto
  with False show ?thesis by (auto simp: char2unicodestring_def)
next
  case True
  let ?us = "units 0 s"
  from True obtain r where loop: "char2unicode_loop M 0 s (i, b) = (Some (length ?us, r), put_bytes (nat i) (unit_bytes ?us) b)"
    using char2unicode_loop_units [OF assms(1,2), of 0 s] assms(3) by auto
  show ?thesis
  proof (cases "length ?us = 255")
    case False
    then have "length ?us < 255" using units_length [of 0 s] by simp
    with True False show ?thesis by (simp add: char2unicodestring_def loop us)
  next
    case full: True
    let ?t = "take 254 ?us" and ?l = "[last ?us]"
    have split: "?us = ?t @ ?l" using full append_butlast_last_id [of ?us] butlast_conv_take [of ?us] by force
    have "nat i + 510 \<le> length b" using True full assms(1,2) by simp
    then have "put_bytes (nat i + 508) [0, 0] (put_bytes (nat i) (unit_bytes ?t @ unit_bytes ?l) b)
        = put_bytes (nat i) (unit_bytes ?t @ [0, 0]) b"
      using put_bytes_over [of "nat i" "unit_bytes ?t" "unit_bytes ?l" b "[0, 0]"] full by simp
    moreover have "unit_bytes ?us = unit_bytes ?t @ unit_bytes ?l"
      using unit_bytes_append [of ?t ?l] split by simp
    moreover have "le_bytes 2 (0 :: u16) = [0, 0]" by (simp add: le_bytes_def numeral_2_eq_2)
    ultimately show ?thesis
      using True full by (simp add: char2unicodestring_def loop us)
  qed
qed

lemma poke_string_bytes:
  assumes "0 \<le> i" and "int (length b) = M"
  shows "if i + int (length (string_bytes s)) < M
     then poke_string M s (i, b) = poke_bytes M (string_bytes s) (i, b)
     else \<exists>xs. poke_string M s (i, b) = (-1, put_bytes (nat i) xs b) \<and> (xs \<noteq> [] \<longrightarrow> i + int (length xs) \<le> M)"
proof (cases "s = [] \<or> i + 1 \<ge> M")
  case True
  then show ?thesis
    using assms string_bytes_length [of s]
    by (auto simp: poke_string_def poke_bytes_def string_bytes_def Let_def put_bytes_def intro!: exI [of _ "[]"])
next
  case False
  let ?us = "units 0 s"
  define us where "us = (if length ?us = 255 then take 254 ?us @ [0] else ?us)"
  let ?b = "put_bytes (nat i) [0] b"
  have len: "int (length ?b) = M" using False assms by (subst length_put_bytes) auto
  have lus: "length us = length ?us" by (simp add: us_def)
  have sb: "string_bytes s = of_nat (length us) # unit_bytes us"
    using False by (simp add: string_bytes_def Let_def us_def)
  have nat: "nat (i + 1) = nat i + length [0 :: u8]" using assms by simp
  have join: "put_bytes (nat (i + 1)) (unit_bytes vs) ?b = put_bytes (nat i) ([0] @ unit_bytes vs) b"
    if "i + 1 + 2 * int (length vs) \<le> M" for vs
    unfolding nat using that assms False by (intro put_bytes_append) auto
  note char = char2unicodestring_units [of "i + 1" ?b M us s, OF _ len _ us_def]
  show ?thesis
  proof (cases "i + 1 + 2 * int (length ?us) < M")
    case True
    then have "char2unicodestring M s (i + 1, ?b) = (int (length ?us), put_bytes (nat i) ([0] @ unit_bytes us) b)"
      using char False assms join [of us] lus by simp
    moreover have "put_bytes (nat i) [of_nat (length us)] (put_bytes (nat i) ([0] @ unit_bytes us) b)
        = put_bytes (nat i) ([of_nat (length us)] @ unit_bytes us) b"
      using True assms lus by (intro put_bytes_front) auto
    ultimately show ?thesis
      using True False assms lus by (simp add: poke_string_def poke_bytes_def sb)
  next
    case short: False
    then obtain vs where vs: "char2unicodestring M s (i + 1, ?b) = (-1, put_bytes (nat (i + 1)) (unit_bytes vs) ?b)"
      "i + 1 + 2 * int (length vs) \<le> M"
      using char False assms by auto
    then have "poke_string M s (i, b) = (-1, put_bytes (nat i) ([0] @ unit_bytes vs) b)"
      using False assms join [of vs] by (simp add: poke_string_def)
    moreover have "\<not> i + int (length (string_bytes s)) < M" using short lus by (simp add: sb)
    ultimately show ?thesis using vs(2) by (auto intro!: exI [of _ "0 # unit_bytes vs"])
  qed
qed

lemma writes_poke_string: "writes M (poke_string M s)"
  unfolding writes_def
proof (intro allI impI)
  fix i :: int and b :: bytes
  assume M: "int (length b) = M"
  let ?P = "\<lambda>q. length (snd q) = length b \<and> (i < 0 \<longrightarrow> q = (i, b))
     \<and> (0 \<le> i \<longrightarrow> fst q = -1 \<or> i \<le> fst q \<and> (fst q = i \<or> fst q < M)) \<and> (0 \<le> i \<longrightarrow> take (nat i) (snd q) = take (nat i) b)
     \<and> (0 \<le> i \<and> 0 \<le> fst q \<longrightarrow> drop (nat (fst q)) (snd q) = drop (nat (fst q)) b)"
  have good: "?P (poke_bytes M (string_bytes s) (i, b))"
    using writes_poke_bytes M unfolding writes_def by blast
  have bad: "?P (-1, put_bytes (nat i) xs b)" if "0 \<le> i" "xs \<noteq> [] \<longrightarrow> i + int (length xs) \<le> M" for xs
  proof (cases "xs = []")
    case True
    then show ?thesis using that(1) by (simp add: put_bytes_def)
  next
    case False
    then have "nat i + length xs \<le> length b" using that M by simp
    then show ?thesis using that(1) by simp
  qed
  show "?P (poke_string M s (i, b))"
  proof (cases "i < 0")
    case True
    then show ?thesis by (simp add: poke_string_def)
  next
    case False
    then have i: "0 \<le> i" by simp
    show ?thesis
    proof (cases "i + int (length (string_bytes s)) < M")
      case True
      then have eq: "poke_string M s (i, b) = poke_bytes M (string_bytes s) (i, b)"
        using poke_string_bytes [OF i M, of s] by (simp only: if_True)
      show ?thesis unfolding eq by (rule good)
    next
      case False
      then obtain xs where eq: "poke_string M s (i, b) = (-1, put_bytes (nat i) xs b)" and xs: "xs \<noteq> [] \<longrightarrow> i + int (length xs) \<le> M"
        using poke_string_bytes [OF i M, of s] by (simp only: if_False) blast
      show ?thesis unfolding eq by (rule bad [OF i xs])
    qed
  qed
qed

section \<open>Decoding inverts encoding\<close>

lemma cases_16: "n < 16 \<Longrightarrow> n = 0 \<or> n = 2 \<or> n = 4 \<or> n = 6 \<or> n = 8 \<or> n = 10 \<or> n = 12 \<or> n = 14
    \<or> n = 1 \<or> n = 3 \<or> n = 5 \<or> n = 7 \<or> n = 9 \<or> n = 11 \<or> n = 13 \<or> n = (15 :: nat)"
  by presburger

lemma utf2unicode_two:
  fixes u :: u16
  assumes high: "\<And>n. 11 \<le> n \<Longrightarrow> \<not> bit u n"
  shows "utf2unicode (ucast ((drop_bit 6 (ucast u :: u32) AND 0x1F) OR 0xC0) # ucast (((ucast u :: u32) AND 0x3F) OR 0x80) # s) = (u, 2)"
proof -
  let ?b1 = "ucast ((drop_bit 6 (ucast u :: u32) AND 0x1F) OR 0xC0) :: u8" and ?b2 = "ucast (((ucast u :: u32) AND 0x3F) OR 0x80) :: u8"
  have "utf8_size ?b1 = 2" by (simp add: utf8_size_def bit_simps)
  moreover have "?b2 AND 0xC0 = 0x80"
    by (rule bit_word_eqI) (auto simp: bit_simps less_Suc_eq numeral_eq_Suc)
  moreover have "((push_bit 6 (ucast (?b1 AND 0x1F)) OR ucast (?b2 AND 0x3F)) AND 0xFF)
                 OR push_bit 8 (ucast (drop_bit 2 (?b1 AND 0x1F))) = u"
  proof (rule bit_word_eqI)
    fix n
    assume "n < LENGTH(16)"
    then have "n < 16" by simp
    from cases_16 [OF this] show "bit (((push_bit 6 (ucast (?b1 AND 0x1F) :: u16) OR ucast (?b2 AND 0x3F)) AND 0xFF)
                 OR push_bit 8 (ucast (drop_bit 2 (?b1 AND 0x1F)))) n = bit u n"
      using high by (elim disjE) (simp_all add: bit_simps)
  qed
  ultimately show ?thesis by (simp add: utf2unicode_def rd_def Let_def numeral_2_eq_2)
qed

lemma utf2unicode_three:
  fixes u :: u16
  shows "utf2unicode (ucast ((drop_bit 12 (ucast u :: u32) AND 0x0F) OR 0xE0) # ucast ((drop_bit 6 (ucast u :: u32) AND 0x3F) OR 0x80)
     # ucast (((ucast u :: u32) AND 0x3F) OR 0x80) # s) = (u, 3)"
proof -
  let ?b1 = "ucast ((drop_bit 12 (ucast u :: u32) AND 0x0F) OR 0xE0) :: u8"
    and ?b2 = "ucast ((drop_bit 6 (ucast u :: u32) AND 0x3F) OR 0x80) :: u8" and ?b3 = "ucast (((ucast u :: u32) AND 0x3F) OR 0x80) :: u8"
  have "utf8_size ?b1 = 3" by (simp add: utf8_size_def bit_simps)
  moreover have "?b2 AND 0xC0 = 0x80" "?b3 AND 0xC0 = 0x80"
    by (rule bit_word_eqI, auto simp: bit_simps less_Suc_eq numeral_eq_Suc)+
  moreover have "((push_bit 6 (ucast (?b2 AND 0x3F)) OR ucast (?b3 AND 0x3F)) AND 0xFF)
                 OR push_bit 8 (push_bit 4 (ucast (?b1 AND 0x0F)) OR ucast (drop_bit 2 (?b2 AND 0x3F))) = u"
  proof (rule bit_word_eqI)
    fix n
    assume "n < LENGTH(16)"
    then have "n < 16" by simp
    from cases_16 [OF this] show "bit (((push_bit 6 (ucast (?b2 AND 0x3F) :: u16) OR ucast (?b3 AND 0x3F)) AND 0xFF)
                 OR push_bit 8 (push_bit 4 (ucast (?b1 AND 0x0F)) OR ucast (drop_bit 2 (?b2 AND 0x3F)))) n = bit u n"
      by (elim disjE) (simp_all add: bit_simps)
  qed
  ultimately show ?thesis by (simp add: utf2unicode_def rd_def Let_def numeral_3_eq_3)
qed

lemma utf2unicode_one:
  fixes u :: u16
  assumes high: "\<And>n. 7 \<le> n \<Longrightarrow> \<not> bit u n"
  shows "utf2unicode (ucast (ucast u :: u32) # s) = (u, 1)"
proof -
  have "utf8_size (ucast (ucast u :: u32)) = 1" using high by (simp add: utf8_size_def bit_simps)
  moreover have "ucast (ucast (ucast u :: u32) :: u8) = u"
    by (rule bit_word_eqI) (use high in \<open>auto simp: bit_simps intro: ccontr\<close>)
  ultimately show ?thesis by (simp add: utf2unicode_def rd_def Let_def)
qed

lemma utf2unicode_encode:
  fixes u :: u16
  shows "utf2unicode (usb_utf8_encode (ucast u) @ s) = (u, length (usb_utf8_encode (ucast u)))"
    and "0 < length (usb_utf8_encode (ucast u))" and "length (usb_utf8_encode (ucast u)) \<le> 3"
proof -
  let ?w = "ucast u :: u32"
  have small: "\<not> bit u n" if "unat u < 2 ^ k" "k \<le> n" for n k
  proof -
    have "u = take_bit k u"
      using that(1) by (metis take_bit_nat_eq_self unsigned_take_bit_eq word_unat_eq_iff)
    then show ?thesis using that(2) by (metis bit_take_bit_iff linorder_not_less)
  qed
  have "unat ?w = take_bit 32 (unat u)" by (simp add: unsigned_ucast_eq)
  then have w: "unat ?w = unat u" using unsigned_less [of u, where 'a = nat] by (simp add: take_bit_nat_eq_self_iff)
  have le: "?w \<le> 0xFFFF"
    using unsigned_less [of u, where 'a = nat] by (simp add: word_le_nat_alt w)
  consider (one) "?w \<le> 0x7F" | (two) "\<not> ?w \<le> 0x7F" "?w \<le> 0x7FF" | (three) "\<not> ?w \<le> 0x7FF" by blast
  then have "utf2unicode (usb_utf8_encode ?w @ s) = (u, length (usb_utf8_encode ?w)) \<and> 0 < length (usb_utf8_encode ?w) \<and> length (usb_utf8_encode ?w) \<le> 3"
  proof cases
    case one
    then have "unat u < 2 ^ 7" by (simp add: word_le_nat_alt w)
    then show ?thesis using one utf2unicode_one [of u s] small [of 7] by (simp add: usb_utf8_encode_def)
  next
    case two
    then have "unat u < 2 ^ 11" by (simp add: word_le_nat_alt w)
    then show ?thesis using two utf2unicode_two [of u s] small [of 11] by (simp add: usb_utf8_encode_def)
  next
    case three
    moreover from three have "\<not> ?w \<le> 0x7F" by (simp add: word_le_nat_alt)
    ultimately show ?thesis using le utf2unicode_three [of u s] by (simp add: usb_utf8_encode_def)
  qed
  then show "utf2unicode (usb_utf8_encode ?w @ s) = (u, length (usb_utf8_encode ?w))"
    and "0 < length (usb_utf8_encode ?w)" and "length (usb_utf8_encode ?w) \<le> 3" by simp_all
qed

section \<open>Numbers and names in datasets\<close>

abbreviation utf8_of :: "u16 list \<Rightarrow> bytes" where
  "utf8_of us \<equiv> concat (map (\<lambda>u. usb_utf8_encode (ucast u)) us)"

lemma utf2unicode_Nil: "utf2unicode [] = (0, 1)"
  by (simp add: utf2unicode_def rd_def utf8_size_def Let_def)

lemma units_encoded:
  assumes "0 \<notin> set us" and "n < 255"
  shows "units n (utf8_of us) = take (255 - n) (us @ [0])"
  using assms
proof (induction us arbitrary: n)
  case Nil
  then show ?case by (cases "255 - n") (simp_all add: units.simps utf2unicode_Nil)
next
  case (Cons u us)
  note enc = utf2unicode_encode(1) [of u "utf8_of us"] utf2unicode_encode(2) [of u]
  have "utf8_of (u # us) = usb_utf8_encode (ucast u) @ utf8_of us" by simp
  then have "units n (utf8_of (u # us)) = u # (if n + 1 < 255 then units (n + 1) (utf8_of us) else [])"
    using Cons.prems enc by (simp add: units.simps [of n])
  also have "\<dots> = take (255 - n) (u # us @ [0])"
  proof (cases "n + 1 < 255")
    case True
    have "255 - n = Suc (255 - (n + 1))" using True by simp
    then show ?thesis using True Cons by simp
  next
    case False
    then have "255 - n = 1" using Cons.prems by simp
    then show ?thesis using False by simp
  qed
  finally show ?case by simp
qed

lemma string_bytes_encoded:
  assumes "0 \<notin> set us" and "us \<noteq> []" and "length us \<le> 254"
  shows "string_bytes (utf8_of us) = of_nat (length us + 1) # unit_bytes (us @ [0])"
proof -
  have units: "units 0 (utf8_of us) = us @ [0]" using units_encoded [OF assms(1), of 0] assms(3) by simp
  have "utf8_of us \<noteq> []" using assms(2) utf2unicode_encode(2) by (cases us) auto
  then have "string_bytes (utf8_of us) = (let vs = (if length us + 1 = 255 then take 254 (us @ [0]) @ [0] else us @ [0])
      in of_nat (length vs) # unit_bytes vs)"
    unfolding string_bytes_def units Let_def by (simp only: if_False) simp
  then show ?thesis using assms(3) by (cases "length us = 254") (simp_all add: Let_def)
qed

lemma unicode2char_encoded:
  assumes "0 \<notin> set us" and "used + int (length (utf8_of us)) < M"
  shows "unicode2char_loop M used (us @ 0 # t) = (utf8_of us, 0)"
  using assms
proof (induction us arbitrary: used)
  case (Cons u us)
  have "usb_utf8_encode (ucast u) \<noteq> []" using utf2unicode_encode(2) [of u] by auto
  moreover have "used + int (length (usb_utf8_encode (ucast u))) < M" using Cons.prems(2) by simp
  ultimately show ?case using Cons by (simp add: Let_def add.assoc)
qed simp

lemma rd_put_bytes:
  assumes "i + length bs \<le> length b" and "k < length bs"
  shows "rd (put_bytes i bs b) (i + k) = bs ! k"
  using assms by (simp add: rd_def put_bytes_def nth_append min_absorb2)

lemma peek_16:
  fixes u :: u16
  assumes "rd b i = ucast u" and "rd b (i + 1) = ucast (drop_bit 8 u)"
  shows "ucast (peek b i 2) = u"
proof (rule bit_word_eqI)
  fix n
  assume "n < LENGTH(16)"
  then have "n < 16" by simp
  then show "bit (ucast (peek b i 2) :: u16) n = bit u n"
    using assms by (auto dest!: cases_16 simp: peek_def numeral_2_eq_2 bit_simps)
qed

lemma peek_32:
  fixes d :: u32
  assumes "rd b i = ucast d" "rd b (i + 1) = ucast (drop_bit 8 d)" "rd b (i + 2) = ucast (drop_bit 16 d)"
    and "rd b (i + 3) = ucast (drop_bit 24 d)"
  shows "peek b i 4 = d"
proof (rule bit_word_eqI)
  fix n
  assume "n < LENGTH(32)"
  then have n: "n < 32" by simp
  have peek: "peek b i 4 = ucast (rd b i) OR push_bit 8 (ucast (rd b (i + 1))) OR push_bit 16 (ucast (rd b (i + 2))) OR push_bit 24 (ucast (rd b (i + 3)))"
    by (simp add: peek_def numeral_eq_Suc or.assoc)
  have "n < 8 \<or> (8 \<le> n \<and> n < 16) \<or> (16 \<le> n \<and> n < 24) \<or> 24 \<le> n" by linarith
  then show "bit (peek b i 4) n = bit d n"
    unfolding peek assms using n by (elim disjE) (auto simp: bit_simps)
qed

lemma read_units_bytes:
  assumes "i + 2 * length us \<le> length b"
  shows "read_units (put_bytes i (unit_bytes us) b) i (length us) = us"
proof (rule nth_equalityI)
  show "length (read_units (put_bytes i (unit_bytes us) b) i (length us)) = length us" by (simp add: read_units_def)
  fix k
  assume "k < length (read_units (put_bytes i (unit_bytes us) b) i (length us))"
  then have k: "k < length us" by (simp add: read_units_def)
  have nth: "unit_bytes us ! (2 * k) = ucast (us ! k)" "unit_bytes us ! (2 * k + 1) = ucast (drop_bit 8 (us ! k))"
    using k
  proof (induction us arbitrary: k)
    case (Cons u us)
    {
      case 1
      then show ?case using Cons.IH(1) [of "k - 1"]
        by (cases k) (auto simp: le_bytes_def numeral_2_eq_2 nth_append)
    next
      case 2
      then show ?case using Cons.IH(2) [of "k - 1"]
        by (cases k) (auto simp: le_bytes_def numeral_2_eq_2 nth_append)
    }
  qed simp_all
  have "rd (put_bytes i (unit_bytes us) b) (i + 2 * k) = unit_bytes us ! (2 * k)"
    and "rd (put_bytes i (unit_bytes us) b) (i + 2 * k + 1) = unit_bytes us ! (2 * k + 1)"
    using assms k rd_put_bytes [of i "unit_bytes us" b "2 * k"] rd_put_bytes [of i "unit_bytes us" b "2 * k + 1"]
    by (simp_all add: add.assoc)
  then show "read_units (put_bytes i (unit_bytes us) b) i (length us) ! k = us ! k"
    using k nth by (simp add: read_units_def peek_16)
qed

text \<open>Every writer of the responder.\<close>

lemma writes_pokes: "writes M (poke32 M d)" "writes M (poke16 M w)" "writes M (poke08 M c)" "writes M (poke_array M k bs pre)"
  by (simp_all add: poke32_def poke16_def poke08_def poke_array_def writes_poke_bytes)

lemma writes_id: "writes M (\<lambda>p. p)"
  by (simp add: writes_def)

lemma writes_fold: "(\<And>x. x \<in> set xs \<Longrightarrow> writes M (f x)) \<Longrightarrow> writes M (fold f xs)"
proof (induction xs)
  case (Cons x xs)
  then show ?case using writes_compose [of M "f x" "fold f xs"] by (simp add: comp_def)
qed (simp add: writes_def)

interpretation w32: buffer_writer M "poke32 M d" by unfold_locales (rule writes_pokes)
interpretation w16: buffer_writer M "poke16 M d" by unfold_locales (rule writes_pokes)
interpretation w8: buffer_writer M "poke08 M d" by unfold_locales (rule writes_pokes)
interpretation warr: buffer_writer M "poke_array M k bs pre" by unfold_locales (rule writes_pokes)
interpretation wstr: buffer_writer M "poke_string M s" by unfold_locales (rule writes_poke_string)

lemma writes_field: "writes M (poke_field M x)"
  by (cases x) (simp_all add: writes_pokes writes_poke_string)

interpretation dataset: buffer_writer M "fold (poke_field M) fs"
  by unfold_locales (rule writes_fold, rule writes_field)

text \<open>
  C20. Datasets stay inside their buffer: whatever fields are written one after the other at an
  offset, whether they fit or not, the buffer keeps its size and nothing before the offset
  changes; the final offset is -1 or lies inside the buffer, and then nothing behind it has
  changed.\<close>

theorem mtp_dataset_in_bounds:
  assumes "int (length b) = M" and "0 \<le> i" and "i < M" and "fold (poke_field M) fs (i, b) = (j, c)"
  shows "length c = length b \<and> take (nat i) c = take (nat i) b
    \<and> (j = -1 \<or> i \<le> j \<and> j < M \<and> drop (nat j) c = drop (nat j) b)"
  using dataset.keeps_length [OF assms(1), of fs i] dataset.before [OF assms(1,2), of fs]
    dataset.offset [OF assms(1,2), of fs] dataset.behind [OF assms(1,2), of fs] assms(2-4)
  by auto

theorem mtp_dataset_in_bounds_witness:
  "length (snd (fold (poke_field 8) [F32 1, FString [0x61, 0x62]] (2, [9, 9, 9, 9, 9, 9, 9, 9]))) = 8"
  using mtp_dataset_in_bounds [of "[9, 9, 9, 9, 9, 9, 9, 9]" 8 2 "[F32 1, FString [0x61, 0x62]]"
      "fst (fold (poke_field 8) [F32 1, FString [0x61, 0x62]] (2, [9, 9, 9, 9, 9, 9, 9, 9]))"
      "snd (fold (poke_field 8) [F32 1, FString [0x61, 0x62]] (2, [9, 9, 9, 9, 9, 9, 9, 9]))"]
  by (simp del: fold_simps)

text \<open>
  C22. A file name survives the protocol: a name of up to 254 characters of the Basic
  Multilingual Plane and at most 256 bytes that is written into a dataset with
  \<^verbatim>\<open>poke_string\<close> is read back from it unchanged by the code that parses an incoming dataset.\<close>

theorem mtp_name_round_trip:
  assumes "int (length b) = M" and "0 \<le> i" and "0 \<notin> set us" and "us \<noteq> []" and "length us \<le> 254"
    and "i + 3 + 2 * int (length us) < M" and "length (utf8_of us) \<le> 256" and "poke_string M (utf8_of us) (i, b) = (j, c)"
  shows "j = i + 3 + 2 * int (length us) \<and> rd c (nat i) = of_nat (length us + 1)
    \<and> unicode2charstring 257 (read_units c (nat i + 1) (length us + 1)) = (utf8_of us, 0)"
proof -
  let ?n = "of_nat (length us + 1) :: u8"
  have sb: "string_bytes (utf8_of us) = [?n] @ unit_bytes (us @ [0])"
    using string_bytes_encoded [OF assms(3-5)] by simp
  have len: "length (string_bytes (utf8_of us)) = 3 + 2 * length us" unfolding sb by simp
  then have c: "j = i + 3 + 2 * int (length us)" "c = put_bytes (nat i) ([?n] @ unit_bytes (us @ [0])) b"
    using poke_string_bytes [OF assms(2,1), of "utf8_of us"] assms(2,6,8) by (simp_all add: poke_bytes_def sb)
  have room: "nat i + 3 + 2 * length us \<le> length b" using assms(1,2,6) by simp
  have next_i: "nat i + 1 = nat i + length [?n]" by simp
  have split: "c = put_bytes (nat i + 1) (unit_bytes (us @ [0])) (put_bytes (nat i) [?n] b)"
    unfolding c(2) next_i using room by (intro put_bytes_append [symmetric]) simp
  have "read_units c (nat i + 1) (length (us @ [0])) = us @ [0]"
    unfolding split using room by (intro read_units_bytes) simp
  moreover have "rd c (nat i) = ?n"
    unfolding c(2) using rd_put_bytes [of "nat i" "[?n] @ unit_bytes (us @ [0])" b 0] room by simp
  ultimately show ?thesis
    using c(1) unicode2char_encoded [OF assms(3), of 0 257 "[]"] assms(7) by (simp add: unicode2charstring_def)
qed

theorem mtp_name_round_trip_witness:
  "unicode2charstring 257 (read_units (snd (poke_string 20 (utf8_of [0x41, 0x44F]) (4, replicate 20 0))) 5 3) = (utf8_of [0x41, 0x44F], 0)"
proof -
  have "length (utf8_of [0x41, 0x44F]) \<le> 256" by code_simp
  then show ?thesis
    using mtp_name_round_trip [of "replicate 20 0" 20 4 "[0x41, 0x44F]"
        "fst (poke_string 20 (utf8_of [0x41, 0x44F]) (4, replicate 20 0))" "snd (poke_string 20 (utf8_of [0x41, 0x44F]) (4, replicate 20 0))"]
    by (simp add: numeral_3_eq_3)
qed

text \<open>
  Numbers survive the protocol: a 32-bit or 16-bit field is read back as it was written.\<close>

theorem mtp_number_round_trip:
  assumes "int (length b) = M" and "0 \<le> i" and "i + 4 < M"
  shows "peek (snd (poke32 M d (i, b))) (nat i) 4 = d \<and> ucast (peek (snd (poke16 M w (i, b))) (nat i) 2) = w"
proof
  have "nat i + 4 \<le> length b" using assms by simp
  then have "rd (snd (poke32 M d (i, b))) (nat i + k) = le_bytes 4 d ! k" if "k < 4" for k
    using assms that by (simp add: poke32_def poke_bytes_def rd_put_bytes)
  from this [of 0] this [of 1] this [of 2] this [of 3] show "peek (snd (poke32 M d (i, b))) (nat i) 4 = d"
    by (intro peek_32) (simp_all add: le_bytes_def)
  have "nat i + 2 \<le> length b" using assms by simp
  then have "rd (snd (poke16 M w (i, b))) (nat i + k) = le_bytes 2 w ! k" if "k < 2" for k
    using assms that by (simp add: poke16_def poke_bytes_def rd_put_bytes)
  from this [of 0] this [of 1] show "ucast (peek (snd (poke16 M w (i, b))) (nat i) 2) = w"
    by (intro peek_16) (simp_all add: le_bytes_def)
qed

theorem mtp_number_round_trip_witness:
  "peek (snd (poke32 8 0xDEADBEEF (1, replicate 8 0))) 1 4 = 0xDEADBEEF"
  using mtp_number_round_trip [of "replicate 8 0" 8 1 "0xDEADBEEF" 0] by simp

text \<open>
  No USB string descriptor can carry a correct multi-byte UTF-8 character: the converter
  accepts only continuation bytes with both upper bits set, while a correct one starts with
  the bits 10. Any such string makes the request fail.\<close>

theorem usb_descriptor_rejects_utf8:
  assumes "c AND 0xE0 = 0xC0 \<or> c AND 0xF0 = 0xE0" and "d AND 0xC0 = 0x80" and "length (c # d # s) \<le> 126"
    and "bit c 7"
  shows "usb_gadget_get_string lang [(1, c # d # s)] 1 = None"
proof -
  have "c \<noteq> 0" using assms(4) by auto
  moreover have "c AND 0xF0 = 0xE0 \<Longrightarrow> c AND 0xE0 \<noteq> 0xC0"
  proof
    assume "c AND 0xF0 = 0xE0" and "c AND 0xE0 = 0xC0"
    then have "bit (c AND 0xF0) 5 = bit (0xE0 :: u8) 5" and "bit (c AND 0xE0) 5 = bit (0xC0 :: u8) 5" by simp_all
    then show False by (simp add: bit_simps)
  qed
  ultimately show ?thesis
    using assms by (auto simp: usb_gadget_get_string_def rd_def)
qed

theorem usb_descriptor_rejects_utf8_witness:
  "usb_gadget_get_string 0x409 [(1, [0xC3, 0xA9, 0x61])] 1 = None"
  by (rule usb_descriptor_rejects_utf8) simp_all

end
