(* ===== verification/Mtp_Sanitize.thy ===== *)
theory Mtp_Sanitize
  imports Mtp_Bytes_Props
begin

text \<open>
  \<^verbatim>\<open>umtprd/src/mtp_sanitize.c\<close>: the check and the cleaning of the file names that a computer
  sends, and the comparison of a path with the storage root. A C string is the list of its
  bytes without the NUL; reading one byte further gives the NUL.
\<close>

section \<open>UTF-8\<close>

text \<open>The number of bytes and the first bits of the code point; nothing for an invalid lead byte.\<close>

definition utf8_lead :: "u8 \<Rightarrow> (nat \<times> u32) option" where
  "utf8_lead c =
     (if c AND 0xE0 = 0xC0 then Some (2, ucast (c AND 0x1F))
      else if c AND 0xF0 = 0xE0 then Some (3, ucast (c AND 0x0F))
      else if c AND 0xF8 = 0xF0 then Some (4, ucast (c AND 0x07))
      else None)"

text \<open>The continuation bytes \<open>s[i..n-1]\<close> appended to the code point; nothing when one is bad.\<close>

fun utf8_tail :: "nat \<Rightarrow> bytes \<Rightarrow> u32 \<Rightarrow> u32 option" where
  "utf8_tail 0 s cp = Some cp"
| "utf8_tail (Suc n) s cp =
     (if rd s 0 AND 0xC0 \<noteq> 0x80 then None
      else utf8_tail n (drop 1 s) (push_bit 6 cp OR ucast (rd s 0 AND 0x3F)))"

definition utf8_in_range :: "nat \<Rightarrow> u32 \<Rightarrow> bool" where
  "utf8_in_range n cp \<longleftrightarrow> \<not> (n = 2 \<and> cp < 0x80) \<and> \<not> (n = 3 \<and> cp < 0x800) \<and> \<not> (n = 4 \<and> cp < 0x10000)
     \<and> \<not> (cp \<ge> 0xD800 \<and> cp \<le> 0xDFFF) \<and> \<not> cp > 0x10FFFF"

function utf8_validate :: "bytes \<Rightarrow> bool" where
  "utf8_validate [] = True"
| "utf8_validate (c # s) =
     (if c < 0x80 then utf8_validate s
      else case utf8_lead c of None \<Rightarrow> False
        | Some (n, cp) \<Rightarrow> (case utf8_tail (n - 1) s cp of None \<Rightarrow> False
            | Some cp \<Rightarrow> utf8_in_range n cp \<and> utf8_validate (drop (n - 1) s)))"
  by pat_completeness auto

termination utf8_validate
  by (relation "measure length") auto

section \<open>Names\<close>

definition is_forbidden_ascii :: "u8 \<Rightarrow> bool" where
  "is_forbidden_ascii c \<longleftrightarrow> c < 0x20 \<or> c = 0x7F \<or> c \<in> set [0x2F, 0x5C, 0x3A, 0x2A, 0x3F, 0x22, 0x3C, 0x3E, 0x7C, 0x3B]"

definition sanitize_char :: "u8 \<Rightarrow> u8" where
  "sanitize_char c = (if c \<ge> 0x80 then c else if is_forbidden_ascii c then 0x5F else c)"

fun has_dotdot :: "bytes \<Rightarrow> bool" where
  "has_dotdot (a # b # s) = (a = 0x2E \<and> b = 0x2E \<or> has_dotdot (b # s))"
| "has_dotdot _ = False"

definition strip_end :: "bytes \<Rightarrow> bytes" where
  "strip_end s = rev (dropWhile (\<lambda>c. c = 0x2E \<or> c = 0x20) (rev s))"

text \<open>
  The result code and the string left in the buffer. The read and the write index of the
  copying loop are always equal, so the name is cut exactly when it is longer than
  \<open>max_len\<close>.
\<close>

definition sanitize_name :: "bytes \<Rightarrow> int \<Rightarrow> int \<times> bytes" where
  "sanitize_name str max_len =
     (if has_dotdot str then (-1, str)
      else if \<not> utf8_validate str then (-1, str)
      else if max_len > 0 \<and> int (length str) > max_len
      then (-1, take (nat (max_len - 1)) (map sanitize_char str))
      else let s = map sanitize_char str;
               s = dropWhile (\<lambda>c. c = 0x20 \<or> c = 0x2F) s;
               s = strip_end s
           in if s = [] then (-1, s) else (1, s))"

text \<open>
  The comparison of \<open>check_realpath\<close> with the result of \<^verbatim>\<open>realpath\<close>, with a number of rounds
  after which it is given up. The index is not advanced.
\<close>

fun check_loop :: "nat \<Rightarrow> bytes \<Rightarrow> bytes \<Rightarrow> nat \<Rightarrow> int option" where
  "check_loop 0 rootpath realp i = None"
| "check_loop (Suc fuel) rootpath realp i =
     (if rd rootpath i = 0 then Some 1
      else if rd rootpath i \<noteq> rd realp i then Some 0
      else check_loop fuel rootpath realp i)"

definition check_realpath :: "nat \<Rightarrow> bytes \<Rightarrow> bytes option \<Rightarrow> int option" where
  "check_realpath fuel rootpath realp =
     (case realp of None \<Rightarrow> Some 0 | Some r \<Rightarrow> check_loop fuel rootpath r 0)"

end
