(* ===== verification/Mtp_Handles.thy ===== *)
theory Mtp_Handles
  imports Mtp_Sanitize
begin

text \<open>
  The handle database of the MTP responder: \<^verbatim>\<open>umtprd/src/hash_utils.c\<close> and
  \<^verbatim>\<open>umtprd/src/fs_handles_db.c\<close>. The entries live in a growing pool and are never freed while
  the database lives; a pointer to an entry is its position in the pool. The linked list
  \<open>entry_list\<close> is the list of these positions, newest first. Two hash tables index the
  entries by name and by handle. Results of \<open>malloc\<close>, of the file system and of
  \<^verbatim>\<open>realpath\<close> are arguments.
\<close>

section \<open>Data\<close>

abbreviation (input) FS_HANDLE_MAX_FILENAME_SIZE :: nat where "FS_HANDLE_MAX_FILENAME_SIZE \<equiv> 256"

record fs_entry =
  e_handle :: u32
  e_parent :: u32
  e_storage :: u32
  e_name :: bytes
  e_flags :: u32
  e_size :: int
  e_fd :: int
  e_wd :: int

abbreviation (input) ENTRY_IS_DIR :: u32 where "ENTRY_IS_DIR \<equiv> 1"
abbreviation (input) ENTRY_IS_DELETED :: u32 where "ENTRY_IS_DELETED \<equiv> 2"
abbreviation (input) HASH_TABLE_SIZE :: nat where "HASH_TABLE_SIZE \<equiv> 1024"
abbreviation (input) POOL_BLOCK_SIZE :: nat where "POOL_BLOCK_SIZE \<equiv> 1024"

definition deleted :: "fs_entry \<Rightarrow> bool" where
  "deleted e \<longleftrightarrow> e_flags e AND ENTRY_IS_DELETED \<noteq> 0"

definition is_dir :: "fs_entry \<Rightarrow> bool" where
  "is_dir e \<longleftrightarrow> e_flags e AND ENTRY_IS_DIR \<noteq> 0"

record hash_node =
  node_entries :: "nat list"
  capacity :: u32

text \<open>What the operations do outside the database, in order.\<close>

datatype fs_effect = Fsync int | CloseFd int | RemoveWatch int

record fs_handles_db =
  pool :: "fs_entry list"
  entry_list :: "nat list"
  hash_table_by_name :: "hash_node list"
  hash_table_by_handle :: "hash_node list"
  next_handle :: u32
  search_entry_rest :: "nat list"
  handle_search :: u32
  storage_search :: u32
  pool_free_count :: nat
  fs_trace :: "fs_effect list"

record filefoundinfo =
  isdirectory :: bool
  filename :: bytes
  f_size :: int

text \<open>Which allocations succeed: a pool block, the copy of the name, the two hash nodes.\<close>

record mem =
  block_ok :: bool
  strdup_ok :: bool
  handle_node_ok :: bool
  name_node_ok :: bool

section \<open>hash_utils.c\<close>

text \<open>
  The target is a 32-bit ARM: pointers have four bytes (the limit in \<open>expand_hash_node\<close> is
  \<^verbatim>\<open>0x80000000 / 4\<close>) and \<^verbatim>\<open>char\<close> is unsigned (the names are hashed byte by byte).
\<close>

definition init_hash_node :: "bool \<Rightarrow> hash_node \<Rightarrow> hash_node option" where
  "init_hash_node ok node = (if ok then Some \<lparr>node_entries = [], capacity = 4\<rparr> else None)"

definition expand_hash_node :: "bool \<Rightarrow> hash_node \<Rightarrow> hash_node option" where
  "expand_hash_node ok node =
     (if capacity node \<ge> 0x20000000 then None
      else if ok then Some (node\<lparr>capacity := capacity node * 2\<rparr>) else None)"

definition hash_function_name :: "bytes \<Rightarrow> nat" where
  "hash_function_name s = unat (fold (\<lambda>c (h :: u32). push_bit 5 h + h + ucast c) s 5381) mod HASH_TABLE_SIZE"

definition hash_function_handle :: "u32 \<Rightarrow> nat" where
  "hash_function_handle h = unat h mod HASH_TABLE_SIZE"

definition allocate_pool_block :: "mem \<Rightarrow> fs_handles_db \<Rightarrow> fs_handles_db option" where
  "allocate_pool_block m db =
     (if block_ok m then Some (db\<lparr>pool_free_count := pool_free_count db + POOL_BLOCK_SIZE\<rparr>) else None)"

definition insert_entry_generic :: "bool \<Rightarrow> nat \<Rightarrow> hash_node \<Rightarrow> hash_node" where
  "insert_entry_generic ok r node =
     (case (if capacity node = 0 then init_hash_node ok node else Some node) of None \<Rightarrow> node
      | Some node \<Rightarrow>
          (case (if of_nat (length (node_entries node)) \<ge> capacity node then expand_hash_node ok node else Some node) of
             None \<Rightarrow> node
           | Some node \<Rightarrow> node\<lparr>node_entries := node_entries node @ [r]\<rparr>))"

definition on_bucket :: "nat \<Rightarrow> (hash_node \<Rightarrow> hash_node) \<Rightarrow> hash_node list \<Rightarrow> hash_node list" where
  "on_bucket i f t = t[i := f (t ! i)]"

definition insert_entry :: "mem \<Rightarrow> nat \<Rightarrow> fs_handles_db \<Rightarrow> fs_handles_db" where
  "insert_entry m r db =
     (let e = pool db ! r in
      db\<lparr>hash_table_by_handle := on_bucket (hash_function_handle (e_handle e)) (insert_entry_generic (handle_node_ok m) r) (hash_table_by_handle db),
         hash_table_by_name := on_bucket (hash_function_name (e_name e)) (insert_entry_generic (name_node_ok m) r) (hash_table_by_name db)\<rparr>)"

definition name_matches :: "bytes \<Rightarrow> u32 \<Rightarrow> u32 \<Rightarrow> fs_entry \<Rightarrow> bool" where
  "name_matches s parent storage e \<longleftrightarrow> e_name e = s \<and> e_parent e = parent \<and> e_storage e = storage \<and> \<not> deleted e"

definition find_entry :: "fs_handles_db \<Rightarrow> bytes \<Rightarrow> u32 \<Rightarrow> u32 \<Rightarrow> nat option" where
  "find_entry db s parent storage =
     find (\<lambda>r. name_matches s parent storage (pool db ! r)) (node_entries (hash_table_by_name db ! hash_function_name s))"

definition remove_entry_generic :: "nat \<Rightarrow> hash_node \<Rightarrow> hash_node" where
  "remove_entry_generic r node = node\<lparr>node_entries := remove1 r (node_entries node)\<rparr>"

definition remove_entry :: "nat \<Rightarrow> fs_handles_db \<Rightarrow> fs_handles_db" where
  "remove_entry r db =
     (let e = pool db ! r in
      db\<lparr>hash_table_by_name := on_bucket (hash_function_name (e_name e)) (remove_entry_generic r) (hash_table_by_name db),
         hash_table_by_handle := on_bucket (hash_function_handle (e_handle e)) (remove_entry_generic r) (hash_table_by_handle db)\<rparr>)"

section \<open>fs_handles_db.c\<close>

definition init_fs_db :: fs_handles_db where
  "init_fs_db = \<lparr>pool = [], entry_list = [],
     hash_table_by_name = replicate HASH_TABLE_SIZE \<lparr>node_entries = [], capacity = 0\<rparr>,
     hash_table_by_handle = replicate HASH_TABLE_SIZE \<lparr>node_entries = [], capacity = 0\<rparr>,
     next_handle = 1, search_entry_rest = [], handle_search = 0, storage_search = 0, pool_free_count = 0, fs_trace = []\<rparr>"

definition search_entry :: "fs_handles_db \<Rightarrow> filefoundinfo \<Rightarrow> u32 \<Rightarrow> u32 \<Rightarrow> nat option" where
  "search_entry db info parent storage = find_entry db (filename info) parent storage"

text \<open>A free slot of the pool, allocating a block when there is none.\<close>

definition take_slot :: "mem \<Rightarrow> fs_handles_db \<Rightarrow> fs_handles_db option" where
  "take_slot m db =
     (case (if pool_free_count db = 0 then allocate_pool_block m db else Some db) of None \<Rightarrow> None
      | Some db \<Rightarrow> Some (db\<lparr>pool_free_count := pool_free_count db - 1\<rparr>))"

text \<open>The new entry, in the pool, in both tables and at the head of the list.\<close>

definition link_entry :: "mem \<Rightarrow> fs_entry \<Rightarrow> fs_handles_db \<Rightarrow> fs_handles_db" where
  "link_entry m e db =
     (let r = length (pool db);
          db = insert_entry m r (db\<lparr>pool := pool db @ [e]\<rparr>)
      in db\<lparr>entry_list := r # entry_list db\<rparr>)"

definition alloc_entry :: "mem \<Rightarrow> filefoundinfo \<Rightarrow> u32 \<Rightarrow> u32 \<Rightarrow> fs_handles_db \<Rightarrow> nat option \<times> fs_handles_db" where
  "alloc_entry m info parent storage db =
     (case take_slot m db of None \<Rightarrow> (None, db)
      | Some db' \<Rightarrow>
          if \<not> strdup_ok m then (None, db'\<lparr>pool_free_count := pool_free_count db' + 1\<rparr>)
          else let e = \<lparr>e_handle = next_handle db', e_parent = parent, e_storage = storage, e_name = filename info,
                        e_flags = (if isdirectory info then ENTRY_IS_DIR else 0), e_size = f_size info, e_fd = 0, e_wd = -1\<rparr>
               in (Some (length (pool db')), link_entry m e (db'\<lparr>next_handle := next_handle db' + 1\<rparr>)))"

definition alloc_root_entry :: "mem \<Rightarrow> u32 \<Rightarrow> fs_handles_db \<Rightarrow> nat option \<times> fs_handles_db" where
  "alloc_root_entry m storage db =
     (case take_slot m db of None \<Rightarrow> (None, db)
      | Some db' \<Rightarrow>
          if \<not> strdup_ok m then (None, db')
          else let e = \<lparr>e_handle = 0, e_parent = 0, e_storage = storage, e_name = [0x2F],
                        e_flags = ENTRY_IS_DIR, e_size = 1, e_fd = 0, e_wd = -1\<rparr>
               in (Some (length (pool db')), link_entry m e db'))"

definition add_entry :: "mem \<Rightarrow> filefoundinfo \<Rightarrow> u32 \<Rightarrow> u32 \<Rightarrow> fs_handles_db \<Rightarrow> nat option \<times> fs_handles_db" where
  "add_entry m info parent storage db =
     (case search_entry db info parent storage of Some r \<Rightarrow> (Some r, db) | None \<Rightarrow> alloc_entry m info parent storage db)"

definition init_search_handle :: "u32 \<Rightarrow> u32 \<Rightarrow> fs_handles_db \<Rightarrow> fs_handles_db" where
  "init_search_handle parent storage db =
     db\<lparr>search_entry_rest := entry_list db, handle_search := parent, storage_search := storage\<rparr>"

definition child_matches :: "u32 \<Rightarrow> u32 \<Rightarrow> fs_entry \<Rightarrow> bool" where
  "child_matches parent storage e \<longleftrightarrow> \<not> deleted e \<and> e_parent e = parent \<and> e_storage e = storage \<and> e_handle e \<noteq> e_parent e"

definition get_next_child_handle :: "fs_handles_db \<Rightarrow> nat option \<times> fs_handles_db" where
  "get_next_child_handle db =
     (case dropWhile (\<lambda>r. \<not> child_matches (handle_search db) (storage_search db) (pool db ! r)) (search_entry_rest db) of
        [] \<Rightarrow> (None, db\<lparr>search_entry_rest := []\<rparr>)
      | r # rs \<Rightarrow> (Some r, db\<lparr>search_entry_rest := rs\<rparr>))"

text \<open>\<open>roots\<close> is \<^verbatim>\<open>mtp_get_storage_root\<close>: the path of a mounted storage.\<close>

definition get_entry_by_handle :: "(u32 \<Rightarrow> bytes option) \<Rightarrow> u32 \<Rightarrow> fs_handles_db \<Rightarrow> nat option" where
  "get_entry_by_handle roots h db =
     find (\<lambda>r. \<not> deleted (pool db ! r) \<and> e_handle (pool db ! r) = h \<and> roots (e_storage (pool db ! r)) \<noteq> None)
       (node_entries (hash_table_by_handle db ! hash_function_handle h))"

definition get_entry_by_handle_and_storageid :: "u32 \<Rightarrow> u32 \<Rightarrow> fs_handles_db \<Rightarrow> nat option" where
  "get_entry_by_handle_and_storageid h storage db =
     find (\<lambda>r. \<not> deleted (pool db ! r) \<and> e_handle (pool db ! r) = h \<and> e_storage (pool db ! r) = storage) (entry_list db)"

text \<open>The searches that start at a given entry, or at the head of the list.\<close>

definition list_from :: "nat option \<Rightarrow> fs_handles_db \<Rightarrow> nat list" where
  "list_from start db = (case start of None \<Rightarrow> entry_list db | Some r \<Rightarrow> dropWhile (\<lambda>q. q \<noteq> r) (entry_list db))"

definition get_entry_by_wd :: "int \<Rightarrow> nat option \<Rightarrow> fs_handles_db \<Rightarrow> nat option" where
  "get_entry_by_wd wd start db =
     find (\<lambda>r. \<not> deleted (pool db ! r) \<and> e_wd (pool db ! r) = wd) (list_from start db)"

definition get_entry_by_storageid :: "u32 \<Rightarrow> nat option \<Rightarrow> fs_handles_db \<Rightarrow> nat option" where
  "get_entry_by_storageid storage start db =
     find (\<lambda>r. \<not> deleted (pool db ! r) \<and> e_storage (pool db ! r) = storage) (list_from start db)"

definition upd_entry :: "nat \<Rightarrow> (fs_entry \<Rightarrow> fs_entry) \<Rightarrow> fs_handles_db \<Rightarrow> fs_handles_db" where
  "upd_entry r f db = db\<lparr>pool := (pool db)[r := f (pool db ! r)]\<rparr>"

text \<open>The end of a rename in \<^verbatim>\<open>setObjectPropValue\<close>: the entry is taken out of the tables under its old name.\<close>

definition rename_entry :: "mem \<Rightarrow> nat \<Rightarrow> bytes \<Rightarrow> fs_handles_db \<Rightarrow> fs_handles_db" where
  "rename_entry m r new_filename db =
     insert_entry m r (upd_entry r (e_name_update (\<lambda>_. new_filename)) (remove_entry r db))"

section \<open>Paths\<close>

text \<open>
  The names from an entry up to the entry without a parent, as both loops of
  \<open>build_full_path\<close> visit them. \<open>None\<close>: more steps than \<open>fuel\<close>.
\<close>

fun path_chain :: "nat \<Rightarrow> (u32 \<Rightarrow> bytes option) \<Rightarrow> fs_handles_db \<Rightarrow> nat \<Rightarrow> bytes list option" where
  "path_chain 0 roots db r = None"
| "path_chain (Suc fuel) roots db r =
     (let e = pool db ! r in
      if e_parent e = 0 \<or> e_parent e = 0xFFFFFFFF then Some [e_name e]
      else case get_entry_by_handle roots (e_parent e) db of
        None \<Rightarrow> Some [e_name e]
      | Some p \<Rightarrow> map_option (\<lambda>ns. e_name e # ns) (path_chain fuel roots db p))"

definition chain_length :: "bytes list \<Rightarrow> nat" where
  "chain_length ns = fold (\<lambda>n l. l + length n + 1) ns 0"

text \<open>The second loop writes the names from the end of the buffer to its front.\<close>

definition write_name :: "bytes \<Rightarrow> nat \<times> bytes \<Rightarrow> nat \<times> bytes" where
  "write_name n p = (case p of (ofs, b) \<Rightarrow>
     let ofs = ofs - length n; b = put_bytes ofs n b; ofs = ofs - 1 in (ofs, put_bytes ofs [0x2F] b))"

definition path_buffer :: "bytes \<Rightarrow> bytes list \<Rightarrow> bytes" where
  "path_buffer root ns =
     (let total = chain_length ns + length root;
          b = replicate (total + 1) 0
      in put_bytes 0 root (snd (fold write_name ns (total, b))))"

definition c_str :: "bytes \<Rightarrow> bytes" where
  "c_str b = takeWhile (\<lambda>c. c \<noteq> 0) b"

datatype realpath_result = RealPath bytes | NoEntry | RealPathError

datatype path_result = PathSome bytes | PathNull | PathCrash | PathHangs

text \<open>The last test: the resolved path must start with the storage root.\<close>

definition check_root :: "bytes \<Rightarrow> bytes \<Rightarrow> path_result" where
  "check_root root p = (if take (length root) p = root then PathSome p else PathNull)"

text \<open>
  The path of an object that does not exist yet: the resolved parent and the checked name.
  When that fails too, the null pointer is compared with the root.
\<close>

definition new_object_path :: "(bytes \<Rightarrow> realpath_result) \<Rightarrow> bool \<Rightarrow> bytes \<Rightarrow> bytes \<Rightarrow> bytes \<Rightarrow> path_result" where
  "new_object_path realpath tmp_ok root full nm =
     (let nocopy = (if root = [] then PathNull else PathCrash) in
      case realpath (take (length full - length nm) full) of
        RealPath rp \<Rightarrow>
          if tmp_ok then
            (case sanitize_name nm (int (length nm)) of (ret, nm') \<Rightarrow>
               if ret = 1 then check_root root (rp @ 0x2F # nm') else nocopy)
          else nocopy
      | _ \<Rightarrow> nocopy)"

definition build_full_path ::
  "(u32 \<Rightarrow> bytes option) \<Rightarrow> (bytes \<Rightarrow> realpath_result) \<Rightarrow> bool \<Rightarrow> bool \<Rightarrow> nat \<Rightarrow> bytes option \<Rightarrow> nat \<Rightarrow> fs_handles_db \<Rightarrow> path_result" where
  "build_full_path roots realpath full_ok tmp_ok fuel root r db =
     (case path_chain fuel roots db r of None \<Rightarrow> PathHangs
      | Some ns \<Rightarrow>
          if \<not> full_ok then PathNull
          else case root of
            None \<Rightarrow> PathSome (c_str (path_buffer [] ns))
          | Some rt \<Rightarrow>
              let full = c_str (path_buffer rt ns) in
              (case realpath full of
                 RealPath p \<Rightarrow> check_root rt p
               | RealPathError \<Rightarrow> PathNull
               | NoEntry \<Rightarrow> new_object_path realpath tmp_ok rt full (e_name (pool db ! r))))"

section \<open>Open files\<close>

definition entry_open :: "path_result \<Rightarrow> bool \<Rightarrow> int \<Rightarrow> nat \<Rightarrow> fs_handles_db \<Rightarrow> int \<times> fs_handles_db" where
  "entry_open path ids_ok fd r db =
     (if e_fd (pool db ! r) > 0 then (e_fd (pool db ! r), db)
      else let db = (case path of PathSome _ \<Rightarrow> if ids_ok then upd_entry r (e_fd_update (\<lambda>_. fd)) db else db | _ \<Rightarrow> db)
           in (e_fd (pool db ! r), db))"

text \<open>\<open>pread\<close> is what \<^verbatim>\<open>read\<close> returns and delivers after \<^verbatim>\<open>lseek64\<close> on a descriptor.\<close>

definition entry_read :: "(int \<Rightarrow> int \<Rightarrow> int \<Rightarrow> int \<times> bytes) \<Rightarrow> nat \<Rightarrow> int \<Rightarrow> int \<Rightarrow> fs_handles_db \<Rightarrow> int \<times> bytes" where
  "entry_read pread r offset sz db =
     (if e_fd (pool db ! r) \<noteq> -1 then pread (e_fd (pool db ! r)) offset sz else (0, []))"

definition entry_close :: "bool \<Rightarrow> nat option \<Rightarrow> fs_handles_db \<Rightarrow> fs_handles_db" where
  "entry_close sync_when_close ro db =
     (case ro of None \<Rightarrow> db
      | Some r \<Rightarrow>
          let fd = e_fd (pool db ! r);
              db = (if fd \<noteq> -1 then db\<lparr>fs_trace := fs_trace db @ (if sync_when_close then [Fsync fd] else []) @ [CloseFd fd]\<rparr> else db)
          in upd_entry r (e_fd_update (\<lambda>_. -1)) db)"

text \<open>The effects of freeing the database: every watch is removed, the newest entry is closed.\<close>

definition deinit_fs_db :: "bool \<Rightarrow> fs_handles_db \<Rightarrow> fs_effect list" where
  "deinit_fs_db sync_when_close db =
     fs_trace (entry_close sync_when_close (case entry_list db of [] \<Rightarrow> None | r # _ \<Rightarrow> Some r)
       (db\<lparr>fs_trace := fs_trace db @ map RemoveWatch
          (filter (\<lambda>wd. wd \<noteq> -1) (map (\<lambda>r. e_wd (pool db ! r)) (concat (map node_entries (hash_table_by_name db)))))\<rparr>))"

section \<open>Removing a folder\<close>

text \<open>
  A folder on disk with its entries (other than the two dot entries, which \<open>fs_remove_tree\<close>
  skips), and what the system lets the program do with a path. \<^verbatim>\<open>remove\<close> deletes a folder only
  when it is empty.
\<close>

datatype fs_node = RegFile | Folder "(bytes \<times> fs_node) list"

record fs_ops =
  opens :: "bytes \<Rightarrow> bool"
  allocates :: "bytes \<Rightarrow> bool"
  stats :: "bytes \<Rightarrow> bool"
  removes :: "bytes \<Rightarrow> bool"

text \<open>The result is \<open>del_fail\<close> and what is left of the folder.\<close>

fun fs_remove_tree :: "fs_ops \<Rightarrow> bytes \<Rightarrow> fs_node \<Rightarrow> bool \<times> fs_node option"
  and remove_children :: "fs_ops \<Rightarrow> bytes \<Rightarrow> (bytes \<times> fs_node) list \<Rightarrow> bool \<times> (bytes \<times> fs_node) list" where
  "fs_remove_tree os folder RegFile = (True, Some RegFile)"
| "fs_remove_tree os folder (Folder cs) =
     (if opens os folder then
        (case remove_children os folder cs of (del_fail, left) \<Rightarrow>
           if removes os folder \<and> left = [] then (del_fail, None) else (True, Some (Folder left)))
      else (True, Some (Folder cs)))"
| "remove_children os folder [] = (False, [])"
| "remove_children os folder ((d, n) # cs) =
     (let tmpstr = folder @ 0x2F # d;
          others = remove_children os folder cs;
          this = (if \<not> allocates os tmpstr then (True, Some n)
                  else if \<not> stats os tmpstr then (False, Some n)
                  else case n of
                    Folder _ \<Rightarrow> fs_remove_tree os tmpstr n
                  | RegFile \<Rightarrow> if removes os tmpstr then (False, None) else (True, Some n))
      in (fst this \<or> fst others, (case snd this of None \<Rightarrow> [] | Some n' \<Rightarrow> [(d, n')]) @ snd others))"

section \<open>Synchronising with a folder\<close>

text \<open>Marking an entry as deleted; its watch is removed.\<close>

definition mark_deleted :: "nat \<Rightarrow> fs_handles_db \<Rightarrow> fs_handles_db" where
  "mark_deleted r db =
     (let db = upd_entry r (\<lambda>e. e\<lparr>e_flags := e_flags e OR ENTRY_IS_DELETED\<rparr>) db; wd = e_wd (pool db ! r) in
      if wd \<noteq> -1 then upd_entry r (e_wd_update (\<lambda>_. -1)) (db\<lparr>fs_trace := fs_trace db @ [RemoveWatch wd]\<rparr>) else db)"

text \<open>The part of a path after its last slash, found from the end; index 0 is not examined.\<close>

fun base_index :: "bytes \<Rightarrow> nat \<Rightarrow> nat" where
  "base_index p 0 = 0"
| "base_index p (Suc i) = (if rd p (Suc i) = 0x2F then Suc i + 1 else base_index p i)"

text \<open>\<open>stat\<close> is \<^verbatim>\<open>stat64\<close>: whether the path is a directory, and its size.\<close>

definition fs_entry_stat :: "(bytes \<Rightarrow> (bool \<times> int) option) \<Rightarrow> bytes \<Rightarrow> filefoundinfo option" where
  "fs_entry_stat stat p =
     (case stat p of None \<Rightarrow> None
      | Some (dir, n) \<Rightarrow> Some \<lparr>isdirectory = dir, filename = take FS_HANDLE_MAX_FILENAME_SIZE (drop (base_index p (length p)) p), f_size = n\<rparr>)"

text \<open>
  The next name of the directory that can be examined, and the names after it; a name whose
  path cannot be allocated is skipped like one that cannot be examined.
\<close>

fun fs_find_next_file :: "(bytes \<Rightarrow> (bool \<times> int) option) \<Rightarrow> bytes \<Rightarrow> bytes list \<Rightarrow> (filefoundinfo \<times> bytes list) option" where
  "fs_find_next_file stat folder [] = None"
| "fs_find_next_file stat folder (d # ds) =
     (case fs_entry_stat stat (folder @ 0x2F # d) of None \<Rightarrow> fs_find_next_file stat folder ds | Some info \<Rightarrow> Some (info, ds))"

definition fs_find_first_file :: "(bytes \<Rightarrow> (bool \<times> int) option) \<Rightarrow> bytes \<Rightarrow> bytes list option \<Rightarrow> (filefoundinfo \<times> bytes list) option" where
  "fs_find_first_file stat folder opened = (case opened of None \<Rightarrow> None | Some ds \<Rightarrow> fs_find_next_file stat folder ds)"

definition wanted :: "bool \<Rightarrow> filefoundinfo \<Rightarrow> bool" where
  "wanted show_hidden info \<longleftrightarrow> filename info \<noteq> [0x2E, 0x2E] \<and> filename info \<noteq> [0x2E]
     \<and> (show_hidden \<or> rd (filename info) 0 \<noteq> 0x2E)"

lemma fs_find_next_shorter:
  "fs_find_next_file stat folder ds = Some (info, ds') \<Longrightarrow> length ds' < length ds"
  by (induction ds) (auto split: option.splits)

function scan_files ::
  "bool \<Rightarrow> mem \<Rightarrow> (bytes \<Rightarrow> (bool \<times> int) option) \<Rightarrow> bytes \<Rightarrow> u32 \<Rightarrow> u32 \<Rightarrow> filefoundinfo \<Rightarrow> bytes list \<Rightarrow> fs_handles_db \<Rightarrow> fs_handles_db" where
  "scan_files show_hidden m stat base parent storage info ds db =
     (let db = (if wanted show_hidden info then snd (add_entry m info parent storage db) else db) in
      case fs_find_next_file stat base ds of None \<Rightarrow> db
      | Some (info', ds') \<Rightarrow> scan_files show_hidden m stat base parent storage info' ds' db)"
  by pat_completeness auto

termination scan_files
  by (relation "measure (\<lambda>(_, _, _, _, _, _, _, ds, _). length ds)") (auto dest: fs_find_next_shorter)

declare scan_files.simps [simp del]

text \<open>
  The sweep over the children: \<open>path\<close> builds the path of an entry, \<open>stat\<close> is the size of a
  file that exists. A path that cannot be built leaves the entry as it is; a crash or an
  endless loop there is one of the whole sweep (\<open>None\<close>).
\<close>

fun sweep :: "(nat \<Rightarrow> fs_handles_db \<Rightarrow> path_result) \<Rightarrow> (bytes \<Rightarrow> int option) \<Rightarrow> nat \<Rightarrow> fs_handles_db \<Rightarrow> fs_handles_db option" where
  "sweep path stat 0 db = None"
| "sweep path stat (Suc fuel) db =
     (case get_next_child_handle db of
        (None, db) \<Rightarrow> Some db
      | (Some r, db) \<Rightarrow>
          (case path r db of
             PathCrash \<Rightarrow> None
           | PathHangs \<Rightarrow> None
           | PathNull \<Rightarrow> sweep path stat fuel db
           | PathSome p \<Rightarrow>
               (case stat p of
                  None \<Rightarrow> sweep path stat fuel (mark_deleted r db)
                | Some n \<Rightarrow> sweep path stat fuel (upd_entry r (e_size_update (\<lambda>_. n)) db))))"

text \<open>
  \<open>opened\<close> is the directory stream that \<^verbatim>\<open>opendir\<close> gives, the names in its order. The result
  is \<open>-1\<close> when the folder cannot be opened or has no entry that can be examined.
\<close>

definition scan_and_add_folder ::
  "bool \<Rightarrow> mem \<Rightarrow> (bytes \<Rightarrow> (bool \<times> int) option) \<Rightarrow> bytes list option \<Rightarrow> (nat \<Rightarrow> fs_handles_db \<Rightarrow> path_result)
     \<Rightarrow> bytes \<Rightarrow> u32 \<Rightarrow> u32 \<Rightarrow> fs_handles_db \<Rightarrow> (int \<times> fs_handles_db) option" where
  "scan_and_add_folder show_hidden m stat opened path base parent storage db =
     (let first = fs_find_first_file stat base opened;
          db = (case first of None \<Rightarrow> db
                | Some (info, ds) \<Rightarrow> scan_files show_hidden m stat base parent storage info ds db);
          db = init_search_handle parent storage db
      in map_option (\<lambda>db. (if first = None then -1 else 0, db)) (sweep path (\<lambda>p. map_option snd (stat p)) (length (entry_list db) + 1) db))"

end
