(* ===== verification/Mtp_Context.thy ===== *)
theory Mtp_Context
  imports Mtp_Handles
begin

text \<open>
  The state of the MTP responder (\<^verbatim>\<open>mtp_ctx\<close> of \<^verbatim>\<open>umtprd/inc/mtp.h\<close>), its table of storages
  (\<^verbatim>\<open>umtprd/src/mtp.c\<close>), the user and group switching of \<^verbatim>\<open>mtp_helpers.c\<close>, and the access
  check that the operations share. The table has sixteen slots; a slot without a root path is
  free. What the responder does outside is the trace \<open>mtp_trace\<close>.
\<close>

section \<open>State\<close>

abbreviation (input) MAX_STORAGE_NB :: nat where "MAX_STORAGE_NB \<equiv> 16"
abbreviation (input) UMTP_STORAGE_LOCKED :: u32 where "UMTP_STORAGE_LOCKED \<equiv> 0x10"
abbreviation (input) UMTP_STORAGE_NOTMOUNTED :: u32 where "UMTP_STORAGE_NOTMOUNTED \<equiv> 2"
abbreviation (input) UMTP_STORAGE_READONLY :: u32 where "UMTP_STORAGE_READONLY \<equiv> 1"

record mtp_storage =
  root_path :: "bytes option"
  description :: bytes
  storage_id :: u32
  storage_flags :: u32
  storage_uid :: int
  storage_gid :: int

text \<open>
  The flags of \<^verbatim>\<open>open\<close> that the responder uses. \<open>OpenFile\<close> has the path, the flags and the mode of a
  created file; \<open>WriteFile\<close> writes at the current position of the descriptor.
\<close>

datatype open_flag = O_RDONLY | O_WRONLY | O_RDWR | O_CREAT | O_TRUNC | O_LARGEFILE

datatype mtp_effect =
    UsbWrite bytes
  | UsbEvent bytes
  | SetFsUid int
  | SetFsGid int
  | MakeDir bytes
  | CreateFile bytes
  | OpenFile bytes "open_flag set" u32
  | WriteFile int bytes
  | SeekFile int int
  | RenameFile bytes bytes
  | RemoveFile bytes
  | RemoveTree bytes
  | TruncateFile bytes int
  | UMask int
  | DbEffect fs_effect

text \<open>The configuration; the strings are shorter than their buffers of 513 bytes.\<close>

record mtp_usb_cfg =
  usb_vendor_id :: u16
  usb_product_id :: u16
  usb_class :: u8
  usb_subclass :: u8
  usb_protocol :: u8
  usb_dev_version :: u16
  usb_max_packet_size :: u16
  usb_functionfs_mode :: u8
  usb_device_path :: bytes
  usb_endpoint_in :: bytes
  usb_endpoint_out :: bytes
  usb_endpoint_intin :: bytes
  usb_string_manufacturer :: bytes
  usb_string_product :: bytes
  usb_string_serial :: bytes
  usb_string_version :: bytes
  usb_string_mtp_extensions :: bytes
  usb_string_interface :: bytes
  wait_connection :: int
  loop_on_disconnect :: int
  show_hidden_files :: int
  val_umask :: int

record mtp_ctx =
  session_id :: u32
  usb_cfg :: mtp_usb_cfg
  fs_db :: "fs_handles_db option"
  wrbuffer :: bytes
  usb_wr_buffer_max_size :: int
  usb_rd_buffer_max_size :: int
  read_file_buffer :: "bytes option"
  read_file_buffer_size :: int
  max_packet_size :: int
  storages :: "mtp_storage list"
  SendObjInfoHandle :: u32
  SendObjInfoSize :: int
  SendObjInfoOffset :: int
  SetObjectPropValue_Handle :: u32
  SetObjectPropValue_PropCode :: u32
  sync_when_close :: bool
  no_inotify :: bool
  ctx_uid :: int
  ctx_gid :: int
  default_uid :: int
  default_gid :: int
  cancel_req :: int
  transferring_file_data :: bool
  mtp_trace :: "mtp_effect list"

definition emit_mtp :: "mtp_effect \<Rightarrow> mtp_ctx \<Rightarrow> mtp_ctx" where
  "emit_mtp x ctx = ctx\<lparr>mtp_trace := mtp_trace ctx @ [x]\<rparr>"

section \<open>Storages\<close>

definition no_storage :: mtp_storage where
  "no_storage = \<lparr>root_path = None, description = [], storage_id = 0, storage_flags = 0, storage_uid = -1, storage_gid = -1\<rparr>"

text \<open>The loop that every search of the table has: the first used slot with a property.\<close>

definition find_storage :: "(mtp_storage \<Rightarrow> bool) \<Rightarrow> mtp_storage list \<Rightarrow> nat option" where
  "find_storage P sts = find (\<lambda>i. root_path (sts ! i) \<noteq> None \<and> P (sts ! i)) [0..<MAX_STORAGE_NB]"

definition mtp_get_storage_id_by_name :: "mtp_storage list \<Rightarrow> bytes \<Rightarrow> u32" where
  "mtp_get_storage_id_by_name sts name =
     (case find_storage (\<lambda>s. description s = name) sts of Some i \<Rightarrow> storage_id (sts ! i) | None \<Rightarrow> 0xFFFFFFFF)"

definition mtp_get_storage_index_by_name :: "mtp_storage list \<Rightarrow> bytes \<Rightarrow> int" where
  "mtp_get_storage_index_by_name sts name =
     (case find_storage (\<lambda>s. description s = name) sts of Some i \<Rightarrow> int i | None \<Rightarrow> -1)"

definition mtp_get_storage_index_by_id :: "mtp_storage list \<Rightarrow> u32 \<Rightarrow> int" where
  "mtp_get_storage_index_by_id sts sid =
     (case find_storage (\<lambda>s. storage_id s = sid) sts of Some i \<Rightarrow> int i | None \<Rightarrow> -1)"

definition mtp_get_storage_root :: "mtp_storage list \<Rightarrow> u32 \<Rightarrow> bytes option" where
  "mtp_get_storage_root sts sid =
     (case find_storage (\<lambda>s. storage_id s = sid) sts of Some i \<Rightarrow> root_path (sts ! i) | None \<Rightarrow> None)"

definition mtp_get_storage_description :: "mtp_storage list \<Rightarrow> u32 \<Rightarrow> bytes option" where
  "mtp_get_storage_description sts sid =
     (case find_storage (\<lambda>s. storage_id s = sid) sts of Some i \<Rightarrow> Some (description (sts ! i)) | None \<Rightarrow> None)"

definition mtp_get_storage_flags :: "mtp_storage list \<Rightarrow> u32 \<Rightarrow> u32" where
  "mtp_get_storage_flags sts sid =
     (case find_storage (\<lambda>s. storage_id s = sid) sts of Some i \<Rightarrow> storage_flags (sts ! i) | None \<Rightarrow> 0xFFFFFFFF)"

text \<open>\<open>rp\<close> is the result of \<^verbatim>\<open>realpath\<close> on the path, \<open>mem_ok\<close> that of the allocation.\<close>

definition mtp_add_storage ::
  "bytes option \<Rightarrow> bool \<Rightarrow> bytes \<Rightarrow> int \<Rightarrow> int \<Rightarrow> u32 \<Rightarrow> mtp_storage list \<Rightarrow> u32 \<times> mtp_storage list" where
  "mtp_add_storage rp mem_ok name uid gid flags sts =
     (if mtp_get_storage_id_by_name sts name \<noteq> 0xFFFFFFFF then (0, sts)
      else case find (\<lambda>i. root_path (sts ! i) = None) [0..<MAX_STORAGE_NB] of
        None \<Rightarrow> (0, sts)
      | Some i \<Rightarrow>
          (case rp of
             Some r \<Rightarrow>
               if mem_ok then
                 let sid = 0xFFFF0000 + (of_nat i + 1)
                 in (sid, sts[i := \<lparr>root_path = Some r, description = name, storage_id = sid, storage_flags = flags,
                                    storage_uid = uid, storage_gid = gid\<rparr>])
               else (0, sts[i := no_storage])
           | None \<Rightarrow> (0, sts[i := no_storage])))"

definition mtp_remove_storage :: "bytes \<Rightarrow> mtp_storage list \<Rightarrow> int \<times> mtp_storage list" where
  "mtp_remove_storage name sts =
     (let index = mtp_get_storage_index_by_name sts name in
      if index < 0 then (index, sts) else (0, sts[nat index := no_storage]))"

section \<open>Users and groups\<close>

text \<open>
  \<open>fails\<close> lists which of the calls return something other than zero (they return the previous
  id, whatever happened).
\<close>

definition set_giduid :: "(mtp_effect \<Rightarrow> bool) \<Rightarrow> int \<Rightarrow> int \<Rightarrow> mtp_ctx \<Rightarrow> int \<times> mtp_ctx" where
  "set_giduid fails uid gid ctx =
     (let ctx' = (if uid \<ge> 0 then emit_mtp (SetFsUid uid) ctx else ctx);
          ctx' = (if gid \<ge> 0 then emit_mtp (SetFsGid gid) ctx' else ctx')
      in (if uid \<ge> 0 \<and> fails (SetFsUid uid) \<or> gid \<ge> 0 \<and> fails (SetFsGid gid) then -1 else 0, ctx'))"

definition restore_giduid :: "(mtp_effect \<Rightarrow> bool) \<Rightarrow> mtp_ctx \<Rightarrow> mtp_ctx" where
  "restore_giduid fails ctx = snd (set_giduid fails (ctx_uid ctx) (ctx_gid ctx) ctx)"

text \<open>The group is taken from the user field of the storage.\<close>

definition set_storage_giduid :: "(mtp_effect \<Rightarrow> bool) \<Rightarrow> u32 \<Rightarrow> mtp_ctx \<Rightarrow> int \<times> mtp_ctx" where
  "set_storage_giduid fails sid ctx =
     (let i = mtp_get_storage_index_by_id (storages ctx) sid in
      if i \<ge> 0 \<and> i < int MAX_STORAGE_NB then
        let st = storages ctx ! nat i;
            uid = (if storage_uid st \<noteq> -1 then storage_uid st else default_uid ctx);
            gid = (if storage_gid st \<noteq> -1 then storage_uid st else default_gid ctx)
        in set_giduid fails uid gid ctx
      else (-1, ctx))"

section \<open>Responses\<close>

abbreviation (input) MTP_RESPONSE_OK :: u32 where "MTP_RESPONSE_OK \<equiv> 0x2001"
abbreviation (input) MTP_RESPONSE_GENERAL_ERROR :: u32 where "MTP_RESPONSE_GENERAL_ERROR \<equiv> 0x2002"
abbreviation (input) MTP_RESPONSE_SESSION_NOT_OPEN :: u32 where "MTP_RESPONSE_SESSION_NOT_OPEN \<equiv> 0x2003"
abbreviation (input) MTP_RESPONSE_OPERATION_NOT_SUPPORTED :: u32 where "MTP_RESPONSE_OPERATION_NOT_SUPPORTED \<equiv> 0x2005"
abbreviation (input) MTP_RESPONSE_INCOMPLETE_TRANSFER :: u32 where "MTP_RESPONSE_INCOMPLETE_TRANSFER \<equiv> 0x2007"
abbreviation (input) MTP_RESPONSE_INVALID_STORAGE_ID :: u32 where "MTP_RESPONSE_INVALID_STORAGE_ID \<equiv> 0x2008"
abbreviation (input) MTP_RESPONSE_INVALID_OBJECT_HANDLE :: u32 where "MTP_RESPONSE_INVALID_OBJECT_HANDLE \<equiv> 0x2009"
abbreviation (input) MTP_RESPONSE_STORAGE_FULL :: u32 where "MTP_RESPONSE_STORAGE_FULL \<equiv> 0x200C"
abbreviation (input) MTP_RESPONSE_OBJECT_WRITE_PROTECTED :: u32 where "MTP_RESPONSE_OBJECT_WRITE_PROTECTED \<equiv> 0x200D"
abbreviation (input) MTP_RESPONSE_STORE_READ_ONLY :: u32 where "MTP_RESPONSE_STORE_READ_ONLY \<equiv> 0x200E"
abbreviation (input) MTP_RESPONSE_ACCESS_DENIED :: u32 where "MTP_RESPONSE_ACCESS_DENIED \<equiv> 0x200F"
abbreviation (input) MTP_RESPONSE_PARTIAL_DELETION :: u32 where "MTP_RESPONSE_PARTIAL_DELETION \<equiv> 0x2012"
abbreviation (input) MTP_RESPONSE_STORE_NOT_AVAILABLE :: u32 where "MTP_RESPONSE_STORE_NOT_AVAILABLE \<equiv> 0x2013"
abbreviation (input) MTP_RESPONSE_DEVICE_BUSY :: u32 where "MTP_RESPONSE_DEVICE_BUSY \<equiv> 0x2019"
abbreviation (input) MTP_RESPONSE_INVALID_PARAMETER :: u32 where "MTP_RESPONSE_INVALID_PARAMETER \<equiv> 0x201D"
abbreviation (input) MTP_RESPONSE_SESSION_ALREADY_OPEN :: u32 where "MTP_RESPONSE_SESSION_ALREADY_OPEN \<equiv> 0x201E"
abbreviation (input) MTP_RESPONSE_INVALID_OBJECT_PROP_CODE :: u32 where "MTP_RESPONSE_INVALID_OBJECT_PROP_CODE \<equiv> 0xA801"
abbreviation (input) MTP_RESPONSE_INVALID_DATASET :: u32 where "MTP_RESPONSE_INVALID_DATASET \<equiv> 0xA806"
abbreviation (input) MTP_RESPONSE_NO_RESPONSE :: u32 where "MTP_RESPONSE_NO_RESPONSE \<equiv> 0xFFFF"

text \<open>The error numbers that the source tells apart; every other one is \<open>EOther\<close>.\<close>

datatype errno =
    EBUSY | ETXTBSY | EACCES | EPERM | EINPROGRESS | EAGAIN | EBADF | EBADFD | ENOENT | ECANCELED | EDQUOT | EEXIST
  | EFBIG | EHWPOISON | EINTR | EINVAL | EREMOTEIO | EIO | EISDIR | ELIBACC | ELIBBAD | ELIBSCN | ELIBMAX | ELIBEXEC
  | ENOEXEC | ENOPKG | ENOSYS | ENOTRECOVERABLE | ENOTSUP | EPIPE | ELOOP | EMEDIUMTYPE | EMFILE | EMLINK | ENOSPC
  | ENOMEM | ENAMETOOLONG | ENFILE | ENODEV | ENOLINK | ENOMEDIUM | ENOTBLK | ENOTDIR | ENOTEMPTY | EROFS | ESPIPE
  | ESTALE | EOther

definition posix_to_mtp_errcode :: "errno \<Rightarrow> u32" where
  "posix_to_mtp_errcode err =
     (if err \<in> set [EBUSY, ETXTBSY, EINPROGRESS, EAGAIN] then MTP_RESPONSE_DEVICE_BUSY
      else if err \<in> set [EACCES, EPERM, ENOTDIR] then MTP_RESPONSE_ACCESS_DENIED
      else if err \<in> set [EBADF, EBADFD, ENOENT, EMEDIUMTYPE, ENOLINK, ENOMEDIUM, ENOTBLK, ESTALE] then MTP_RESPONSE_INVALID_OBJECT_HANDLE
      else if err \<in> set [ECANCELED, ELOOP] then MTP_RESPONSE_INCOMPLETE_TRANSFER
      else if err \<in> set [EDQUOT, EFBIG, EMFILE, EMLINK, ENOSPC] then MTP_RESPONSE_STORAGE_FULL
      else if err \<in> set [EINVAL, EISDIR, ENAMETOOLONG, ENODEV] then MTP_RESPONSE_INVALID_PARAMETER
      else if err = ENOTEMPTY then MTP_RESPONSE_PARTIAL_DELETION
      else if err = EROFS then MTP_RESPONSE_STORE_READ_ONLY
      else MTP_RESPONSE_GENERAL_ERROR)"

text \<open>
  \<open>check_handle_access\<close>: nothing when the access is allowed, else the response. The entry is
  given or looked up by its handle.
\<close>

definition check_handle_access :: "mtp_storage list \<Rightarrow> fs_handles_db \<Rightarrow> nat option \<Rightarrow> u32 \<Rightarrow> bool \<Rightarrow> u32 option" where
  "check_handle_access sts db entry h wraccess =
     (case (case entry of Some r \<Rightarrow> Some r | None \<Rightarrow> get_entry_by_handle (mtp_get_storage_root sts) h db) of
        None \<Rightarrow> Some MTP_RESPONSE_INVALID_OBJECT_HANDLE
      | Some r \<Rightarrow>
          let fl = mtp_get_storage_flags sts (e_storage (pool db ! r)) in
          if fl = 0xFFFFFFFF then Some MTP_RESPONSE_INVALID_STORAGE_ID
          else if fl AND UMTP_STORAGE_LOCKED \<noteq> 0 then Some MTP_RESPONSE_STORE_NOT_AVAILABLE
          else if fl AND UMTP_STORAGE_READONLY \<noteq> 0 \<and> wraccess then Some MTP_RESPONSE_STORE_READ_ONLY
          else None)"

text \<open>The packet sizes are positive; the remainder is that of unsigned numbers.\<close>

definition check_and_send_USB_ZLP :: "int \<Rightarrow> mtp_ctx \<Rightarrow> mtp_ctx" where
  "check_and_send_USB_ZLP sz ctx =
     (if sz \<ge> max_packet_size ctx \<and> sz mod max_packet_size ctx = 0 then emit_mtp (UsbWrite []) ctx else ctx)"

section \<open>The system\<close>

text \<open>
  What the system answers. \<open>env_ids_fail\<close> is the result of the calls that switch the user,
  \<open>env_cancel\<close> the value of \<open>cancel_req\<close> each time a transfer looks at it, \<open>env_usb\<close> what the
  following reads from the USB endpoint deliver (a negative size is an error). \<open>env_mtime\<close> is the
  modification time of a path in local time (nothing when it cannot be converted), \<open>env_statvfs\<close> the block size, the blocks and the
  free blocks of its file system.
\<close>

record tm =
  tm_year :: int
  tm_mon :: int
  tm_mday :: int
  tm_hour :: int
  tm_min :: int
  tm_sec :: int

record mtp_env =
  env_realpath :: "bytes \<Rightarrow> realpath_result"
  env_mem :: mem
  env_path_ok :: bool
  env_tmp_ok :: bool
  env_ids_fail :: "mtp_effect \<Rightarrow> bool"
  env_open :: "open_flag set \<Rightarrow> bytes \<Rightarrow> int"
  env_pread :: "int \<Rightarrow> int \<Rightarrow> int \<Rightarrow> int \<times> bytes"
  env_buffer_ok :: bool
  env_cancel :: "nat \<Rightarrow> bool"
  env_usb :: "(int \<times> bytes) list"
  env_file_end :: "int \<Rightarrow> int"
  env_stat :: "bytes \<Rightarrow> (bool \<times> int) option"
  env_mtime :: "bytes \<Rightarrow> tm option"
  env_statvfs :: "bytes \<Rightarrow> (u64 \<times> u64 \<times> u64) option"
  env_dir :: "bytes \<Rightarrow> bytes list option"
  env_mkdir :: "bytes \<Rightarrow> bool"
  env_create :: "bytes \<Rightarrow> bool"
  env_rename :: "bytes \<Rightarrow> bytes \<Rightarrow> bool"
  env_remove :: "bytes \<Rightarrow> bool"
  env_ops :: fs_ops
  env_tree :: "bytes \<Rightarrow> fs_node"
  env_truncate :: "bytes \<Rightarrow> errno option"
  env_watch :: "bytes \<Rightarrow> int"
  env_db_ok :: bool
  env_name_ok :: bool

text \<open>\<open>build_full_path\<close> as the operations call it, with the root of the entry's storage.\<close>

definition entry_path :: "mtp_env \<Rightarrow> mtp_storage list \<Rightarrow> nat \<Rightarrow> fs_handles_db \<Rightarrow> path_result" where
  "entry_path env sts r db =
     build_full_path (mtp_get_storage_root sts) (env_realpath env) (env_path_ok env) (env_tmp_ok env) (length (pool db) + 1)
       (mtp_get_storage_root sts (e_storage (pool db ! r))) r db"

text \<open>\<open>entry_open\<close> with its effects on the process; nothing when building the path kills it.\<close>

definition ctx_entry_open :: "mtp_env \<Rightarrow> open_flag set \<Rightarrow> u32 \<Rightarrow> nat \<Rightarrow> fs_handles_db \<Rightarrow> mtp_ctx \<Rightarrow> (int \<times> fs_handles_db \<times> mtp_ctx) option" where
  "ctx_entry_open env flags mode r db ctx =
     (if e_fd (pool db ! r) > 0 then Some (e_fd (pool db ! r), db, ctx)
      else case entry_path env (storages ctx) r db of
        PathCrash \<Rightarrow> None
      | PathHangs \<Rightarrow> None
      | PathNull \<Rightarrow> (case entry_open PathNull False (-1) r db of (fd, db') \<Rightarrow> Some (fd, db', ctx))
      | PathSome p \<Rightarrow>
          (case set_storage_giduid (env_ids_fail env) (e_storage (pool db ! r)) ctx of (ids, ctx1) \<Rightarrow>
             case entry_open (PathSome p) (ids = 0) (env_open env flags p) r db of (fd, db') \<Rightarrow>
               Some (fd, db', restore_giduid (env_ids_fail env) (if ids = 0 then emit_mtp (OpenFile p flags mode) ctx1 else ctx1))))"

end
