(* ===== verification/Mtp_Transfer.thy ===== *)
theory Mtp_Transfer
  imports Mtp_Context
begin

text \<open>
  Moving file contents: \<open>send_file_data\<close> of \<^verbatim>\<open>umtprd/src/mtp_operations/mtp_ops_helpers.c\<close> and
  the operations \<^verbatim>\<open>GetObject\<close>, \<^verbatim>\<open>GetPartialObject\<close> and \<^verbatim>\<open>SendObject\<close>. A result of \<open>None\<close> means
  that the process dies: a memory access outside a buffer, or the null pointer of
  \<open>build_full_path\<close>. The mutexes always succeed.
\<close>

section \<open>Sending\<close>

text \<open>\<^verbatim>\<open>memcpy\<close> of \<open>n\<close> bytes; a negative size is a huge unsigned one.\<close>

definition memcpy_at :: "bytes \<Rightarrow> int \<Rightarrow> bytes \<Rightarrow> int \<Rightarrow> int \<Rightarrow> bytes option" where
  "memcpy_at dst di src si n =
     (if n < 0 \<or> di < 0 \<or> si < 0 \<or> di + n > int (length dst) \<or> si + n > int (length src) then None
      else Some (put_bytes (nat di) (take (nat n) (drop (nat si) src)) dst))"

text \<open>
  The variables of the loop: the bytes done, the offset in the USB buffer, the position of the
  loaded page in the file, the two buffers, and the packets written.
\<close>

record xfer =
  x_j :: int
  x_ofs :: int
  x_page :: int
  x_buf :: bytes
  x_wr :: bytes
  x_out :: "bytes list"

datatype transfer = Sent xfer | ReadFailed xfer | MemError

text \<open>\<open>read_page\<close> is \<open>entry_read\<close> of one page of the file into the page buffer.\<close>

definition load_page :: "(int \<Rightarrow> int \<times> bytes) \<Rightarrow> int \<Rightarrow> xfer \<Rightarrow> xfer option" where
  "load_page read_page page x =
     (case read_page page of (n, bs) \<Rightarrow>
        if n < 0 then None else Some (x\<lparr>x_page := page, x_buf := put_bytes 0 bs (x_buf x)\<rparr>))"

definition ensure_page :: "(int \<Rightarrow> int \<times> bytes) \<Rightarrow> int \<Rightarrow> xfer \<Rightarrow> xfer option" where
  "ensure_page read_page page x = (if x_page x \<noteq> page then load_page read_page page x else Some x)"

text \<open>The packet of one round: the pointer handed to \<open>write_usb\<close>, or an error.\<close>

datatype packet = Packet bytes xfer | PacketRead xfer | PacketMem

definition fill_packet :: "(int \<Rightarrow> int \<times> bytes) \<Rightarrow> int \<Rightarrow> int \<Rightarrow> int \<Rightarrow> xfer \<Rightarrow> packet" where
  "fill_packet read_page R pos blocksize x =
     (let io = pos AND (R - 1) in
      if io + blocksize < R then
        if x_ofs x = 0 then Packet (drop (nat io) (x_buf x)) x
        else (case memcpy_at (x_wr x) (x_ofs x) (x_buf x) io blocksize of
                None \<Rightarrow> PacketMem | Some w \<Rightarrow> Packet w (x\<lparr>x_wr := w\<rparr>))
      else
        let first_part_size = blocksize - ((io + blocksize) - R) in
        (case memcpy_at (x_wr x) (x_ofs x) (x_buf x) io first_part_size of None \<Rightarrow> PacketMem
         | Some w \<Rightarrow>
             (case load_page read_page (x_page x + R) (x\<lparr>x_wr := w\<rparr>) of None \<Rightarrow> PacketRead (x\<lparr>x_wr := w\<rparr>)
              | Some x \<Rightarrow>
                  (case memcpy_at (x_wr x) (x_ofs x + first_part_size) (x_buf x) 0 (blocksize - first_part_size) of
                     None \<Rightarrow> PacketMem
                   | Some w \<Rightarrow> Packet w (x\<lparr>x_wr := w\<rparr>)))))"

definition send_block :: "(int \<Rightarrow> int \<times> bytes) \<Rightarrow> int \<Rightarrow> int \<Rightarrow> int \<Rightarrow> int \<Rightarrow> bool \<Rightarrow> xfer \<Rightarrow> transfer" where
  "send_block read_page R B offset actualsize cancelled x =
     (let pos = offset + x_j x;
          blocksize = (if x_j x + (B - x_ofs x) < actualsize then B - x_ofs x else actualsize - x_j x)
      in case ensure_page read_page (pos AND NOT (R - 1)) x of None \<Rightarrow> ReadFailed x
         | Some x \<Rightarrow>
             (case fill_packet read_page R pos blocksize x of
                PacketMem \<Rightarrow> MemError
              | PacketRead x \<Rightarrow> ReadFailed x
              | Packet ptr x \<Rightarrow>
                  Sent (x\<lparr>x_j := x_j x + blocksize, x_ofs := 0,
                          x_out := x_out x @ (if cancelled then [] else [take (nat (x_ofs x + blocksize)) ptr])\<rparr>)))"

text \<open>
  The rounds. \<open>cancelled k\<close> is what the k-th look at \<open>cancel_req\<close> gives, two per round. Running
  out of fuel counts as dying; the operations give one unit for each byte and one more.
\<close>

fun send_loop :: "nat \<Rightarrow> (int \<Rightarrow> int \<times> bytes) \<Rightarrow> int \<Rightarrow> int \<Rightarrow> int \<Rightarrow> int \<Rightarrow> (nat \<Rightarrow> bool) \<Rightarrow> xfer \<Rightarrow> transfer \<times> nat" where
  "send_loop 0 read_page R B offset actualsize cancelled x = (MemError, 0)"
| "send_loop (Suc fuel) read_page R B offset actualsize cancelled x =
     (case send_block read_page R B offset actualsize (cancelled 0) x of
        Sent x \<Rightarrow>
          if x_j x < actualsize \<and> \<not> cancelled 1
          then (case send_loop fuel read_page R B offset actualsize (\<lambda>k. cancelled (k + 2)) x of (t, k) \<Rightarrow> (t, k + 2))
          else (Sent x, 2)
      | t \<Rightarrow> (t, 0))"

definition transfer_size :: "int \<Rightarrow> int \<Rightarrow> int \<Rightarrow> int" where
  "transfer_size sz offset maxsize =
     (if offset \<ge> sz then 0 else if offset + maxsize > sz then sz - offset else maxsize)"

definition container_length :: "int \<Rightarrow> u32" where
  "container_length actualsize = (if 12 + actualsize \<ge> 0x100000000 then 0xFFFFFFFF else word_of_int (12 + actualsize))"

text \<open>The result: bytes sent, -1 for an error, -2 when the host cancelled.\<close>

definition send_file_data :: "mtp_env \<Rightarrow> nat \<Rightarrow> int \<Rightarrow> int \<Rightarrow> fs_handles_db \<Rightarrow> mtp_ctx \<Rightarrow> (int \<times> fs_handles_db \<times> mtp_ctx) option" where
  "send_file_data env r offset maxsize db ctx =
     (case (case read_file_buffer ctx of Some b \<Rightarrow> Some b
            | None \<Rightarrow> if env_buffer_ok env then Some (replicate (nat (read_file_buffer_size ctx)) 0) else None) of
        None \<Rightarrow> Some (0, db, ctx)
      | Some buf \<Rightarrow>
          let actualsize = transfer_size (e_size (pool db ! r)) offset maxsize;
              wr = snd (poke32 (usb_wr_buffer_max_size ctx) (container_length actualsize) (0, wrbuffer ctx));
              ctx = ctx\<lparr>read_file_buffer := Some buf, wrbuffer := wr\<rparr>
          in (case ctx_entry_open env {O_RDONLY, O_LARGEFILE} 0 r db ctx of None \<Rightarrow> None
              | Some (fd, db, ctx) \<Rightarrow>
                  if fd = -1 then Some (-1, db, ctx)
                  else
                    let x = \<lparr>x_j = 0, x_ofs = 12, x_page = -1, x_buf = buf, x_wr = wr, x_out = []\<rparr>;
                        read_page = (\<lambda>page. entry_read (env_pread env) r page (read_file_buffer_size ctx) db);
                        ctx = ctx\<lparr>transferring_file_data := True\<rparr>;
                        after = (\<lambda>x. ctx\<lparr>read_file_buffer := Some (x_buf x), wrbuffer := x_wr x,
                                   mtp_trace := mtp_trace ctx @ map UsbWrite (x_out x)\<rparr>)
                    in (case send_loop (nat actualsize + 1) read_page (read_file_buffer_size ctx) (usb_wr_buffer_max_size ctx)
                               offset actualsize (env_cancel env) x of
                          (MemError, _) \<Rightarrow> None
                        | (ReadFailed x, _) \<Rightarrow> Some (-1, entry_close (sync_when_close ctx) (Some r) db, after x)
                        | (Sent x, k) \<Rightarrow>
                            let ctx = (after x)\<lparr>transferring_file_data := False\<rparr>;
                                db = entry_close (sync_when_close ctx) (Some r) db
                            in if env_cancel env k then Some (-2, db, ctx\<lparr>cancel_req := 0\<rparr>)
                               else Some (actualsize, db, check_and_send_USB_ZLP (12 + actualsize) ctx))))"

section \<open>Operations\<close>

text \<open>
  An operation gets the packet of the host (header and parameters) and yields the response
  code and its parameters.
\<close>

abbreviation (input) MTP_CONTAINER_TYPE_COMMAND :: u16 where "MTP_CONTAINER_TYPE_COMMAND \<equiv> 1"
abbreviation (input) MTP_CONTAINER_TYPE_DATA :: u16 where "MTP_CONTAINER_TYPE_DATA \<equiv> 2"
abbreviation (input) MTP_OPERATION_GET_PARTIAL_OBJECT_64 :: u16 where "MTP_OPERATION_GET_PARTIAL_OBJECT_64 \<equiv> 0x95C1"
abbreviation (input) MTP_OPERATION_SEND_PARTIAL_OBJECT :: u16 where "MTP_OPERATION_SEND_PARTIAL_OBJECT \<equiv> 0x95C2"

type_synonym op_result = "(u32 \<times> u32 list \<times> mtp_ctx) option"

definition packet_header :: "bytes \<Rightarrow> MTP_PACKET_HEADER" where
  "packet_header pk = \<lparr>hdr_length = peek pk 0 4, hdr_operation = ucast (peek pk 4 2), hdr_code = ucast (peek pk 6 2), hdr_tx_id = peek pk 8 4\<rparr>"

text \<open>The header of the data container that answers a packet, at the start of the USB buffer.\<close>

definition data_header :: "bytes \<Rightarrow> mtp_ctx \<Rightarrow> int \<times> mtp_ctx" where
  "data_header pk ctx =
     (case build_response (hdr_tx_id (packet_header pk)) MTP_CONTAINER_TYPE_DATA (hdr_code (packet_header pk))
             (usb_wr_buffer_max_size ctx) [] (wrbuffer ctx) of (sz, b) \<Rightarrow> (sz, ctx\<lparr>wrbuffer := b\<rparr>))"

definition mtp_op_GetObject :: "mtp_env \<Rightarrow> bytes \<Rightarrow> mtp_ctx \<Rightarrow> op_result" where
  "mtp_op_GetObject env pk ctx =
     (case fs_db ctx of None \<Rightarrow> Some (MTP_RESPONSE_SESSION_NOT_OPEN, [], ctx)
      | Some db \<Rightarrow>
          (case get_entry_by_handle (mtp_get_storage_root (storages ctx)) (peek pk 12 4) db of
             None \<Rightarrow> Some (MTP_RESPONSE_INVALID_OBJECT_HANDLE, [], ctx)
           | Some r \<Rightarrow>
               (case check_handle_access (storages ctx) db (Some r) (peek pk 12 4) False of
                  Some code \<Rightarrow> Some (code, [], ctx)
                | None \<Rightarrow>
                    (case data_header pk ctx of (sz, ctx) \<Rightarrow>
                       if sz < 0 then Some (MTP_RESPONSE_GENERAL_ERROR, [], ctx)
                       else case send_file_data env r 0 (e_size (pool db ! r)) db ctx of
                         None \<Rightarrow> None
                       | Some (n, db, ctx) \<Rightarrow>
                           Some (if n \<ge> 0 then MTP_RESPONSE_OK else if n = -2 then MTP_RESPONSE_NO_RESPONSE
                                 else MTP_RESPONSE_INCOMPLETE_TRANSFER, [], ctx\<lparr>fs_db := Some db\<rparr>)))))"

text \<open>The maximal size is an \<^verbatim>\<open>int\<close>: a value from \<^verbatim>\<open>0x80000000\<close> on is negative.\<close>

definition partial_range :: "bytes \<Rightarrow> int \<times> int" where
  "partial_range pk =
     (if hdr_code (packet_header pk) = MTP_OPERATION_GET_PARTIAL_OBJECT_64
      then (sint (peek64 pk 16 8), sint (peek pk 24 4))
      else (uint (peek pk 16 4), sint (peek pk 20 4)))"

definition mtp_op_GetPartialObject :: "mtp_env \<Rightarrow> bytes \<Rightarrow> mtp_ctx \<Rightarrow> op_result" where
  "mtp_op_GetPartialObject env pk ctx =
     (case fs_db ctx of None \<Rightarrow> Some (MTP_RESPONSE_SESSION_NOT_OPEN, [], ctx)
      | Some db \<Rightarrow>
          let h = peek pk 12 4; entry = get_entry_by_handle (mtp_get_storage_root (storages ctx)) h db in
          (case check_handle_access (storages ctx) db entry h False of
             Some code \<Rightarrow> Some (code, [], ctx)
           | None \<Rightarrow>
               (case entry of None \<Rightarrow> Some (MTP_RESPONSE_INVALID_OBJECT_HANDLE, [], ctx)
                | Some r \<Rightarrow>
                    (case data_header pk ctx of (sz, ctx) \<Rightarrow>
                       if sz < 0 then Some (MTP_RESPONSE_GENERAL_ERROR, [], ctx)
                       else case partial_range pk of (offset, maxsize) \<Rightarrow>
                         (case send_file_data env r offset maxsize db ctx of
                            None \<Rightarrow> None
                          | Some (n, db, ctx) \<Rightarrow>
                              let ctx = ctx\<lparr>fs_db := Some db\<rparr> in
                              if n \<ge> 0 then Some (MTP_RESPONSE_OK, [word_of_int n], ctx)
                              else if n = -2 then Some (MTP_RESPONSE_NO_RESPONSE, [], ctx)
                              else Some (MTP_RESPONSE_OK, [], ctx))))))"

section \<open>Receiving\<close>

definition write_data :: "int \<Rightarrow> bytes \<Rightarrow> mtp_ctx \<Rightarrow> mtp_ctx" where
  "write_data fd bs ctx = emit_mtp (WriteFile fd bs) (ctx\<lparr>SendObjInfoSize := SendObjInfoSize ctx - int (length bs)\<rparr>)"

text \<open>
  The loop over the following packets: it goes on while packets fill the read buffer. A packet
  is the size that \<open>read_usb\<close> returned and the bytes; when the host sends nothing more the read
  fails. The result counts the looks at \<open>cancel_req\<close>.
\<close>

fun recv_loop :: "int \<Rightarrow> (nat \<Rightarrow> bool) \<Rightarrow> int \<Rightarrow> (int \<times> bytes) list \<Rightarrow> int \<Rightarrow> mtp_ctx \<Rightarrow> nat \<times> mtp_ctx" where
  "recv_loop bufsize cancelled fd [] sz ctx = (if sz = bufsize then 1 else 0, ctx)"
| "recv_loop bufsize cancelled fd ((n, bs) # reads) sz ctx =
     (if sz \<noteq> bufsize then (0, ctx)
      else if cancelled 0 then (1, ctx)
      else case recv_loop bufsize (\<lambda>k. cancelled (k + 1)) fd reads n (if n \<ge> 0 then write_data fd bs ctx else ctx) of
        (k, ctx) \<Rightarrow> (k + 1, ctx))"

definition send_object_params :: "bytes \<Rightarrow> mtp_ctx \<Rightarrow> mtp_ctx" where
  "send_object_params pk ctx =
     (if hdr_code (packet_header pk) = MTP_OPERATION_SEND_PARTIAL_OBJECT \<and> hdr_operation (packet_header pk) = MTP_CONTAINER_TYPE_COMMAND
      then ctx\<lparr>SendObjInfoHandle := peek pk 12 4, SendObjInfoOffset := sint (peek64 pk 16 8), SendObjInfoSize := uint (peek pk 24 4)\<rparr>
      else ctx)"

text \<open>The data phase on an open file: the payload of the packet, then the following ones.\<close>

definition receive_data :: "mtp_env \<Rightarrow> bool \<Rightarrow> int \<Rightarrow> bytes \<Rightarrow> mtp_ctx \<Rightarrow> nat \<times> mtp_ctx" where
  "receive_data env partial fd payload ctx =
     (let bufsize = usb_rd_buffer_max_size ctx;
          sz = int (length payload);
          ctx = emit_mtp (SeekFile fd (SendObjInfoOffset ctx)) ctx;
          ctx = (if sz > 0 then write_data fd payload ctx else ctx);
          sz = (if sz = bufsize - 12 then bufsize else sz);
          sz = (if partial \<and> SendObjInfoSize ctx \<noteq> 0 then bufsize else sz)
      in recv_loop bufsize (env_cancel env) fd (env_usb env) sz ctx)"

definition mtp_op_SendObject :: "mtp_env \<Rightarrow> bytes \<Rightarrow> mtp_ctx \<Rightarrow> op_result" where
  "mtp_op_SendObject env pk ctx =
     (case fs_db ctx of None \<Rightarrow> Some (MTP_RESPONSE_SESSION_NOT_OPEN, [], ctx)
      | Some db \<Rightarrow>
          let ctx = send_object_params pk ctx;
              partial = (hdr_code (packet_header pk) = MTP_OPERATION_SEND_PARTIAL_OBJECT);
              op = hdr_operation (packet_header pk)
          in
          if SendObjInfoHandle ctx = 0xFFFFFFFF then Some (MTP_RESPONSE_INVALID_OBJECT_HANDLE, [], ctx)
          else if op = MTP_CONTAINER_TYPE_DATA then
            (case get_entry_by_handle (mtp_get_storage_root (storages ctx)) (SendObjInfoHandle ctx) db of
               None \<Rightarrow> Some (MTP_RESPONSE_INVALID_OBJECT_HANDLE, [], ctx)
             | Some r \<Rightarrow>
                 (case check_handle_access (storages ctx) db (Some r) 0 True of
                    Some code \<Rightarrow> Some (code, [], ctx)
                  | None \<Rightarrow>
                      let flags = (if partial then {O_RDWR, O_LARGEFILE} else {O_CREAT, O_WRONLY, O_TRUNC, O_LARGEFILE});
                          mode = (if partial then 0 else 0x1B6)
                      in (case ctx_entry_open env flags mode r db ctx of None \<Rightarrow> None
                       | Some (fd, db, ctx) \<Rightarrow>
                           if fd = -1 then Some (MTP_RESPONSE_GENERAL_ERROR, [], ctx\<lparr>fs_db := Some db\<rparr>)
                           else (case receive_data env partial fd (drop 12 pk) (ctx\<lparr>transferring_file_data := True\<rparr>) of
                             (k, ctx) \<Rightarrow>
                               let db = upd_entry r (e_size_update (\<lambda>_. env_file_end env fd)) db;
                                   db = (if partial then db else entry_close (sync_when_close ctx) (Some r) db);
                                   ctx = ctx\<lparr>transferring_file_data := False, fs_db := Some db\<rparr>
                               in if env_cancel env k then Some (MTP_RESPONSE_NO_RESPONSE, [], ctx\<lparr>cancel_req := 0\<rparr>)
                                  else Some (MTP_RESPONSE_OK, [], ctx)))))
          else if op = MTP_CONTAINER_TYPE_COMMAND then
            Some (case check_handle_access (storages ctx) db None (SendObjInfoHandle ctx) True of
                    Some code \<Rightarrow> code | None \<Rightarrow> MTP_RESPONSE_NO_RESPONSE, [], ctx)
          else Some (MTP_RESPONSE_GENERAL_ERROR, [], ctx))"

end
