(* ===== verification/Mtp_Session.thy ===== *)
theory Mtp_Session
  imports Mtp_Transfer
begin

text \<open>
  The operations of \<^verbatim>\<open>umtprd/src/mtp_operations\<close> that change the session, the handle database
  or the files: opening and closing a session, listing a folder, announcing, deleting,
  truncating and renaming objects, and mounting storages. As in \<open>Mtp_Transfer\<close>, \<open>None\<close> means
  that the process dies.
\<close>

section \<open>Sessions\<close>

definition mtp_op_OpenSession :: "mtp_env \<Rightarrow> bytes \<Rightarrow> mtp_ctx \<Rightarrow> op_result" where
  "mtp_op_OpenSession env pk ctx =
     (let sid = peek pk 12 4 in
      if sid = 0 then Some (MTP_RESPONSE_INVALID_PARAMETER, [], ctx)
      else case fs_db ctx of
        Some _ \<Rightarrow> Some (MTP_RESPONSE_SESSION_ALREADY_OPEN, [session_id ctx], ctx)
      | None \<Rightarrow>
          let ctx = ctx\<lparr>session_id := sid\<rparr> in
          if \<not> env_db_ok env then Some (MTP_RESPONSE_GENERAL_ERROR, [], ctx)
          else Some (MTP_RESPONSE_OK, [],
            ctx\<lparr>fs_db := Some (fold (\<lambda>st db. snd (alloc_root_entry (env_mem env) (storage_id st) db))
              (takeWhile (\<lambda>st. root_path st \<noteq> None) (storages ctx)) init_fs_db)\<rparr>))"

definition mtp_op_CloseSession :: "mtp_ctx \<Rightarrow> op_result" where
  "mtp_op_CloseSession ctx =
     (case fs_db ctx of None \<Rightarrow> Some (MTP_RESPONSE_SESSION_NOT_OPEN, [], ctx)
      | Some db \<Rightarrow> Some (MTP_RESPONSE_OK, [],
          ctx\<lparr>fs_db := None, mtp_trace := mtp_trace ctx @ map DbEffect (deinit_fs_db (sync_when_close ctx) db)\<rparr>))"

definition listed_storages :: "mtp_storage list \<Rightarrow> u32 list" where
  "listed_storages sts =
     map storage_id (filter (\<lambda>st. storage_flags st AND UMTP_STORAGE_NOTMOUNTED = 0 \<and> storage_flags st AND UMTP_STORAGE_LOCKED = 0)
       (takeWhile (\<lambda>st. root_path st \<noteq> None) sts))"

definition mtp_op_GetStorageIDs :: "bytes \<Rightarrow> mtp_ctx \<Rightarrow> op_result" where
  "mtp_op_GetStorageIDs pk ctx =
     (case fs_db ctx of None \<Rightarrow> Some (MTP_RESPONSE_SESSION_NOT_OPEN, [], ctx)
      | Some _ \<Rightarrow>
          (case data_header pk ctx of (ofs, ctx) \<Rightarrow>
             if ofs < 0 then Some (MTP_RESPONSE_GENERAL_ERROR, [], ctx)
             else case poke_array (usb_wr_buffer_max_size ctx) 4 (concat (map (le_bytes 4) (listed_storages (storages ctx)))) True (ofs, wrbuffer ctx) of
               (ofs, b) \<Rightarrow>
                 if ofs < 0 then Some (MTP_RESPONSE_GENERAL_ERROR, [], ctx\<lparr>wrbuffer := b\<rparr>)
                 else
                   let b = snd (poke32 (usb_wr_buffer_max_size ctx) (word_of_int ofs) (0, b));
                       ctx = emit_mtp (UsbWrite (take (nat ofs) b)) (ctx\<lparr>wrbuffer := b\<rparr>)
                   in Some (MTP_RESPONSE_OK, [], check_and_send_USB_ZLP ofs ctx)))"

section \<open>Listing a folder\<close>

definition ctx_scan :: "mtp_env \<Rightarrow> bytes \<Rightarrow> u32 \<Rightarrow> u32 \<Rightarrow> fs_handles_db \<Rightarrow> mtp_ctx \<Rightarrow> (int \<times> fs_handles_db) option" where
  "ctx_scan env base parent sid db ctx =
     scan_and_add_folder (show_hidden_files (usb_cfg ctx) \<noteq> 0) (env_mem env) (env_stat env) (env_dir env base) (entry_path env (storages ctx)) base parent sid db"

text \<open>The loop that counts the children; the fuel is the length of the list and one.\<close>

fun count_children :: "nat \<Rightarrow> fs_handles_db \<Rightarrow> nat \<times> fs_handles_db" where
  "count_children 0 db = (0, db)"
| "count_children (Suc fuel) db =
     (case get_next_child_handle db of
        (None, db) \<Rightarrow> (0, db)
      | (Some _, db) \<Rightarrow> (case count_children fuel db of (n, db) \<Rightarrow> (Suc n, db)))"

text \<open>One USB packet of handles: the inner loop. The state is the offset, the buffer and the handles written.\<close>

fun fill_handles :: "nat \<Rightarrow> int \<Rightarrow> int \<Rightarrow> nat \<Rightarrow> poke \<times> nat \<times> fs_handles_db \<Rightarrow> poke \<times> nat \<times> fs_handles_db" where
  "fill_handles 0 maxsize packet_size nb st = st"
| "fill_handles (Suc fuel) maxsize packet_size nb (p, index, db) =
     (case (case get_next_child_handle db of
              (None, db) \<Rightarrow> (p, index, db)
            | (Some r, db) \<Rightarrow> (poke32 maxsize (e_handle (pool db ! r)) p, index + 1, db)) of
        (p, index, db) \<Rightarrow>
          if fst p \<ge> 0 \<and> fst p < packet_size \<and> index < nb then fill_handles fuel maxsize packet_size nb (p, index, db)
          else (p, index, db))"

text \<open>The outer loop: one packet after the other; nothing when a handle does not fit.\<close>

fun send_handles :: "nat \<Rightarrow> nat \<Rightarrow> int \<times> nat \<times> fs_handles_db \<Rightarrow> mtp_ctx \<Rightarrow> (bool \<times> fs_handles_db \<times> mtp_ctx)" where
  "send_handles 0 nb (ofs, index, db) ctx = (False, db, ctx)"
| "send_handles (Suc fuel) nb (ofs, index, db) ctx =
     (case fill_handles (nb + 1) (usb_wr_buffer_max_size ctx) (max_packet_size ctx) nb ((ofs, wrbuffer ctx), index, db) of
        ((ofs, b), index, db) \<Rightarrow>
          let ctx = ctx\<lparr>wrbuffer := b\<rparr> in
          if ofs < 0 then (False, db, ctx)
          else let ctx = emit_mtp (UsbWrite (take (nat ofs) b)) ctx in
            if index < nb then send_handles fuel nb (0, index, db) ctx else (True, db, ctx))"

text \<open>
  The folder of a listing: its path, the entry and the handle to search for. A parent handle of
  zero or all ones is the root of the storage. A null path leaves the folder unread.
\<close>

definition listing_folder :: "mtp_env \<Rightarrow> u32 \<Rightarrow> u32 \<Rightarrow> fs_handles_db \<Rightarrow> mtp_ctx \<Rightarrow> (bytes option \<times> nat option \<times> u32) option" where
  "listing_folder env parent sid db ctx =
     (if parent \<noteq> 0 \<and> parent \<noteq> 0xFFFFFFFF then
        (case get_entry_by_handle (mtp_get_storage_root (storages ctx)) parent db of
           None \<Rightarrow> Some (None, None, parent)
         | Some r \<Rightarrow>
             (case entry_path env (storages ctx) r db of
                PathSome p \<Rightarrow> Some (Some p, Some r, parent)
              | PathNull \<Rightarrow> Some (None, Some r, parent)
              | _ \<Rightarrow> None))
      else Some (mtp_get_storage_root (storages ctx) sid, get_entry_by_handle_and_storageid 0 sid db, 0))"

text \<open>The descriptor of a watch; \<open>env_watch\<close> is the result of \<^verbatim>\<open>inotify_add_watch\<close>.\<close>

definition inotify_handler_addwatch :: "mtp_env \<Rightarrow> bool \<Rightarrow> bytes \<Rightarrow> int" where
  "inotify_handler_addwatch env unwatched p = (if unwatched then -1 else env_watch env p)"

text \<open>The handles are counted, the search is restarted and the folder is watched.\<close>

definition prepare_listing :: "mtp_env \<Rightarrow> bool \<Rightarrow> bytes \<Rightarrow> nat option \<Rightarrow> u32 \<Rightarrow> u32 \<Rightarrow> fs_handles_db \<Rightarrow> nat \<times> fs_handles_db" where
  "prepare_listing env unwatched p entry parent sid db =
     (let db = init_search_handle parent sid db;
          (n, db) = count_children (length (entry_list db) + 1) db;
          db = init_search_handle parent sid db;
          db = (case entry of None \<Rightarrow> db
                | Some r \<Rightarrow> if is_dir (pool db ! r) then upd_entry r (e_wd_update (\<lambda>_. inotify_handler_addwatch env unwatched p)) db else db)
      in (n, db))"

definition reply_handles :: "nat \<Rightarrow> fs_handles_db \<Rightarrow> mtp_ctx \<Rightarrow> op_result" where
  "reply_handles nb db ctx =
     (let b = snd (poke32 (usb_wr_buffer_max_size ctx) (of_nat (12 + (1 + nb) * 4)) (0, wrbuffer ctx));
          (ofs, b) = poke32 (usb_wr_buffer_max_size ctx) (of_nat nb) (12, b)
      in case send_handles (nb + 1) nb (ofs, 0, db) (ctx\<lparr>wrbuffer := b\<rparr>) of
           (False, db, ctx) \<Rightarrow> Some (MTP_RESPONSE_GENERAL_ERROR, [], ctx\<lparr>fs_db := Some db\<rparr>)
         | (True, db, ctx) \<Rightarrow> Some (MTP_RESPONSE_OK, [], check_and_send_USB_ZLP (12 + 4 + int nb * 4) (ctx\<lparr>fs_db := Some db\<rparr>)))"

definition mtp_op_GetObjectHandles :: "mtp_env \<Rightarrow> bytes \<Rightarrow> mtp_ctx \<Rightarrow> op_result" where
  "mtp_op_GetObjectHandles env pk ctx =
     (case fs_db ctx of None \<Rightarrow> Some (MTP_RESPONSE_SESSION_NOT_OPEN, [], ctx)
      | Some db \<Rightarrow>
          let sid = peek pk 12 4 in
          (case data_header pk ctx of (sz, ctx) \<Rightarrow>
             if sz < 0 then Some (MTP_RESPONSE_GENERAL_ERROR, [], ctx)
             else if mtp_get_storage_root (storages ctx) sid = None then Some (MTP_RESPONSE_INVALID_STORAGE_ID, [], ctx)
             else case listing_folder env (peek pk 20 4) sid db ctx of
               None \<Rightarrow> None
             | Some (None, entry, parent) \<Rightarrow> reply_handles 0 db ctx
             | Some (Some p, entry, parent) \<Rightarrow>
                 (case set_storage_giduid (env_ids_fail env) sid ctx of (ids, ctx) \<Rightarrow>
                    (case (if ids = 0 then ctx_scan env p parent sid db ctx else Some (-1, db)) of
                       None \<Rightarrow> None
                     | Some (ret, db) \<Rightarrow>
                         let ctx = restore_giduid (env_ids_fail env) ctx in
                         if ret < 0 then Some (MTP_RESPONSE_ACCESS_DENIED, [], ctx\<lparr>fs_db := Some db\<rparr>)
                         else (case prepare_listing env (no_inotify ctx) p entry parent sid db of (nb, db) \<Rightarrow> reply_handles nb db ctx)))))"

section \<open>New objects\<close>

abbreviation (input) MTP_OPERATION_SEND_OBJECT_INFO :: u16 where "MTP_OPERATION_SEND_OBJECT_INFO \<equiv> 0x100C"
abbreviation (input) MTP_FORMAT_ASSOCIATION :: u32 where "MTP_FORMAT_ASSOCIATION \<equiv> 0x3001"

text \<open>The name in an object info dataset, converted to UTF-8.\<close>

definition dataset_name :: "bytes \<Rightarrow> bytes" where
  "dataset_name ds = fst (unicode2charstring 257 (read_units ds 0x35 (unat (rd ds 0x34))))"

text \<open>
  A folder or an empty file in the parent folder. The result is the response of an early
  return, if any, the new handle, and the new state.
\<close>

definition create_folder ::
  "mtp_env \<Rightarrow> bytes option \<Rightarrow> bytes \<Rightarrow> u32 \<Rightarrow> u32 \<Rightarrow> fs_handles_db \<Rightarrow> mtp_ctx \<Rightarrow> u32 option \<times> u32 \<times> fs_handles_db \<times> mtp_ctx" where
  "create_folder env parent_folder name parent sid db ctx =
     (case parent_folder of None \<Rightarrow> (None, 0xFFFFFFFF, db, ctx)
      | Some folder \<Rightarrow>
          if \<not> env_tmp_ok env then (None, 0xFFFFFFFF, db, ctx)
          else
            let tmp_path = folder @ 0x2F # name in
            (case set_storage_giduid (env_ids_fail env) sid ctx of (ids, ctx) \<Rightarrow>
               let ctx = (if ids = 0 then emit_mtp (MakeDir tmp_path) ctx else ctx);
                   ctx = restore_giduid (env_ids_fail env) ctx
               in if ids \<noteq> 0 \<or> \<not> env_mkdir env tmp_path then (Some MTP_RESPONSE_ACCESS_DENIED, 0xFFFFFFFF, db, ctx)
                  else (case add_entry (env_mem env) \<lparr>isdirectory = True, filename = name, f_size = 0\<rparr> parent sid db of
                    (None, db) \<Rightarrow> (None, 0xFFFFFFFF, db, ctx)
                  | (Some r, db) \<Rightarrow> (None, e_handle (pool db ! r), db, ctx))))"

definition announce_file :: "nat option \<Rightarrow> int \<Rightarrow> fs_handles_db \<Rightarrow> mtp_ctx \<Rightarrow> u32 option \<times> u32 \<times> fs_handles_db \<times> mtp_ctx" where
  "announce_file entry objectsize db ctx =
     (case entry of
        Some r \<Rightarrow> (None, e_handle (pool db ! r), db,
          ctx\<lparr>SendObjInfoHandle := e_handle (pool db ! r), SendObjInfoSize := objectsize, SendObjInfoOffset := 0\<rparr>)
      | None \<Rightarrow> (None, 0xFFFFFFFF, db, ctx\<lparr>SendObjInfoHandle := 0xFFFFFFFF, SendObjInfoSize := 0, SendObjInfoOffset := 0\<rparr>))"

definition create_file ::
  "mtp_env \<Rightarrow> bytes option \<Rightarrow> bytes \<Rightarrow> int \<Rightarrow> u32 \<Rightarrow> u32 \<Rightarrow> fs_handles_db \<Rightarrow> mtp_ctx \<Rightarrow> u32 option \<times> u32 \<times> fs_handles_db \<times> mtp_ctx" where
  "create_file env parent_folder name objectsize parent sid db ctx =
     (case parent_folder of None \<Rightarrow> announce_file None objectsize db ctx
      | Some folder \<Rightarrow>
          if \<not> env_tmp_ok env then announce_file None objectsize db ctx
          else
            let tmp_path = folder @ 0x2F # name in
            (case set_storage_giduid (env_ids_fail env) sid ctx of (ids, ctx) \<Rightarrow>
               let ctx = (if ids = 0 then emit_mtp (CreateFile tmp_path) ctx else ctx);
                   ctx = restore_giduid (env_ids_fail env) ctx
               in if ids \<noteq> 0 \<or> \<not> env_create env tmp_path then (Some MTP_RESPONSE_ACCESS_DENIED, 0xFFFFFFFF, db, ctx)
                  else (case add_entry (env_mem env) \<lparr>isdirectory = False, filename = name, f_size = objectsize\<rparr> parent sid db of
                    (entry, db) \<Rightarrow> announce_file entry objectsize db ctx)))"

text \<open>
  \<open>parse_incoming_dataset\<close>. Unless it returns early the response is OK, whatever happened.
\<close>

definition parse_incoming_dataset ::
  "mtp_env \<Rightarrow> bytes \<Rightarrow> u32 \<Rightarrow> u32 \<Rightarrow> fs_handles_db \<Rightarrow> mtp_ctx \<Rightarrow> (u32 \<times> u32 \<times> fs_handles_db \<times> mtp_ctx) option" where
  "parse_incoming_dataset env datain parent_handle sid db ctx =
     (let parent = (if parent_handle = 0xFFFFFFFF then 0 else parent_handle);
          fl = mtp_get_storage_flags (storages ctx) sid;
          ds = drop 12 datain;
          name = dataset_name ds
      in
      if fl = 0xFFFFFFFF then Some (MTP_RESPONSE_INVALID_STORAGE_ID, 0xFFFFFFFF, db, ctx)
      else if fl AND UMTP_STORAGE_READONLY \<noteq> 0 then Some (MTP_RESPONSE_STORE_READ_ONLY, 0xFFFFFFFF, db, ctx)
      else if hdr_code (packet_header datain) \<noteq> MTP_OPERATION_SEND_OBJECT_INFO then Some (MTP_RESPONSE_OK, 0xFFFFFFFF, db, ctx)
      else case sanitize_name name 257 of (ret, name) \<Rightarrow>
        if ret \<noteq> 1 then Some (MTP_RESPONSE_INVALID_DATASET, 0xFFFFFFFF, db, ctx)
        else case get_entry_by_handle_and_storageid parent sid db of
          None \<Rightarrow> Some (MTP_RESPONSE_OK, 0xFFFFFFFF, db, ctx)
        | Some r \<Rightarrow>
            if \<not> is_dir (pool db ! r) then Some (MTP_RESPONSE_OK, 0xFFFFFFFF, db, ctx)
            else
              (case (case entry_path env (storages ctx) r db of PathSome p \<Rightarrow> Some (Some p) | PathNull \<Rightarrow> Some None | _ \<Rightarrow> None) of
                 None \<Rightarrow> None
               | Some folder \<Rightarrow>
                   (case (if peek ds 4 2 = MTP_FORMAT_ASSOCIATION then create_folder env folder name parent sid db ctx
                          else create_file env folder name (uint (peek ds 8 4)) parent sid db ctx) of
                      (early, new_handle, db, ctx) \<Rightarrow>
                        Some (case early of Some code \<Rightarrow> code | None \<Rightarrow> MTP_RESPONSE_OK, new_handle, db, ctx))))"

text \<open>The dataset is the next packet from the host.\<close>

definition mtp_op_SendObjectInfo :: "mtp_env \<Rightarrow> bytes \<Rightarrow> mtp_ctx \<Rightarrow> op_result" where
  "mtp_op_SendObjectInfo env pk ctx =
     (case fs_db ctx of None \<Rightarrow> Some (MTP_RESPONSE_SESSION_NOT_OPEN, [], ctx)
      | Some db \<Rightarrow>
          let sid = peek pk 12 4; parent = peek pk 16 4;
              datain = (case env_usb env of (_, bs) # _ \<Rightarrow> bs | [] \<Rightarrow> [])
          in (case parse_incoming_dataset env datain parent sid db ctx of
                None \<Rightarrow> None
              | Some (code, new_handle, db, ctx) \<Rightarrow>
                  Some (code, if code = MTP_RESPONSE_OK then [sid, parent, new_handle] else [], ctx\<lparr>fs_db := Some db\<rparr>)))"

section \<open>Deleting, truncating, editing\<close>

definition delete_tree :: "mtp_env \<Rightarrow> u32 \<Rightarrow> fs_handles_db \<Rightarrow> mtp_ctx \<Rightarrow> (int \<times> fs_handles_db \<times> mtp_ctx) option" where
  "delete_tree env h db ctx =
     (case get_entry_by_handle (mtp_get_storage_root (storages ctx)) h db of None \<Rightarrow> Some (-1, db, ctx)
      | Some r \<Rightarrow>
          (case entry_path env (storages ctx) r db of
             PathNull \<Rightarrow> Some (-1, db, ctx)
           | PathSome p \<Rightarrow>
               if is_dir (pool db ! r) then
                 let ctx = emit_mtp (RemoveTree p) ctx in
                 if \<not> fst (fs_remove_tree (env_ops env) p (env_tree env p)) then Some (0, mark_deleted r db, ctx)
                 else (case ctx_scan env p h (e_storage (pool db ! r)) db ctx of None \<Rightarrow> None | Some (_, db) \<Rightarrow> Some (1, db, ctx))
               else
                 let ctx = emit_mtp (RemoveFile p) ctx in
                 if env_remove env p then Some (0, mark_deleted r db, ctx) else Some (-1, db, ctx)
           | _ \<Rightarrow> None))"

definition mtp_op_DeleteObject :: "mtp_env \<Rightarrow> bytes \<Rightarrow> mtp_ctx \<Rightarrow> op_result" where
  "mtp_op_DeleteObject env pk ctx =
     (case fs_db ctx of None \<Rightarrow> Some (MTP_RESPONSE_SESSION_NOT_OPEN, [], ctx)
      | Some db \<Rightarrow>
          let h = peek pk 12 4 in
          (case check_handle_access (storages ctx) db None h True of
             Some code \<Rightarrow> Some (code, [], ctx)
           | None \<Rightarrow>
               (case get_entry_by_handle (mtp_get_storage_root (storages ctx)) h db of
                  None \<Rightarrow> Some (MTP_RESPONSE_INVALID_OBJECT_HANDLE, [], restore_giduid (env_ids_fail env) ctx)
                | Some r \<Rightarrow>
                    (case set_storage_giduid (env_ids_fail env) (e_storage (pool db ! r)) ctx of (ids, ctx) \<Rightarrow>
                       if ids \<noteq> 0 then Some (MTP_RESPONSE_OBJECT_WRITE_PROTECTED, [], restore_giduid (env_ids_fail env) ctx)
                       else (case delete_tree env h db ctx of None \<Rightarrow> None
                         | Some (ret, db, ctx) \<Rightarrow>
                             Some (if ret \<noteq> 0 then MTP_RESPONSE_OBJECT_WRITE_PROTECTED else MTP_RESPONSE_OK, [],
                                   restore_giduid (env_ids_fail env) (ctx\<lparr>fs_db := Some db\<rparr>)))))))"

definition mtp_op_BeginEditObject :: "bytes \<Rightarrow> mtp_ctx \<Rightarrow> op_result" where
  "mtp_op_BeginEditObject pk ctx =
     (case fs_db ctx of None \<Rightarrow> Some (MTP_RESPONSE_SESSION_NOT_OPEN, [], ctx)
      | Some db \<Rightarrow> Some (case check_handle_access (storages ctx) db None (peek pk 12 4) True of Some code \<Rightarrow> code | None \<Rightarrow> MTP_RESPONSE_OK, [], ctx))"

definition mtp_op_EndEditObject :: "bytes \<Rightarrow> mtp_ctx \<Rightarrow> op_result" where
  "mtp_op_EndEditObject pk ctx =
     (case fs_db ctx of None \<Rightarrow> Some (MTP_RESPONSE_SESSION_NOT_OPEN, [], ctx)
      | Some db \<Rightarrow>
          let h = peek pk 12 4 in
          Some (case check_handle_access (storages ctx) db None h True of Some code \<Rightarrow> code | None \<Rightarrow> MTP_RESPONSE_OK, [],
            ctx\<lparr>fs_db := Some (entry_close (sync_when_close ctx) (get_entry_by_handle (mtp_get_storage_root (storages ctx)) h db) db)\<rparr>))"

text \<open>The size of the entry is not updated.\<close>

definition mtp_op_TruncateObject :: "mtp_env \<Rightarrow> bytes \<Rightarrow> mtp_ctx \<Rightarrow> op_result" where
  "mtp_op_TruncateObject env pk ctx =
     (case fs_db ctx of None \<Rightarrow> Some (MTP_RESPONSE_SESSION_NOT_OPEN, [], ctx)
      | Some db \<Rightarrow>
          let h = peek pk 12 4 in
          (case get_entry_by_handle (mtp_get_storage_root (storages ctx)) h db of
             None \<Rightarrow> Some (MTP_RESPONSE_INVALID_OBJECT_HANDLE, [], ctx)
           | Some r \<Rightarrow>
               (case check_handle_access (storages ctx) db (Some r) h True of
                  Some code \<Rightarrow> Some (code, [], ctx)
                | None \<Rightarrow>
                    (case entry_path env (storages ctx) r db of
                       PathNull \<Rightarrow> Some (MTP_RESPONSE_GENERAL_ERROR, [], ctx)
                     | PathSome p \<Rightarrow>
                         Some (case env_truncate env p of None \<Rightarrow> MTP_RESPONSE_OK | Some err \<Rightarrow> posix_to_mtp_errcode err, [],
                               emit_mtp (TruncateFile p (sint (peek64 pk 16 8))) ctx)
                     | _ \<Rightarrow> None))))"

section \<open>Renaming\<close>

abbreviation (input) MTP_PROPERTY_OBJECT_FILE_NAME :: u32 where "MTP_PROPERTY_OBJECT_FILE_NAME \<equiv> 0xDC07"

text \<open>
  The new name is read up to a zero unit, whatever the length byte says; bytes behind the
  packet are read as zero here.
\<close>

definition getObjectPropFilename :: "bool \<Rightarrow> bytes \<Rightarrow> bytes option" where
  "getObjectPropFilename mem_ok pk =
     (if \<not> mem_ok then None
      else case sanitize_name (fst (unicode2charstring 257 (read_units pk 13 257))) 257 of
        (ret, name) \<Rightarrow> if ret \<noteq> 1 then None else Some name)"

definition rename_object :: "mtp_env \<Rightarrow> nat \<Rightarrow> bytes \<Rightarrow> bytes \<Rightarrow> fs_handles_db \<Rightarrow> mtp_ctx \<Rightarrow> (u32 \<times> fs_handles_db \<times> mtp_ctx) option" where
  "rename_object env r path new_filename db ctx =
     (case entry_path env (storages ctx) r (upd_entry r (e_name_update (\<lambda>_. new_filename)) db) of
        PathNull \<Rightarrow> Some (MTP_RESPONSE_GENERAL_ERROR, db, ctx)
      | PathSome path2 \<Rightarrow>
          (case set_storage_giduid (env_ids_fail env) (e_storage (pool db ! r)) ctx of (ids, ctx) \<Rightarrow>
             let ctx = (if ids = 0 then emit_mtp (RenameFile path path2) ctx else ctx);
                 ctx = restore_giduid (env_ids_fail env) ctx
             in if ids \<noteq> 0 \<or> \<not> env_rename env path path2 then Some (MTP_RESPONSE_GENERAL_ERROR, db, ctx)
                else Some (MTP_RESPONSE_OK, rename_entry (env_mem env) r new_filename db, ctx))
      | _ \<Rightarrow> None)"

definition setObjectPropValue :: "mtp_env \<Rightarrow> bytes \<Rightarrow> u32 \<Rightarrow> u32 \<Rightarrow> fs_handles_db \<Rightarrow> mtp_ctx \<Rightarrow> (u32 \<times> fs_handles_db \<times> mtp_ctx) option" where
  "setObjectPropValue env pk h prop_code db ctx =
     (if h = 0xFFFFFFFF then Some (MTP_RESPONSE_INVALID_OBJECT_HANDLE, db, ctx)
      else if prop_code \<noteq> MTP_PROPERTY_OBJECT_FILE_NAME then Some (MTP_RESPONSE_INVALID_OBJECT_PROP_CODE, db, ctx)
      else case get_entry_by_handle (mtp_get_storage_root (storages ctx)) h db of
        None \<Rightarrow> Some (MTP_RESPONSE_GENERAL_ERROR, db, ctx)
      | Some r \<Rightarrow>
          (case check_handle_access (storages ctx) db (Some r) 0 True of
             Some code \<Rightarrow> Some (code, db, ctx)
           | None \<Rightarrow>
               (case entry_path env (storages ctx) r db of
                  PathNull \<Rightarrow> Some (MTP_RESPONSE_GENERAL_ERROR, db, ctx)
                | PathSome path \<Rightarrow>
                    (case getObjectPropFilename (env_name_ok env) pk of
                       None \<Rightarrow> Some (MTP_RESPONSE_GENERAL_ERROR, db, ctx)
                     | Some new_filename \<Rightarrow> rename_object env r path new_filename db ctx)
                | _ \<Rightarrow> None)))"

definition mtp_op_SetObjectPropValue :: "mtp_env \<Rightarrow> bytes \<Rightarrow> mtp_ctx \<Rightarrow> op_result" where
  "mtp_op_SetObjectPropValue env pk ctx =
     (case fs_db ctx of None \<Rightarrow> Some (MTP_RESPONSE_SESSION_NOT_OPEN, [], ctx)
      | Some db \<Rightarrow>
          if hdr_operation (packet_header pk) = MTP_CONTAINER_TYPE_COMMAND then
            Some (MTP_RESPONSE_NO_RESPONSE, [], ctx\<lparr>SetObjectPropValue_Handle := peek pk 12 4, SetObjectPropValue_PropCode := peek pk 16 4\<rparr>)
          else if hdr_operation (packet_header pk) = MTP_CONTAINER_TYPE_DATA then
            (case setObjectPropValue env pk (SetObjectPropValue_Handle ctx) (SetObjectPropValue_PropCode ctx) db ctx of
               None \<Rightarrow> None
             | Some (code, db, ctx) \<Rightarrow> Some (code, [], ctx\<lparr>fs_db := Some db, SetObjectPropValue_Handle := 0xFFFFFFFF\<rparr>))
          else Some (MTP_RESPONSE_OPERATION_NOT_SUPPORTED, [], ctx))"

section \<open>Mounting\<close>

definition next_entry :: "nat \<Rightarrow> fs_handles_db \<Rightarrow> nat option" where
  "next_entry r db = (case dropWhile (\<lambda>q. q \<noteq> r) (entry_list db) of _ # q # _ \<Rightarrow> Some q | _ \<Rightarrow> None)"

text \<open>The loop over the entries of a storage; it ends with the list.\<close>

fun umount_entries :: "nat \<Rightarrow> u32 \<Rightarrow> nat option \<Rightarrow> fs_handles_db \<Rightarrow> fs_handles_db option" where
  "umount_entries 0 sid start db = None"
| "umount_entries (Suc fuel) sid start db =
     (case get_entry_by_storageid sid start db of None \<Rightarrow> Some db
      | Some r \<Rightarrow>
          (case next_entry r (mark_deleted r db) of
             None \<Rightarrow> Some (mark_deleted r db)
           | Some q \<Rightarrow> umount_entries fuel sid (Some q) (mark_deleted r db)))"

definition umount_store :: "int \<Rightarrow> bool \<Rightarrow> fs_handles_db \<Rightarrow> mtp_ctx \<Rightarrow> (fs_handles_db \<times> mtp_ctx) option" where
  "umount_store store_index update_flag db ctx =
     (if store_index \<ge> 0 \<and> store_index < int MAX_STORAGE_NB \<and> root_path (storages ctx ! nat store_index) \<noteq> None then
        let i = nat store_index; st = storages ctx ! i in
        (case umount_entries (length (entry_list db) + 1) (storage_id st) None db of None \<Rightarrow> None
         | Some db \<Rightarrow> Some (db, if update_flag
             then ctx\<lparr>storages := (storages ctx)[i := st\<lparr>storage_flags := storage_flags st OR UMTP_STORAGE_NOTMOUNTED\<rparr>]\<rparr> else ctx))
      else Some (db, ctx))"

definition mount_store :: "mtp_env \<Rightarrow> int \<Rightarrow> bool \<Rightarrow> fs_handles_db \<Rightarrow> mtp_ctx \<Rightarrow> fs_handles_db \<times> mtp_ctx" where
  "mount_store env store_index update_flag db ctx =
     (if store_index \<ge> 0 \<and> store_index < int MAX_STORAGE_NB \<and> root_path (storages ctx ! nat store_index) \<noteq> None then
        let i = nat store_index; st = storages ctx ! i in
        (if storage_flags st AND UMTP_STORAGE_NOTMOUNTED \<noteq> 0 then snd (alloc_root_entry (env_mem env) (storage_id st) db) else db,
         if update_flag
         then ctx\<lparr>storages := (storages ctx)[i := st\<lparr>storage_flags := storage_flags st AND NOT UMTP_STORAGE_NOTMOUNTED\<rparr>]\<rparr> else ctx)
      else (db, ctx))"

section \<open>Requests\<close>

text \<open>The operations modelled here and in \<open>Mtp_Transfer\<close>, for statements about all of them.\<close>

datatype mtp_request =
    OpenSession | CloseSession | GetStorageIDs | GetObjectHandles | GetObject | GetPartialObject | SendObjectInfo | SendObject
  | DeleteObject | BeginEditObject | EndEditObject | TruncateObject | SetObjectPropValue

fun run_op :: "mtp_env \<Rightarrow> mtp_request \<Rightarrow> bytes \<Rightarrow> mtp_ctx \<Rightarrow> op_result" where
  "run_op env OpenSession pk ctx = mtp_op_OpenSession env pk ctx"
| "run_op env CloseSession pk ctx = mtp_op_CloseSession ctx"
| "run_op env GetStorageIDs pk ctx = mtp_op_GetStorageIDs pk ctx"
| "run_op env GetObjectHandles pk ctx = mtp_op_GetObjectHandles env pk ctx"
| "run_op env GetObject pk ctx = mtp_op_GetObject env pk ctx"
| "run_op env GetPartialObject pk ctx = mtp_op_GetPartialObject env pk ctx"
| "run_op env SendObjectInfo pk ctx = mtp_op_SendObjectInfo env pk ctx"
| "run_op env SendObject pk ctx = mtp_op_SendObject env pk ctx"
| "run_op env DeleteObject pk ctx = mtp_op_DeleteObject env pk ctx"
| "run_op env BeginEditObject pk ctx = mtp_op_BeginEditObject pk ctx"
| "run_op env EndEditObject pk ctx = mtp_op_EndEditObject pk ctx"
| "run_op env TruncateObject pk ctx = mtp_op_TruncateObject env pk ctx"
| "run_op env SetObjectPropValue pk ctx = mtp_op_SetObjectPropValue env pk ctx"

end
