(* ===== verification/Mtp_Datasets.thy ===== *)
theory Mtp_Datasets
  imports Mtp_Session
begin

text \<open>
  The datasets that the responder sends: \<^verbatim>\<open>umtprd/src/mtp_datasets.c\<close>, the property tables and
  property datasets of \<^verbatim>\<open>mtp_properties.c\<close> and the tables of \<^verbatim>\<open>mtp_support_def.c\<close>. A dataset is
  a list of fields, written by the bounded writers of \<open>Mtp_Bytes\<close>; a builder returns the final
  offset and the buffer.
\<close>

section \<open>Tables\<close>

abbreviation (input) MTP_TYPE_UINT8 :: u16 where "MTP_TYPE_UINT8 \<equiv> 2"
abbreviation (input) MTP_TYPE_UINT16 :: u16 where "MTP_TYPE_UINT16 \<equiv> 4"
abbreviation (input) MTP_TYPE_UINT32 :: u16 where "MTP_TYPE_UINT32 \<equiv> 6"
abbreviation (input) MTP_TYPE_UINT64 :: u16 where "MTP_TYPE_UINT64 \<equiv> 8"
abbreviation (input) MTP_TYPE_UINT128 :: u16 where "MTP_TYPE_UINT128 \<equiv> 0xA"
abbreviation (input) MTP_TYPE_STR :: u16 where "MTP_TYPE_STR \<equiv> 0xFFFF"

definition supported_op :: "u16 list" where
  "supported_op = [0x1001, 0x1002, 0x1003, 0x1004, 0x1005, 0x1007, 0x1008, 0x1009, 0x100B, 0x100C, 0x100D, 0x1014, 0x1015, 0x1016,
     0x101B, 0x9801, 0x9802, 0x9803, 0x9804, 0x9805, 0x95C1, 0x95C2, 0x95C3, 0x95C4, 0x95C5]"

definition supported_event :: "u16 list" where
  "supported_event = [0x4002, 0x4003, 0x4004, 0x4005, 0x400C, 0x4007, 0x4006, 0xC801]"

record profile_property =
  prop_code :: u16
  data_type :: u16
  getset :: u8
  default_value :: u64
  group_code :: u32
  form_flag :: u8
  format_id :: u16

text \<open>The formats with their properties, without the closing entries.\<close>

definition fmt_properties :: "(u16 \<times> u16 list) list" where
  "fmt_properties =
     [(0x3000, [0xDC01, 0xDC02, 0xDC03, 0xDC04, 0xDC07, 0xDC09, 0xDC0B, 0xDC41, 0xDC44, 0xDCE0, 0xDC08]),
      (0x3001, [0xDC01, 0xDC02, 0xDC03, 0xDC04, 0xDC07, 0xDC09, 0xDC0B, 0xDC41, 0xDC44, 0xDCE0, 0xDC08])]"

text \<open>Only the first column of flags varies; every group code and form flag but one is zero.\<close>

definition profile :: "u16 \<Rightarrow> u16 \<Rightarrow> u8 \<Rightarrow> u64 \<Rightarrow> u32 \<Rightarrow> u16 \<Rightarrow> profile_property" where
  "profile code typ gs dv grp fmt = \<lparr>prop_code = code, data_type = typ, getset = gs, default_value = dv, group_code = grp, form_flag = 0, format_id = fmt\<rparr>"

definition format_property :: "u16 \<Rightarrow> profile_property" where
  "format_property f = profile 0xDC02 MTP_TYPE_UINT16 0 (ucast f) 0 f"

definition common_properties :: "u16 \<Rightarrow> profile_property list" where
  "common_properties f =
     [profile 0xDC04 MTP_TYPE_UINT64 0 0 0 f, profile 0xDC01 MTP_TYPE_UINT32 0 0 0 f, profile 0xDC03 MTP_TYPE_UINT16 0 0 0 f,
      profile 0xDCE0 MTP_TYPE_STR 0 0 0 f, profile 0xDC07 MTP_TYPE_STR 1 0 0 f, profile 0xDC08 MTP_TYPE_STR 0 0 0 f,
      profile 0xDC09 MTP_TYPE_STR 0 0 0 f, profile 0xDC0B MTP_TYPE_UINT32 0 0 0 f, profile 0xDC41 MTP_TYPE_UINT128 0 0 0 f,
      profile 0xDC44 MTP_TYPE_STR 0 0 0 f]"

definition end_of_table :: profile_property where
  "end_of_table = profile 0xFFFF MTP_TYPE_UINT32 0 0 0 0"

definition properties :: "profile_property list" where
  "properties =
     [profile 0xDC01 MTP_TYPE_UINT32 0 0 1 0xFFFF]
     @ map format_property [0x3000, 0x3001, 0x3004, 0x3005, 0x3008, 0x3009, 0x300B, 0x3801, 0x3804, 0x3007, 0x300B, 0xB901, 0xB902,
         0xB903, 0xB982, 0xB984, 0xBA05, 0xBA10, 0xBA11, 0xBA14, 0xBA82, 0xB906, 0x300A, 0x300C, 0xBA83, 0xBA85, 0xBA86]
     @ common_properties 0x3001 @ common_properties 0x3000
     @ [profile 0xDC06 MTP_TYPE_UINT32 0 0 0 0xFFFF, profile 0xDC03 MTP_TYPE_UINT16 0 0 0 0xFFFF, profile 0xDC0D MTP_TYPE_UINT16 0 0 0 0xFFFF,
        end_of_table]"

definition dev_properties :: "profile_property list" where
  "dev_properties = [profile 0x5001 MTP_TYPE_UINT16 0 0 0 0, profile 0xD402 MTP_TYPE_STR 0 0 0 0, end_of_table]"

text \<open>The loops over a table: the first entry with a property, else the closing entry.\<close>

definition find_property :: "(profile_property \<Rightarrow> bool) \<Rightarrow> profile_property list \<Rightarrow> profile_property" where
  "find_property P table =
     (case find (\<lambda>q. prop_code q = 0xFFFF \<or> P q) table of Some q \<Rightarrow> q | None \<Rightarrow> end_of_table)"

section \<open>Device and storage\<close>

text \<open>\<^verbatim>\<open>%.kd\<close> and \<^verbatim>\<open>%.8X\<close> of \<^verbatim>\<open>printf\<close>, and an ASCII text as bytes.\<close>

definition ascii :: "string \<Rightarrow> bytes" where
  "ascii s = map of_char s"

definition print_dec :: "nat \<Rightarrow> int \<Rightarrow> bytes" where
  "print_dec k n =
     (let ds = ascii (dec_str (nat \<bar>n\<bar>)) in (if n < 0 then [0x2D] else []) @ replicate (k - length ds) 0x30 @ ds)"

definition hex_digit :: "u32 \<Rightarrow> u8" where
  "hex_digit d = (if d < 10 then 0x30 + ucast d else 0x37 + ucast d)"

definition print_hex8 :: "u32 \<Rightarrow> bytes" where
  "print_hex8 w = map (\<lambda>k. hex_digit (drop_bit (4 * k) w AND 0xF)) [7, 6, 5, 4, 3, 2, 1, 0]"

definition build_deviceinfo_dataset :: "mtp_usb_cfg \<Rightarrow> int \<Rightarrow> bytes \<Rightarrow> poke" where
  "build_deviceinfo_dataset cfg maxsize b =
     (let devs = takeWhile (\<lambda>q. prop_code q \<noteq> 0xFFFF) dev_properties in
      fold (poke_field maxsize)
        ([F16 100, F32 6, F16 100, FString (usb_string_mtp_extensions cfg), F16 0,
          FArray 2 (concat (map (le_bytes 2) supported_op)) True, FArray 2 (concat (map (le_bytes 2) supported_event)) True,
          F32 (of_nat (length devs))]
         @ map (\<lambda>q. F16 (prop_code q)) devs
         @ [F32 0, F32 (of_nat (length fmt_properties))]
         @ map (\<lambda>(f, _). F16 f) fmt_properties
         @ [FString (usb_string_manufacturer cfg), FString (usb_string_product cfg), FString (usb_string_version cfg),
            FString (usb_string_serial cfg)]) (0, b))"

text \<open>Total and free space of the file system, with the values that stand for a failed query.\<close>

definition storage_space :: "(u64 \<times> u64 \<times> u64) option \<Rightarrow> u64 \<times> u64" where
  "storage_space st = (case st of None \<Rightarrow> (0x8000000000000000, 0x4000000000000000)
     | Some (bsize, blocks, bavail) \<Rightarrow> (bsize * blocks, bsize * bavail))"

definition split64 :: "u64 \<Rightarrow> field list" where
  "split64 w = [F32 (ucast w), F32 (ucast (drop_bit 32 w))]"

abbreviation (input) UMTP_STORAGE_REMOVABLE :: u32 where "UMTP_STORAGE_REMOVABLE \<equiv> 4"

definition build_storageinfo_dataset :: "mtp_env \<Rightarrow> mtp_storage list \<Rightarrow> u32 \<Rightarrow> int \<Rightarrow> bytes \<Rightarrow> poke" where
  "build_storageinfo_dataset env sts sid maxsize b =
     (let fl = mtp_get_storage_flags sts sid in
      case (mtp_get_storage_description sts sid, mtp_get_storage_root sts sid) of
        (Some desc, Some root) \<Rightarrow>
          (case storage_space (env_statvfs env root) of (totalspace, freespace) \<Rightarrow>
             fold (poke_field maxsize)
               ([F16 (if fl AND UMTP_STORAGE_REMOVABLE \<noteq> 0 then 4 else 3), F16 2, F16 (if fl AND UMTP_STORAGE_READONLY \<noteq> 0 then 1 else 0)]
                @ split64 totalspace @ split64 freespace
                @ [F32 0x40000000, FString desc, FString (ascii ''UMTPRD_'' @ print_hex8 sid)]) (0, b))
      | _ \<Rightarrow> (0, b))"

section \<open>Objects\<close>

definition set_default_date :: tm where
  "set_default_date = \<lparr>tm_year = 110, tm_mon = 0, tm_mday = 0, tm_hour = 0, tm_min = 0, tm_sec = 0\<rparr>"

definition date_string :: "tm \<Rightarrow> bytes" where
  "date_string lt = take 31 (print_dec 4 (1900 + tm_year lt) @ print_dec 2 (tm_mon lt + 1) @ print_dec 2 (tm_mday lt) @ [0x54]
     @ print_dec 2 (tm_hour lt) @ print_dec 2 (tm_min lt) @ print_dec 2 (tm_sec lt))"

definition file_date :: "mtp_env \<Rightarrow> bytes \<Rightarrow> bytes" where
  "file_date env p = date_string (case env_mtime env p of Some lt \<Rightarrow> lt | None \<Rightarrow> set_default_date)"

text \<open>The start of both object datasets: the path and the size of the file, nothing when there is none.\<close>

datatype object_stat = Stat bytes int | NoStat | StatDies

definition stat_object :: "mtp_env \<Rightarrow> mtp_storage list \<Rightarrow> nat \<Rightarrow> fs_handles_db \<Rightarrow> object_stat" where
  "stat_object env sts r db =
     (case entry_path env sts r db of
        PathSome p \<Rightarrow> (case env_stat env p of Some (_, n) \<Rightarrow> Stat p n | None \<Rightarrow> NoStat)
      | PathNull \<Rightarrow> NoStat
      | _ \<Rightarrow> StatDies)"

abbreviation (input) MTP_FORMAT_UNDEFINED :: u16 where "MTP_FORMAT_UNDEFINED \<equiv> 0x3000"

definition objectinfo_fields :: "mtp_env \<Rightarrow> bytes \<Rightarrow> fs_entry \<Rightarrow> field list" where
  "objectinfo_fields env p e =
     [F32 (e_storage e), F16 (if is_dir e then 0x3001 else MTP_FORMAT_UNDEFINED), F16 0,
      F32 (if e_size e \<ge> 0x100000000 then 0xFFFFFFFF else word_of_int (e_size e)), F16 0, F32 0, F32 0, F32 0, F32 0, F32 0, F32 0,
      F32 (e_parent e), F16 (if is_dir e then 1 else 0), F32 0, F32 0, FString (e_name e), FString (file_date env p),
      FString (file_date env p), F08 0]"

text \<open>\<open>None\<close>: building the path kills the process. The size in the entry is brought up to date.\<close>

definition build_objectinfo_dataset :: "mtp_env \<Rightarrow> mtp_storage list \<Rightarrow> nat \<Rightarrow> int \<Rightarrow> fs_handles_db \<Rightarrow> bytes \<Rightarrow> (poke \<times> fs_handles_db) option" where
  "build_objectinfo_dataset env sts r maxsize db b =
     (case stat_object env sts r db of
        StatDies \<Rightarrow> None
      | NoStat \<Rightarrow> Some ((0, b), db)
      | Stat p n \<Rightarrow>
          let db = upd_entry r (e_size_update (\<lambda>_. n)) db
          in Some (fold (poke_field maxsize) (objectinfo_fields env p (pool db ! r)) (0, b), db))"

section \<open>Properties\<close>

definition value_fields :: "u16 \<Rightarrow> u64 \<Rightarrow> field list" where
  "value_fields typ v =
     (if typ = MTP_TYPE_STR \<or> typ = MTP_TYPE_UINT8 then [F08 (ucast v)]
      else if typ = MTP_TYPE_UINT16 then [F16 (ucast v)]
      else if typ = MTP_TYPE_UINT32 then [F32 (ucast v)]
      else if typ = MTP_TYPE_UINT64 then split64 v
      else if typ = MTP_TYPE_UINT128 then replicate 4 (F32 (ucast v))
      else [])"

definition build_properties_dataset :: "u32 \<Rightarrow> u32 \<Rightarrow> int \<Rightarrow> bytes \<Rightarrow> poke" where
  "build_properties_dataset property_id fid maxsize b =
     (let q = find_property (\<lambda>q. ucast (prop_code q) = property_id \<and> ucast (format_id q) = fid) properties;
          q = (if prop_code q = 0xFFFF then find_property (\<lambda>q. ucast (prop_code q) = property_id \<and> format_id q = 0xFFFF) properties else q)
      in if ucast (prop_code q) = property_id then
           fold (poke_field maxsize)
             ([F16 (prop_code q), F16 (data_type q), F08 (getset q)] @ value_fields (data_type q) (default_value q)
              @ [F32 (group_code q), F08 (form_flag q)]) (0, b)
         else (0, b))"

text \<open>Here the value is written twice, and a type without a case ends the dataset.\<close>

definition build_device_properties_dataset :: "u32 \<Rightarrow> int \<Rightarrow> bytes \<Rightarrow> poke" where
  "build_device_properties_dataset property_id maxsize b =
     (let q = find_property (\<lambda>q. ucast (prop_code q) = property_id) dev_properties;
          value = (if data_type q = MTP_TYPE_UINT128 then [] else value_fields (data_type q) (default_value q));
          p = fold (poke_field maxsize) ([F16 (prop_code q), F16 (data_type q), F08 (getset q)] @ value @ value) (0, b)
      in if ucast (prop_code q) \<noteq> property_id then (0, b)
         else if value = [] then (0, snd p)
         else fold (poke_field maxsize) [F32 (group_code q), F08 (form_flag q)] p)"

definition build_properties_supported_dataset :: "u32 \<Rightarrow> int \<Rightarrow> bytes \<Rightarrow> poke" where
  "build_properties_supported_dataset fid maxsize b =
     (case find (\<lambda>(f, _). ucast f = fid) fmt_properties of
        None \<Rightarrow> (0, b)
      | Some (_, ps) \<Rightarrow> fold (poke_field maxsize) (F32 (of_nat (length ps)) # map F16 ps) (0, b))"

text \<open>The value of a property of an object; the dates are constant.\<close>

definition object_prop_fields :: "u32 \<Rightarrow> fs_entry \<Rightarrow> field list" where
  "object_prop_fields code e =
     (if code = 0xDC02 then [F16 (if is_dir e then 0x3001 else MTP_FORMAT_UNDEFINED)]
      else if code = 0xDC04 then split64 (word_of_int (e_size e))
      else if code = 0xDCE0 then [F08 0]
      else if code = 0xDC44 \<or> code = 0xDC07 then [FString (e_name e)]
      else if code = 0xDC01 then [F32 (e_storage e)]
      else if code = 0xDC0B then [F32 (e_parent e)]
      else if code = 0xDC0D \<or> code = 0xDC0E \<or> code = 0xDC03 then [F16 0]
      else if code = 0xDC05 then [F16 (if is_dir e then 1 else 0)]
      else if code = 0xDC06 then [F32 0]
      else if code = 0xDC08 \<or> code = 0xDC09
        then [FString (date_string \<lparr>tm_year = 110, tm_mon = 0, tm_mday = 2, tm_hour = 10, tm_min = 11, tm_sec = 12\<rparr>)]
      else if code = 0xDC41 then [F32 (e_handle e), F32 (e_parent e), F32 (e_storage e), F32 0]
      else [])"

definition build_ObjectPropValue_dataset :: "mtp_storage list \<Rightarrow> u32 \<Rightarrow> u32 \<Rightarrow> fs_handles_db \<Rightarrow> int \<Rightarrow> bytes \<Rightarrow> poke" where
  "build_ObjectPropValue_dataset sts h code db maxsize b =
     (case get_entry_by_handle (mtp_get_storage_root sts) h db of
        None \<Rightarrow> (0, b)
      | Some r \<Rightarrow> fold (poke_field maxsize) (object_prop_fields code (pool db ! r)) (0, b))"

definition build_DevicePropValue_dataset :: "mtp_usb_cfg \<Rightarrow> u32 \<Rightarrow> int \<Rightarrow> bytes \<Rightarrow> poke" where
  "build_DevicePropValue_dataset cfg code maxsize b =
     (if code = 0x5001 then poke16 maxsize 0x8000 (0, b)
      else if code = 0xD402 then poke_string maxsize (usb_string_product cfg) (0, b)
      else (0, b))"

section \<open>Property lists\<close>

text \<open>
  \<open>data\<close> are the bytes that the pointer points to, read as the table says. For a 128-bit value
  the first word and its three successors are written, not the four words of the array.
\<close>

definition data_fields :: "u16 \<Rightarrow> bytes \<Rightarrow> field list" where
  "data_fields typ data =
     (if typ = MTP_TYPE_STR then [FString (c_str data)]
      else if typ = MTP_TYPE_UINT8 then [F08 (rd data 0)]
      else if typ = MTP_TYPE_UINT16 then [F16 (ucast (peek data 0 2))]
      else if typ = MTP_TYPE_UINT32 then [F32 (peek data 0 4)]
      else if typ = MTP_TYPE_UINT64 then split64 (peek64 data 0 8)
      else if typ = MTP_TYPE_UINT128 then map (\<lambda>i. F32 (peek data 0 4 + of_nat i)) [0..<4]
      else [])"

definition objectproplist_element :: "int \<Rightarrow> u16 \<Rightarrow> u32 \<Rightarrow> bytes \<Rightarrow> u32 \<Rightarrow> nat \<times> poke \<Rightarrow> nat \<times> poke" where
  "objectproplist_element maxsize code h data code_param st =
     (case st of (n, p) \<Rightarrow>
        if ucast code \<noteq> code_param \<and> code_param \<noteq> 0xFFFFFFFF then (n, p)
        else let q = find_property (\<lambda>q. prop_code q = code) properties in
          if prop_code q = code then
            (n + 1, fold (poke_field maxsize) ([F32 h, F16 (prop_code q), F16 (data_type q)] @ data_fields (data_type q) data) p)
          else (n, p))"

text \<open>The elements in their order, each with the memory that is passed for it.\<close>

definition proplist_elements :: "mtp_env \<Rightarrow> bytes \<Rightarrow> fs_entry \<Rightarrow> (u16 \<times> bytes) list" where
  "proplist_elements env p e =
     [(0xDC01, le_bytes 4 (e_storage e)),
      (0xDC02, le_bytes 4 (if is_dir e then 0x3001 else 0x3000 :: u32)),
      (0xDC05, le_bytes 4 (if is_dir e then 1 else 0 :: u32)),
      (0xDC0B, le_bytes 4 (e_parent e)),
      (0xDC04, le_bytes 8 (word_of_int (e_size e) :: u64)),
      (0xDC03, le_bytes 4 (0 :: u32)),
      (0xDC07, e_name e @ [0]),
      (0xDC44, e_name e @ [0]),
      (0xDCE0, replicate 16 0),
      (0xDC08, file_date env p @ [0]),
      (0xDC09, file_date env p @ [0]),
      (0xDC41, le_bytes 4 (e_handle e) @ le_bytes 4 (e_parent e) @ le_bytes 4 (e_storage e) @ le_bytes 4 (0 :: u32))]"

definition build_objectproplist_dataset ::
  "mtp_env \<Rightarrow> mtp_storage list \<Rightarrow> nat \<Rightarrow> u32 \<Rightarrow> u32 \<Rightarrow> int \<Rightarrow> fs_handles_db \<Rightarrow> bytes \<Rightarrow> (poke \<times> fs_handles_db) option" where
  "build_objectproplist_dataset env sts r h code maxsize db b =
     (case stat_object env sts r db of
        StatDies \<Rightarrow> None
      | NoStat \<Rightarrow> Some ((0, b), db)
      | Stat p n \<Rightarrow>
          let db = upd_entry r (e_size_update (\<lambda>_. n)) db;
              (numberofelements, ofs, b) = fold (\<lambda>(c, data). objectproplist_element maxsize c h data code)
                (proplist_elements env p (pool db ! r)) (0, poke32 maxsize 0 (0, b))
          in Some ((ofs, snd (poke32 maxsize (of_nat numberofelements) (0, b))), db))"

end
