(* ===== verification/Mtp_Requests.thy ===== *)
theory Mtp_Requests
  imports Mtp_Datasets
begin

text \<open>
  The operations that answer with a dataset (\<^verbatim>\<open>umtprd/src/mtp_operations\<close>) and the dispatcher of
  \<^verbatim>\<open>mtp.c\<close>: \<open>process_in_packet\<close> runs the operation of a packet and sends its status,
  \<open>mtp_incoming_packet\<close> reads the packet. A packet is the list of the bytes received.
\<close>

section \<open>Answers with a dataset\<close>

text \<open>A builder writes behind the header, into the rest of the buffer.\<close>

definition write_dataset :: "(int \<Rightarrow> bytes \<Rightarrow> poke) \<Rightarrow> mtp_ctx \<Rightarrow> int \<times> mtp_ctx" where
  "write_dataset build ctx =
     (case build (usb_wr_buffer_max_size ctx - 12) (drop 12 (wrbuffer ctx)) of
        (n, b) \<Rightarrow> (n, ctx\<lparr>wrbuffer := take 12 (wrbuffer ctx) @ b\<rparr>))"

definition send_container :: "int \<Rightarrow> mtp_ctx \<Rightarrow> mtp_ctx" where
  "send_container sz ctx =
     (let b = snd (poke32 (usb_wr_buffer_max_size ctx) (word_of_int sz) (0, wrbuffer ctx))
      in check_and_send_USB_ZLP sz (emit_mtp (UsbWrite (take (nat sz) b)) (ctx\<lparr>wrbuffer := b\<rparr>)))"

text \<open>\<open>unsupported\<close> is the response for an empty dataset; without one the header is sent alone.\<close>

definition reply_dataset :: "bytes \<Rightarrow> u32 option \<Rightarrow> (int \<Rightarrow> bytes \<Rightarrow> poke) \<Rightarrow> mtp_ctx \<Rightarrow> u32 \<times> mtp_ctx" where
  "reply_dataset pk unsupported build ctx =
     (case data_header pk ctx of (sz, ctx) \<Rightarrow>
        if sz < 0 then (MTP_RESPONSE_GENERAL_ERROR, ctx)
        else case write_dataset build ctx of (n, ctx) \<Rightarrow>
          if n < 0 then (MTP_RESPONSE_GENERAL_ERROR, ctx)
          else case unsupported of
            Some code \<Rightarrow> if sz + n > 12 then (MTP_RESPONSE_OK, send_container (sz + n) ctx) else (code, ctx)
          | None \<Rightarrow> (MTP_RESPONSE_OK, send_container (sz + n) ctx))"

definition mtp_op_GetDeviceInfos :: "bytes \<Rightarrow> mtp_ctx \<Rightarrow> op_result" where
  "mtp_op_GetDeviceInfos pk ctx =
     (case reply_dataset pk None (build_deviceinfo_dataset (usb_cfg ctx)) ctx of (code, ctx) \<Rightarrow> Some (code, [], ctx))"

definition mtp_op_GetStorageInfo :: "mtp_env \<Rightarrow> bytes \<Rightarrow> mtp_ctx \<Rightarrow> op_result" where
  "mtp_op_GetStorageInfo env pk ctx =
     (case fs_db ctx of None \<Rightarrow> Some (MTP_RESPONSE_SESSION_NOT_OPEN, [], ctx)
      | Some _ \<Rightarrow>
          let sid = peek pk 12 4 in
          if mtp_get_storage_root (storages ctx) sid = None then Some (MTP_RESPONSE_INVALID_STORAGE_ID, [], ctx)
          else case reply_dataset pk None (build_storageinfo_dataset env (storages ctx) sid) ctx of (code, ctx) \<Rightarrow> Some (code, [], ctx))"

definition mtp_op_GetDevicePropDesc :: "bytes \<Rightarrow> mtp_ctx \<Rightarrow> op_result" where
  "mtp_op_GetDevicePropDesc pk ctx =
     (case fs_db ctx of None \<Rightarrow> Some (MTP_RESPONSE_SESSION_NOT_OPEN, [], ctx)
      | Some _ \<Rightarrow>
          (case reply_dataset pk (Some MTP_RESPONSE_OPERATION_NOT_SUPPORTED) (build_device_properties_dataset (peek pk 12 4)) ctx of
             (code, ctx) \<Rightarrow> Some (code, [], ctx)))"

abbreviation (input) MTP_RESPONSE_DEVICE_PROP_NOT_SUPPORTED :: u32 where "MTP_RESPONSE_DEVICE_PROP_NOT_SUPPORTED \<equiv> 0x200A"
abbreviation (input) MTP_RESPONSE_PARAMETER_NOT_SUPPORTED :: u32 where "MTP_RESPONSE_PARAMETER_NOT_SUPPORTED \<equiv> 0x2006"

definition mtp_op_GetDevicePropValue :: "bytes \<Rightarrow> mtp_ctx \<Rightarrow> op_result" where
  "mtp_op_GetDevicePropValue pk ctx =
     (case fs_db ctx of None \<Rightarrow> Some (MTP_RESPONSE_SESSION_NOT_OPEN, [], ctx)
      | Some _ \<Rightarrow>
          (case reply_dataset pk (Some MTP_RESPONSE_DEVICE_PROP_NOT_SUPPORTED) (build_DevicePropValue_dataset (usb_cfg ctx) (peek pk 12 4)) ctx of
             (code, ctx) \<Rightarrow> Some (code, [], ctx)))"

definition mtp_op_GetObjectPropDesc :: "bytes \<Rightarrow> mtp_ctx \<Rightarrow> op_result" where
  "mtp_op_GetObjectPropDesc pk ctx =
     (case fs_db ctx of None \<Rightarrow> Some (MTP_RESPONSE_SESSION_NOT_OPEN, [], ctx)
      | Some _ \<Rightarrow>
          (case reply_dataset pk (Some MTP_RESPONSE_OPERATION_NOT_SUPPORTED) (build_properties_dataset (peek pk 12 4) (peek pk 16 4)) ctx of
             (code, ctx) \<Rightarrow> Some (code, [], ctx)))"

definition mtp_op_GetObjectPropsSupported :: "bytes \<Rightarrow> mtp_ctx \<Rightarrow> op_result" where
  "mtp_op_GetObjectPropsSupported pk ctx =
     (case fs_db ctx of None \<Rightarrow> Some (MTP_RESPONSE_SESSION_NOT_OPEN, [], ctx)
      | Some _ \<Rightarrow>
          (case reply_dataset pk None (build_properties_supported_dataset (peek pk 12 4)) ctx of (code, ctx) \<Rightarrow> Some (code, [], ctx)))"

definition mtp_op_GetObjectPropValue :: "bytes \<Rightarrow> mtp_ctx \<Rightarrow> op_result" where
  "mtp_op_GetObjectPropValue pk ctx =
     (case fs_db ctx of None \<Rightarrow> Some (MTP_RESPONSE_SESSION_NOT_OPEN, [], ctx)
      | Some db \<Rightarrow>
          let h = peek pk 12 4 in
          if get_entry_by_handle (mtp_get_storage_root (storages ctx)) h db = None then Some (MTP_RESPONSE_INVALID_OBJECT_HANDLE, [], ctx)
          else case reply_dataset pk None (build_ObjectPropValue_dataset (storages ctx) h (peek pk 16 4) db) ctx of
            (code, ctx) \<Rightarrow> Some (code, [], ctx))"

text \<open>
  The two datasets that look at the file: the builder's result is computed for the buffer that
  the header leaves, and the entry is updated.
\<close>

definition reply_object ::
  "bytes \<Rightarrow> (int \<Rightarrow> fs_handles_db \<Rightarrow> bytes \<Rightarrow> (poke \<times> fs_handles_db) option) \<Rightarrow> fs_handles_db \<Rightarrow> mtp_ctx \<Rightarrow> op_result" where
  "reply_object pk build db ctx =
     (if fst (data_header pk ctx) < 0 then Some (MTP_RESPONSE_GENERAL_ERROR, [], snd (data_header pk ctx))
      else case build (usb_wr_buffer_max_size ctx - 12) db (drop 12 (wrbuffer (snd (data_header pk ctx)))) of
        None \<Rightarrow> None
      | Some (p, db) \<Rightarrow> (case reply_dataset pk None (\<lambda>_ _. p) ctx of (code, ctx) \<Rightarrow> Some (code, [], ctx\<lparr>fs_db := Some db\<rparr>)))"

definition mtp_op_GetObjectInfo :: "mtp_env \<Rightarrow> bytes \<Rightarrow> mtp_ctx \<Rightarrow> op_result" where
  "mtp_op_GetObjectInfo env pk ctx =
     (case fs_db ctx of None \<Rightarrow> Some (MTP_RESPONSE_SESSION_NOT_OPEN, [], ctx)
      | Some db \<Rightarrow>
          (case get_entry_by_handle (mtp_get_storage_root (storages ctx)) (peek pk 12 4) db of
             None \<Rightarrow> Some (MTP_RESPONSE_INVALID_OBJECT_HANDLE, [], ctx)
           | Some r \<Rightarrow> reply_object pk (build_objectinfo_dataset env (storages ctx) r) db ctx))"

definition mtp_op_GetObjectPropList :: "mtp_env \<Rightarrow> bytes \<Rightarrow> mtp_ctx \<Rightarrow> op_result" where
  "mtp_op_GetObjectPropList env pk ctx =
     (case fs_db ctx of None \<Rightarrow> Some (MTP_RESPONSE_SESSION_NOT_OPEN, [], ctx)
      | Some db \<Rightarrow>
          let h = peek pk 12 4; code = peek pk 20 4 in
          if code = 0 \<and> peek pk 24 4 = 0 then Some (MTP_RESPONSE_PARAMETER_NOT_SUPPORTED, [], ctx)
          else case get_entry_by_handle (mtp_get_storage_root (storages ctx)) h db of
            None \<Rightarrow> Some (MTP_RESPONSE_INVALID_OBJECT_HANDLE, [], ctx)
          | Some r \<Rightarrow> reply_object pk (build_objectproplist_dataset env (storages ctx) r h code) db ctx)"

definition mtp_op_GetObjectReferences :: "bytes \<Rightarrow> mtp_ctx \<Rightarrow> op_result" where
  "mtp_op_GetObjectReferences pk ctx =
     (case fs_db ctx of None \<Rightarrow> Some (MTP_RESPONSE_SESSION_NOT_OPEN, [], ctx)
      | Some db \<Rightarrow>
          if get_entry_by_handle (mtp_get_storage_root (storages ctx)) (peek pk 12 4) db = None
          then Some (MTP_RESPONSE_INVALID_OBJECT_HANDLE, [], ctx)
          else (case data_header pk ctx of (sz, ctx) \<Rightarrow>
            case poke32 (usb_wr_buffer_max_size ctx) 0 (sz, wrbuffer ctx) of (sz, b) \<Rightarrow>
              if sz < 0 then Some (MTP_RESPONSE_GENERAL_ERROR, [], ctx\<lparr>wrbuffer := b\<rparr>)
              else Some (MTP_RESPONSE_OK, [], send_container sz (ctx\<lparr>wrbuffer := b\<rparr>))))"

section \<open>Dispatch\<close>

abbreviation (input) MTP_CONTAINER_TYPE_RESPONSE :: u16 where "MTP_CONTAINER_TYPE_RESPONSE \<equiv> 3"

text \<open>The operation of a code; nothing for a code without a case.\<close>

definition operation :: "u16 \<Rightarrow> (mtp_env \<Rightarrow> bytes \<Rightarrow> mtp_ctx \<Rightarrow> op_result) option" where
  "operation code =
     (if code = 0x1002 then Some mtp_op_OpenSession
      else if code = 0x1003 then Some (\<lambda>_ _. mtp_op_CloseSession)
      else if code = 0x1001 then Some (\<lambda>_. mtp_op_GetDeviceInfos)
      else if code = 0x1004 then Some (\<lambda>_. mtp_op_GetStorageIDs)
      else if code = 0x1005 then Some mtp_op_GetStorageInfo
      else if code = 0x1014 then Some (\<lambda>_. mtp_op_GetDevicePropDesc)
      else if code = 0x1015 then Some (\<lambda>_. mtp_op_GetDevicePropValue)
      else if code = 0x1007 then Some mtp_op_GetObjectHandles
      else if code = 0x1008 then Some mtp_op_GetObjectInfo
      else if code = 0x95C1 \<or> code = 0x101B then Some mtp_op_GetPartialObject
      else if code = 0x1009 then Some mtp_op_GetObject
      else if code = 0x100C then Some mtp_op_SendObjectInfo
      else if code = 0x95C2 \<or> code = 0x100D then Some mtp_op_SendObject
      else if code = 0x100B then Some mtp_op_DeleteObject
      else if code = 0x9801 then Some (\<lambda>_. mtp_op_GetObjectPropsSupported)
      else if code = 0x9802 then Some (\<lambda>_. mtp_op_GetObjectPropDesc)
      else if code = 0x9803 then Some (\<lambda>_. mtp_op_GetObjectPropValue)
      else if code = 0x9804 then Some mtp_op_SetObjectPropValue
      else if code = 0x9805 then Some mtp_op_GetObjectPropList
      else if code = 0x9810 then Some (\<lambda>_. mtp_op_GetObjectReferences)
      else if code = 0x95C4 then Some (\<lambda>_. mtp_op_BeginEditObject)
      else if code = 0x95C5 then Some (\<lambda>_. mtp_op_EndEditObject)
      else if code = 0x95C3 then Some mtp_op_TruncateObject
      else None)"

definition run_operation :: "mtp_env \<Rightarrow> bytes \<Rightarrow> mtp_ctx \<Rightarrow> op_result" where
  "run_operation env pk ctx =
     (case operation (hdr_code (packet_header pk)) of
        None \<Rightarrow> Some (MTP_RESPONSE_OPERATION_NOT_SUPPORTED, [], ctx)
      | Some f \<Rightarrow> f env pk ctx)"

text \<open>The status response, unless the operation wants none.\<close>

definition send_status :: "u32 \<Rightarrow> u32 \<Rightarrow> u32 list \<Rightarrow> mtp_ctx \<Rightarrow> mtp_ctx" where
  "send_status tx_id code params ctx =
     (if code = MTP_RESPONSE_NO_RESPONSE then ctx
      else case build_response tx_id MTP_CONTAINER_TYPE_RESPONSE (ucast code) (usb_wr_buffer_max_size ctx)
                  (concat (map (le_bytes 4) params)) (wrbuffer ctx) of
        (sz, b) \<Rightarrow> if sz \<ge> 0 then emit_mtp (UsbWrite (take (nat sz) b)) (ctx\<lparr>wrbuffer := b\<rparr>) else ctx\<lparr>wrbuffer := b\<rparr>)"

definition process_in_packet :: "mtp_env \<Rightarrow> bytes \<Rightarrow> mtp_ctx \<Rightarrow> mtp_ctx option" where
  "process_in_packet env pk ctx =
     (case run_operation env pk ctx of None \<Rightarrow> None
      | Some (code, params, ctx) \<Rightarrow> Some (send_status (hdr_tx_id (packet_header pk)) code params ctx))"

text \<open>The result is -1 when the read fails. A zero-length packet is dropped.\<close>

definition mtp_incoming_packet :: "mtp_env \<Rightarrow> int \<times> bytes \<Rightarrow> mtp_ctx \<Rightarrow> (int \<times> mtp_ctx) option" where
  "mtp_incoming_packet env received ctx =
     (case received of (sz, pk) \<Rightarrow>
        if sz < 0 then Some (-1, ctx)
        else if sz = 0 then Some (0, ctx)
        else map_option (\<lambda>ctx. (0, ctx)) (process_in_packet env pk ctx))"

text \<open>An event packet on the interrupt endpoint, built in a buffer of 64 bytes.\<close>

definition mtp_push_event :: "u32 \<Rightarrow> u32 list \<Rightarrow> mtp_ctx \<Rightarrow> mtp_ctx" where
  "mtp_push_event event params ctx =
     (case build_event_dataset (session_id ctx) 64 event params (replicate 64 0) of
        (sz, b) \<Rightarrow> if sz < 0 then ctx else emit_mtp (UsbEvent (take (nat sz) b)) ctx)"

section \<open>Connections\<close>

definition mtp_set_usb_handle :: "int \<Rightarrow> mtp_ctx \<Rightarrow> mtp_ctx" where
  "mtp_set_usb_handle packet_size ctx = ctx\<lparr>max_packet_size := packet_size\<rparr>"

text \<open>The end of a connection in \<^verbatim>\<open>main_thread\<close>: the database is freed.\<close>

definition end_connection :: "mtp_ctx \<Rightarrow> mtp_ctx" where
  "end_connection ctx =
     (case fs_db ctx of None \<Rightarrow> ctx
      | Some db \<Rightarrow> ctx\<lparr>fs_db := None, mtp_trace := mtp_trace ctx @ map DbEffect (deinit_fs_db (sync_when_close ctx) db)\<rparr>)"

end
