(* ===== verification/Mtp_Config.thy ===== *)
theory Mtp_Config
  imports Mtp_Datasets
begin

text \<open>
  The configuration of the responder: \<^verbatim>\<open>umtprd/src/mtp_cfg.c\<close> and the initial state of
  \<^verbatim>\<open>mtp_init_responder\<close>. A line is a C string without its NUL, reading at its end gives the
  NUL. \<^verbatim>\<open>unsigned long\<close> has 32 bits on the device.
\<close>

section \<open>Lines\<close>

abbreviation (input) MAX_CFG_STRING_SIZE :: nat where "MAX_CFG_STRING_SIZE \<equiv> 512"

definition char_at :: "string \<Rightarrow> nat \<Rightarrow> char" where
  "char_at line i = (if i < length line then line ! i else nul)"

definition is_end_line :: "char \<Rightarrow> bool" where
  "is_end_line c \<longleftrightarrow> c = nul \<or> c = CHR ''#'' \<or> c = CHR 0x0D \<or> c = CHR 0x0A"

definition is_blank :: "char \<Rightarrow> bool" where
  "is_blank c \<longleftrightarrow> c = CHR '' '' \<or> c = CHR 0x09"

text \<open>Only spaces are skipped, although a tab ends a word as well.\<close>

definition get_next_word :: "string \<Rightarrow> nat \<Rightarrow> nat" where
  "get_next_word line offset = offset + length (takeWhile (\<lambda>c. \<not> is_end_line c \<and> c = CHR '' '') (drop offset line))"

text \<open>The characters copied, at most 511, and the number of characters read.\<close>

fun copy_loop :: "nat \<Rightarrow> bool \<Rightarrow> string \<Rightarrow> string \<times> nat" where
  "copy_loop i insidequote [] = ([], 0)"
| "copy_loop i insidequote (c # cs) =
     (if \<not> is_end_line c \<and> (insidequote \<or> \<not> is_blank c) \<and> i < MAX_CFG_STRING_SIZE - 1 then
        if c \<noteq> CHR 0x22 then (case copy_loop (i + 1) insidequote cs of (s, k) \<Rightarrow> (c # s, k + 1))
        else (case copy_loop i (\<not> insidequote) cs of (s, k) \<Rightarrow> (s, k + 1))
      else ([], 0))"

definition copy_param :: "string \<Rightarrow> nat \<Rightarrow> string \<times> nat" where
  "copy_param line offs = (case copy_loop 0 False (drop offs line) of (s, k) \<Rightarrow> (s, offs + k))"

fun skip_params :: "string \<Rightarrow> nat \<Rightarrow> nat \<Rightarrow> nat option" where
  "skip_params line 0 offs = Some offs"
| "skip_params line (Suc n) offs =
     (let offs = get_next_word line (snd (copy_param line offs)) in
      if char_at line offs = nul \<or> char_at line offs = CHR ''#'' then None else skip_params line n offs)"

definition get_param_offset :: "string \<Rightarrow> nat \<Rightarrow> nat option" where
  "get_param_offset line param = skip_params line param (get_next_word line 0)"

definition get_param :: "string \<Rightarrow> nat \<Rightarrow> string option" where
  "get_param line param = map_option (\<lambda>offs. fst (copy_param line offs)) (get_param_offset line param)"

text \<open>The first word; the empty word is the result 0.\<close>

definition extract_cmd :: "string \<Rightarrow> string" where
  "extract_cmd line = take (MAX_CFG_STRING_SIZE - 1) (takeWhile (\<lambda>c. \<not> is_end_line c \<and> \<not> is_blank c) (drop (get_next_word line 0) line))"

text \<open>A flag of a comma-separated list: nothing when absent, else its value if it has one.\<close>

fun flag_loop :: "string \<Rightarrow> char \<Rightarrow> string \<Rightarrow> string option option" where
  "flag_loop flag previous_char [] = None"
| "flag_loop flag previous_char (c # cs) =
     (let rest = drop (length flag) (c # cs); sep = char_at rest 0 in
      if take (length flag) (c # cs) = flag \<and> (previous_char = nul \<or> previous_char = CHR '','')
         \<and> (sep = nul \<or> sep = CHR '','' \<or> sep = CHR ''='')
      then Some (if sep = CHR ''='' then Some (take (MAX_CFG_STRING_SIZE - 1) (takeWhile (\<lambda>d. d \<noteq> CHR '','' \<and> d \<noteq> CHR '' '') (drop 1 rest))) else None)
      else flag_loop flag c cs)"

definition test_flag :: "string \<Rightarrow> string \<Rightarrow> string option option" where
  "test_flag str flag = flag_loop flag nul str"

section \<open>Numbers\<close>

text \<open>\<^verbatim>\<open>strtoul\<close> in a base up to 16; values out of range are clamped.\<close>

definition digit_value :: "char \<Rightarrow> nat option" where
  "digit_value c =
     (let n = (of_char c :: nat) in
      if 48 \<le> n \<and> n \<le> 57 then Some (n - 48) else if 65 \<le> n \<and> n \<le> 70 then Some (n - 55)
      else if 97 \<le> n \<and> n \<le> 102 then Some (n - 87) else None)"

fun base_digits :: "nat \<Rightarrow> nat \<Rightarrow> string \<Rightarrow> nat" where
  "base_digits b acc [] = acc"
| "base_digits b acc (c # cs) =
     (case digit_value c of None \<Rightarrow> acc | Some d \<Rightarrow> if d < b then base_digits b (b * acc + d) cs else acc)"

definition strtoul :: "nat \<Rightarrow> string \<Rightarrow> u32" where
  "strtoul b str =
     (let t = dropWhile is_space str;
          neg = (t \<noteq> [] \<and> hd t = CHR ''-'');
          t = (if t \<noteq> [] \<and> (hd t = CHR ''-'' \<or> hd t = CHR ''+'') then tl t else t);
          t = (if b = 16 \<and> take 1 t = ''0'' \<and> (take 1 (drop 1 t) = ''x'' \<or> take 1 (drop 1 t) = ''X'')
                  \<and> (case drop 2 t of [] \<Rightarrow> False | c # _ \<Rightarrow> digit_value c \<noteq> None) then drop 2 t else t);
          n = base_digits b 0 t
      in if n \<ge> 2 ^ 32 then 0xFFFFFFFF else if neg then - of_nat n else of_nat n)"

section \<open>Storages\<close>

text \<open>
  What the options of a storage say: flags, user and group. \<open>junk\<close> is what the buffer for a
  value holds before; a \<open>uid\<close> or \<open>gid\<close> without a value reads it.
\<close>

definition storage_options :: "string \<Rightarrow> string \<Rightarrow> u32 \<times> int \<times> int" where
  "storage_options junk options =
     (let flags = (if test_flag options ''ro'' \<noteq> None then 1 else 0)
            OR (if test_flag options ''notmounted'' \<noteq> None then 2 else 0)
            OR (if test_flag options ''removable'' \<noteq> None then 4 else 0)
            OR (if test_flag options ''locked'' \<noteq> None then 0x18 else 0);
          u = test_flag options ''uid'';
          tmpstr = (case u of Some (Some v) \<Rightarrow> v | _ \<Rightarrow> junk);
          g = test_flag options ''gid'';
          tmpstr' = (case g of Some (Some v) \<Rightarrow> v | _ \<Rightarrow> tmpstr)
      in (flags, if u \<noteq> None then atoi tmpstr else -1, if g \<noteq> None then atoi tmpstr' else -1))"

text \<open>\<open>rp\<close> is \<^verbatim>\<open>realpath\<close>, \<open>mem_ok\<close> the allocation in \<open>mtp_add_storage\<close>.\<close>

record cfg_env =
  cfg_realpath :: "bytes \<Rightarrow> bytes option"
  cfg_mem_ok :: bool
  cfg_junk :: string

definition mtp_add_storage_from_line :: "cfg_env \<Rightarrow> string \<Rightarrow> nat \<Rightarrow> mtp_ctx \<Rightarrow> mtp_ctx" where
  "mtp_add_storage_from_line ce line idx ctx =
     (case (get_param line (idx + 1), get_param line idx) of
        (Some name, Some path) \<Rightarrow>
          (case (case get_param line (idx + 2) of None \<Rightarrow> (0, -1, -1) | Some options \<Rightarrow> storage_options (cfg_junk ce) options) of
             (flags, uid, gid) \<Rightarrow>
               ctx\<lparr>storages := snd (mtp_add_storage (cfg_realpath ce (ascii path)) (cfg_mem_ok ce) (ascii name) uid gid flags (storages ctx))\<rparr>)
      | _ \<Rightarrow> ctx)"

definition mtp_remove_storage_from_line :: "string \<Rightarrow> nat \<Rightarrow> mtp_ctx \<Rightarrow> int \<times> mtp_ctx" where
  "mtp_remove_storage_from_line line idx ctx =
     (case get_param line idx of None \<Rightarrow> (-1, ctx)
      | Some name \<Rightarrow> (case mtp_remove_storage (ascii name) (storages ctx) of (ret, sts) \<Rightarrow> (ret, ctx\<lparr>storages := sts\<rparr>)))"

section \<open>Commands\<close>

datatype cfg_cmd =
    STORAGE_CMD | USBVENDORID_CMD | USBPRODUCTID_CMD | USBCLASS_CMD | USBSUBCLASS_CMD | USBPROTOCOL_CMD | USBDEVVERSION_CMD
  | USBMAXPACKETSIZE_CMD | USBFUNCTIONFSMODE_CMD | USBMAXRDBUFFERSIZE_CMD | USBMAXWRBUFFERSIZE_CMD | READBUFFERSIZE_CMD
  | USB_DEV_PATH_CMD | USB_EPIN_PATH_CMD | USB_EPOUT_PATH_CMD | USB_EPINT_PATH_CMD | MANUFACTURER_STRING_CMD | PRODUCT_STRING_CMD
  | SERIAL_STRING_CMD | VERSION_STRING_CMD | MTP_EXTENSIONS_STRING_CMD | INTERFACE_STRING_CMD | WAIT_CONNECTION | LOOP_ON_DISCONNECT
  | SHOW_HIDDEN_FILES | UMASK | DEFAULT_UID_CMD | DEFAULT_GID_CMD | NO_INOTIFY | SYNC_WHEN_CLOSE

datatype kw_func = StorageParams | HexParam | StrParam | OctParam | DecParam

definition set_cfg :: "(mtp_usb_cfg \<Rightarrow> mtp_usb_cfg) \<Rightarrow> mtp_ctx \<Rightarrow> mtp_ctx" where
  "set_cfg f ctx = ctx\<lparr>usb_cfg := f (usb_cfg ctx)\<rparr>"

text \<open>A number for a field of fewer bits is refused when it does not fit.\<close>

fun set_hex :: "cfg_cmd \<Rightarrow> u32 \<Rightarrow> mtp_ctx \<Rightarrow> mtp_ctx" where
  "set_hex USBVENDORID_CMD v ctx = (if v < 0x10000 then set_cfg (usb_vendor_id_update (\<lambda>_. ucast v)) ctx else ctx)"
| "set_hex USBPRODUCTID_CMD v ctx = (if v < 0x10000 then set_cfg (usb_product_id_update (\<lambda>_. ucast v)) ctx else ctx)"
| "set_hex USBCLASS_CMD v ctx = (if v < 256 then set_cfg (usb_class_update (\<lambda>_. ucast v)) ctx else ctx)"
| "set_hex USBSUBCLASS_CMD v ctx = (if v < 256 then set_cfg (usb_subclass_update (\<lambda>_. ucast v)) ctx else ctx)"
| "set_hex USBPROTOCOL_CMD v ctx = (if v < 256 then set_cfg (usb_protocol_update (\<lambda>_. ucast v)) ctx else ctx)"
| "set_hex USBDEVVERSION_CMD v ctx = (if v < 0x10000 then set_cfg (usb_dev_version_update (\<lambda>_. ucast v)) ctx else ctx)"
| "set_hex USBMAXPACKETSIZE_CMD v ctx = set_cfg (usb_max_packet_size_update (\<lambda>_. if v < 0x10000 then ucast v else 512)) ctx"
| "set_hex USBMAXRDBUFFERSIZE_CMD v ctx = ctx\<lparr>usb_rd_buffer_max_size := sint (v AND NOT 511)\<rparr>"
| "set_hex USBMAXWRBUFFERSIZE_CMD v ctx = ctx\<lparr>usb_wr_buffer_max_size := sint (v AND NOT 511)\<rparr>"
| "set_hex READBUFFERSIZE_CMD v ctx = ctx\<lparr>read_file_buffer_size := sint v\<rparr>"
| "set_hex USBFUNCTIONFSMODE_CMD v ctx = set_cfg (usb_functionfs_mode_update (\<lambda>_. if v \<noteq> 0 then 1 else 0)) ctx"
| "set_hex WAIT_CONNECTION v ctx = set_cfg (wait_connection_update (\<lambda>_. sint v)) ctx"
| "set_hex LOOP_ON_DISCONNECT v ctx = set_cfg (loop_on_disconnect_update (\<lambda>_. sint v)) ctx"
| "set_hex SHOW_HIDDEN_FILES v ctx = set_cfg (show_hidden_files_update (\<lambda>_. sint v)) ctx"
| "set_hex NO_INOTIFY v ctx = ctx\<lparr>no_inotify := (v \<noteq> 0)\<rparr>"
| "set_hex SYNC_WHEN_CLOSE v ctx = ctx\<lparr>sync_when_close := (v \<noteq> 0)\<rparr>"
| "set_hex _ v ctx = ctx"

fun set_str :: "cfg_cmd \<Rightarrow> bytes \<Rightarrow> mtp_usb_cfg \<Rightarrow> mtp_usb_cfg" where
  "set_str USB_DEV_PATH_CMD s = usb_device_path_update (\<lambda>_. s)"
| "set_str USB_EPIN_PATH_CMD s = usb_endpoint_in_update (\<lambda>_. s)"
| "set_str USB_EPOUT_PATH_CMD s = usb_endpoint_out_update (\<lambda>_. s)"
| "set_str USB_EPINT_PATH_CMD s = usb_endpoint_intin_update (\<lambda>_. s)"
| "set_str MANUFACTURER_STRING_CMD s = usb_string_manufacturer_update (\<lambda>_. s)"
| "set_str PRODUCT_STRING_CMD s = usb_string_product_update (\<lambda>_. s)"
| "set_str SERIAL_STRING_CMD s = usb_string_serial_update (\<lambda>_. s)"
| "set_str VERSION_STRING_CMD s = usb_string_version_update (\<lambda>_. s)"
| "set_str MTP_EXTENSIONS_STRING_CMD s = usb_string_mtp_extensions_update (\<lambda>_. s)"
| "set_str INTERFACE_STRING_CMD s = usb_string_interface_update (\<lambda>_. s)"
| "set_str _ s = (\<lambda>cfg. cfg)"

fun set_dec :: "cfg_cmd \<Rightarrow> u32 \<Rightarrow> mtp_ctx \<Rightarrow> mtp_ctx" where
  "set_dec DEFAULT_UID_CMD v ctx = ctx\<lparr>default_uid := sint v\<rparr>"
| "set_dec DEFAULT_GID_CMD v ctx = ctx\<lparr>default_gid := sint v\<rparr>"
| "set_dec _ v ctx = ctx"

definition get_hex_param :: "string \<Rightarrow> cfg_cmd \<Rightarrow> mtp_ctx \<Rightarrow> mtp_ctx" where
  "get_hex_param line cmd ctx = (case get_param line 1 of None \<Rightarrow> ctx | Some t \<Rightarrow> set_hex cmd (strtoul 16 t) ctx)"

definition get_str_param :: "string \<Rightarrow> cfg_cmd \<Rightarrow> mtp_ctx \<Rightarrow> mtp_ctx" where
  "get_str_param line cmd ctx = (case get_param line 1 of None \<Rightarrow> ctx | Some t \<Rightarrow> set_cfg (set_str cmd (ascii t)) ctx)"

definition get_oct_param :: "string \<Rightarrow> cfg_cmd \<Rightarrow> mtp_ctx \<Rightarrow> mtp_ctx" where
  "get_oct_param line cmd ctx =
     (case get_param line 1 of None \<Rightarrow> ctx
      | Some t \<Rightarrow> if cmd = UMASK then set_cfg (val_umask_update (\<lambda>_. sint (strtoul 8 t))) ctx else ctx)"

definition get_dec_param :: "string \<Rightarrow> cfg_cmd \<Rightarrow> mtp_ctx \<Rightarrow> mtp_ctx" where
  "get_dec_param line cmd ctx = (case get_param line 1 of None \<Rightarrow> ctx | Some t \<Rightarrow> set_dec cmd (strtoul 10 t) ctx)"

definition kwlist :: "(string \<times> kw_func \<times> cfg_cmd) list" where
  "kwlist =
     [(''storage'', StorageParams, STORAGE_CMD), (''usb_vendor_id'', HexParam, USBVENDORID_CMD),
      (''usb_product_id'', HexParam, USBPRODUCTID_CMD), (''usb_class'', HexParam, USBCLASS_CMD),
      (''usb_subclass'', HexParam, USBSUBCLASS_CMD), (''usb_protocol'', HexParam, USBPROTOCOL_CMD),
      (''usb_dev_version'', HexParam, USBDEVVERSION_CMD), (''usb_max_packet_size'', HexParam, USBMAXPACKETSIZE_CMD),
      (''usb_max_rd_buffer_size'', HexParam, USBMAXRDBUFFERSIZE_CMD), (''usb_max_wr_buffer_size'', HexParam, USBMAXWRBUFFERSIZE_CMD),
      (''read_buffer_cache_size'', HexParam, READBUFFERSIZE_CMD), (''usb_functionfs_mode'', HexParam, USBFUNCTIONFSMODE_CMD),
      (''usb_dev_path'', StrParam, USB_DEV_PATH_CMD), (''usb_epin_path'', StrParam, USB_EPIN_PATH_CMD),
      (''usb_epout_path'', StrParam, USB_EPOUT_PATH_CMD), (''usb_epint_path'', StrParam, USB_EPINT_PATH_CMD),
      (''manufacturer'', StrParam, MANUFACTURER_STRING_CMD), (''product'', StrParam, PRODUCT_STRING_CMD),
      (''serial'', StrParam, SERIAL_STRING_CMD), (''firmware_version'', StrParam, VERSION_STRING_CMD),
      (''interface'', StrParam, INTERFACE_STRING_CMD), (''mtp_extensions'', StrParam, MTP_EXTENSIONS_STRING_CMD),
      (''wait'', HexParam, WAIT_CONNECTION), (''loop_on_disconnect'', HexParam, LOOP_ON_DISCONNECT),
      (''show_hidden_files'', HexParam, SHOW_HIDDEN_FILES), (''umask'', OctParam, UMASK),
      (''default_uid'', DecParam, DEFAULT_UID_CMD), (''default_gid'', DecParam, DEFAULT_GID_CMD),
      (''no_inotify'', HexParam, NO_INOTIFY), (''sync_when_close'', HexParam, SYNC_WHEN_CLOSE)]"

definition exec_cmd :: "cfg_env \<Rightarrow> string \<Rightarrow> string \<Rightarrow> mtp_ctx \<Rightarrow> int \<times> mtp_ctx" where
  "exec_cmd ce command line ctx =
     (case find (\<lambda>(kw, _). kw = command) kwlist of
        None \<Rightarrow> (0, ctx)
      | Some (_, f, cmd) \<Rightarrow>
          (1, case f of StorageParams \<Rightarrow> mtp_add_storage_from_line ce line 1 ctx
              | HexParam \<Rightarrow> get_hex_param line cmd ctx
              | StrParam \<Rightarrow> get_str_param line cmd ctx
              | OctParam \<Rightarrow> get_oct_param line cmd ctx
              | DecParam \<Rightarrow> get_dec_param line cmd ctx))"

definition execute_line :: "cfg_env \<Rightarrow> string \<Rightarrow> mtp_ctx \<Rightarrow> int \<times> mtp_ctx" where
  "execute_line ce line ctx = (if extract_cmd line \<noteq> [] then exec_cmd ce (extract_cmd line) line ctx else (0, ctx))"

section \<open>The file\<close>

definition default_cfg :: mtp_usb_cfg where
  "default_cfg = \<lparr>usb_vendor_id = 0x1D6B, usb_product_id = 0x0100, usb_class = 6, usb_subclass = 1, usb_protocol = 1,
     usb_dev_version = 0x3008, usb_max_packet_size = 512, usb_functionfs_mode = 1, usb_device_path = ascii ''/dev/ffs-mtp/ep0'',
     usb_endpoint_in = ascii ''/dev/ffs-mtp/ep1'', usb_endpoint_out = ascii ''/dev/ffs-mtp/ep2'', usb_endpoint_intin = ascii ''/dev/ffs-mtp/ep3'',
     usb_string_manufacturer = ascii ''Viveris Technologies'', usb_string_product = ascii ''The Viveris Product !'',
     usb_string_serial = ascii ''01234567'', usb_string_version = ascii ''Rev A'', usb_string_mtp_extensions = [],
     usb_string_interface = ascii ''MTP'', wait_connection = 0, loop_on_disconnect = 0, show_hidden_files = 1, val_umask = -1\<rparr>"

text \<open>
  The pieces that are executed: the end of the file is tested after each read, so a last line
  without a line feed is dropped (unless it fills the buffer).
\<close>

definition config_lines :: "string \<Rightarrow> string list" where
  "config_lines text =
     (let ls = fgets_all MAX_CFG_STRING_SIZE text in
      if ls \<noteq> [] \<and> last (last ls) \<noteq> CHR 0x0A \<and> length (last ls) < MAX_CFG_STRING_SIZE - 1 then butlast ls else ls)"

definition mtp_load_config_file :: "cfg_env \<Rightarrow> string option \<Rightarrow> mtp_ctx \<Rightarrow> mtp_ctx" where
  "mtp_load_config_file ce conffile ctx =
     (let ctx = ctx\<lparr>usb_cfg := default_cfg, default_uid := -1, default_gid := -1, no_inotify := False, sync_when_close := False\<rparr>;
          ctx = (case conffile of None \<Rightarrow> ctx
                 | Some text \<Rightarrow> fold (\<lambda>l ctx. snd (execute_line ce (cstr l) ctx)) (config_lines text) ctx)
      in if val_umask (usb_cfg ctx) \<ge> 0 then emit_mtp (UMask (val_umask (usb_cfg ctx))) ctx else ctx)"

text \<open>The state before the configuration is read; nothing when an allocation fails. The buffers are allocated with the USB gadget.\<close>

definition mtp_init_responder :: "bool \<Rightarrow> int \<Rightarrow> int \<Rightarrow> mtp_ctx option" where
  "mtp_init_responder mem_ok uid gid =
     (if \<not> mem_ok then None
      else Some \<lparr>session_id = 0,
        usb_cfg = \<lparr>usb_vendor_id = 0, usb_product_id = 0, usb_class = 0, usb_subclass = 0, usb_protocol = 0, usb_dev_version = 0,
          usb_max_packet_size = 0, usb_functionfs_mode = 0, usb_device_path = [], usb_endpoint_in = [], usb_endpoint_out = [],
          usb_endpoint_intin = [], usb_string_manufacturer = [], usb_string_product = [], usb_string_serial = [],
          usb_string_version = [], usb_string_mtp_extensions = [], usb_string_interface = [], wait_connection = 0,
          loop_on_disconnect = 0, show_hidden_files = 0, val_umask = 0\<rparr>,
        fs_db = None, wrbuffer = [], usb_wr_buffer_max_size = 8192, usb_rd_buffer_max_size = 8192, read_file_buffer = None,
        read_file_buffer_size = 1048576, max_packet_size = 0,
        storages = replicate 16 \<lparr>root_path = None, description = [], storage_id = 0, storage_flags = 0, storage_uid = 0, storage_gid = 0\<rparr>,
        SendObjInfoHandle = 0, SendObjInfoSize = 0, SendObjInfoOffset = 0, SetObjectPropValue_Handle = 0xFFFFFFFF,
        SetObjectPropValue_PropCode = 0, sync_when_close = False, no_inotify = False, ctx_uid = uid, ctx_gid = gid,
        default_uid = -1, default_gid = -1, cancel_req = 0, transferring_file_data = False, mtp_trace = []\<rparr>)"

end
