(* ===== verification/Mtp_Background.thy ===== *)
theory Mtp_Background
  imports Mtp_Requests Mtp_Config
begin

text \<open>
  The two background threads of the responder: \<^verbatim>\<open>umtprd/src/inotify.c\<close> follows changes in the
  watched folders and tells the host, \<^verbatim>\<open>msgqueue.c\<close> executes the commands that other processes
  send (adding, removing, mounting and locking storages). One iteration of a thread is a
  function on the state of the responder; the mutexes always succeed. Without a session there is
  no database, and the searches find nothing.
\<close>

section \<open>Changes in watched folders\<close>

abbreviation (input) IN_MODIFY :: u32 where "IN_MODIFY \<equiv> 0x2"
abbreviation (input) IN_MOVED_FROM :: u32 where "IN_MOVED_FROM \<equiv> 0x40"
abbreviation (input) IN_MOVED_TO :: u32 where "IN_MOVED_TO \<equiv> 0x80"
abbreviation (input) IN_CREATE :: u32 where "IN_CREATE \<equiv> 0x100"
abbreviation (input) IN_DELETE :: u32 where "IN_DELETE \<equiv> 0x200"
abbreviation (input) INOTIFY_RD_BUF_SIZE :: nat where "INOTIFY_RD_BUF_SIZE \<equiv> 32768"
abbreviation (input) MTP_EVENT_OBJECT_ADDED :: u32 where "MTP_EVENT_OBJECT_ADDED \<equiv> 0x4002"
abbreviation (input) MTP_EVENT_OBJECT_REMOVED :: u32 where "MTP_EVENT_OBJECT_REMOVED \<equiv> 0x4003"
abbreviation (input) MTP_EVENT_STORE_ADDED :: u32 where "MTP_EVENT_STORE_ADDED \<equiv> 0x4004"
abbreviation (input) MTP_EVENT_STORE_REMOVED :: u32 where "MTP_EVENT_STORE_REMOVED \<equiv> 0x4005"
abbreviation (input) MTP_EVENT_OBJECT_INFO_CHANGED :: u32 where "MTP_EVENT_OBJECT_INFO_CHANGED \<equiv> 0x4007"

text \<open>The name without its padding; \<open>ev_len\<close> counts the padding.\<close>

record inotify_event =
  ev_wd :: int
  ev_mask :: u32
  ev_len :: nat
  ev_name :: bytes

text \<open>
  \<open>get_file_info\<close> on the entry of the folder. A file that cannot be examined gets an empty name,
  and whether it is a folder stays what it was for the file before; the result is success all
  the same.
\<close>

definition get_file_info :: "mtp_env \<Rightarrow> mtp_storage list \<Rightarrow> inotify_event \<Rightarrow> bool \<Rightarrow> nat \<Rightarrow> fs_handles_db \<Rightarrow> filefoundinfo \<Rightarrow> (bool \<times> filefoundinfo) option" where
  "get_file_info env sts ev gone r db info =
     (case entry_path env sts r db of
        PathSome p \<Rightarrow>
          if \<not> env_tmp_ok env then Some (False, info)
          else if gone then Some (True, \<lparr>isdirectory = False, filename = take FS_HANDLE_MAX_FILENAME_SIZE (ev_name ev), f_size = 0\<rparr>)
          else (case fs_entry_stat (env_stat env) (p @ 0x2F # ev_name ev) of
                  Some info' \<Rightarrow> Some (True, info')
                | None \<Rightarrow> Some (True, info\<lparr>filename := [], f_size := 0\<rparr>))
      | PathNull \<Rightarrow> Some (False, info)
      | _ \<Rightarrow> None)"

type_synonym watch_state = "filefoundinfo \<times> fs_handles_db \<times> mtp_ctx"

definition created_in :: "mtp_env \<Rightarrow> inotify_event \<Rightarrow> nat \<Rightarrow> watch_state \<Rightarrow> watch_state option" where
  "created_in env ev r st =
     (case st of (info, db, ctx) \<Rightarrow>
        case get_file_info env (storages ctx) ev False r db info of
          None \<Rightarrow> None
        | Some (False, info) \<Rightarrow> Some (info, db, ctx)
        | Some (True, info) \<Rightarrow>
            let h = e_handle (pool db ! r); sid = e_storage (pool db ! r) in
            (case search_entry db info h sid of
               Some _ \<Rightarrow> Some (info, db, ctx)
             | None \<Rightarrow>
                 (case add_entry (env_mem env) info h sid db of
                    (None, db) \<Rightarrow> Some (info, db, ctx)
                  | (Some n, db) \<Rightarrow> Some (info, db, mtp_push_event MTP_EVENT_OBJECT_ADDED [e_handle (pool db ! n)] ctx))))"

definition modified_in :: "mtp_env \<Rightarrow> inotify_event \<Rightarrow> nat \<Rightarrow> watch_state \<Rightarrow> watch_state option" where
  "modified_in env ev r st =
     (case st of (info, db, ctx) \<Rightarrow>
        case get_file_info env (storages ctx) ev True r db info of
          None \<Rightarrow> None
        | Some (False, info) \<Rightarrow> Some (info, db, ctx)
        | Some (True, info) \<Rightarrow>
            (case search_entry db info (e_handle (pool db ! r)) (e_storage (pool db ! r)) of
               None \<Rightarrow> Some (info, db, ctx)
             | Some n \<Rightarrow> Some (info, db, mtp_push_event MTP_EVENT_OBJECT_INFO_CHANGED [e_handle (pool db ! n)] ctx)))"

definition deleted_in :: "mtp_env \<Rightarrow> inotify_event \<Rightarrow> nat \<Rightarrow> watch_state \<Rightarrow> watch_state option" where
  "deleted_in env ev r st =
     (case st of (info, db, ctx) \<Rightarrow>
        case get_file_info env (storages ctx) ev True r db info of
          None \<Rightarrow> None
        | Some (False, info) \<Rightarrow> Some (info, db, ctx)
        | Some (True, info) \<Rightarrow>
            (case search_entry db info (e_handle (pool db ! r)) (e_storage (pool db ! r)) of
               None \<Rightarrow> Some (info, db, ctx)
             | Some n \<Rightarrow> Some (info, mark_deleted n db, mtp_push_event MTP_EVENT_OBJECT_REMOVED [e_handle (pool db ! n)] ctx)))"

text \<open>
  The loop over the entries with a watch descriptor, which the three kinds of event share. The
  fuel is one more than the number of entries.
\<close>

fun watch_loop :: "nat \<Rightarrow> (nat \<Rightarrow> watch_state \<Rightarrow> watch_state option) \<Rightarrow> int \<Rightarrow> nat option \<Rightarrow> watch_state \<Rightarrow> watch_state option" where
  "watch_loop 0 body wd start st = None"
| "watch_loop (Suc fuel) body wd start st =
     (case get_entry_by_wd wd start (fst (snd st)) of
        None \<Rightarrow> Some st
      | Some r \<Rightarrow>
          (case body r st of
             None \<Rightarrow> None
           | Some st \<Rightarrow>
               (case next_entry r (fst (snd st)) of
                  None \<Rightarrow> Some st
                | Some q \<Rightarrow> watch_loop fuel body wd (Some q) st)))"

definition for_watched :: "(nat \<Rightarrow> watch_state \<Rightarrow> watch_state option) \<Rightarrow> int \<Rightarrow> watch_state \<Rightarrow> watch_state option" where
  "for_watched body wd st = watch_loop (length (entry_list (fst (snd st))) + 1) body wd None st"

text \<open>One event, with its three tests in order.\<close>

definition inotify_event_step :: "mtp_env \<Rightarrow> inotify_event \<Rightarrow> watch_state \<Rightarrow> watch_state option" where
  "inotify_event_step env ev st =
     (let on = (\<lambda>mask body st. if ev_mask ev AND mask \<noteq> 0 then for_watched (body env ev) (ev_wd ev) st else Some st)
      in case on (IN_CREATE OR IN_MOVED_TO) created_in st of
           None \<Rightarrow> None
         | Some st \<Rightarrow>
             (case on IN_MODIFY modified_in st of
                None \<Rightarrow> None
              | Some st \<Rightarrow> on (IN_DELETE OR IN_MOVED_FROM) deleted_in st))"

text \<open>The events of one read, with the offset in the buffer.\<close>

fun inotify_events :: "mtp_env \<Rightarrow> nat \<Rightarrow> inotify_event list \<Rightarrow> watch_state \<Rightarrow> watch_state option" where
  "inotify_events env i [] st = Some st"
| "inotify_events env i (ev # evs) st =
     (case (if ev_len ev \<noteq> 0 \<and> i + (16 + ev_len ev) < INOTIFY_RD_BUF_SIZE then inotify_event_step env ev st else Some st) of
        None \<Rightarrow> None
      | Some st \<Rightarrow> inotify_events env (i + 16 + ev_len ev) evs st)"

definition inotify_thread :: "mtp_env \<Rightarrow> inotify_event list \<Rightarrow> filefoundinfo \<times> mtp_ctx \<Rightarrow> (filefoundinfo \<times> mtp_ctx) option" where
  "inotify_thread env evs st =
     (case st of (info, ctx) \<Rightarrow>
        case fs_db ctx of
          None \<Rightarrow> Some (info, ctx)
        | Some db \<Rightarrow> map_option (\<lambda>(info, db, ctx). (info, ctx\<lparr>fs_db := Some db\<rparr>)) (inotify_events env 0 evs (info, db, ctx)))"

section \<open>Commands from other processes\<close>

text \<open>Mounting and unmounting when there may be no session.\<close>

definition with_db :: "(fs_handles_db \<Rightarrow> mtp_ctx \<Rightarrow> (fs_handles_db \<times> mtp_ctx) option) \<Rightarrow> mtp_ctx \<Rightarrow> mtp_ctx option" where
  "with_db f ctx =
     (case fs_db ctx of
        Some db \<Rightarrow> map_option (\<lambda>(db, ctx). ctx\<lparr>fs_db := Some db\<rparr>) (f db ctx)
      | None \<Rightarrow> map_option snd (f init_fs_db ctx))"

definition mount_command :: "mtp_env \<Rightarrow> bytes \<Rightarrow> mtp_ctx \<Rightarrow> mtp_ctx option" where
  "mount_command env name ctx =
     (let i = mtp_get_storage_index_by_name (storages ctx) name in
      if i \<ge> 0 then
        map_option (mtp_push_event MTP_EVENT_STORE_ADDED [storage_id (storages ctx ! nat i)])
          (with_db (\<lambda>db ctx. Some (mount_store env i True db ctx)) ctx)
      else Some ctx)"

definition unmount_command :: "bytes \<Rightarrow> mtp_ctx \<Rightarrow> mtp_ctx option" where
  "unmount_command name ctx =
     (let i = mtp_get_storage_index_by_name (storages ctx) name in
      if i \<ge> 0 then
        map_option (mtp_push_event MTP_EVENT_STORE_REMOVED [storage_id (storages ctx ! nat i)])
          (with_db (umount_store i True) ctx)
      else Some ctx)"

abbreviation (input) UMTP_STORAGE_LOCKABLE :: u32 where "UMTP_STORAGE_LOCKABLE \<equiv> 8"

definition set_flags :: "nat \<Rightarrow> (u32 \<Rightarrow> u32) \<Rightarrow> mtp_ctx \<Rightarrow> mtp_ctx" where
  "set_flags i f ctx = ctx\<lparr>storages := (storages ctx)[i := (storages ctx ! i)\<lparr>storage_flags := f (storage_flags (storages ctx ! i))\<rparr>]\<rparr>"

definition lockable :: "bool \<Rightarrow> mtp_storage \<Rightarrow> bool" where
  "lockable locked st \<longleftrightarrow> root_path st \<noteq> None \<and> storage_flags st AND UMTP_STORAGE_LOCKABLE \<noteq> 0
     \<and> (storage_flags st AND UMTP_STORAGE_LOCKED \<noteq> 0) = locked"

definition lock_one :: "nat \<Rightarrow> mtp_ctx \<Rightarrow> mtp_ctx option" where
  "lock_one i ctx =
     (if lockable False (storages ctx ! i) then
        map_option (\<lambda>ctx. mtp_push_event MTP_EVENT_STORE_REMOVED [storage_id (storages ctx ! i)] (set_flags i (\<lambda>f. f OR UMTP_STORAGE_LOCKED) ctx))
          (with_db (umount_store (int i) False) ctx)
      else Some ctx)"

definition unlock_one :: "mtp_env \<Rightarrow> nat \<Rightarrow> mtp_ctx \<Rightarrow> mtp_ctx option" where
  "unlock_one env i ctx =
     (if lockable True (storages ctx ! i) then
        map_option (\<lambda>ctx. mtp_push_event MTP_EVENT_STORE_ADDED [storage_id (storages ctx ! i)] (set_flags i (\<lambda>f. f AND NOT UMTP_STORAGE_LOCKED) ctx))
          (with_db (\<lambda>db ctx. Some (mount_store env (int i) False db ctx)) ctx)
      else Some ctx)"

fun all_storages :: "(nat \<Rightarrow> mtp_ctx \<Rightarrow> mtp_ctx option) \<Rightarrow> nat list \<Rightarrow> mtp_ctx \<Rightarrow> mtp_ctx option" where
  "all_storages f [] ctx = Some ctx"
| "all_storages f (i # is) ctx = (case f i ctx of None \<Rightarrow> None | Some ctx \<Rightarrow> all_storages f is ctx)"

text \<open>
  One message. The tests of its beginning follow each other; a message can pass only one of
  them.
\<close>

definition msgqueue_message :: "mtp_env \<Rightarrow> cfg_env \<Rightarrow> string \<Rightarrow> mtp_ctx \<Rightarrow> mtp_ctx option" where
  "msgqueue_message env ce message ctx =
     (if take 11 message = ''addstorage:'' then Some (mtp_add_storage_from_line ce (drop 11 message) 0 ctx)
      else if take 10 message = ''rmstorage:'' then Some (snd (mtp_remove_storage_from_line (drop 10 message) 0 ctx))
      else if take 6 message = ''mount:'' then mount_command env (ascii (drop 6 message)) ctx
      else if take 8 message = ''unmount:'' then unmount_command (ascii (drop 8 message)) ctx
      else if take 4 message = ''lock'' then all_storages lock_one [0..<MAX_STORAGE_NB] ctx
      else if take 6 message = ''unlock'' then all_storages (unlock_one env) [0..<MAX_STORAGE_NB] ctx
      else Some ctx)"

abbreviation (input) MAX_MSG_SIZE :: int where "MAX_MSG_SIZE \<equiv> 128"

text \<open>The result of \<^verbatim>\<open>mq_receive\<close> and the bytes; an error or a message that is too long is skipped.\<close>

definition msgqueue_thread :: "mtp_env \<Rightarrow> cfg_env \<Rightarrow> int \<times> string \<Rightarrow> mtp_ctx \<Rightarrow> mtp_ctx option" where
  "msgqueue_thread env ce received ctx =
     (case received of (numreceived, message) \<Rightarrow>
        if numreceived < 0 \<or> numreceived > MAX_MSG_SIZE then Some ctx
        else msgqueue_message env ce (cstr (take (nat numreceived) message)) ctx)"

end
