(* ===== verification/Mtp_Sanitize_Props.thy ===== *)
theory Mtp_Sanitize_Props
  imports Mtp_Sanitize
begin

text \<open>
  Properties of the name check: the UTF-8 validator against the encoder of \<^verbatim>\<open>usbstring.c\<close>,
  and what a name that has passed the check looks like.
\<close>

section \<open>The validator accepts exactly well-formed text\<close>

definition scalar :: "u32 \<Rightarrow> bool" where
  "scalar cp \<longleftrightarrow> 0 < cp \<and> cp \<le> 0x10FFFF \<and> \<not> (0xD800 \<le> cp \<and> cp \<le> 0xDFFF)"

lemma word_bits_below:
  fixes w :: "'a::len word"
  assumes "unat w < 2 ^ k" and "k \<le> n"
  shows "\<not> bit w n"
proof -
  have "w = take_bit k w"
    using assms(1) by (metis take_bit_nat_eq_self unsigned_take_bit_eq word_unat_eq_iff)
  then show ?thesis using assms(2) by (metis bit_take_bit_iff linorder_not_less)
qed

lemma word_below_bits:
  fixes w :: "'a::len word"
  assumes "\<And>n. k \<le> n \<Longrightarrow> \<not> bit w n"
  shows "unat w < 2 ^ k"
proof -
  have "w = take_bit k w"
    by (rule bit_word_eqI) (use assms in \<open>auto simp: bit_take_bit_iff intro: ccontr\<close>)
  then have "unat w = take_bit k (unat w)" by (metis unsigned_take_bit_eq)
  then show ?thesis by (metis take_bit_nat_less_exp)
qed

lemma u8_eq_iff: "a = b \<longleftrightarrow> (bit a 0 = bit b 0 \<and> bit a 1 = bit b 1 \<and> bit a 2 = bit b 2 \<and> bit a 3 = bit b 3
    \<and> bit a 4 = bit b 4 \<and> bit a 5 = bit b 5 \<and> bit a 6 = bit b 6 \<and> bit a 7 = bit b 7)" for a b :: u8
proof
  assume eq: "bit a 0 = bit b 0 \<and> bit a 1 = bit b 1 \<and> bit a 2 = bit b 2 \<and> bit a 3 = bit b 3
    \<and> bit a 4 = bit b 4 \<and> bit a 5 = bit b 5 \<and> bit a 6 = bit b 6 \<and> bit a 7 = bit b 7"
  show "a = b"
  proof (rule bit_word_eqI)
    fix n :: nat
    assume "n < LENGTH(8)"
    then have "n = 0 \<or> n = 2 \<or> n = 4 \<or> n = 6 \<or> n = 1 \<or> n = 3 \<or> n = 5 \<or> n = 7" by simp presburger
    then show "bit a n = bit b n" using eq by (elim disjE) simp_all
  qed
qed simp

lemma mask_bits:
  fixes c :: u8
  shows "c AND 0xC0 = 0x80 \<longleftrightarrow> bit c 7 \<and> \<not> bit c 6"
    and "c AND 0xE0 = 0xC0 \<longleftrightarrow> bit c 7 \<and> bit c 6 \<and> \<not> bit c 5"
    and "c AND 0xF0 = 0xE0 \<longleftrightarrow> bit c 7 \<and> bit c 6 \<and> bit c 5 \<and> \<not> bit c 4"
    and "c AND 0xF8 = 0xF0 \<longleftrightarrow> bit c 7 \<and> bit c 6 \<and> bit c 5 \<and> bit c 4 \<and> \<not> bit c 3"
  by (auto simp: u8_eq_iff bit_simps)

lemma ascii_bit: "c < 0x80 \<longleftrightarrow> \<not> bit c 7" for c :: u8
proof
  assume "c < 0x80"
  then have "unat c < 2 ^ 7" by (simp add: word_less_nat_alt)
  then show "\<not> bit c 7" by (rule word_bits_below) simp
next
  assume "\<not> bit c 7"
  then have "\<not> bit c n" if "7 \<le> n" for n using that by (cases "n = 7") (auto dest: bit_imp_le_length)
  then have "unat c < 2 ^ 7" by (rule word_below_bits)
  then show "c < 0x80" by (simp add: word_less_nat_alt)
qed

lemma masks:
  fixes w :: "'a::len word"
  shows "w AND 0x3F = take_bit 6 w" "w AND 0x1F = take_bit 5 w" "w AND 0x0F = take_bit 4 w" "w AND 0x07 = take_bit 3 w"
  by (simp_all add: take_bit_eq_mask mask_eq_exp_minus_1)

lemma field_value:
  fixes w m :: u32
  assumes "k \<le> 8" and "take_bit k m = 0"
  shows "ucast (take_bit k (ucast (take_bit k w OR m) :: u8)) = take_bit k w"
proof (rule bit_word_eqI)
  fix n :: nat
  have "\<not> (n < k \<and> bit m n)" using assms(2) by (metis bit_0_eq bit_take_bit_iff bot_apply bot_bool_def)
  then show "bit (ucast (take_bit k (ucast (take_bit k w OR m) :: u8)) :: u32) n = bit (take_bit k w) n"
    using assms(1) by (auto simp: bit_simps)
qed

lemma join2:
  fixes cp :: u32
  assumes "\<And>n. 11 \<le> n \<Longrightarrow> \<not> bit cp n"
  shows "push_bit 6 (take_bit 5 (drop_bit 6 cp)) OR take_bit 6 cp = cp"
proof (rule bit_word_eqI)
  fix n :: nat
  have "n < 6 \<or> 6 \<le> n \<and> n < 11 \<or> 11 \<le> n" by linarith
  then show "bit (push_bit 6 (take_bit 5 (drop_bit 6 cp)) OR take_bit 6 cp) n = bit cp n"
    using assms [of n] by (elim disjE) (auto simp: bit_simps)
qed

lemma join3:
  fixes cp :: u32
  assumes "\<And>n. 16 \<le> n \<Longrightarrow> \<not> bit cp n"
  shows "push_bit 6 (push_bit 6 (take_bit 4 (drop_bit 12 cp)) OR take_bit 6 (drop_bit 6 cp)) OR take_bit 6 cp = cp"
proof (rule bit_word_eqI)
  fix n :: nat
  have "n < 6 \<or> 6 \<le> n \<and> n < 12 \<or> 12 \<le> n \<and> n < 16 \<or> 16 \<le> n" by linarith
  then show "bit (push_bit 6 (push_bit 6 (take_bit 4 (drop_bit 12 cp)) OR take_bit 6 (drop_bit 6 cp)) OR take_bit 6 cp) n = bit cp n"
    using assms [of n] by (elim disjE) (auto simp: bit_simps)
qed

lemma join4:
  fixes cp :: u32
  assumes "\<And>n. 21 \<le> n \<Longrightarrow> \<not> bit cp n"
  shows "push_bit 6 (push_bit 6 (push_bit 6 (take_bit 3 (drop_bit 18 cp)) OR take_bit 6 (drop_bit 12 cp)) OR take_bit 6 (drop_bit 6 cp)) OR take_bit 6 cp = cp"
proof (rule bit_word_eqI)
  fix n :: nat
  have "n < 6 \<or> 6 \<le> n \<and> n < 12 \<or> 12 \<le> n \<and> n < 18 \<or> 18 \<le> n \<and> n < 21 \<or> 21 \<le> n" by linarith
  then show "bit (push_bit 6 (push_bit 6 (push_bit 6 (take_bit 3 (drop_bit 18 cp)) OR take_bit 6 (drop_bit 12 cp)) OR take_bit 6 (drop_bit 6 cp)) OR take_bit 6 cp) n = bit cp n"
    using assms [of n] by (elim disjE) (auto simp: bit_simps)
qed

lemma encode_bits:
  fixes w :: u32
  shows "bit (ucast (take_bit 5 w OR 0xC0) :: u8) 7" "bit (ucast (take_bit 5 w OR 0xC0) :: u8) 6" "\<not> bit (ucast (take_bit 5 w OR 0xC0) :: u8) 5"
    "bit (ucast (take_bit 4 w OR 0xE0) :: u8) 7" "bit (ucast (take_bit 4 w OR 0xE0) :: u8) 6" "bit (ucast (take_bit 4 w OR 0xE0) :: u8) 5"
    "\<not> bit (ucast (take_bit 4 w OR 0xE0) :: u8) 4"
    "bit (ucast (take_bit 3 w OR 0xF0) :: u8) 7" "bit (ucast (take_bit 3 w OR 0xF0) :: u8) 6" "bit (ucast (take_bit 3 w OR 0xF0) :: u8) 5"
    "bit (ucast (take_bit 3 w OR 0xF0) :: u8) 4" "\<not> bit (ucast (take_bit 3 w OR 0xF0) :: u8) 3"
    "bit (ucast (take_bit 6 w OR 0x80) :: u8) 7" "\<not> bit (ucast (take_bit 6 w OR 0x80) :: u8) 6"
  by (simp_all add: bit_simps)

lemma tail_field: "utf8_tail (Suc n) (ucast (take_bit 6 w OR 0x80) # s) cp = utf8_tail n s (push_bit 6 cp OR take_bit 6 w)" for w :: u32
  by (simp add: rd_def mask_bits masks encode_bits field_value)

lemma tail_fields:
  fixes w v u :: u32
  shows "utf8_tail (Suc 0) (ucast (take_bit 6 w OR 0x80) # s) cp = Some (push_bit 6 cp OR take_bit 6 w)"
    and "utf8_tail 2 (ucast (take_bit 6 v OR 0x80) # ucast (take_bit 6 w OR 0x80) # s) cp = Some (push_bit 6 (push_bit 6 cp OR take_bit 6 v) OR take_bit 6 w)"
    and "utf8_tail 3 (ucast (take_bit 6 u OR 0x80) # ucast (take_bit 6 v OR 0x80) # ucast (take_bit 6 w OR 0x80) # s) cp
      = Some (push_bit 6 (push_bit 6 (push_bit 6 cp OR take_bit 6 u) OR take_bit 6 v) OR take_bit 6 w)"
proof -
  have 2: "(2 :: nat) = Suc (Suc 0)" and 3: "(3 :: nat) = Suc (Suc (Suc 0))" by simp_all
  show "utf8_tail (Suc 0) (ucast (take_bit 6 w OR 0x80) # s) cp = Some (push_bit 6 cp OR take_bit 6 w)"
    by (simp only: tail_field utf8_tail.simps(1))
  show "utf8_tail 2 (ucast (take_bit 6 v OR 0x80) # ucast (take_bit 6 w OR 0x80) # s) cp = Some (push_bit 6 (push_bit 6 cp OR take_bit 6 v) OR take_bit 6 w)"
    unfolding 2 by (simp only: tail_field utf8_tail.simps(1))
  show "utf8_tail 3 (ucast (take_bit 6 u OR 0x80) # ucast (take_bit 6 v OR 0x80) # ucast (take_bit 6 w OR 0x80) # s) cp
      = Some (push_bit 6 (push_bit 6 (push_bit 6 cp OR take_bit 6 u) OR take_bit 6 v) OR take_bit 6 w)"
    unfolding 3 by (simp only: tail_field utf8_tail.simps(1))
qed

lemma bits_le:
  fixes cp :: u32
  shows "cp \<le> 0x7FF \<Longrightarrow> 11 \<le> n \<Longrightarrow> \<not> bit cp n" "cp \<le> 0xFFFF \<Longrightarrow> 16 \<le> n \<Longrightarrow> \<not> bit cp n"
    "cp \<le> 0x10FFFF \<Longrightarrow> 21 \<le> n \<Longrightarrow> \<not> bit cp n"
  by (rule word_bits_below; simp add: word_le_nat_alt)+

lemma validate_encode:
  assumes "scalar cp"
  shows "utf8_validate (usb_utf8_encode cp @ s) = utf8_validate s"
proof -
  consider (one) "cp \<le> 0x7F" | (two) "\<not> cp \<le> 0x7F" "cp \<le> 0x7FF" | (three) "\<not> cp \<le> 0x7FF" "cp \<le> 0xFFFF"
    | (four) "\<not> cp \<le> 0xFFFF" "cp \<le> 0x10FFFF"
    using assms by (auto simp: scalar_def)
  then show ?thesis
  proof cases
    case one
    then have "unat cp < 2 ^ 7" by (simp add: word_le_nat_alt)
    then have "\<not> bit cp 7" by (rule word_bits_below) simp
    then have "\<not> bit (ucast cp :: u8) 7" by (simp add: bit_simps)
    with one show ?thesis by (simp add: usb_utf8_encode_def ascii_bit)
  next
    case two
    have "push_bit 6 (take_bit 5 (drop_bit 6 cp)) OR take_bit 6 cp = cp" using two(2) by (intro join2 bits_le)
    moreover have "utf8_in_range 2 cp" using two assms by (auto simp: utf8_in_range_def scalar_def word_le_nat_alt word_less_nat_alt)
    ultimately show ?thesis
      using two by (simp add: usb_utf8_encode_def masks ascii_bit encode_bits utf8_lead_def mask_bits field_value tail_fields del: utf8_tail.simps)
  next
    case three
    have "push_bit 6 (push_bit 6 (take_bit 4 (drop_bit 12 cp)) OR take_bit 6 (drop_bit 6 cp)) OR take_bit 6 cp = cp"
      using three(2) by (intro join3 bits_le)
    moreover have "utf8_in_range 3 cp" using three assms by (auto simp: utf8_in_range_def scalar_def word_le_nat_alt word_less_nat_alt)
    moreover have "\<not> cp \<le> 0x7F" using three(1) by (simp add: word_le_nat_alt)
    ultimately show ?thesis
      using three by (simp add: usb_utf8_encode_def masks ascii_bit encode_bits utf8_lead_def mask_bits field_value tail_fields del: utf8_tail.simps)
  next
    case four
    have "push_bit 6 (push_bit 6 (push_bit 6 (take_bit 3 (drop_bit 18 cp)) OR take_bit 6 (drop_bit 12 cp)) OR take_bit 6 (drop_bit 6 cp)) OR take_bit 6 cp = cp"
      using four(2) by (intro join4 bits_le)
    moreover have "utf8_in_range 4 cp" using four assms by (auto simp: utf8_in_range_def scalar_def word_le_nat_alt word_less_nat_alt)
    moreover have "\<not> cp \<le> 0x7F" "\<not> cp \<le> 0x7FF" using four(1) by (simp_all add: word_le_nat_alt)
    ultimately show ?thesis
      using four by (simp add: usb_utf8_encode_def masks ascii_bit encode_bits utf8_lead_def mask_bits field_value tail_fields del: utf8_tail.simps)
  qed
qed

text \<open>Conversely, what the validator accepts first is the encoding of a scalar value.\<close>

lemma tail_bytes:
  assumes "utf8_tail (Suc n) s cp = Some v"
  obtains d t where "s = d # t" "bit d 7" "\<not> bit d 6" "utf8_tail n t (push_bit 6 cp OR ucast (take_bit 6 d)) = Some v"
proof (cases s)
  case Nil
  then show ?thesis using assms by (simp add: rd_def)
next
  case (Cons d t)
  then show ?thesis using assms that by (auto simp: rd_def mask_bits masks split: if_splits)
qed

lemma recode2:
  fixes c d :: u8
  assumes "bit c 7" "bit c 6" "\<not> bit c 5" "bit d 7" "\<not> bit d 6"
    and "cp = push_bit 6 (ucast (take_bit 5 c)) OR ucast (take_bit 6 d)" and "\<not> cp < 0x80"
  shows "usb_utf8_encode cp = [c, d]"
proof -
  have "\<not> bit cp n" if "11 \<le> n" for n using that by (auto simp: assms(6) bit_simps)
  then have "unat cp < 2 ^ 11" by (rule word_below_bits)
  then have "cp \<le> 0x7FF" by (simp add: word_le_nat_alt)
  moreover have "\<not> cp \<le> 0x7F" using assms(7) by (simp add: word_le_nat_alt word_less_nat_alt)
  moreover have "ucast (take_bit 5 (drop_bit 6 cp) OR 0xC0) = c" "ucast (take_bit 6 cp OR 0x80) = d"
    using assms(1-5) unfolding assms(6) u8_eq_iff by (simp_all add: bit_simps)
  ultimately show ?thesis by (simp add: usb_utf8_encode_def masks)
qed

lemma recode3:
  fixes c d e :: u8
  assumes "bit c 7" "bit c 6" "bit c 5" "\<not> bit c 4" "bit d 7" "\<not> bit d 6" "bit e 7" "\<not> bit e 6"
    and "cp = push_bit 6 (push_bit 6 (ucast (take_bit 4 c)) OR ucast (take_bit 6 d)) OR ucast (take_bit 6 e)" and "\<not> cp < 0x800"
  shows "usb_utf8_encode cp = [c, d, e]"
proof -
  have "\<not> bit cp n" if "16 \<le> n" for n using that by (auto simp: assms(9) bit_simps)
  then have "unat cp < 2 ^ 16" by (rule word_below_bits)
  then have "cp \<le> 0xFFFF" by (simp add: word_le_nat_alt)
  moreover have "\<not> cp \<le> 0x7F" "\<not> cp \<le> 0x7FF" using assms(10) by (simp_all add: word_le_nat_alt word_less_nat_alt)
  moreover have "ucast (take_bit 4 (drop_bit 12 cp) OR 0xE0) = c" "ucast (take_bit 6 (drop_bit 6 cp) OR 0x80) = d"
    "ucast (take_bit 6 cp OR 0x80) = e"
    using assms(1-8) unfolding assms(9) u8_eq_iff by (simp_all add: bit_simps)
  ultimately show ?thesis by (simp add: usb_utf8_encode_def masks)
qed

lemma recode4:
  fixes c d e f :: u8
  assumes "bit c 7" "bit c 6" "bit c 5" "bit c 4" "\<not> bit c 3" "bit d 7" "\<not> bit d 6" "bit e 7" "\<not> bit e 6" "bit f 7" "\<not> bit f 6"
    and "cp = push_bit 6 (push_bit 6 (push_bit 6 (ucast (take_bit 3 c)) OR ucast (take_bit 6 d)) OR ucast (take_bit 6 e)) OR ucast (take_bit 6 f)"
    and "\<not> cp < 0x10000" and "cp \<le> 0x10FFFF"
  shows "usb_utf8_encode cp = [c, d, e, f]"
proof -
  have "\<not> cp \<le> 0x7F" "\<not> cp \<le> 0x7FF" "\<not> cp \<le> 0xFFFF" using assms(13) by (simp_all add: word_le_nat_alt word_less_nat_alt)
  moreover have "ucast (take_bit 3 (drop_bit 18 cp) OR 0xF0) = c" "ucast (take_bit 6 (drop_bit 12 cp) OR 0x80) = d"
    "ucast (take_bit 6 (drop_bit 6 cp) OR 0x80) = e" "ucast (take_bit 6 cp OR 0x80) = f"
    using assms(1-11) unfolding assms(12) u8_eq_iff by (simp_all add: bit_simps)
  ultimately show ?thesis using assms(14) by (simp add: usb_utf8_encode_def masks)
qed

lemma scalar_range: "utf8_in_range n cp \<Longrightarrow> 0 < cp \<Longrightarrow> scalar cp"
  by (auto simp: utf8_in_range_def scalar_def not_less)

lemma validate_first:
  assumes "utf8_validate (c # s)" and "c \<noteq> 0"
  obtains cp t where "c # s = usb_utf8_encode cp @ t" and "scalar cp" and "utf8_validate t"
proof (cases "c < 0x80")
  case True
  let ?cp = "ucast c :: u32"
  have "unat c < 128" using True by (simp add: word_less_nat_alt)
  moreover from this have "unat ?cp = unat c" by (simp add: unsigned_ucast_eq take_bit_nat_eq_self_iff)
  ultimately have "?cp \<le> 0x7F" by (simp add: word_le_nat_alt)
  moreover have "0 < ?cp" using assms(2) \<open>unat ?cp = unat c\<close> by (simp add: word_less_nat_alt unat_gt_0)
  moreover have "ucast ?cp = c" by (rule bit_word_eqI) (auto simp: bit_simps dest: bit_imp_le_length)
  ultimately have "c # s = usb_utf8_encode ?cp @ s" "scalar ?cp"
    by (auto simp: usb_utf8_encode_def scalar_def word_le_nat_alt)
  moreover have "utf8_validate s" using assms(1) True by simp
  ultimately show ?thesis by (rule that)
next
  case False
  then obtain n cp0 cp where lead: "utf8_lead c = Some (n, cp0)" and tail: "utf8_tail (n - 1) s cp0 = Some cp"
    and range: "utf8_in_range n cp" and rest: "utf8_validate (drop (n - 1) s)"
    using assms(1) by (auto split: option.splits)
  from lead consider (two) "c AND 0xE0 = 0xC0" "n = 2" "cp0 = ucast (take_bit 5 c)"
    | (three) "c AND 0xF0 = 0xE0" "n = 3" "cp0 = ucast (take_bit 4 c)" | (four) "c AND 0xF8 = 0xF0" "n = 4" "cp0 = ucast (take_bit 3 c)"
    by (auto simp: utf8_lead_def masks split: if_splits)
  then show ?thesis
  proof cases
    case two
    from two tail have "utf8_tail (Suc 0) s cp0 = Some cp" by simp
    then obtain d t where s: "s = d # t" "bit d 7" "\<not> bit d 6" "utf8_tail 0 t (push_bit 6 cp0 OR ucast (take_bit 6 d)) = Some cp"
      by (rule tail_bytes)
    have "\<not> cp < 0x80" using range two by (simp add: utf8_in_range_def)
    then have "usb_utf8_encode cp = [c, d]"
      using two s by (intro recode2) (simp_all add: mask_bits)
    moreover have "0 < cp" using \<open>\<not> cp < 0x80\<close> by (auto simp: word_less_nat_alt unat_gt_0)
    ultimately show ?thesis using that [of cp t] s rest two scalar_range [OF range] by simp
  next
    case three
    from three tail have "utf8_tail (Suc (Suc 0)) s cp0 = Some cp" by (simp add: numeral_2_eq_2)
    then obtain d t where d: "s = d # t" "bit d 7" "\<not> bit d 6" "utf8_tail (Suc 0) t (push_bit 6 cp0 OR ucast (take_bit 6 d)) = Some cp"
      by (rule tail_bytes)
    from d(4) obtain e r where e: "t = e # r" "bit e 7" "\<not> bit e 6"
      "utf8_tail 0 r (push_bit 6 (push_bit 6 cp0 OR ucast (take_bit 6 d)) OR ucast (take_bit 6 e)) = Some cp"
      by (rule tail_bytes)
    have "\<not> cp < 0x800" using range three by (simp add: utf8_in_range_def)
    then have "usb_utf8_encode cp = [c, d, e]"
      using three d(2,3) e by (intro recode3) (simp_all add: mask_bits)
    moreover have "0 < cp" using \<open>\<not> cp < 0x800\<close> by (auto simp: word_less_nat_alt unat_gt_0)
    ultimately show ?thesis using that [of cp r] d(1) e(1) rest three scalar_range [OF range] by simp
  next
    case four
    from four tail have "utf8_tail (Suc (Suc (Suc 0))) s cp0 = Some cp" by (simp add: numeral_3_eq_3)
    then obtain d t where d: "s = d # t" "bit d 7" "\<not> bit d 6" "utf8_tail (Suc (Suc 0)) t (push_bit 6 cp0 OR ucast (take_bit 6 d)) = Some cp"
      by (rule tail_bytes)
    from d(4) obtain e r where e: "t = e # r" "bit e 7" "\<not> bit e 6"
      "utf8_tail (Suc 0) r (push_bit 6 (push_bit 6 cp0 OR ucast (take_bit 6 d)) OR ucast (take_bit 6 e)) = Some cp"
      by (rule tail_bytes)
    from e(4) obtain f q where f: "r = f # q" "bit f 7" "\<not> bit f 6"
      "utf8_tail 0 q (push_bit 6 (push_bit 6 (push_bit 6 cp0 OR ucast (take_bit 6 d)) OR ucast (take_bit 6 e)) OR ucast (take_bit 6 f)) = Some cp"
      by (rule tail_bytes)
    have "\<not> cp < 0x10000" "cp \<le> 0x10FFFF" using range four by (simp_all add: utf8_in_range_def not_less)
    then have "usb_utf8_encode cp = [c, d, e, f]"
      using four d(2,3) e(2,3) f by (intro recode4) (simp_all add: mask_bits)
    moreover have "0 < cp" using \<open>\<not> cp < 0x10000\<close> by (auto simp: word_less_nat_alt unat_gt_0)
    ultimately show ?thesis using that [of cp q] d(1) e(1) f(1) rest four scalar_range [OF range] by simp
  qed
qed

lemma encode_nonempty: "scalar cp \<Longrightarrow> usb_utf8_encode cp \<noteq> []"
  by (auto simp: usb_utf8_encode_def scalar_def)

lemma validate_encoded: "list_all scalar cps \<Longrightarrow> utf8_validate (concat (map usb_utf8_encode cps) @ s) = utf8_validate s"
  by (induction cps) (simp_all add: validate_encode)

lemma validate_parts:
  assumes "utf8_validate s" and "0 \<notin> set s"
  shows "\<exists>cps. list_all scalar cps \<and> s = concat (map usb_utf8_encode cps)"
  using assms
proof (induction "length s" arbitrary: s rule: less_induct)
  case less
  show ?case
  proof (cases s)
    case Nil
    then show ?thesis by (intro exI [of _ "[]"]) simp
  next
    case (Cons c r)
    then obtain cp t where t: "s = usb_utf8_encode cp @ t" "scalar cp" "utf8_validate t"
      using less.prems validate_first [of c r] by auto
    then have "length t < length s" "0 \<notin> set t" using less.prems encode_nonempty by auto
    then obtain cps where "list_all scalar cps" "t = concat (map usb_utf8_encode cps)"
      using less.hyps [of t] t(3) by blast
    then show ?thesis using t by (intro exI [of _ "cp # cps"]) simp
  qed
qed

text \<open>
  C31. The check of incoming names accepts a byte string exactly when it is well-formed UTF-8:
  a sequence of shortest encodings of Unicode scalar values, without surrogates, without
  overlong forms, nothing above U+10FFFF and nothing cut off.\<close>

theorem utf8_validate_iff:
  assumes "0 \<notin> set s"
  shows "utf8_validate s \<longleftrightarrow> (\<exists>cps. list_all scalar cps \<and> s = concat (map usb_utf8_encode cps))"
  using validate_parts [OF _ assms] validate_encoded [of _ "[]"] by auto

theorem utf8_validate_iff_witness:
  "utf8_validate [0xC3, 0xA9] \<and> (\<exists>cps. list_all scalar cps \<and> [0xC3, 0xA9] = concat (map usb_utf8_encode cps))"
proof -
  have "utf8_validate [0xC3, 0xA9]" by code_simp
  then show ?thesis using utf8_validate_iff [of "[0xC3, 0xA9]"] by simp
qed

section \<open>Clean names\<close>

text \<open>A name that cannot leave its folder and that every system stores under the same name.\<close>

definition clean_name :: "bytes \<Rightarrow> bool" where
  "clean_name t \<longleftrightarrow> t \<noteq> [] \<and> utf8_validate t \<and> \<not> has_dotdot t
     \<and> list_all (\<lambda>c. c < 0x80 \<longrightarrow> \<not> is_forbidden_ascii c) t
     \<and> hd t \<noteq> 0x20 \<and> last t \<noteq> 0x20 \<and> last t \<noteq> 0x2E"

lemma validate_ascii_append:
  assumes "list_all (\<lambda>c. c < 0x80) a"
  shows "utf8_validate (a @ s) = utf8_validate s"
  using assms by (induction a) auto

lemma tail_map:
  assumes "utf8_tail n s cp = Some v" and "\<And>c. bit c 7 \<Longrightarrow> f c = c"
  shows "utf8_tail n (map f s) cp = Some v \<and> n \<le> length s"
  using assms(1)
proof (induction n arbitrary: s cp)
  case (Suc n)
  then obtain d t where d: "s = d # t" "bit d 7" "\<not> bit d 6" "utf8_tail n t (push_bit 6 cp OR ucast (take_bit 6 d)) = Some v"
    by (elim tail_bytes)
  then show ?case using Suc.IH [OF d(4)] assms(2) by (simp add: rd_def mask_bits masks)
qed simp

lemma validate_map:
  assumes "utf8_validate s" and f: "\<And>c. bit c 7 \<Longrightarrow> f c = c" "\<And>c. \<not> bit c 7 \<Longrightarrow> \<not> bit (f c) 7"
  shows "utf8_validate (map f s)"
  using assms(1)
proof (induction s rule: utf8_validate.induct)
  case (2 c s)
  show ?case
  proof (cases "c < 0x80")
    case True
    then have "f c < 0x80" using f(2) [of c] by (simp add: ascii_bit)
    with True 2 show ?thesis by simp
  next
    case False
    then have fc: "f c = c" using f(1) by (simp add: ascii_bit)
    from False 2(3) obtain n cp v where l: "utf8_lead c = Some (n, cp)" "utf8_tail (n - 1) s cp = Some v" "utf8_in_range n v"
      "utf8_validate (drop (n - 1) s)"
      by (auto split: option.splits)
    then have "utf8_validate (map f (drop (n - 1) s))" using 2(2) False by blast
    with l False fc tail_map [OF l(2), of f] f(1) show ?thesis by (simp add: drop_map)
  qed
qed simp

lemma validate_drop_ascii: "utf8_validate (c # s) \<Longrightarrow> c < 0x80 \<Longrightarrow> utf8_validate s"
  by simp

lemma validate_dropWhile:
  assumes "utf8_validate s" and "\<And>c. P c \<Longrightarrow> c < 0x80"
  shows "utf8_validate (dropWhile P s)"
  using assms(1)
proof (induction s)
  case (Cons c s)
  then show ?case using assms(2) [of c] by auto
qed simp

text \<open>An ASCII byte at the end can be taken away.\<close>

lemma tail_butlast:
  assumes "utf8_tail n (s @ [x]) cp = Some v" and "x < 0x80"
  shows "utf8_tail n s cp = Some v"
  using assms(1)
proof (induction n arbitrary: s cp)
  case (Suc n)
  then obtain d t where d: "s @ [x] = d # t" "bit d 7" "utf8_tail n t (push_bit 6 cp OR ucast (take_bit 6 d)) = Some v" "\<not> bit d 6"
    by (elim tail_bytes)
  then obtain s' where "s = d # s'" "t = s' @ [x]" using assms(2) by (cases s) (auto simp: ascii_bit)
  then show ?case using Suc.IH [of s'] d by (simp add: rd_def mask_bits masks)
qed simp

lemma validate_butlast: "utf8_validate (s @ [x]) \<Longrightarrow> x < 0x80 \<Longrightarrow> utf8_validate s"
proof (induction s rule: utf8_validate.induct)
  case (2 c s)
  show ?case
  proof (cases "c < 0x80")
    case True
    with 2 show ?thesis by simp
  next
    case False
    then obtain n cp v where l: "utf8_lead c = Some (n, cp)" "utf8_tail (n - 1) (s @ [x]) cp = Some v" "utf8_in_range n v"
      "utf8_validate (drop (n - 1) (s @ [x]))"
      using 2(3) by (auto split: option.splits)
    note t = tail_butlast [OF l(2) 2(4)]
    then have "n - 1 \<le> length s" using tail_map [of "n - 1" s cp v id] by simp
    then have "utf8_validate (drop (n - 1) s)" using 2(2) [OF False l(1) refl t] l(4) 2(4) by simp
    with l t False show ?thesis by simp
  qed
qed simp

lemma validate_strip_end: "utf8_validate s \<Longrightarrow> utf8_validate (strip_end s)"
proof (induction s rule: rev_induct)
  case (snoc x s)
  then show ?case using validate_butlast [of s x] by (auto simp: strip_end_def)
qed (simp add: strip_end_def)


lemma has_dotdot_iff: "has_dotdot s \<longleftrightarrow> (\<exists>a b. s = a @ [0x2E, 0x2E] @ b)"
proof
  show "has_dotdot s \<Longrightarrow> \<exists>a b. s = a @ [0x2E, 0x2E] @ b"
  proof (induction s rule: has_dotdot.induct)
    case (1 a b s)
    then show ?case by (metis append_Cons append_Nil has_dotdot.simps(1))
  qed simp_all
next
  have "has_dotdot (a @ [0x2E, 0x2E] @ b)" for a b
  proof (induction a)
    case (Cons x a)
    then show ?case by (cases a) simp_all
  qed simp
  then show "\<exists>a b. s = a @ [0x2E, 0x2E] @ b \<Longrightarrow> has_dotdot s" by blast
qed

lemma dotdot_part: "\<not> has_dotdot (a @ s @ b) \<Longrightarrow> \<not> has_dotdot s"
  unfolding has_dotdot_iff by (metis append.assoc)

lemma strip_end_prefix: "\<exists>b. s = strip_end s @ b"
proof -
  have "rev s = takeWhile (\<lambda>c. c = 0x2E \<or> c = 0x20) (rev s) @ dropWhile (\<lambda>c. c = 0x2E \<or> c = 0x20) (rev s)" by simp
  then have "s = strip_end s @ rev (takeWhile (\<lambda>c. c = 0x2E \<or> c = 0x20) (rev s))"
    unfolding strip_end_def by (metis rev_append rev_rev_ident)
  then show ?thesis by blast
qed

lemma strip_end_last: "strip_end s \<noteq> [] \<Longrightarrow> last (strip_end s) \<noteq> 0x2E \<and> last (strip_end s) \<noteq> 0x20"
  unfolding strip_end_def using hd_dropWhile [of "\<lambda>c. c = 0x2E \<or> c = 0x20" "rev s"] by (auto simp: last_rev)

lemma strip_end_id: "s \<noteq> [] \<Longrightarrow> last s \<noteq> 0x2E \<Longrightarrow> last s \<noteq> 0x20 \<Longrightarrow> strip_end s = s"
  unfolding strip_end_def by (cases s rule: rev_cases) auto

lemma sanitize_char_facts: "sanitize_char c = 0x2E \<longleftrightarrow> c = 0x2E" "bit c 7 \<Longrightarrow> sanitize_char c = c"
  "\<not> bit c 7 \<Longrightarrow> \<not> bit (sanitize_char c) 7" "sanitize_char c < 0x80 \<Longrightarrow> \<not> is_forbidden_ascii (sanitize_char c)"
  "c < 0x80 \<longrightarrow> \<not> is_forbidden_ascii c \<Longrightarrow> sanitize_char c = c"
proof -
  have high: "0x80 \<le> c \<longleftrightarrow> bit c 7" using ascii_bit [of c] by (simp add: linorder_not_less [symmetric])
  show "sanitize_char c = 0x2E \<longleftrightarrow> c = 0x2E"
    by (auto simp: sanitize_char_def is_forbidden_ascii_def)
  show "bit c 7 \<Longrightarrow> sanitize_char c = c" by (simp add: sanitize_char_def high)
  show "\<not> bit c 7 \<Longrightarrow> \<not> bit (sanitize_char c) 7" by (simp add: sanitize_char_def high)
  show "sanitize_char c < 0x80 \<Longrightarrow> \<not> is_forbidden_ascii (sanitize_char c)"
    by (auto simp: sanitize_char_def is_forbidden_ascii_def split: if_splits)
  show "c < 0x80 \<longrightarrow> \<not> is_forbidden_ascii c \<Longrightarrow> sanitize_char c = c"
    by (auto simp: sanitize_char_def)
qed

lemma has_dotdot_map: "has_dotdot (map sanitize_char s) = has_dotdot s"
  by (induction s rule: has_dotdot.induct) (simp_all add: sanitize_char_facts)

lemma sanitize_name_facts:
  assumes "sanitize_name s m = (1, t)"
  shows "clean_name t \<and> length t \<le> length s \<and> sanitize_name t m = (1, t)"
proof -
  let ?m = "map sanitize_char s" and ?sp = "\<lambda>c. c = 0x20 \<or> c = 0x2F"
  from assms have ok: "\<not> has_dotdot s" "utf8_validate s" "\<not> (m > 0 \<and> int (length s) > m)"
    and t: "t = strip_end (dropWhile ?sp ?m)" "t \<noteq> []"
    by (auto simp: sanitize_name_def Let_def split: if_splits)
  from strip_end_prefix [of "dropWhile ?sp ?m"] obtain b where b: "dropWhile ?sp ?m = t @ b"
    unfolding t(1) [symmetric] by blast
  have "?m = takeWhile ?sp ?m @ dropWhile ?sp ?m" by simp
  then obtain a where split: "?m = a @ t @ b" unfolding b by blast
  have "utf8_validate t"
    unfolding t(1) by (intro validate_strip_end validate_dropWhile validate_map ok) (auto simp: sanitize_char_facts)
  moreover have dd: "\<not> has_dotdot t" using dotdot_part [of a t b] ok(1) has_dotdot_map [of s] split by simp
  moreover have "set t \<subseteq> set ?m" unfolding split by auto
  then have chars: "list_all (\<lambda>c. c < 0x80 \<longrightarrow> \<not> is_forbidden_ascii c) t"
    by (auto simp: list_all_iff sanitize_char_facts)
  moreover have hd: "\<not> ?sp (hd t)"
    using hd_dropWhile [of ?sp ?m] t(2) unfolding b by simp
  moreover note last = strip_end_last [of "dropWhile ?sp ?m", folded t(1), OF t(2)]
  ultimately have "clean_name t" using t(2) by (simp add: clean_name_def)
  moreover have len: "length t \<le> length s" using arg_cong [OF split, of length] by simp
  moreover have "map sanitize_char t = t"
    using chars by (intro map_idI) (auto simp: list_all_iff sanitize_char_facts)
  moreover have "dropWhile ?sp t = t" using hd t(2) by (cases t) auto
  moreover have "strip_end t = t" using last t(2) by (simp add: strip_end_id)
  ultimately show ?thesis
    using dd ok(3) t(2) by (auto simp: sanitize_name_def Let_def clean_name_def)
qed

text \<open>
  C15. A name that passes the check is clean, whatever the computer sent: not empty, well-formed,
  without path separators, control characters or the other forbidden characters, without
  \<^verbatim>\<open>..\<close>, neither starting with a space nor ending with a dot or a space. It fits the
  buffer, and checking it again leaves it as it is.\<close>

theorem sanitize_name_clean:
  assumes "sanitize_name s m = (1, t)"
  shows "clean_name t \<and> length t \<le> length s \<and> sanitize_name t m = (1, t)"
  using assms by (rule sanitize_name_facts)

theorem sanitize_name_clean_witness:
  "clean_name [0x61, 0x5F, 0x62] \<and> sanitize_name [0x20, 0x61, 0x2F, 0x62, 0x2E] 257 = (1, [0x61, 0x5F, 0x62])"
proof -
  have "sanitize_name [0x20, 0x61, 0x2F, 0x62, 0x2E] 257 = (1, [0x61, 0x5F, 0x62])" by code_simp
  then show ?thesis using sanitize_name_clean [of "[0x20, 0x61, 0x2F, 0x62, 0x2E]" 257 "[0x61, 0x5F, 0x62]"] by simp
qed

text \<open>
  The comparison in \<open>check_realpath\<close> never returns when the paths agree in their first byte:
  its index stays zero. No caller uses it.\<close>

lemma check_realpath_hangs:
  assumes "rootpath \<noteq> []" and "realp \<noteq> []" and "hd rootpath \<noteq> 0" and "hd rootpath = hd realp"
  shows "check_realpath fuel rootpath (Some realp) = None"
proof -
  have "rd rootpath 0 = hd rootpath" "rd realp 0 = hd realp" using assms(1,2) by (simp_all add: rd_def hd_conv_nth)
  then have "check_loop fuel rootpath realp 0 = None" using assms(3,4) by (induction fuel) simp_all
  then show ?thesis by (simp add: check_realpath_def)
qed

end
