(* ===== verification/Mtp_Handles_Props.thy ===== *)
theory Mtp_Handles_Props
  imports Mtp_Handles Mtp_Bytes_Props Mtp_Sanitize_Props
begin

text \<open>
  Properties of the handle database. The locale \<open>hash_index\<close> states when a hash table indexes
  a pool of entries and shows that insertion, removal and updates keep it so; it is
  interpreted for the table of names and the table of handles. On it rest the invariant of
  the database and the lookups against plain searches.
\<close>

section \<open>Hash tables as indexes\<close>

text \<open>A node whose entries fit the allocated array.\<close>

definition node_ok :: "hash_node \<Rightarrow> bool" where
  "node_ok node \<longleftrightarrow> length (node_entries node) \<le> unat (capacity node)"

lemma insert_generic_entries:
  assumes "node_ok node" and "length (node_entries node) < 0x20000000"
  shows "node_entries (insert_entry_generic True r node) = node_entries node @ [r] \<and> node_ok (insert_entry_generic True r node)"
proof (cases "capacity node = 0")
  case True
  then have "node_entries node = []" using assms(1) by (simp add: node_ok_def)
  then show ?thesis
    using True by (simp add: insert_entry_generic_def init_hash_node_def node_ok_def word_le_nat_alt)
next
  case False
  let ?n = "length (node_entries node)"
  have n: "unat (of_nat ?n :: u32) = ?n" using assms(2) by (simp add: unat_of_nat take_bit_nat_eq_self_iff)
  show ?thesis
  proof (cases "unat (capacity node) \<le> ?n")
    case True
    then have cap: "unat (capacity node) < 0x20000000" using assms(2) by simp
    then have "\<not> capacity node \<ge> 0x20000000" by (simp add: word_le_nat_alt)
    moreover have "unat (capacity node * 2) = 2 * unat (capacity node)"
      using cap by (simp add: unat_word_ariths)
    moreover have "0 < unat (capacity node)" using False by (simp add: unat_gt_0)
    ultimately show ?thesis
      using True False assms(1) n by (simp add: insert_entry_generic_def expand_hash_node_def node_ok_def word_le_nat_alt)
  next
    case less: False
    then show ?thesis
      using False n by (simp add: insert_entry_generic_def node_ok_def word_le_nat_alt)
  qed
qed

lemma remove_generic: "node_ok node \<Longrightarrow> node_ok (remove_entry_generic r node)"
  using length_remove1 [of r "node_entries node"]
  by (auto simp: remove_entry_generic_def node_ok_def length_remove1 split: if_splits)

locale hash_index =
  fixes key :: "fs_entry \<Rightarrow> nat"
  assumes key_bound: "key e < HASH_TABLE_SIZE"
begin

definition indexes :: "fs_entry list \<Rightarrow> hash_node list \<Rightarrow> bool" where
  "indexes es t \<longleftrightarrow> length t = HASH_TABLE_SIZE \<and> (\<forall>i < HASH_TABLE_SIZE. node_ok (t ! i) \<and> distinct (node_entries (t ! i))
     \<and> set (node_entries (t ! i)) = {r. r < length es \<and> key (es ! r) = i})"

lemma indexes_empty: "indexes [] (replicate HASH_TABLE_SIZE \<lparr>node_entries = [], capacity = 0\<rparr>)"
  by (simp add: indexes_def node_ok_def)

lemma bucket_length:
  assumes "indexes es t" and "i < HASH_TABLE_SIZE"
  shows "length (node_entries (t ! i)) \<le> length es"
proof -
  have "distinct (node_entries (t ! i))" and "set (node_entries (t ! i)) \<subseteq> {..<length es}"
    using assms by (auto simp: indexes_def)
  then show ?thesis by (metis card_lessThan card_mono distinct_card finite_lessThan)
qed

lemma indexes_insert:
  assumes "indexes es t" and "length es < 0x20000000"
  shows "indexes (es @ [e]) (on_bucket (key e) (insert_entry_generic True (length es)) t)"
proof -
  let ?t = "on_bucket (key e) (insert_entry_generic True (length es)) t"
  have len: "length t = HASH_TABLE_SIZE" using assms(1) by (simp add: indexes_def)
  have node: "node_entries (?t ! key e) = node_entries (t ! key e) @ [length es] \<and> node_ok (?t ! key e)"
    using insert_generic_entries [of "t ! key e" "length es"] bucket_length [OF assms(1) key_bound [of e]] assms key_bound [of e]
    by (simp add: on_bucket_def indexes_def)
  have "node_ok (?t ! i) \<and> distinct (node_entries (?t ! i)) \<and> set (node_entries (?t ! i)) = {r. r < length (es @ [e]) \<and> key ((es @ [e]) ! r) = i}"
    if i: "i < HASH_TABLE_SIZE" for i
  proof (cases "i = key e")
    case True
    then show ?thesis using node assms(1) i by (auto simp: indexes_def nth_append less_Suc_eq)
  next
    case False
    then have "?t ! i = t ! i" by (simp add: on_bucket_def)
    then show ?thesis using assms(1) i False by (auto simp: indexes_def nth_append less_Suc_eq)
  qed
  then show ?thesis using len by (simp add: indexes_def on_bucket_def)
qed

lemma indexes_update:
  assumes "indexes es t" and "key e = key (es ! r)"
  shows "indexes (es[r := e]) t"
proof -
  have "(k < length (es[r := e]) \<and> key (es[r := e] ! k) = i) = (k < length es \<and> key (es ! k) = i)" for k i
    using assms(2) by (cases "k = r"; cases "k < length es") simp_all
  then show ?thesis using assms(1) by (simp add: indexes_def)
qed

lemma indexes_move:
  assumes "indexes es t" and "r < length es" and "length es < 0x20000000"
  shows "indexes (es[r := e]) (on_bucket (key e) (insert_entry_generic True r) (on_bucket (key (es ! r)) (remove_entry_generic r) t))"
proof -
  let ?s = "on_bucket (key (es ! r)) (remove_entry_generic r) t"
  let ?t = "on_bucket (key e) (insert_entry_generic True r) ?s"
  have len: "length t = HASH_TABLE_SIZE" using assms(1) by (simp add: indexes_def)
  have s: "node_ok (?s ! i) \<and> distinct (node_entries (?s ! i)) \<and> set (node_entries (?s ! i)) = {k. k < length es \<and> k \<noteq> r \<and> key (es ! k) = i}
      \<and> length (node_entries (?s ! i)) \<le> length es"
    if i: "i < HASH_TABLE_SIZE" for i
  proof (cases "i = key (es ! r)")
    case True
    then have "?s ! i = remove_entry_generic r (t ! i)" using i len by (simp add: on_bucket_def)
    moreover have d: "distinct (node_entries (t ! i))" "node_ok (t ! i)" "set (node_entries (t ! i)) = {k. k < length es \<and> key (es ! k) = i}"
      using assms(1) i by (simp_all add: indexes_def)
    moreover have "length (remove1 r (node_entries (t ! i))) \<le> length es"
      using bucket_length [OF assms(1) i] by (auto simp: length_remove1)
    moreover have "set (remove1 r (node_entries (t ! i))) = {k. k < length es \<and> k \<noteq> r \<and> key (es ! k) = i}"
      using d(3) by (auto simp: set_remove1_eq [OF d(1)])
    ultimately show ?thesis using remove_generic [OF d(2), of r] by (simp add: remove_entry_generic_def)
  next
    case False
    then have "?s ! i = t ! i" by (simp add: on_bucket_def)
    then show ?thesis using assms(1) i False bucket_length [OF assms(1) i] by (auto simp: indexes_def)
  qed
  have node: "node_entries (?t ! key e) = node_entries (?s ! key e) @ [r] \<and> node_ok (?t ! key e)"
    using insert_generic_entries [of "?s ! key e" r] s [OF key_bound [of e]] assms(3) key_bound [of e] len
    by (simp add: on_bucket_def)
  have "node_ok (?t ! i) \<and> distinct (node_entries (?t ! i)) \<and> set (node_entries (?t ! i)) = {k. k < length (es[r := e]) \<and> key (es[r := e] ! k) = i}"
    if i: "i < HASH_TABLE_SIZE" for i
  proof (cases "i = key e")
    case True
    then show ?thesis using node s [OF i] assms(2) by (auto simp: nth_list_update)
  next
    case False
    then have "?t ! i = ?s ! i" by (simp add: on_bucket_def)
    then show ?thesis using s [OF i] False assms(2) by (auto simp: nth_list_update)
  qed
  then show ?thesis using len by (simp add: indexes_def on_bucket_def)
qed

text \<open>A search in the bucket of a key finds an entry with that key if there is one.\<close>

lemma find_indexed:
  assumes "indexes es t" and "i < HASH_TABLE_SIZE" and "\<And>r. r < length es \<Longrightarrow> P (es ! r) \<Longrightarrow> key (es ! r) = i"
  shows "case find (\<lambda>r. P (es ! r)) (node_entries (t ! i)) of
      None \<Rightarrow> \<forall>r < length es. \<not> P (es ! r) | Some r \<Rightarrow> r < length es \<and> P (es ! r)"
proof (cases "find (\<lambda>r. P (es ! r)) (node_entries (t ! i))")
  case None
  then have "\<forall>r \<in> set (node_entries (t ! i)). \<not> P (es ! r)" by (simp add: find_None_iff)
  then show ?thesis using None assms by (auto simp: indexes_def)
next
  case (Some r)
  then have "r \<in> set (node_entries (t ! i))" "P (es ! r)" by (auto simp: find_Some_iff)
  then show ?thesis using Some assms(1,2) by (auto simp: indexes_def)
qed

end

lemma hash_name_bound: "hash_function_name s < HASH_TABLE_SIZE"
  by (simp add: hash_function_name_def)

lemma hash_handle_bound: "hash_function_handle h < HASH_TABLE_SIZE"
  by (simp add: hash_function_handle_def)

interpretation names: hash_index "\<lambda>e. hash_function_name (e_name e)"
  by unfold_locales (rule hash_name_bound)

interpretation handles: hash_index "\<lambda>e. hash_function_handle (e_handle e)"
  by unfold_locales (rule hash_handle_bound)

section \<open>The invariant of the database\<close>

text \<open>
  The list holds every entry, newest first; both tables index the pool; handles grow with the
  position and stay below the next one; a parent has a smaller handle than its child.
\<close>

definition db_ok :: "fs_handles_db \<Rightarrow> bool" where
  "db_ok db \<longleftrightarrow> entry_list db = rev [0..<length (pool db)]
     \<and> names.indexes (pool db) (hash_table_by_name db)
     \<and> handles.indexes (pool db) (hash_table_by_handle db)
     \<and> unat (next_handle db) \<le> length (pool db) + 1 \<and> 0 < next_handle db
     \<and> (\<forall>r < length (pool db). e_handle (pool db ! r) < next_handle db)
     \<and> (\<forall>s < length (pool db). \<forall>r < s. e_handle (pool db ! s) \<noteq> 0 \<longrightarrow> e_handle (pool db ! r) < e_handle (pool db ! s))
     \<and> (\<forall>r < length (pool db). e_parent (pool db ! r) \<in> {0, 0xFFFFFFFF} \<or> e_parent (pool db ! r) < e_handle (pool db ! r))"

lemma db_ok_init: "db_ok init_fs_db"
  by (simp add: db_ok_def init_fs_db_def names.indexes_empty handles.indexes_empty)


lemma indexes_link:
  assumes "db_ok db" "length (pool db) < 0x1FFFFFFF" "handle_node_ok m" "name_node_ok m"
  shows "names.indexes (pool (link_entry m e db)) (hash_table_by_name (link_entry m e db))"
    and "handles.indexes (pool (link_entry m e db)) (hash_table_by_handle (link_entry m e db))"
  using assms names.indexes_insert [of "pool db" "hash_table_by_name db" e] handles.indexes_insert [of "pool db" "hash_table_by_handle db" e]
  by (simp_all add: db_ok_def link_entry_def insert_entry_def Let_def nth_append)

lemma link_entry_fields [simp]:
  "pool (link_entry m e db) = pool db @ [e]"
  "entry_list (link_entry m e db) = length (pool db) # entry_list db"
  "next_handle (link_entry m e db) = next_handle db"
  by (simp_all add: link_entry_def insert_entry_def Let_def)

lemma link_entry_ok:
  assumes ok: "db_ok db" and len: "length (pool db) < 0x1FFFFFFF" and "handle_node_ok m" "name_node_ok m"
    and e: "e_handle e = 0 \<and> nh = next_handle db \<and> e_parent e = 0
      \<or> e_handle e = next_handle db \<and> nh = next_handle db + 1 \<and> (e_parent e \<in> {0, 0xFFFFFFFF} \<or> e_parent e < next_handle db)"
  shows "db_ok (link_entry m e (db\<lparr>pool_free_count := k, next_handle := nh\<rparr>))"
proof -
  let ?d = "db\<lparr>pool_free_count := k, next_handle := nh\<rparr>"
  have same: "pool (link_entry m e ?d) = pool (link_entry m e db)" "hash_table_by_name (link_entry m e ?d) = hash_table_by_name (link_entry m e db)"
    "hash_table_by_handle (link_entry m e ?d) = hash_table_by_handle (link_entry m e db)"
    by (simp_all add: link_entry_def insert_entry_def Let_def)
  note idx = indexes_link [OF ok len assms(3,4), of e, folded same]
  have n: "unat (next_handle db) \<le> length (pool db) + 1" "0 < next_handle db" using ok by (simp_all add: db_ok_def)
  then have "unat (next_handle db + 1) = unat (next_handle db) + 1" using len by (simp add: unat_word_ariths)
  then have nh: "unat nh \<le> length (pool db) + 2" "0 < nh" "next_handle db \<le> nh" "e_handle e < nh"
    using e n by (auto simp: word_less_nat_alt word_le_nat_alt)
  have "e_handle (pool db ! r) < nh" if "r < length (pool db)" for r
    using ok that nh(3) unfolding db_ok_def by (meson less_le_trans)
  moreover have "e_handle (pool db ! r) < e_handle e" if "r < length (pool db)" "e_handle e \<noteq> 0" for r
    using ok that e unfolding db_ok_def by auto
  ultimately show ?thesis
    using ok idx nh e by (auto simp: db_ok_def nth_append less_Suc_eq)
qed

lemma upd_entry_ok:
  assumes "db_ok db" "\<And>e. e_name (f e) = e_name e \<and> e_handle (f e) = e_handle e \<and> e_parent (f e) = e_parent e"
  shows "db_ok (upd_entry r f db)"
proof (cases "r < length (pool db)")
  case True
  have same: "e_handle ((pool db)[r := f (pool db ! r)] ! s) = e_handle (pool db ! s)"
    "e_parent ((pool db)[r := f (pool db ! r)] ! s) = e_parent (pool db ! s)" for s
    using assms(2) True by (cases "s = r"; simp)+
  have "names.indexes ((pool db)[r := f (pool db ! r)]) (hash_table_by_name db)"
    by (rule names.indexes_update) (use assms in \<open>simp_all add: db_ok_def\<close>)
  moreover have "handles.indexes ((pool db)[r := f (pool db ! r)]) (hash_table_by_handle db)"
    by (rule handles.indexes_update) (use assms in \<open>simp_all add: db_ok_def\<close>)
  ultimately show ?thesis using assms(1) by (simp add: db_ok_def upd_entry_def same)
qed (use assms in \<open>simp add: upd_entry_def list_update_beyond\<close>)

lemma rename_entry_ok:
  assumes "db_ok db" "length (pool db) < 0x20000000" "r < length (pool db)" "handle_node_ok m" "name_node_ok m"
  shows "db_ok (rename_entry m r nm db)"
proof -
  let ?e = "e_name_update (\<lambda>_. nm) (pool db ! r)"
  have same: "e_handle ((pool db)[r := ?e] ! s) = e_handle (pool db ! s)" "e_parent ((pool db)[r := ?e] ! s) = e_parent (pool db ! s)" for s
    using assms(3) by (cases "s = r"; simp)+
  have "names.indexes (pool (rename_entry m r nm db)) (hash_table_by_name (rename_entry m r nm db))"
    using names.indexes_move [of "pool db" "hash_table_by_name db" r ?e] assms
    by (simp add: rename_entry_def insert_entry_def remove_entry_def upd_entry_def Let_def db_ok_def)
  moreover have "handles.indexes (pool (rename_entry m r nm db)) (hash_table_by_handle (rename_entry m r nm db))"
    using handles.indexes_move [of "pool db" "hash_table_by_handle db" r ?e] assms
    by (simp add: rename_entry_def insert_entry_def remove_entry_def upd_entry_def Let_def db_ok_def)
  moreover have "pool (rename_entry m r nm db) = (pool db)[r := ?e]" "entry_list (rename_entry m r nm db) = entry_list db"
    "next_handle (rename_entry m r nm db) = next_handle db"
    by (simp_all add: rename_entry_def insert_entry_def remove_entry_def upd_entry_def Let_def)
  ultimately show ?thesis using assms(1) by (simp add: db_ok_def same)
qed

text \<open>
  The databases of a session: any sequence of the operations, as long as the hash nodes can
  be allocated, new entries have the handle of an earlier entry or none as their parent, and
  less than half a billion entries were made.
\<close>

inductive db_reach :: "fs_handles_db \<Rightarrow> bool" where
  reach_init: "db_reach init_fs_db"
| reach_add: "\<lbrakk>db_reach db; handle_node_ok m; name_node_ok m; length (pool db) < 0x1FFFFFFF;
     parent \<in> {0, 0xFFFFFFFF} \<or> parent < next_handle db\<rbrakk> \<Longrightarrow> db_reach (snd (add_entry m info parent storage db))"
| reach_root: "\<lbrakk>db_reach db; handle_node_ok m; name_node_ok m; length (pool db) < 0x1FFFFFFF\<rbrakk> \<Longrightarrow> db_reach (snd (alloc_root_entry m storage db))"
| reach_rename: "\<lbrakk>db_reach db; handle_node_ok m; name_node_ok m; length (pool db) < 0x20000000; r < length (pool db)\<rbrakk>
     \<Longrightarrow> db_reach (rename_entry m r nm db)"
| reach_delete: "db_reach db \<Longrightarrow> db_reach (mark_deleted r db)"
| reach_resize: "db_reach db \<Longrightarrow> db_reach (upd_entry r (e_size_update (\<lambda>_. n)) db)"
| reach_watch: "db_reach db \<Longrightarrow> db_reach (upd_entry r (e_wd_update (\<lambda>_. wd)) db)"
| reach_open: "db_reach db \<Longrightarrow> db_reach (snd (entry_open path ids_ok fd r db))"
| reach_close: "db_reach db \<Longrightarrow> db_reach (entry_close sync_when_close ro db)"
| reach_search: "db_reach db \<Longrightarrow> db_reach (init_search_handle parent storage db)"
| reach_next: "db_reach db \<Longrightarrow> db_reach (snd (get_next_child_handle db))"

lemma db_ok_cong:
  "db_ok db \<Longrightarrow> pool db' = pool db \<Longrightarrow> entry_list db' = entry_list db \<Longrightarrow> hash_table_by_name db' = hash_table_by_name db
    \<Longrightarrow> hash_table_by_handle db' = hash_table_by_handle db \<Longrightarrow> next_handle db' = next_handle db \<Longrightarrow> db_ok db'"
  by (simp add: db_ok_def)

lemma take_slot_Some: "take_slot m db = Some db' \<Longrightarrow> \<exists>k. db' = db\<lparr>pool_free_count := k\<rparr>"
  by (auto simp: take_slot_def allocate_pool_block_def split: if_splits option.splits)

lemma alloc_root_ok:
  assumes "db_ok db" "length (pool db) < 0x1FFFFFFF" "handle_node_ok m" "name_node_ok m"
  shows "db_ok (snd (alloc_root_entry m storage db))"
proof (cases "take_slot m db")
  case (Some db')
  then obtain k where k: "db' = db\<lparr>pool_free_count := k\<rparr>" using take_slot_Some by blast
  have "db' = db\<lparr>pool_free_count := k, next_handle := next_handle db\<rparr>" by (simp add: k)
  then show ?thesis using Some db_ok_cong [OF assms(1), of db'] link_entry_ok [OF assms, where nh = "next_handle db"]
    by (auto simp: alloc_root_entry_def Let_def k)
qed (use assms in \<open>simp add: alloc_root_entry_def\<close>)

lemma alloc_entry_cases:
  assumes "take_slot m db = None \<or> \<not> strdup_ok m"
  shows "\<exists>k. alloc_entry m info parent storage db = (None, db\<lparr>pool_free_count := k\<rparr>)"
proof (cases "take_slot m db")
  case None
  then have "alloc_entry m info parent storage db = (None, db\<lparr>pool_free_count := pool_free_count db\<rparr>)" by (simp add: alloc_entry_def)
  then show ?thesis by blast
next
  case (Some db')
  then show ?thesis using assms take_slot_Some [OF Some] by (auto simp: alloc_entry_def)
qed

lemma alloc_entry_Some:
  assumes "take_slot m db \<noteq> None" "strdup_ok m"
  shows "\<exists>k. alloc_entry m info parent storage db = (Some (length (pool db)),
     link_entry m \<lparr>e_handle = next_handle db, e_parent = parent, e_storage = storage, e_name = filename info,
        e_flags = (if isdirectory info then ENTRY_IS_DIR else 0), e_size = f_size info, e_fd = 0, e_wd = -1\<rparr>
       (db\<lparr>pool_free_count := k, next_handle := next_handle db + 1\<rparr>))"
proof -
  obtain db' k where "take_slot m db = Some db'" "db' = db\<lparr>pool_free_count := k\<rparr>" using assms(1) take_slot_Some by (metis option.exhaust)
  then show ?thesis using assms(2) by (auto simp: alloc_entry_def Let_def intro!: exI [of _ k])
qed

lemma add_entry_ok:
  assumes "db_ok db" "length (pool db) < 0x1FFFFFFF" "handle_node_ok m" "name_node_ok m"
    and "parent \<in> {0, 0xFFFFFFFF} \<or> parent < next_handle db"
  shows "db_ok (snd (add_entry m info parent storage db))"
proof (cases "search_entry db info parent storage")
  case None
  show ?thesis
  proof (cases "take_slot m db = None \<or> \<not> strdup_ok m")
    case True
    then obtain k where "alloc_entry m info parent storage db = (None, db\<lparr>pool_free_count := k\<rparr>)" using alloc_entry_cases by blast
    then show ?thesis using None db_ok_cong [OF assms(1)] by (simp add: add_entry_def)
  next
    case False
    then show ?thesis using None alloc_entry_Some [of m db info parent storage] link_entry_ok [OF assms(1-4), where nh = "next_handle db + 1"] assms(5)
      by (fastforce simp: add_entry_def)
  qed
qed (use assms in \<open>simp add: add_entry_def\<close>)

lemma get_next_child_fields [simp]:
  "pool (snd (get_next_child_handle db)) = pool db" "entry_list (snd (get_next_child_handle db)) = entry_list db"
  "hash_table_by_name (snd (get_next_child_handle db)) = hash_table_by_name db"
  "hash_table_by_handle (snd (get_next_child_handle db)) = hash_table_by_handle db"
  "next_handle (snd (get_next_child_handle db)) = next_handle db"
  by (simp_all add: get_next_child_handle_def split: list.split)

lemma trace_ok: "db_ok db \<Longrightarrow> db_ok (db\<lparr>fs_trace := t\<rparr>)"
  by (rule db_ok_cong) simp_all

lemma mark_deleted_ok: "db_ok db \<Longrightarrow> db_ok (mark_deleted r db)"
  by (simp add: mark_deleted_def Let_def upd_entry_ok trace_ok)

lemma db_reach_ok: "db_reach db \<Longrightarrow> db_ok db"
proof (induction rule: db_reach.induct)
  case (reach_open db path ids_ok fd r)
  then show ?case by (auto simp: entry_open_def Let_def upd_entry_ok split: path_result.split)
next
  case (reach_close db sync ro)
  then show ?case by (auto simp: entry_close_def Let_def upd_entry_ok trace_ok split: option.split)
next
  case (reach_search db parent storage)
  from reach_search(2) show ?case by (rule db_ok_cong) (simp_all add: init_search_handle_def)
next
  case (reach_next db)
  from reach_next(2) show ?case by (rule db_ok_cong) simp_all
qed (auto simp: db_ok_init add_entry_ok alloc_root_ok rename_entry_ok mark_deleted_ok upd_entry_ok)

section \<open>Lookups\<close>

lemma find_entry_exact:
  assumes "db_ok db"
  shows "find_entry db s p st = None \<longleftrightarrow> (\<forall>r < length (pool db). \<not> name_matches s p st (pool db ! r))"
    and "find_entry db s p st = Some r \<Longrightarrow> r < length (pool db) \<and> name_matches s p st (pool db ! r)"
  using names.find_indexed [of "pool db" "hash_table_by_name db" "hash_function_name s" "name_matches s p st"] assms
  by (auto simp: db_ok_def hash_name_bound name_matches_def find_entry_def split: option.splits)

definition live_handle :: "(u32 \<Rightarrow> bytes option) \<Rightarrow> u32 \<Rightarrow> fs_entry \<Rightarrow> bool" where
  "live_handle roots h e \<longleftrightarrow> \<not> deleted e \<and> e_handle e = h \<and> roots (e_storage e) \<noteq> None"

lemma get_entry_exact:
  assumes "db_ok db"
  shows "get_entry_by_handle roots h db = None \<longleftrightarrow> (\<forall>r < length (pool db). \<not> live_handle roots h (pool db ! r))"
    and "get_entry_by_handle roots h db = Some r \<Longrightarrow> r < length (pool db) \<and> live_handle roots h (pool db ! r)"
  using handles.find_indexed [of "pool db" "hash_table_by_handle db" "hash_function_handle h" "live_handle roots h"] assms
  by (auto simp: db_ok_def hash_handle_bound live_handle_def get_entry_by_handle_def split: option.splits)

lemma handle_unique:
  assumes "db_ok db" "r < length (pool db)" "s < length (pool db)" "e_handle (pool db ! r) = e_handle (pool db ! s)" "e_handle (pool db ! r) \<noteq> 0"
  shows "r = s"
  using assms unfolding db_ok_def by (metis nat_neq_iff order_less_irrefl)

lemma get_entry_iff:
  assumes ok: "db_ok db" and "h \<noteq> 0"
  shows "get_entry_by_handle roots h db = Some r \<longleftrightarrow> r < length (pool db) \<and> live_handle roots h (pool db ! r)"
proof
  assume r: "r < length (pool db) \<and> live_handle roots h (pool db ! r)"
  show "get_entry_by_handle roots h db = Some r"
  proof (cases "get_entry_by_handle roots h db")
    case None
    then show ?thesis using get_entry_exact(1) [OF ok] r by blast
  next
    case (Some q)
    then have "q = r" using get_entry_exact(2) [OF ok Some] r assms(2) handle_unique [OF ok] by (auto simp: live_handle_def)
    then show ?thesis using Some by simp
  qed
qed (rule get_entry_exact(2) [OF ok])

section \<open>Paths\<close>

lemma path_chain_ends:
  assumes "db_ok db" "r < length (pool db)" "unat (e_handle (pool db ! r)) < fuel"
  shows "\<exists>ns. path_chain fuel roots db r = Some ns"
  using assms(2,3)
proof (induction fuel arbitrary: r)
  case (Suc fuel)
  show ?case
  proof (cases "e_parent (pool db ! r) = 0 \<or> e_parent (pool db ! r) = 0xFFFFFFFF \<or> get_entry_by_handle roots (e_parent (pool db ! r)) db = None")
    case False
    then obtain p where p: "get_entry_by_handle roots (e_parent (pool db ! r)) db = Some p" by auto
    have "p < length (pool db)" "e_handle (pool db ! p) = e_parent (pool db ! r)"
      using get_entry_exact(2) [OF assms(1) p] by (simp_all add: live_handle_def)
    moreover have "e_parent (pool db ! r) < e_handle (pool db ! r)" using assms(1) Suc(2) False by (auto simp: db_ok_def)
    ultimately have "\<exists>ns. path_chain fuel roots db p = Some ns" using Suc by (simp add: word_less_nat_alt)
    then show ?thesis using False p by (auto simp: Let_def)
  qed (auto simp: Let_def)
qed simp

lemma handle_bound: "db_ok db \<Longrightarrow> r < length (pool db) \<Longrightarrow> unat (e_handle (pool db ! r)) < length (pool db) + 1"
  unfolding db_ok_def word_less_nat_alt by fastforce

lemma chain_length_eq: "chain_length ns = length (concat (map ((#) 0x2F) (rev ns)))"
proof -
  have "fold (\<lambda>n l. l + length n + 1) ns k = k + length (concat (map ((#) (0x2F :: u8)) (rev ns)))" for k
    by (induction ns arbitrary: k) simp_all
  then show ?thesis by (simp add: chain_length_def)
qed

lemma write_name_step:
  "ofs = length n + 1 + k \<Longrightarrow> length b = ofs \<Longrightarrow> write_name n (ofs, b @ suf) = (k, take k b @ (0x2F # n) @ suf)"
  by (simp add: write_name_def put_bytes_def)

lemma write_names:
  "length b = chain_length ns + k \<Longrightarrow> fold write_name ns (length b, b @ suf) = (k, take k b @ concat (map ((#) 0x2F) (rev ns)) @ suf)"
proof (induction ns arbitrary: b suf)
  case (Cons n ns)
  let ?b = "take (chain_length ns + k) b"
  have "chain_length (n # ns) = length n + 1 + chain_length ns" by (simp add: chain_length_eq)
  then have "write_name n (length b, b @ suf) = (length ?b, ?b @ (0x2F # n) @ suf)"
    using Cons(2) by (simp add: write_name_step)
  moreover have "fold write_name ns (length ?b, ?b @ (0x2F # n) @ suf) = (k, take k ?b @ concat (map ((#) 0x2F) (rev ns)) @ (0x2F # n) @ suf)"
    by (rule Cons.IH) (use Cons(2) in \<open>simp add: chain_length_eq\<close>)
  ultimately show ?case by simp
qed (simp add: chain_length_eq)

lemma path_buffer_eq: "path_buffer root ns = root @ concat (map ((#) 0x2F) (rev ns)) @ [0]"
proof -
  let ?b = "replicate (chain_length ns + length root) (0 :: u8)"
  have "fold write_name ns (length ?b, ?b @ [0]) = (length root, take (length root) ?b @ concat (map ((#) 0x2F) (rev ns)) @ [0])"
    by (rule write_names) simp
  then show ?thesis by (simp add: path_buffer_def Let_def replicate_append_same [symmetric] put_bytes_def)
qed

section \<open>Removing folders\<close>

lemma remove_tree_exact:
  "fst (fs_remove_tree os folder n) = (snd (fs_remove_tree os folder n) \<noteq> None)"
  "fst (remove_children os folder cs) \<Longrightarrow> snd (remove_children os folder cs) \<noteq> []"
proof (induction os folder n and os folder cs rule: fs_remove_tree_remove_children.induct)
  case (2 os folder cs)
  then show ?case by (auto split: prod.split if_splits)
next
  case (4 os folder d n cs)
  have "fst (fs_remove_tree os (folder @ 0x2F # d) n) = (snd (fs_remove_tree os (folder @ 0x2F # d) n) \<noteq> None)"
    if "n = Folder x" "allocates os (folder @ 0x2F # d)" "stats os (folder @ 0x2F # d)" for x
    using 4(2) that by blast
  then show ?case using 4(1,3)
    by (auto simp: Let_def simp del: fs_remove_tree.simps split: if_splits fs_node.splits option.splits)
qed auto

lemma remove_tree_all:
  assumes "\<And>p. opens os p \<and> allocates os p \<and> stats os p \<and> removes os p"
  shows "n \<noteq> RegFile \<Longrightarrow> fs_remove_tree os folder n = (False, None)" and "remove_children os folder cs = (False, [])"
  using assms
proof (induction os folder n and os folder cs rule: fs_remove_tree_remove_children.induct)
  case (4 os folder d n cs)
  then show ?case by (cases n) (simp_all add: Let_def)
qed simp_all

section \<open>A small database\<close>

lemma fresh_entry:
  assumes "add_entry m info parent storage db = (Some r, db')" and "search_entry db info parent storage = None"
  shows "r = length (pool db) \<and> pool db' = pool db @ [\<lparr>e_handle = next_handle db, e_parent = parent, e_storage = storage, e_name = filename info,
        e_flags = (if isdirectory info then ENTRY_IS_DIR else 0), e_size = f_size info, e_fd = 0, e_wd = -1\<rparr>]"
proof -
  have al: "alloc_entry m info parent storage db = (Some r, db')" using assms by (simp add: add_entry_def)
  then have "\<not> (take_slot m db = None \<or> \<not> strdup_ok m)"
    using alloc_entry_cases [of m db info parent storage] by (metis Pair_inject option.distinct(1))
  then have slot: "take_slot m db \<noteq> None" "strdup_ok m" by simp_all
  from al alloc_entry_Some [OF slot, of info parent storage] show ?thesis by auto
qed

lemma find_entry_init: "find_entry init_fs_db s p st = None"
  using hash_name_bound [of s] by (simp add: find_entry_def init_fs_db_def)

definition sample_info :: filefoundinfo where
  "sample_info = \<lparr>isdirectory = True, filename = [0x61], f_size = 0\<rparr>"

definition sample_mem :: mem where
  "sample_mem = \<lparr>block_ok = True, strdup_ok = True, handle_node_ok = True, name_node_ok = True\<rparr>"

text \<open>A database with one folder.\<close>

definition sample_db :: fs_handles_db where
  "sample_db = snd (add_entry sample_mem sample_info 0 0x10001 init_fs_db)"

lemma sample_add: "add_entry sample_mem sample_info 0 0x10001 init_fs_db = (Some 0, sample_db)"
proof -
  have "take_slot sample_mem init_fs_db \<noteq> None" "strdup_ok sample_mem" "pool init_fs_db = []"
    by (simp_all add: take_slot_def allocate_pool_block_def sample_mem_def init_fs_db_def)
  then have "fst (add_entry sample_mem sample_info 0 0x10001 init_fs_db) = Some 0"
    using alloc_entry_Some [of sample_mem init_fs_db sample_info 0 "0x10001"]
    by (auto simp: add_entry_def search_entry_def find_entry_init)
  then show ?thesis by (simp add: sample_db_def prod_eq_iff)
qed

lemma sample_pool: "pool sample_db = [\<lparr>e_handle = 1, e_parent = 0, e_storage = 0x10001, e_name = [0x61],
     e_flags = 1, e_size = 0, e_fd = 0, e_wd = -1\<rparr>]"
  using fresh_entry [OF sample_add] by (simp add: search_entry_def find_entry_init) (simp add: init_fs_db_def sample_info_def)

lemma sample_reach: "db_reach sample_db"
  unfolding sample_db_def by (rule reach_add [OF reach_init]) (simp_all add: sample_mem_def init_fs_db_def)

lemma sample_chain: "path_chain 2 roots sample_db 0 = Some [[0x61]]"
  by (simp add: numeral_2_eq_2 sample_pool)

section \<open>Properties of the handle database\<close>

text \<open>
  C12. Whatever was added, renamed and deleted in a session, the hash tables answer as a search
  of all entries would: a name is found exactly when a live entry has it in that folder and
  storage, and a handle names the one live entry that got it.\<close>

theorem handle_lookup_exact:
  assumes "db_reach db" and "h \<noteq> 0"
  shows "(find_entry db s p st = None \<longleftrightarrow> (\<forall>r < length (pool db). \<not> name_matches s p st (pool db ! r)))
    \<and> (\<forall>r. find_entry db s p st = Some r \<longrightarrow> r < length (pool db) \<and> name_matches s p st (pool db ! r))
    \<and> (\<forall>r. get_entry_by_handle roots h db = Some r \<longleftrightarrow> r < length (pool db) \<and> live_handle roots h (pool db ! r))"
proof -
  note ok = db_reach_ok [OF assms(1)]
  show ?thesis using find_entry_exact [OF ok] get_entry_iff [OF ok assms(2)] by blast
qed

theorem handle_lookup_exact_witness:
  "get_entry_by_handle (\<lambda>_. Some [0x2F]) 1 sample_db = Some 0"
  using handle_lookup_exact [OF sample_reach, of 1 "[]" 0 0 "\<lambda>_. Some [0x2F]"]
  by (simp add: sample_pool live_handle_def deleted_def)

text \<open>
  C26. An object that was added is found under its name, adding it again yields the same entry
  and changes nothing, and no earlier entry is touched.\<close>

theorem add_entry_round_trip:
  assumes "db_reach db" "handle_node_ok m" "name_node_ok m" "length (pool db) < 0x1FFFFFFF"
    and "parent \<in> {0, 0xFFFFFFFF} \<or> parent < next_handle db" and "add_entry m info parent storage db = (Some r, db')"
  shows "find_entry db' (filename info) parent storage = Some r
    \<and> add_entry m info parent storage db' = (Some r, db')
    \<and> take (length (pool db)) (pool db') = pool db"
proof (cases "search_entry db info parent storage")
  case None
  have f: "find_entry db (filename info) parent storage = None" using None by (simp add: search_entry_def)
  note ok = db_reach_ok [OF assms(1)]
  from fresh_entry [OF assms(6) None] have r: "r = length (pool db)"
    and p: "pool db' = pool db @ [\<lparr>e_handle = next_handle db, e_parent = parent, e_storage = storage, e_name = filename info,
        e_flags = (if isdirectory info then ENTRY_IS_DIR else 0), e_size = f_size info, e_fd = 0, e_wd = -1\<rparr>]"
    by simp_all
  have ok': "db_ok db'" using add_entry_ok [OF ok assms(4,2,3,5)] assms(6) by (metis snd_conv)
  have new: "name_matches (filename info) parent storage (pool db' ! r)" by (simp add: p r name_matches_def deleted_def)
  have "q = r" if "q < length (pool db')" "name_matches (filename info) parent storage (pool db' ! q)" for q
    using that find_entry_exact(1) [OF ok, of "filename info" parent storage] f r by (auto simp: p nth_append less_Suc_eq split: if_splits)
  then have "find_entry db' (filename info) parent storage = Some r"
    using find_entry_exact [OF ok', of "filename info" parent storage] new r p
    by (cases "find_entry db' (filename info) parent storage") auto
  then show ?thesis by (simp add: add_entry_def search_entry_def p)
next
  case (Some q)
  then show ?thesis using assms(6) by (auto simp: add_entry_def search_entry_def)
qed

theorem add_entry_round_trip_witness:
  "find_entry sample_db [0x61] 0 0x10001 = Some 0 \<and> add_entry sample_mem sample_info 0 0x10001 sample_db = (Some 0, sample_db)"
  using add_entry_round_trip [OF reach_init _ _ _ _ sample_add]
  by (simp add: sample_mem_def sample_info_def init_fs_db_def)

text \<open>
  C24. The walk from an object to its storage ends in every database of a session (a parent has
  a smaller handle), and the path written from the end of the buffer is the root and the names
  from the outermost folder to the object, each after a slash.\<close>

theorem object_path_ends:
  assumes "db_reach db" and "r < length (pool db)"
  shows "\<exists>ns. path_chain (length (pool db) + 1) roots db r = Some ns \<and> hd ns = e_name (pool db ! r)
    \<and> path_buffer root ns = root @ concat (map ((#) 0x2F) (rev ns)) @ [0]
    \<and> build_full_path roots realpath full_ok tmp_ok (length (pool db) + 1) ro r db \<noteq> PathHangs"
proof -
  note ok = db_reach_ok [OF assms(1)]
  obtain ns where ns: "path_chain (length (pool db) + 1) roots db r = Some ns"
    using path_chain_ends [OF ok assms(2) handle_bound [OF ok assms(2)]] by blast
  then have "hd ns = e_name (pool db ! r)"
    by (auto simp: Let_def split: if_splits option.splits)
  moreover have "build_full_path roots realpath full_ok tmp_ok (length (pool db) + 1) ro r db \<noteq> PathHangs"
    unfolding build_full_path_def ns
    by (auto simp: Let_def check_root_def new_object_path_def split: option.splits realpath_result.splits prod.splits)
  ultimately show ?thesis using ns path_buffer_eq by blast
qed

theorem object_path_ends_witness:
  "build_full_path (\<lambda>_. None) (\<lambda>_. NoEntry) True True 2 None 0 sample_db \<noteq> PathHangs"
  using object_path_ends [OF sample_reach, of 0 "\<lambda>_. None" "[]" "\<lambda>_. NoEntry" True True None]
  by (simp add: sample_pool numeral_2_eq_2)

text \<open>
  C17. A path that is handed out starts with the root of the storage. It is a resolved path, or
  a resolved folder with a clean name below it.\<close>

theorem object_path_in_storage:
  assumes "build_full_path roots realpath full_ok tmp_ok fuel (Some root) r db = PathSome p"
  shows "take (length root) p = root
    \<and> (\<exists>full. realpath full = RealPath p \<or> realpath full = NoEntry
        \<and> (\<exists>dir rp nm. realpath dir = RealPath rp \<and> full = dir @ drop (length dir) full \<and> p = rp @ 0x2F # nm \<and> clean_name nm))"
proof -
  let ?nm = "e_name (pool db ! r)"
  obtain ns where ns: "path_chain fuel roots db r = Some ns" "full_ok"
    using assms by (auto simp: build_full_path_def split: option.splits if_splits)
  let ?f = "c_str (path_buffer root ns)"
  show ?thesis
  proof (cases "realpath ?f")
    case (RealPath q)
    then have "check_root root q = PathSome p" using assms ns by (simp add: build_full_path_def Let_def)
    then have "q = p \<and> take (length root) p = root" by (simp add: check_root_def split: if_splits)
    then show ?thesis using RealPath by blast
  next
    case NoEntry
    let ?d = "take (length ?f - length ?nm) ?f"
    have "new_object_path realpath tmp_ok root ?f ?nm = PathSome p" using assms ns NoEntry by (simp add: build_full_path_def Let_def)
    then obtain rp t where rp: "realpath ?d = RealPath rp" "sanitize_name ?nm (int (length ?nm)) = (1, t)" "check_root root (rp @ 0x2F # t) = PathSome p"
      by (auto simp: new_object_path_def Let_def split: realpath_result.splits if_splits prod.splits)
    then have p: "p = rp @ 0x2F # t \<and> take (length root) p = root"
      unfolding check_root_def by (metis path_result.distinct(1) path_result.inject)
    have "?f = ?d @ drop (length ?d) ?f" by (metis append_eq_conv_conj append_take_drop_id)
    then show ?thesis using p rp(1) NoEntry sanitize_name_facts [OF rp(2)] by blast
  next
    case RealPathError
    then show ?thesis using assms ns by (simp add: build_full_path_def Let_def)
  qed
qed

theorem object_path_in_storage_witness:
  "take 2 [0x2F, 0x72, 0x2F, 0x61] = [0x2F, 0x72 :: u8]
   \<and> build_full_path (\<lambda>_. None) RealPath True True 2 (Some [0x2F, 0x72]) 0 sample_db = PathSome [0x2F, 0x72, 0x2F, 0x61]"
proof -
  have b: "build_full_path (\<lambda>_. None) RealPath True True 2 (Some [0x2F, 0x72]) 0 sample_db = PathSome [0x2F, 0x72, 0x2F, 0x61]"
    by (simp add: build_full_path_def sample_chain path_buffer_eq c_str_def Let_def check_root_def)
  then show ?thesis using object_path_in_storage [OF b] by simp
qed

text \<open>
  When a folder vanished behind the back of the responder, the path of an object in it
  compares the root with a null pointer: neither the object nor its folder can be resolved and
  the result pointer is used unchecked.\<close>

theorem vanished_folder_crashes:
  assumes "path_chain fuel roots db r = Some ns" and "root \<noteq> []"
    and "realpath (c_str (path_buffer root ns)) = NoEntry"
    and "realpath (take (length (c_str (path_buffer root ns)) - length (e_name (pool db ! r))) (c_str (path_buffer root ns))) = NoEntry"
  shows "build_full_path roots realpath True tmp_ok fuel (Some root) r db = PathCrash"
  using assms by (simp add: build_full_path_def new_object_path_def Let_def)

theorem vanished_folder_crashes_witness:
  "build_full_path (\<lambda>_. None) (\<lambda>_. NoEntry) True True 2 (Some [0x2F, 0x72]) 0 sample_db = PathCrash"
  by (rule vanished_folder_crashes [OF sample_chain]) simp_all

text \<open>
  Closing an entry that was never opened closes descriptor 0: the descriptor of a new entry
  is zero, while only -1 counts as closed.\<close>

theorem unopened_entry_closes_stdin:
  assumes "add_entry m info parent storage db = (Some r, db')" and "search_entry db info parent storage = None"
  shows "fs_trace (entry_close False (Some r) db') = fs_trace db' @ [CloseFd 0]"
  using fresh_entry [OF assms] by (simp add: entry_close_def upd_entry_def)

theorem unopened_entry_closes_stdin_witness:
  "fs_trace (entry_close False (Some 0) sample_db) = fs_trace sample_db @ [CloseFd 0]"
  by (rule unopened_entry_closes_stdin [OF sample_add]) (simp add: search_entry_def find_entry_init)

text \<open>
  Removing a folder reports a failure exactly when something of it is left, and nothing is
  left when the system refuses nothing.\<close>

theorem remove_tree_reports:
  "(fst (fs_remove_tree os folder n) \<longleftrightarrow> snd (fs_remove_tree os folder n) \<noteq> None)
   \<and> ((\<forall>p. opens os p \<and> allocates os p \<and> stats os p \<and> removes os p) \<and> n \<noteq> RegFile \<longrightarrow> fs_remove_tree os folder n = (False, None))"
  using remove_tree_exact(1) remove_tree_all(1) by blast

theorem remove_tree_reports_witness:
  "fs_remove_tree \<lparr>opens = \<lambda>_. True, allocates = \<lambda>_. True, stats = \<lambda>_. True, removes = \<lambda>_. True\<rparr> [0x61] (Folder [([0x62], RegFile)]) = (False, None)
   \<and> fst (fs_remove_tree \<lparr>opens = \<lambda>_. True, allocates = \<lambda>_. True, stats = \<lambda>_. True, removes = \<lambda>p. p \<noteq> [0x61, 0x2F, 0x62]\<rparr> [0x61] (Folder [([0x62], RegFile)]))"
  using remove_tree_reports [of "\<lparr>opens = \<lambda>_. True, allocates = \<lambda>_. True, stats = \<lambda>_. True, removes = \<lambda>_. True\<rparr>" "[0x61]" "Folder [([0x62], RegFile)]"]
  by simp

end
