(* ===== verification/Mtp_Transfer_Props.thy ===== *)
theory Mtp_Transfer_Props
  imports Mtp_Transfer Mtp_Handles_Props
begin

text \<open>
  Properties of the file transfers. The rounds of \<open>send_file_data\<close> keep the loaded page equal to
  that part of the file; a packet is assembled from one page or from two, and the packets
  together are the container header and the requested bytes.
\<close>

section \<open>Pages\<close>

lemma page_start: "pos AND NOT (2 ^ k - 1) = pos - pos mod 2 ^ k" for pos :: int
proof -
  have "pos AND NOT (mask k) = push_bit k (drop_bit k pos)"
    by (rule bit_eqI) (auto simp: bit_simps)
  also have "\<dots> = pos - pos mod 2 ^ k"
    by (simp add: push_bit_eq_mult drop_bit_eq_div minus_mod_eq_div_mult)
  finally have "pos AND NOT (mask k) = pos - pos mod 2 ^ k" .
  then show ?thesis by (simp add: mask_eq_exp_minus_1)
qed

lemma page_offset: "pos AND (2 ^ k - 1) = pos mod 2 ^ k" for pos :: int
  by (metis mask_eq_exp_minus_1 take_bit_eq_mask take_bit_eq_mod)

definition page_ok :: "bytes \<Rightarrow> int \<Rightarrow> int \<Rightarrow> bytes \<Rightarrow> bool" where
  "page_ok c R p b \<longleftrightarrow> (\<exists>rest. b = take (nat R) (drop (nat p) c) @ rest)"

lemma page_slice:
  assumes "page_ok c R p b" "0 \<le> p" "0 \<le> io" "0 \<le> n" "io + n \<le> R" "n = 0 \<or> p + io + n \<le> int (length c)"
  shows "take (nat n) (drop (nat io) b) = take (nat n) (drop (nat (p + io)) c)"
proof (cases "n = 0")
  case False
  from assms(1) obtain rest where b: "b = take (nat R) (drop (nat p) c) @ rest" by (auto simp: page_ok_def)
  have le: "nat io + nat n \<le> length (take (nat R) (drop (nat p) c))" using assms False by (simp, linarith)
  then have "take (nat n) (drop (nat io) b) = take (nat n) (drop (nat io) (take (nat R) (drop (nat p) c)))"
    unfolding b by simp
  also have "\<dots> = take (nat n) (drop (nat p + nat io) c)"
    using assms by (simp add: drop_take min_def add.commute)
  finally show ?thesis using assms by (simp add: nat_add_distrib)
qed simp

lemma page_read:
  assumes "length b = nat R"
  shows "page_ok c R p (put_bytes 0 (take (nat R) (drop (nat p) c)) b)" and "length (put_bytes 0 (take (nat R) (drop (nat p) c)) b) = nat R"
  using assms by (auto simp: page_ok_def put_bytes_def)

text \<open>What \<^verbatim>\<open>read\<close> does on a regular file with the content \<open>c\<close>.\<close>

definition reads_file :: "bytes \<Rightarrow> int \<Rightarrow> (int \<Rightarrow> int \<times> bytes) \<Rightarrow> bool" where
  "reads_file c R rdp \<longleftrightarrow> (\<forall>p \<ge> 0. rdp p = (int (length (take (nat R) (drop (nat p) c))), take (nat R) (drop (nat p) c)))"

definition xfer_ok :: "bytes \<Rightarrow> int \<Rightarrow> int \<Rightarrow> xfer \<Rightarrow> bool" where
  "xfer_ok c R B x \<longleftrightarrow> length (x_buf x) = nat R \<and> length (x_wr x) = nat B
     \<and> (x_page x = -1 \<or> 0 \<le> x_page x \<and> page_ok c R (x_page x) (x_buf x))"

lemma load_page_ok:
  assumes "reads_file c R rdp" "xfer_ok c R B x" "0 \<le> p"
  obtains x' where "load_page rdp p x = Some x'" "xfer_ok c R B x'" "x_page x' = p" "page_ok c R p (x_buf x')"
    "x_j x' = x_j x" "x_ofs x' = x_ofs x" "x_wr x' = x_wr x" "x_out x' = x_out x"
  using assms page_read [where b = "x_buf x" and R = R and c = c and p = p] by (auto simp: load_page_def reads_file_def xfer_ok_def)

lemma ensure_page_ok:
  assumes "reads_file c R rdp" "xfer_ok c R B x" "0 \<le> p"
  obtains x' where "ensure_page rdp p x = Some x'" "xfer_ok c R B x'" "x_page x' = p" "page_ok c R p (x_buf x')"
    "x_j x' = x_j x" "x_ofs x' = x_ofs x" "x_wr x' = x_wr x" "x_out x' = x_out x"
proof (cases "x_page x = p")
  case True
  then show ?thesis using assms that [of x] by (auto simp: ensure_page_def xfer_ok_def)
next
  case False
  then show ?thesis using load_page_ok [OF assms] that by (metis ensure_page_def)
qed

lemma memcpy_Some:
  "0 \<le> n \<Longrightarrow> 0 \<le> di \<Longrightarrow> 0 \<le> si \<Longrightarrow> di + n \<le> int (length dst) \<Longrightarrow> si + n \<le> int (length src)
    \<Longrightarrow> memcpy_at dst di src si n = Some (put_bytes (nat di) (take (nat n) (drop (nat si) src)) dst)"
  by (simp add: memcpy_at_def)


section \<open>Packets\<close>

lemma take_put:
  "i \<le> length b \<Longrightarrow> m = i + length bs \<Longrightarrow> take m (put_bytes i bs b) = take i b @ bs"
  by (simp add: put_bytes_def)

lemma fill_inside:
  assumes ok: "xfer_ok c R B x" and pg: "page_ok c R (x_page x) (x_buf x)" "0 \<le> x_page x" and io: "io = pos AND (R - 1)" "0 \<le> io" "x_page x + io = pos"
    and n: "0 \<le> n" "x_ofs x + n \<le> B" "B \<le> R" "0 \<le> x_ofs x" and fit: "n = 0 \<or> pos + n \<le> int (length c)" and inside: "io + n < R"
  obtains ptr x' where "fill_packet rdp R pos n x = Packet ptr x'" "xfer_ok c R B x'"
    "x_j x' = x_j x" "x_ofs x' = x_ofs x" "x_out x' = x_out x"
    "take (nat (x_ofs x + n)) ptr = take (nat (x_ofs x)) (x_wr x) @ take (nat n) (drop (nat pos) c)"
proof -
  have len: "length (x_buf x) = nat R" "length (x_wr x) = nat B" using ok by (simp_all add: xfer_ok_def)
  have ofs: "nat (x_ofs x) \<le> nat B" using n by (intro nat_mono) simp
  have slice: "take (nat n) (drop (nat io) (x_buf x)) = take (nat n) (drop (nat pos) c)"
    using page_slice [OF pg io(2) n(1)] inside fit io(3) by simp
  show ?thesis
  proof (cases "x_ofs x = 0")
    case True
    then show ?thesis using that [of "drop (nat io) (x_buf x)" x] inside ok slice by (simp add: fill_packet_def io(1) Let_def)
  next
    case False
    let ?w = "put_bytes (nat (x_ofs x)) (take (nat n) (drop (nat io) (x_buf x))) (x_wr x)"
    have "memcpy_at (x_wr x) (x_ofs x) (x_buf x) io n = Some ?w"
      using inside n io(2) len by (intro memcpy_Some) simp_all
    then have "fill_packet rdp R pos n x = Packet ?w (x\<lparr>x_wr := ?w\<rparr>)" using inside False by (simp add: fill_packet_def io(1) Let_def)
    moreover have "xfer_ok c R B (x\<lparr>x_wr := ?w\<rparr>)" using ok n io(2) inside by (simp add: xfer_ok_def nat_diff_distrib)
    moreover have "length (take (nat n) (drop (nat io) (x_buf x))) = nat n" using inside n io(2) len by simp
    then have "take (nat (x_ofs x + n)) ?w = take (nat (x_ofs x)) (x_wr x) @ take (nat n) (drop (nat pos) c)"
      unfolding slice [symmetric] using n len ofs by (intro take_put) (simp_all add: nat_add_distrib)
    ultimately show ?thesis using that by simp
  qed
qed

lemma fill_across:
  assumes rf: "reads_file c R rdp" and ok: "xfer_ok c R B x" and pg: "page_ok c R (x_page x) (x_buf x)" "0 \<le> x_page x"
    and io: "io = pos AND (R - 1)" "0 \<le> io" "io < R" "x_page x + io = pos"
    and n: "0 \<le> n" "x_ofs x + n \<le> B" "B \<le> R" "0 \<le> x_ofs x" and fit: "n = 0 \<or> pos + n \<le> int (length c)" and across: "\<not> io + n < R"
  obtains ptr x' where "fill_packet rdp R pos n x = Packet ptr x'" "xfer_ok c R B x'"
    "x_j x' = x_j x" "x_ofs x' = x_ofs x" "x_out x' = x_out x"
    "take (nat (x_ofs x + n)) ptr = take (nat (x_ofs x)) (x_wr x) @ take (nat n) (drop (nat pos) c)"
proof -
  have len: "length (x_buf x) = nat R" "length (x_wr x) = nat B" using ok by (simp_all add: xfer_ok_def)
  define f where "f = R - io"
  have f: "0 < f" "f \<le> n" "n - f \<le> R" "n - (io + n - R) = f" "io + f = R" using across io n by (simp_all add: f_def)
  define d where "d = take (nat f) (drop (nat io) (x_buf x))"
  have d: "d = take (nat f) (drop (nat pos) c)"
    using page_slice [OF pg io(2), of f] f io(4) fit by (simp add: d_def)
  have ld: "length d = nat f" using len io f by (simp add: d_def f_def nat_diff_distrib)
  define w where "w = put_bytes (nat (x_ofs x)) d (x_wr x)"
  have w1: "memcpy_at (x_wr x) (x_ofs x) (x_buf x) io f = Some w"
    unfolding w_def d_def by (rule memcpy_Some) (use f n io len in simp_all)
  have w2: "length w = nat B" using f(1,2) n len ld by (simp add: w_def)
  have ok1: "xfer_ok c R B (x\<lparr>x_wr := w\<rparr>)" using ok w2 by (simp add: xfer_ok_def)
  obtain y where y: "load_page rdp (x_page x + R) (x\<lparr>x_wr := w\<rparr>) = Some y" "xfer_ok c R B y" "page_ok c R (x_page x + R) (x_buf y)"
    "x_j y = x_j x" "x_ofs y = x_ofs x" "x_wr y = w" "x_out y = x_out x"
    using load_page_ok [OF rf ok1, of "x_page x + R"] pg(2) io by auto
  define e where "e = take (nat (n - f)) (x_buf y)"
  have next_page: "x_page x + R + 0 = pos + f" using io(4) by (simp add: f_def)
  have e: "e = take (nat (n - f)) (drop (nat (pos + f)) c)"
    using page_slice [OF y(3), of 0 "n - f", unfolded next_page] pg(2) f io(2-4) fit unfolding e_def by simp
  have le: "length e = nat (n - f)" using y(2) f by (simp add: e_def xfer_ok_def)
  define v where "v = put_bytes (nat (x_ofs x + f)) e w"
  have v: "memcpy_at (x_wr y) (x_ofs y + f) (x_buf y) 0 (n - f) = Some v"
    using memcpy_Some [of "n - f" "x_ofs y + f" 0 "x_wr y" "x_buf y"] f n y w2 by (simp add: v_def e_def xfer_ok_def)
  have "length v = nat B" using w2 le f n by (simp add: v_def nat_add_distrib [symmetric] del: nat_add_distrib)
  then have ok2: "xfer_ok c R B (y\<lparr>x_wr := v\<rparr>)" using y(2) by (simp add: xfer_ok_def)
  have "take (nat (x_ofs x + n)) v = take (nat (x_ofs x + f)) w @ e"
    unfolding v_def by (rule take_put) (use w2 le f n in simp_all)
  also have "take (nat (x_ofs x + f)) w = take (nat (x_ofs x)) (x_wr x) @ d"
    unfolding w_def by (rule take_put) (use len ld f n in simp_all)
  finally have joined: "take (nat (x_ofs x + n)) v = take (nat (x_ofs x)) (x_wr x) @ d @ e" by simp
  have split: "nat n = nat f + nat (n - f)" "nat (pos + f) = nat f + nat pos" using f(1,2) io(2,4) pg(2) by linarith+
  have "d @ e = take (nat n) (drop (nat pos) c)" unfolding d e split by (simp only: take_add drop_drop)
  with joined have "take (nat (x_ofs x + n)) v = take (nat (x_ofs x)) (x_wr x) @ take (nat n) (drop (nat pos) c)" by simp
  moreover have "fill_packet rdp R pos n x = Packet v (y\<lparr>x_wr := v\<rparr>)"
    using across by (simp add: fill_packet_def io(1) [symmetric] Let_def f(4) w1 y(1) v)
  ultimately show ?thesis using that ok2 y(4-7) by simp
qed

section \<open>Rounds\<close>

lemma send_block_ok:
  assumes rf: "reads_file c R rdp" and ok: "xfer_ok c R B x" and R: "R = 2 ^ k" and pos: "0 \<le> offset" "0 \<le> x_j x" "x_j x \<le> A"
    and B: "x_ofs x \<le> B" "B \<le> R" "0 \<le> x_ofs x" and fit: "A = 0 \<or> offset + A \<le> int (length c)"
    and n: "n = min (B - x_ofs x) (A - x_j x)"
  obtains x' where "send_block rdp R B offset A False x = Sent x'" "xfer_ok c R B x'" "x_j x' = x_j x + n" "x_ofs x' = 0"
    "x_out x' = x_out x @ [take (nat (x_ofs x)) (x_wr x) @ take (nat n) (drop (nat (offset + x_j x)) c)]"
proof -
  let ?pos = "offset + x_j x"
  have R0: "0 < R" by (simp add: R)
  have bs: "(if x_j x + (B - x_ofs x) < A then B - x_ofs x else A - x_j x) = n" using n by auto
  have n0: "0 \<le> n" "x_ofs x + n \<le> B" "n = 0 \<or> ?pos + n \<le> int (length c)" using n pos B fit by auto
  have mask: "?pos AND NOT (R - 1) = ?pos - ?pos mod R" "?pos AND (R - 1) = ?pos mod R"
    using page_start [of ?pos k] page_offset [of ?pos k] by (simp_all add: R)
  have p0: "0 \<le> ?pos - ?pos mod R" using pos R0 by (simp add: zmod_le_nonneg_dividend)
  obtain y where y: "ensure_page rdp (?pos - ?pos mod R) x = Some y" "xfer_ok c R B y" "x_page y = ?pos - ?pos mod R" "page_ok c R (x_page y) (x_buf y)"
    "x_j y = x_j x" "x_ofs y = x_ofs x" "x_wr y = x_wr x" "x_out y = x_out x"
    using ensure_page_ok [OF rf ok p0] by metis
  have io: "?pos mod R = ?pos AND (R - 1)" "0 \<le> ?pos mod R" "?pos mod R < R" "x_page y + ?pos mod R = ?pos" using R0 y(3) mask by simp_all
  obtain ptr z where z: "fill_packet rdp R ?pos n y = Packet ptr z" "xfer_ok c R B z" "x_j z = x_j x" "x_ofs z = x_ofs x" "x_out z = x_out x"
    "take (nat (x_ofs x + n)) ptr = take (nat (x_ofs x)) (x_wr x) @ take (nat n) (drop (nat ?pos) c)"
  proof (cases "?pos mod R + n < R")
    case True
    show ?thesis
      by (rule fill_inside [OF y(2) y(4) _ io(1,2,4), of n]) (use True n0 B p0 y that in simp_all)
  next
    case False
    show ?thesis
      by (rule fill_across [OF rf y(2) y(4) _ io, of n]) (use False n0 B p0 y that in simp_all)
  qed
  have "send_block rdp R B offset A False x = Sent (z\<lparr>x_j := x_j z + n, x_ofs := 0, x_out := x_out z @ [take (nat (x_ofs z + n)) ptr]\<rparr>)"
    by (simp add: send_block_def Let_def bs mask(1) y(1) z(1))
  moreover have "xfer_ok c R B (z\<lparr>x_j := x_j z + n, x_ofs := 0, x_out := x_out z @ [take (nat (x_ofs z + n)) ptr]\<rparr>)"
    using z(2) by (simp add: xfer_ok_def)
  ultimately show ?thesis using that z(3-6) by simp
qed

lemma send_loop_ok:
  assumes rf: "reads_file c R rdp" and R: "R = 2 ^ k" and off: "0 \<le> offset" and B: "12 < B" "B \<le> R" and fit: "A = 0 \<or> offset + A \<le> int (length c)"
  shows "xfer_ok c R B x \<Longrightarrow> 0 \<le> x_j x \<Longrightarrow> x_j x \<le> A \<Longrightarrow> 0 \<le> x_ofs x \<Longrightarrow> x_ofs x \<le> 12 \<Longrightarrow> nat (A - x_j x) < fuel
    \<Longrightarrow> \<exists>x' m out. send_loop fuel rdp R B offset A (\<lambda>_. False) x = (Sent x', m) \<and> x_out x' = x_out x @ out
        \<and> concat out = take (nat (x_ofs x)) (x_wr x) @ take (nat (A - x_j x)) (drop (nat (offset + x_j x)) c)
        \<and> list_all (\<lambda>p. int (length p) \<le> B) out \<and> list_all (\<lambda>p. int (length p) = B) (butlast out)"
proof (induction fuel arbitrary: x)
  case (Suc fuel)
  define n where "n = min (B - x_ofs x) (A - x_j x)"
  have "x_ofs x \<le> B" using Suc(6) B by simp
  then obtain y where y: "send_block rdp R B offset A False x = Sent y" "xfer_ok c R B y" "x_j y = x_j x + n" "x_ofs y = 0"
    "x_out y = x_out x @ [take (nat (x_ofs x)) (x_wr x) @ take (nat n) (drop (nat (offset + x_j x)) c)]"
    using send_block_ok [OF rf Suc(2) R off Suc(3,4) _ B(2) Suc(5) fit n_def] by blast
  let ?p = "take (nat (x_ofs x)) (x_wr x) @ take (nat n) (drop (nat (offset + x_j x)) c)"
  have "length (x_wr x) = nat B" using Suc(2) by (simp add: xfer_ok_def)
  moreover have "0 \<le> n" "n = 0 \<or> offset + x_j x + n \<le> int (length c)" using Suc(3-6) B fit off by (auto simp: n_def)
  ultimately have len: "int (length ?p) = x_ofs x + n" using Suc(3-6) B off by auto
  show ?case
  proof (cases "x_j y < A")
    case True
    have n: "n = B - x_ofs x" using True y(3) by (simp add: n_def)
    have "0 < n" using n Suc(6) B by simp
    then have "nat (A - x_j y) < fuel" using y(3) Suc(7) True by simp
    then obtain x' m out where o: "send_loop fuel rdp R B offset A (\<lambda>_. False) y = (Sent x', m)" "x_out x' = x_out y @ out"
      "concat out = take (nat (A - x_j y)) (drop (nat (offset + x_j y)) c)"
      "list_all (\<lambda>p. int (length p) \<le> B) out" "list_all (\<lambda>p. int (length p) = B) (butlast out)"
      using Suc.IH [OF y(2)] y(3,4) Suc(3) \<open>0 < n\<close> True by auto
    have "nat (A - x_j x) = nat n + nat (A - x_j y)" "nat (offset + x_j y) = nat n + nat (offset + x_j x)"
      using y(3) True \<open>0 < n\<close> off Suc(3) by simp_all
    then have "concat (?p # out) = take (nat (x_ofs x)) (x_wr x) @ take (nat (A - x_j x)) (drop (nat (offset + x_j x)) c)"
      using o(3) by (simp only: take_add drop_drop concat.simps append_assoc)
    moreover have "send_loop (Suc fuel) rdp R B offset A (\<lambda>_. False) x = (Sent x', m + 2)" using y(1) True o(1) by simp
    moreover have "x_out x' = x_out x @ (?p # out)" using o(2) y(5) by simp
    moreover have "list_all (\<lambda>p. int (length p) \<le> B) (?p # out)" "list_all (\<lambda>p. int (length p) = B) (butlast (?p # out))"
      using o(4,5) len n by simp_all
    ultimately show ?thesis by blast
  next
    case False
    have "n = A - x_j x" using False y(3) by (simp add: n_def)
    then show ?thesis using y len Suc(6) B by (intro exI [of _ y] exI [of _ 2] exI [of _ "[?p]"]) (simp add: n_def)
  qed
qed simp

section \<open>Whole transfers\<close>

definition usb_packets :: "mtp_effect list \<Rightarrow> bytes list" where
  "usb_packets tr = concat (map (\<lambda>x. case x of UsbWrite p \<Rightarrow> [p] | _ \<Rightarrow> []) tr)"

lemma usb_packets_simps [simp]:
  "usb_packets [] = []" "usb_packets (a @ b) = usb_packets a @ usb_packets b" "usb_packets (map UsbWrite ps) = ps"
  "usb_packets [UsbWrite p] = [p]" "usb_packets [SetFsUid u] = []" "usb_packets [SetFsGid u] = []" "usb_packets [OpenFile q fl m] = []"
  by (simp_all add: usb_packets_def comp_def)

lemma emit_mtp_fields [simp]:
  "mtp_trace (emit_mtp x ctx) = mtp_trace ctx @ [x]" "storages (emit_mtp x ctx) = storages ctx"
  "read_file_buffer (emit_mtp x ctx) = read_file_buffer ctx" "wrbuffer (emit_mtp x ctx) = wrbuffer ctx"
  "read_file_buffer_size (emit_mtp x ctx) = read_file_buffer_size ctx" "usb_wr_buffer_max_size (emit_mtp x ctx) = usb_wr_buffer_max_size ctx"
  "max_packet_size (emit_mtp x ctx) = max_packet_size ctx" "sync_when_close (emit_mtp x ctx) = sync_when_close ctx"
  by (simp_all add: emit_mtp_def)

definition file_writes :: "int \<Rightarrow> mtp_effect list \<Rightarrow> bytes list" where
  "file_writes fd tr = concat (map (\<lambda>x. case x of WriteFile f b \<Rightarrow> if f = fd then [b] else [] | _ \<Rightarrow> []) tr)"

lemma file_writes_simps [simp]:
  "file_writes fd [] = []" "file_writes fd (tr @ tr') = file_writes fd tr @ file_writes fd tr'"
  "file_writes fd (map (WriteFile fd) bs) = bs" "file_writes fd (WriteFile fd b # tr) = b # file_writes fd tr" "file_writes fd (SeekFile q i # tr) = file_writes fd tr"
  by (simp_all add: file_writes_def comp_def)

text \<open>Two contexts that differ only in what switching the user and opening a file leaves behind.\<close>

definition quiet :: "mtp_effect \<Rightarrow> bool" where
  "quiet x \<longleftrightarrow> (case x of SetFsUid _ \<Rightarrow> True | SetFsGid _ \<Rightarrow> True | OpenFile _ _ _ \<Rightarrow> True | _ \<Rightarrow> False)"

lemma quiet_effects: "list_all quiet tr \<Longrightarrow> usb_packets tr = [] \<and> file_writes fd tr = []"
  by (induction tr) (auto simp: quiet_def usb_packets_def file_writes_def split: mtp_effect.splits)

definition same_usb :: "mtp_ctx \<Rightarrow> mtp_ctx \<Rightarrow> bool" where
  "same_usb a b \<longleftrightarrow> (\<exists>tr. a = b\<lparr>mtp_trace := mtp_trace b @ tr\<rparr> \<and> list_all quiet tr)"

lemma same_usb_trans: "same_usb a b \<Longrightarrow> same_usb b c \<Longrightarrow> same_usb a c"
  by (auto simp: same_usb_def)

lemma same_usb_emit: "quiet x \<Longrightarrow> same_usb (emit_mtp x ctx) ctx"
  by (auto simp: same_usb_def emit_mtp_def)

lemma same_usb_refl: "same_usb ctx ctx"
  unfolding same_usb_def by (rule exI [of _ "[]"]) simp

lemma same_usb_fields:
  assumes "same_usb a b"
  shows "usb_packets (mtp_trace a) = usb_packets (mtp_trace b)" "file_writes fd (mtp_trace a) = file_writes fd (mtp_trace b)"
    "read_file_buffer_size a = read_file_buffer_size b" "usb_wr_buffer_max_size a = usb_wr_buffer_max_size b"
    "usb_rd_buffer_max_size a = usb_rd_buffer_max_size b" "max_packet_size a = max_packet_size b" "sync_when_close a = sync_when_close b"
    "SendObjInfoSize a = SendObjInfoSize b" "SendObjInfoOffset a = SendObjInfoOffset b"
  using assms quiet_effects by (auto simp: same_usb_def)

lemma set_giduid_usb: "same_usb (snd (set_giduid fails u g ctx)) ctx"
proof -
  have "same_usb (emit_mtp (SetFsGid g) c) c" "same_usb (emit_mtp (SetFsUid u) c) c" for c
    by (simp_all add: same_usb_emit quiet_def)
  then have "same_usb (emit_mtp (SetFsGid g) (emit_mtp (SetFsUid u) ctx)) ctx" "same_usb (emit_mtp (SetFsGid g) ctx) ctx" "same_usb (emit_mtp (SetFsUid u) ctx) ctx"
    using same_usb_trans by blast+
  then show ?thesis by (simp add: set_giduid_def Let_def same_usb_refl)
qed

lemma find_storage_bound: "find_storage P sts = Some i \<Longrightarrow> i < MAX_STORAGE_NB"
  by (auto simp: find_storage_def find_Some_iff)

lemma set_storage_ids:
  assumes "mtp_get_storage_root (storages ctx) sid \<noteq> None" and "\<forall>x. \<not> fails x"
  obtains ctx' where "set_storage_giduid fails sid ctx = (0, ctx')" "same_usb ctx' ctx"
proof -
  obtain i where i: "find_storage (\<lambda>s. storage_id s = sid) (storages ctx) = Some i" "i < MAX_STORAGE_NB"
    using assms(1) find_storage_bound by (auto simp: mtp_get_storage_root_def split: option.splits)
  then have idx: "mtp_get_storage_index_by_id (storages ctx) sid = int i" by (simp add: mtp_get_storage_index_by_id_def)
  obtain u g where "set_storage_giduid fails sid ctx = set_giduid fails u g ctx"
    using i idx by (auto simp: set_storage_giduid_def Let_def)
  moreover have "fst (set_giduid fails u g ctx) = 0" using assms(2) by (simp add: set_giduid_def Let_def)
  ultimately show ?thesis using that set_giduid_usb by (metis prod.collapse)
qed

abbreviation (input) read_flags :: "open_flag set" where "read_flags \<equiv> {O_RDONLY, O_LARGEFILE}"
abbreviation (input) store_flags :: "open_flag set" where "store_flags \<equiv> {O_CREAT, O_WRONLY, O_TRUNC, O_LARGEFILE}"

text \<open>The effects on files and the USB endpoints, without the switching of the user.\<close>

definition file_ops :: "mtp_effect list \<Rightarrow> mtp_effect list" where
  "file_ops tr = filter (\<lambda>x. case x of SetFsUid _ \<Rightarrow> False | SetFsGid _ \<Rightarrow> False | _ \<Rightarrow> True) tr"

lemma file_ops_simps [simp]:
  "file_ops [] = []" "file_ops (a @ b) = file_ops a @ file_ops b" "file_ops (SetFsUid u # tr) = file_ops tr"
  "file_ops (SetFsGid u # tr) = file_ops tr" "file_ops (OpenFile p fl m # tr) = OpenFile p fl m # file_ops tr"
  "file_ops (SeekFile fd i # tr) = SeekFile fd i # file_ops tr" "file_ops (WriteFile fd bs # tr) = WriteFile fd bs # file_ops tr"
  "file_ops (map (WriteFile fd) bss) = map (WriteFile fd) bss"
  by (simp_all add: file_ops_def)

lemma giduid_ops: "set_giduid fails u g ctx = (ids, ctx') \<Longrightarrow> file_ops (mtp_trace ctx') = file_ops (mtp_trace ctx)"
  by (auto simp: set_giduid_def Let_def split: if_splits)

lemma switching_ops:
  "set_storage_giduid fails sid ctx = (ids, ctx') \<Longrightarrow> file_ops (mtp_trace ctx') = file_ops (mtp_trace ctx)"
  "file_ops (mtp_trace (restore_giduid fails ctx)) = file_ops (mtp_trace ctx)"
  by (auto simp: set_storage_giduid_def Let_def dest: giduid_ops split: if_splits)
    (metis giduid_ops prod.collapse restore_giduid_def)

lemma open_for_transfer:
  assumes "e_fd (pool db ! r) \<le> 0" "r < length (pool db)" "entry_path env (storages ctx) r db = PathSome p"
    and "mtp_get_storage_root (storages ctx) (e_storage (pool db ! r)) \<noteq> None" "\<forall>x. \<not> env_ids_fail env x"
  obtains ctx' where "ctx_entry_open env fl m r db ctx = Some (env_open env fl p, upd_entry r (e_fd_update (\<lambda>_. env_open env fl p)) db, ctx')"
    "same_usb ctx' ctx" "file_ops (mtp_trace ctx') = file_ops (mtp_trace ctx) @ [OpenFile p fl m]"
proof -
  obtain c1 where c1: "set_storage_giduid (env_ids_fail env) (e_storage (pool db ! r)) ctx = (0, c1)" "same_usb c1 ctx"
    using set_storage_ids [OF assms(4,5)] by blast
  let ?c2 = "emit_mtp (OpenFile p fl m) c1"
  have "same_usb (restore_giduid (env_ids_fail env) ?c2) ?c2" unfolding restore_giduid_def by (rule set_giduid_usb)
  moreover have "same_usb ?c2 c1" by (simp add: same_usb_emit quiet_def)
  ultimately have "same_usb (restore_giduid (env_ids_fail env) ?c2) ctx" using c1(2) same_usb_trans by blast
  moreover have "ctx_entry_open env fl m r db ctx = Some (env_open env fl p, upd_entry r (e_fd_update (\<lambda>_. env_open env fl p)) db,
      restore_giduid (env_ids_fail env) ?c2)"
    using assms(1-3) by (simp add: ctx_entry_open_def c1(1) entry_open_def Let_def upd_entry_def)
  moreover have "file_ops (mtp_trace (restore_giduid (env_ids_fail env) ?c2)) = file_ops (mtp_trace ctx) @ [OpenFile p fl m]"
    using switching_ops(1) [OF c1(1)] switching_ops(2) by simp
  ultimately show ?thesis using that by blast
qed

text \<open>The packets that carry \<open>d\<close> after a header: full except for the last one, then a zero-length packet if needed.\<close>

definition packets_for :: "int \<Rightarrow> int \<Rightarrow> bytes \<Rightarrow> bytes list \<Rightarrow> bool" where
  "packets_for B packet_size d ps \<longleftrightarrow>
     (\<exists>out. concat out = d \<and> list_all (\<lambda>p. int (length p) \<le> B) out \<and> list_all (\<lambda>p. int (length p) = B) (butlast out)
        \<and> ps = out @ (if int (length d) \<ge> packet_size \<and> int (length d) mod packet_size = 0 then [[]] else []))"

lemma send_file_data_ok:
  fixes ctx :: mtp_ctx
  defines "R \<equiv> read_file_buffer_size ctx" and "B \<equiv> usb_wr_buffer_max_size ctx"
  assumes entry: "e_fd (pool db ! r) \<le> 0" "r < length (pool db)" "entry_path env (storages ctx) r db = PathSome p"
    and ids: "mtp_get_storage_root (storages ctx) (e_storage (pool db ! r)) \<noteq> None" "\<forall>x. \<not> env_ids_fail env x"
    and fd: "0 < env_open env read_flags p" and rd: "reads_file c R (\<lambda>q. env_pread env (env_open env read_flags p) q R)"
    and sz: "e_size (pool db ! r) = int (length c)" "0 \<le> offset" "0 \<le> maxsize"
    and bufs: "R = 2 ^ k" "12 < B" "B \<le> R" "length (wrbuffer ctx) = nat B"
      "case read_file_buffer ctx of None \<Rightarrow> env_buffer_ok env | Some b \<Rightarrow> length b = nat R"
    and nc: "env_cancel env = (\<lambda>_. False)"
  defines "A \<equiv> transfer_size (int (length c)) offset maxsize"
  shows "\<exists>db' ctx' ps. send_file_data env r offset maxsize db ctx = Some (A, db', ctx')
    \<and> usb_packets (mtp_trace ctx') = usb_packets (mtp_trace ctx) @ ps
    \<and> packets_for B (max_packet_size ctx) (le_bytes 4 (container_length A) @ take 8 (drop 4 (wrbuffer ctx)) @ take (nat A) (drop (nat offset) c)) ps"
proof -
  obtain buf where buf: "(case read_file_buffer ctx of Some b \<Rightarrow> Some b
            | None \<Rightarrow> if env_buffer_ok env then Some (replicate (nat R) 0) else None) = Some buf" "length buf = nat R"
    using bufs(5) by (auto split: option.splits)
  have A: "0 \<le> A" "A = 0 \<or> offset + A \<le> int (length c)" using sz(2,3) by (auto simp: A_def transfer_size_def)
  define wr where "wr = put_bytes 0 (le_bytes 4 (container_length A)) (wrbuffer ctx)"
  have wr: "snd (poke32 B (container_length A) (0, wrbuffer ctx)) = wr" using bufs(2) by (simp add: poke32_def poke_bytes_def wr_def)
  have lwr: "length wr = nat B" using bufs(2,4) by (simp add: wr_def)
  have hd: "take 12 wr = le_bytes 4 (container_length A) @ take 8 (drop 4 (wrbuffer ctx))" by (simp add: wr_def put_bytes_def)
  let ?c1 = "ctx\<lparr>read_file_buffer := Some buf, wrbuffer := wr\<rparr>"
  let ?db = "upd_entry r (e_fd_update (\<lambda>_. env_open env read_flags p)) db"
  obtain c2 where c2: "ctx_entry_open env read_flags 0 r db ?c1 = Some (env_open env read_flags p, ?db, c2)" "same_usb c2 ?c1"
    using open_for_transfer [OF entry(1,2), of env ?c1 p read_flags 0] entry(3) ids by auto
  let ?rd = "\<lambda>page. entry_read (env_pread env) r page R ?db"
  have "?rd = (\<lambda>q. env_pread env (env_open env read_flags p) q R)" using entry(2) fd by (auto simp: entry_read_def upd_entry_def)
  then have rf: "reads_file c R ?rd" using rd by simp
  let ?x = "\<lparr>x_j = 0, x_ofs = 12, x_page = -1, x_buf = buf, x_wr = wr, x_out = []\<rparr>"
  obtain x m where x: "send_loop (nat A + 1) ?rd R B offset A (\<lambda>_. False) ?x = (Sent x, m)"
      "concat (x_out x) = take 12 wr @ take (nat A) (drop (nat offset) c)"
      "list_all (\<lambda>p. int (length p) \<le> B) (x_out x)" "list_all (\<lambda>p. int (length p) = B) (butlast (x_out x))"
    using send_loop_ok [OF rf bufs(1) sz(2) bufs(2,3) A(2), of ?x "nat A + 1"] A(1) buf(2) lwr by (auto simp: xfer_ok_def)
  let ?done = "c2\<lparr>read_file_buffer := Some (x_buf x), wrbuffer := x_wr x,
      mtp_trace := mtp_trace c2 @ map UsbWrite (x_out x), transferring_file_data := False\<rparr>"
  have sizes: "read_file_buffer_size c2 = R" "usb_wr_buffer_max_size c2 = B" "max_packet_size c2 = max_packet_size ctx"
    using same_usb_fields [OF c2(2)] by (simp_all add: R_def B_def)
  have eq: "send_file_data env r offset maxsize db ctx =
     Some (A, entry_close (sync_when_close c2) (Some r) ?db, check_and_send_USB_ZLP (12 + A) ?done)"
    unfolding send_file_data_def Let_def sz(1) A_def [symmetric] R_def [symmetric] B_def [symmetric] buf(1) option.case wr
    using c2(1) x(1) fd nc by (simp add: sizes Let_def del: send_loop.simps)
  let ?d = "le_bytes 4 (container_length A) @ take 8 (drop 4 (wrbuffer ctx)) @ take (nat A) (drop (nat offset) c)"
  have ld: "int (length ?d) = 12 + A" using A sz(2) bufs(2,4) by auto
  have "usb_packets (mtp_trace (check_and_send_USB_ZLP (12 + A) ?done)) = usb_packets (mtp_trace ctx) @ x_out x
      @ (if 12 + A \<ge> max_packet_size ctx \<and> (12 + A) mod max_packet_size ctx = 0 then [[]] else [])"
    using same_usb_fields [OF c2(2)] by (simp add: check_and_send_USB_ZLP_def)
  moreover have "packets_for B (max_packet_size ctx) ?d (x_out x
      @ (if 12 + A \<ge> max_packet_size ctx \<and> (12 + A) mod max_packet_size ctx = 0 then [[]] else []))"
    unfolding packets_for_def ld using x(2-4) hd by (intro exI [of _ "x_out x"]) simp
  ultimately show ?thesis using eq by blast
qed

lemma data_header_ok:
  assumes "length (wrbuffer ctx) = nat B" "12 < B" "usb_wr_buffer_max_size ctx = B"
  obtains b where "data_header pk ctx = (12, ctx\<lparr>wrbuffer := b\<rparr>)" "length b = nat B"
    "\<And>l. le_bytes 4 l @ take 8 (drop 4 b) = header_bytes ((packet_header pk)\<lparr>hdr_length := l, hdr_operation := 2\<rparr>)"
proof -
  let ?h = "\<lparr>hdr_length = of_nat (12 + length ([] :: bytes)), hdr_operation = 2, hdr_code = hdr_code (packet_header pk), hdr_tx_id = hdr_tx_id (packet_header pk)\<rparr>"
  let ?b = "put_bytes 0 (header_bytes ?h) (wrbuffer ctx)"
  have lh: "length (header_bytes ?h) = 12" by (simp add: header_bytes_def)
  have "data_header pk ctx = (12, ctx\<lparr>wrbuffer := ?b\<rparr>)"
    using assms(2,3) lh by (simp add: data_header_def build_response_def poke_array_def poke_bytes_def Let_def)
  moreover have "length ?b = nat B" using assms lh by simp
  moreover have "le_bytes 4 l @ take 8 (drop 4 ?b) = header_bytes ((packet_header pk)\<lparr>hdr_length := l, hdr_operation := 2\<rparr>)" for l
    by (simp add: put_bytes_def header_bytes_def)
  ultimately show ?thesis using that by blast
qed

lemma high_size_negative: "0x80000000 \<le> w \<Longrightarrow> sint w < 0" for w :: u32
proof -
  assume "0x80000000 \<le> w"
  then have "0x80000000 \<le> uint w" by (simp add: word_le_def)
  moreover have "uint w < 0x100000000" using uint_lt2p [of w] by simp
  ultimately have "(uint w + 0x80000000) mod 0x100000000 = uint w + 0x80000000 - 0x100000000"
    using minus_mod_self2 [of "uint w + 0x80000000" "0x100000000"] mod_pos_pos_trivial [of "uint w + 0x80000000 - 0x100000000" "0x100000000"] by simp
  moreover have "sint w = (uint w + 0x80000000) mod 0x100000000 - 0x80000000"
    by (simp add: sint_uint signed_take_bit_eq_take_bit_shift take_bit_eq_mod)
  ultimately show ?thesis using \<open>uint w < 0x100000000\<close> by simp
qed

lemma negative_size_dies:
  assumes "A < 0" "0 < B - 12" "R = 2 ^ k" "0 \<le> fst (rdp (offset AND NOT (R - 1)))"
  shows "fst (send_loop fuel rdp R B offset A cancelled \<lparr>x_j = 0, x_ofs = 12, x_page = -1, x_buf = buf, x_wr = wr, x_out = []\<rparr>) = MemError"
proof (cases fuel)
  case (Suc n)
  obtain m bs where rd: "rdp (offset AND NOT (R - 1)) = (m, bs)" "0 \<le> m" using assms(4) by (metis prod.collapse)
  have "offset AND (R - 1) < R" using page_offset [of offset k] assms(3) by simp
  then have io: "(offset AND (R - 1)) + A < R" using assms(1) by simp
  have bs: "(if B - 12 < A then B - 12 else A) = A" using assms(1,2) by simp
  show ?thesis
    using rd io assms(1) by (auto simp: Suc send_block_def Let_def bs ensure_page_def load_page_def fill_packet_def memcpy_at_def)
qed simp

lemma send_negative:
  assumes "e_fd (pool db ! r) \<le> 0" "r < length (pool db)" "entry_path env (storages ctx) r db = PathSome p"
    and "mtp_get_storage_root (storages ctx) (e_storage (pool db ! r)) \<noteq> None" "\<forall>x. \<not> env_ids_fail env x"
    and "0 < env_open env read_flags p" "\<And>q. 0 \<le> fst (env_pread env (env_open env read_flags p) q (read_file_buffer_size ctx))"
    and "read_file_buffer_size ctx = 2 ^ k" "12 < usb_wr_buffer_max_size ctx" "read_file_buffer ctx \<noteq> None"
    and "offset < e_size (pool db ! r)" "maxsize < 0"
  shows "send_file_data env r offset maxsize db ctx = None"
proof -
  obtain buf where buf: "read_file_buffer ctx = Some buf" using assms(10) by auto
  have A: "transfer_size (e_size (pool db ! r)) offset maxsize = maxsize" using assms(11,12) by (simp add: transfer_size_def)
  define wr where "wr = snd (poke32 (usb_wr_buffer_max_size ctx) (container_length maxsize) (0, wrbuffer ctx))"
  let ?c1 = "ctx\<lparr>read_file_buffer := Some buf, wrbuffer := wr\<rparr>"
  let ?db = "upd_entry r (e_fd_update (\<lambda>_. env_open env read_flags p)) db"
  obtain c2 where c2: "ctx_entry_open env read_flags 0 r db ?c1 = Some (env_open env read_flags p, ?db, c2)" "same_usb c2 ?c1"
    using open_for_transfer [OF assms(1,2), of env ?c1 p read_flags 0] assms(3-5) by auto
  have sizes: "read_file_buffer_size c2 = read_file_buffer_size ctx" "usb_wr_buffer_max_size c2 = usb_wr_buffer_max_size ctx"
    using same_usb_fields [OF c2(2)] by simp_all
  let ?loop = "send_loop (nat maxsize + 1) (\<lambda>page. entry_read (env_pread env) r page (read_file_buffer_size ctx) ?db)
      (read_file_buffer_size ctx) (usb_wr_buffer_max_size ctx) offset maxsize (env_cancel env)
      \<lparr>x_j = 0, x_ofs = 12, x_page = -1, x_buf = buf, x_wr = wr, x_out = []\<rparr>"
  have "fst ?loop = MemError"
    by (rule negative_size_dies [where k = k]) (use assms(2,6-9,12) in \<open>simp_all add: entry_read_def upd_entry_def\<close>)
  then obtain m where "?loop = (MemError, m)" by (metis prod.collapse)
  then show ?thesis
    using c2(1) assms(6) buf by (simp add: send_file_data_def A wr_def [symmetric] sizes Let_def del: send_loop.simps)
qed

section \<open>Receiving\<close>

lemma write_data_fields [simp]:
  "mtp_trace (write_data fd b ctx) = mtp_trace ctx @ [WriteFile fd b]"
  "SendObjInfoSize (write_data fd b ctx) = SendObjInfoSize ctx - int (length b)"
  "sync_when_close (write_data fd b ctx) = sync_when_close ctx"
  by (simp_all add: write_data_def emit_mtp_def)

lemma recv_loop_all:
  "bs \<noteq> [] \<Longrightarrow> list_all (\<lambda>b. int (length b) = bufsize) (butlast bs) \<Longrightarrow> int (length (last bs)) \<noteq> bufsize
    \<Longrightarrow> \<exists>ctx'. recv_loop bufsize (\<lambda>_. False) fd (map (\<lambda>b. (int (length b), b)) bs @ rest) bufsize ctx = (length bs, ctx')
       \<and> mtp_trace ctx' = mtp_trace ctx @ map (WriteFile fd) bs \<and> sync_when_close ctx' = sync_when_close ctx"
proof (induction bs arbitrary: ctx)
  case (Cons b bs)
  show ?case
  proof (cases "bs = []")
    case True
    then show ?thesis using Cons(4) by (cases rest) auto
  next
    case False
    then have full: "int (length b) = bufsize" using Cons(3) by simp
    obtain ctx' where "recv_loop bufsize (\<lambda>_. False) fd (map (\<lambda>b. (int (length b), b)) bs @ rest) bufsize (write_data fd b ctx) = (length bs, ctx')"
       "mtp_trace ctx' = mtp_trace (write_data fd b ctx) @ map (WriteFile fd) bs" "sync_when_close ctx' = sync_when_close (write_data fd b ctx)"
      using Cons.IH [of "write_data fd b ctx"] False Cons(3,4) by auto
    moreover have "0 \<le> bufsize" using full by simp
    ultimately show ?thesis by (simp add: full)
  qed
qed simp

text \<open>
  The bytes of a file that holds \<open>old\<close> after effects on its descriptor: a truncating open empties it,
  a write beyond the end fills the gap with zeros.
\<close>

definition write_at :: "nat \<Rightarrow> bytes \<Rightarrow> bytes \<Rightarrow> bytes" where
  "write_at pos bs c = take pos (c @ replicate (pos - length c) 0) @ bs @ drop (pos + length bs) c"

fun file_step :: "int \<Rightarrow> mtp_effect \<Rightarrow> nat \<times> bytes \<Rightarrow> nat \<times> bytes" where
  "file_step fd (OpenFile p fl m) (pos, c) = (0, if O_TRUNC \<in> fl then [] else c)"
| "file_step fd (SeekFile f i) (pos, c) = (if f = fd then nat i else pos, c)"
| "file_step fd (WriteFile f bs) (pos, c) = (if f = fd then (pos + length bs, write_at pos bs c) else (pos, c))"
| "file_step fd x (pos, c) = (pos, c)"

definition file_after :: "int \<Rightarrow> mtp_effect list \<Rightarrow> bytes \<Rightarrow> bytes" where
  "file_after fd tr old = snd (fold (file_step fd) tr (0, old))"

lemma file_after_writes: "snd (fold (file_step fd) (map (WriteFile fd) bss) (length c, c)) = c @ concat bss"
proof (induction bss arbitrary: c)
  case (Cons bs bss)
  then show ?case using Cons [of "c @ bs"] by (simp add: write_at_def)
qed simp

lemma new_file_writes: "snd (fold (file_step fd) (map (WriteFile fd) bss) (0, [])) = concat bss"
  using file_after_writes [of fd bss "[]"] by simp

lemma receive_object:
  assumes "12 \<le> length pk" "env_usb env = map (\<lambda>b. (int (length b), b)) bs @ rest"
    and "list_all (\<lambda>b. int (length b) = B) (butlast (pk # bs))" "int (length (last (pk # bs))) < B"
    and "usb_rd_buffer_max_size ctx = B" "env_cancel env = (\<lambda>_. False)"
  shows "\<exists>k ctx'. receive_data env False fd (drop 12 pk) ctx = (k, ctx')
    \<and> mtp_trace ctx' = mtp_trace ctx @ SeekFile fd (SendObjInfoOffset ctx) # map (WriteFile fd) (if 12 < length pk then drop 12 pk # bs else bs)"
proof (cases "bs = []")
  case True
  then have "int (length pk - 12) \<noteq> B - 12" "int (length pk - 12) \<noteq> B" using assms(1,4) by auto
  moreover have "recv_loop B (\<lambda>_. False) fd (env_usb env) (int (length pk - 12)) c = (0, c)" for c
    using calculation by (cases "env_usb env") auto
  ultimately show ?thesis using assms(1,5,6) True by (simp add: receive_data_def Let_def emit_mtp_def)
next
  case False
  then have full: "int (length pk) = B" and rest: "list_all (\<lambda>b. int (length b) = B) (butlast bs)" "int (length (last bs)) \<noteq> B"
    using assms(3,4) by auto
  let ?c = "emit_mtp (SeekFile fd (SendObjInfoOffset ctx)) ctx"
  let ?w = "if 12 < length pk then write_data fd (drop 12 pk) ?c else ?c"
  obtain c4 where c4: "recv_loop B (\<lambda>_. False) fd (env_usb env) B ?w = (length bs, c4)" "mtp_trace c4 = mtp_trace ?w @ map (WriteFile fd) bs"
    using recv_loop_all [OF False rest, of fd _ ?w] unfolding assms(2) by blast
  then show ?thesis using assms(1,5,6) full by (auto simp: receive_data_def Let_def of_nat_diff split: if_splits)
qed

section \<open>A small session\<close>

definition sample_storages :: "mtp_storage list" where
  "sample_storages = \<lparr>root_path = Some [0x2F, 0x72], description = [0x72], storage_id = 0x10001, storage_flags = 0,
     storage_uid = -1, storage_gid = -1\<rparr> # replicate 15 no_storage"

definition file_db :: "int \<Rightarrow> fs_handles_db" where
  "file_db n = upd_entry 0 (e_size_update (\<lambda>_. n)) sample_db"

definition sample_env :: "bytes \<Rightarrow> (int \<times> bytes) list \<Rightarrow> mtp_env" where
  "sample_env c reads = \<lparr>env_realpath = RealPath, env_mem = sample_mem, env_path_ok = True, env_tmp_ok = True,
     env_ids_fail = \<lambda>_. False, env_open = \<lambda>_ _. 5,
     env_pread = \<lambda>_ q n. (int (length (take (nat n) (drop (nat q) c))), take (nat n) (drop (nat q) c)),
     env_buffer_ok = True, env_cancel = \<lambda>_. False, env_usb = reads, env_file_end = \<lambda>_. 21, env_stat = \<lambda>_. None,
     env_mtime = \<lambda>_. None, env_statvfs = \<lambda>_. None,
     env_dir = \<lambda>_. None, env_mkdir = \<lambda>_. True, env_create = \<lambda>_. True, env_rename = \<lambda>_ _. True, env_remove = \<lambda>_. True,
     env_ops = \<lparr>opens = \<lambda>_. True, allocates = \<lambda>_. True, stats = \<lambda>_. True, removes = \<lambda>_. True\<rparr>, env_tree = \<lambda>_. Folder [],
     env_truncate = \<lambda>_. None, env_watch = \<lambda>_. -1, env_db_ok = True, env_name_ok = True\<rparr>"

definition sample_cfg :: mtp_usb_cfg where
  "sample_cfg = \<lparr>usb_vendor_id = 0x1D6B, usb_product_id = 0x100, usb_class = 6, usb_subclass = 1, usb_protocol = 1,
     usb_dev_version = 0x3008, usb_max_packet_size = 512, usb_functionfs_mode = 1, usb_device_path = [], usb_endpoint_in = [],
     usb_endpoint_out = [], usb_endpoint_intin = [], usb_string_manufacturer = [0x4D], usb_string_product = [0x50],
     usb_string_serial = [0x53], usb_string_version = [0x56], usb_string_mtp_extensions = [], usb_string_interface = [0x49],
     wait_connection = 0, loop_on_disconnect = 0, show_hidden_files = 1, val_umask = -1\<rparr>"

definition sample_ctx :: "fs_handles_db \<Rightarrow> mtp_ctx" where
  "sample_ctx db = \<lparr>session_id = 1, usb_cfg = sample_cfg, fs_db = Some db, wrbuffer = replicate 14 0, usb_wr_buffer_max_size = 14,
     usb_rd_buffer_max_size = 16, read_file_buffer = Some (replicate 16 0), read_file_buffer_size = 16, max_packet_size = 8,
     storages = sample_storages, SendObjInfoHandle = 1, SendObjInfoSize = 20, SendObjInfoOffset = 0,
     SetObjectPropValue_Handle = 0xFFFFFFFF, SetObjectPropValue_PropCode = 0, sync_when_close = False, no_inotify = False,
     ctx_uid = -1, ctx_gid = -1, default_uid = -1, default_gid = -1, cancel_req = 0, transferring_file_data = False, mtp_trace = []\<rparr>"

lemma sample_env_fields:
  "env_open (sample_env c reads) fl q = 5" "env_ids_fail (sample_env c reads) x = False" "env_cancel (sample_env c reads) = (\<lambda>_. False)"
  "env_pread (sample_env c reads) fd i n = (int (length (take (nat n) (drop (nat i) c))), take (nat n) (drop (nat i) c))"
  "env_usb (sample_env c reads) = reads" "env_file_end (sample_env c reads) fd = 21"
  by (simp_all add: sample_env_def)

lemma sample_ctx_fields:
  "fs_db (sample_ctx db) = Some db" "wrbuffer (sample_ctx db) = replicate 14 0" "usb_wr_buffer_max_size (sample_ctx db) = 14"
  "usb_rd_buffer_max_size (sample_ctx db) = 16" "read_file_buffer (sample_ctx db) = Some (replicate 16 0)"
  "read_file_buffer_size (sample_ctx db) = 16" "max_packet_size (sample_ctx db) = 8" "storages (sample_ctx db) = sample_storages"
  "SendObjInfoHandle (sample_ctx db) = 1" "mtp_trace (sample_ctx db) = []"
  by (simp_all add: sample_ctx_def)

lemmas sample_facts = sample_env_fields sample_ctx_fields

lemma file_db_pool: "pool (file_db n) = [\<lparr>e_handle = 1, e_parent = 0, e_storage = 0x10001, e_name = [0x61],
     e_flags = 1, e_size = n, e_fd = 0, e_wd = -1\<rparr>]"
  by (simp add: file_db_def upd_entry_def sample_pool)

lemma file_db_ok: "db_ok (file_db n)"
  unfolding file_db_def by (rule upd_entry_ok [OF db_reach_ok [OF sample_reach]]) simp

lemma sample_root: "mtp_get_storage_root sample_storages 0x10001 = Some [0x2F, 0x72]"
  by code_simp

lemma sample_flags: "mtp_get_storage_flags sample_storages 0x10001 = 0"
  by code_simp

lemma sample_handle: "get_entry_by_handle (mtp_get_storage_root sample_storages) 1 (file_db n) = Some 0"
  using get_entry_iff [OF file_db_ok, of 1] by (simp add: file_db_pool live_handle_def deleted_def sample_root)

lemma sample_access: "check_handle_access sample_storages (file_db n) (Some 0) h w = None"
  by (simp add: check_handle_access_def file_db_pool sample_flags Let_def)

lemma sample_path: "entry_path (sample_env c reads) sample_storages 0 (file_db n) = PathSome [0x2F, 0x72, 0x2F, 0x61]"
  by (simp add: entry_path_def file_db_pool sample_root build_full_path_def sample_env_def path_buffer_eq c_str_def Let_def check_root_def)

section \<open>Properties of the transfers\<close>

text \<open>
  C8. GetObject delivers the file: a data container whose header answers the request, then exactly
  the bytes of the file, in packets that fill the USB buffer except for the last, and a
  zero-length packet when the total is a multiple of the packet size. The page buffer may be
  any power of two that is not smaller than the USB buffer.\<close>

theorem get_object_delivers_file:
  fixes ctx :: mtp_ctx
  defines "R \<equiv> read_file_buffer_size ctx" and "B \<equiv> usb_wr_buffer_max_size ctx"
  assumes "fs_db ctx = Some db" "get_entry_by_handle (mtp_get_storage_root (storages ctx)) (peek pk 12 4) db = Some r" "r < length (pool db)"
    and "check_handle_access (storages ctx) db (Some r) (peek pk 12 4) False = None"
    and "e_fd (pool db ! r) \<le> 0" "entry_path env (storages ctx) r db = PathSome p" "\<forall>x. \<not> env_ids_fail env x"
    and "0 < env_open env read_flags p" "reads_file c R (\<lambda>q. env_pread env (env_open env read_flags p) q R)" "e_size (pool db ! r) = int (length c)"
    and "R = 2 ^ k" "12 < B" "B \<le> R" "length (wrbuffer ctx) = nat B"
    and "case read_file_buffer ctx of None \<Rightarrow> env_buffer_ok env | Some b \<Rightarrow> length b = nat R" "env_cancel env = (\<lambda>_. False)"
  shows "\<exists>ctx' ps. mtp_op_GetObject env pk ctx = Some (0x2001, [], ctx')
    \<and> usb_packets (mtp_trace ctx') = usb_packets (mtp_trace ctx) @ ps
    \<and> packets_for B (max_packet_size ctx)
        (header_bytes ((packet_header pk)\<lparr>hdr_length := container_length (int (length c)), hdr_operation := 2\<rparr>) @ c) ps"
proof -
  have BB: "usb_wr_buffer_max_size ctx = B" by (simp add: B_def)
  obtain b where b: "data_header pk ctx = (12, ctx\<lparr>wrbuffer := b\<rparr>)" "length b = nat B"
    "\<And>l. le_bytes 4 l @ take 8 (drop 4 b) = header_bytes ((packet_header pk)\<lparr>hdr_length := l, hdr_operation := 2\<rparr>)"
    using data_header_ok [OF assms(16,14) BB, of pk] by metis
  let ?ctx = "ctx\<lparr>wrbuffer := b\<rparr>"
  have root: "mtp_get_storage_root (storages ?ctx) (e_storage (pool db ! r)) \<noteq> None"
    using assms(4) by (auto simp: get_entry_by_handle_def find_Some_iff)
  have A: "transfer_size (int (length c)) 0 (int (length c)) = int (length c)" by (simp add: transfer_size_def)
  obtain db' ctx' ps where s: "send_file_data env r 0 (int (length c)) db ?ctx = Some (int (length c), db', ctx')"
    "usb_packets (mtp_trace ctx') = usb_packets (mtp_trace ctx) @ ps"
    "packets_for B (max_packet_size ctx) (le_bytes 4 (container_length (int (length c))) @ take 8 (drop 4 b) @ c) ps"
  proof -
    have "\<exists>db' ctx' ps. send_file_data env r 0 (int (length c)) db ?ctx = Some (int (length c), db', ctx')
      \<and> usb_packets (mtp_trace ctx') = usb_packets (mtp_trace ?ctx) @ ps
      \<and> packets_for (usb_wr_buffer_max_size ?ctx) (max_packet_size ?ctx) (le_bytes 4 (container_length (int (length c)))
          @ take 8 (drop 4 (wrbuffer ?ctx)) @ take (nat (int (length c))) (drop (nat 0) c)) ps"
      by (rule send_file_data_ok [of db r env ?ctx p c 0 "int (length c)" k, unfolded A])
        (use root assms(5,7-) b(2) in \<open>simp_all add: R_def B_def split: option.splits\<close>)
    then show ?thesis using that by (auto simp: B_def)
  qed
  have "mtp_op_GetObject env pk ctx = Some (0x2001, [], ctx'\<lparr>fs_db := Some db'\<rparr>)"
    using assms(3,4,6,12) b(1) s(1) by (simp add: mtp_op_GetObject_def)
  moreover have hd: "le_bytes 4 (container_length (int (length c))) @ take 8 (drop 4 b) @ c
      = header_bytes ((packet_header pk)\<lparr>hdr_length := container_length (int (length c)), hdr_operation := 2\<rparr>) @ c"
    using b(3) by (metis append_assoc)
  ultimately show ?thesis using s(2) s(3) [unfolded hd] by (intro exI [of _ "ctx'\<lparr>fs_db := Some db'\<rparr>"] exI [of _ ps]) simp
qed

theorem get_object_delivers_file_witness:
  "\<exists>ctx' ps. mtp_op_GetObject (sample_env [1, 2, 3, 4, 5] []) (replicate 12 0 @ [1, 0, 0, 0]) (sample_ctx (file_db 5)) = Some (0x2001, [], ctx')
    \<and> usb_packets (mtp_trace ctx') = ps
    \<and> packets_for 14 8 (header_bytes ((packet_header (replicate 12 0 @ [1, 0, 0, 0]))\<lparr>hdr_length := container_length 5, hdr_operation := 2\<rparr>) @ [1, 2, 3, 4, 5]) ps"
proof -
  have pk: "peek (replicate 12 0 @ [1, 0, 0, 0]) 12 4 = 1" by code_simp
  show ?thesis
    using get_object_delivers_file [of "sample_ctx (file_db 5)" "file_db 5" "replicate 12 0 @ [1, 0, 0, 0]" 0 "sample_env [1, 2, 3, 4, 5] []"
        "[0x2F, 0x72, 0x2F, 0x61]" "[1, 2, 3, 4, 5]" 4]
    by (simp add: sample_facts pk sample_handle sample_access sample_path file_db_pool reads_file_def del: length_Cons)
qed

text \<open>
  C11. SendObject stores the object that the host sends in packets that fill the read buffer
  (shorter for the last one, which may be the first): the file is opened for writing, created
  and truncated, the payloads are written in order from the offset that SendObjectInfo left, and
  nothing else is done. So with the offset 0 the file then holds exactly the object, whatever it
  held before; its entry gets the size of the file and the file is closed. This is for a writable
  object whose file is not open yet and can be opened, and a host that does not cancel.\<close>

theorem send_object_stores_data:
  assumes "fs_db ctx = Some db" "SendObjInfoHandle ctx = h" "h \<noteq> 0xFFFFFFFF"
    and "get_entry_by_handle (mtp_get_storage_root (storages ctx)) h db = Some r" "r < length (pool db)"
    and "check_handle_access (storages ctx) db (Some r) 0 True = None"
    and "e_fd (pool db ! r) \<le> 0" "entry_path env (storages ctx) r db = PathSome p" "\<forall>x. \<not> env_ids_fail env x"
    and "env_open env store_flags p = fd" "0 < fd" "env_cancel env = (\<lambda>_. False)"
    and "hdr_operation (packet_header pk) = 2" "hdr_code (packet_header pk) = 0x100D"
    and "12 \<le> length pk" "env_usb env = map (\<lambda>b. (int (length b), b)) bs @ rest"
    and "list_all (\<lambda>b. int (length b) = usb_rd_buffer_max_size ctx) (butlast (pk # bs))"
    and "int (length (last (pk # bs))) < usb_rd_buffer_max_size ctx"
  shows "\<exists>ctx' db' ops. mtp_op_SendObject env pk ctx = Some (0x2001, [], ctx') \<and> fs_db ctx' = Some db'
    \<and> file_ops (mtp_trace ctx') = file_ops (mtp_trace ctx) @ OpenFile p store_flags 0x1B6 # SeekFile fd (SendObjInfoOffset ctx) # ops
    \<and> (\<forall>x\<in>set ops. \<exists>b. x = WriteFile fd b) \<and> concat (file_writes fd ops) = drop 12 pk @ concat bs
    \<and> (SendObjInfoOffset ctx = 0 \<longrightarrow> file_after fd (OpenFile p store_flags 0x1B6 # SeekFile fd 0 # ops) old = drop 12 pk @ concat bs)
    \<and> e_size (pool db' ! r) = env_file_end env fd \<and> e_fd (pool db' ! r) = -1"
proof -
  let ?db = "upd_entry r (e_fd_update (\<lambda>_. fd)) db"
  let ?ops = "map (WriteFile fd) (if 12 < length pk then drop 12 pk # bs else bs)"
  have par: "send_object_params pk ctx = ctx" using assms(13) by (simp add: send_object_params_def)
  have root: "mtp_get_storage_root (storages ctx) (e_storage (pool db ! r)) \<noteq> None"
    using assms(4) by (auto simp: get_entry_by_handle_def find_Some_iff)
  obtain c2 where c2: "ctx_entry_open env store_flags 0x1B6 r db ctx = Some (fd, ?db, c2)" "same_usb c2 ctx"
    "file_ops (mtp_trace c2) = file_ops (mtp_trace ctx) @ [OpenFile p store_flags 0x1B6]"
    using open_for_transfer [OF assms(7,5,8) root assms(9), of store_flags "0x1B6"] unfolding assms(10) by blast
  obtain k c4 where c4: "receive_data env False fd (drop 12 pk) (c2\<lparr>transferring_file_data := True\<rparr>) = (k, c4)"
    "mtp_trace c4 = mtp_trace c2 @ SeekFile fd (SendObjInfoOffset c2) # ?ops"
    using receive_object [OF assms(15-18), of "c2\<lparr>transferring_file_data := True\<rparr>" fd] same_usb_fields [OF c2(2)] assms(12) by auto
  let ?db4 = "entry_close (sync_when_close c4) (Some r) (upd_entry r (e_size_update (\<lambda>_. env_file_end env fd)) ?db)"
  let ?c5 = "c4\<lparr>transferring_file_data := False, fs_db := Some ?db4\<rparr>"
  have "mtp_op_SendObject env pk ctx = Some (0x2001, [], ?c5)"
    using assms(1-4,6,11-14) c2(1) c4(1) by (simp add: mtp_op_SendObject_def par Let_def)
  moreover have "e_size (pool ?db4 ! r) = env_file_end env fd" "e_fd (pool ?db4 ! r) = -1"
    using assms(5) by (auto simp: entry_close_def upd_entry_def Let_def split: if_splits)
  moreover have "concat (file_writes fd ?ops) = drop 12 pk @ concat bs" using assms(15) by simp
  moreover have "file_after fd (OpenFile p store_flags 0x1B6 # SeekFile fd 0 # ?ops) old = drop 12 pk @ concat bs"
    using assms(15) by (simp add: file_after_def new_file_writes del: list.map)
  moreover have "file_ops (mtp_trace ?c5) = file_ops (mtp_trace ctx) @ OpenFile p store_flags 0x1B6 # SeekFile fd (SendObjInfoOffset ctx) # ?ops"
    using c4(2) c2(3) same_usb_fields [OF c2(2)] by simp
  ultimately show ?thesis by (intro exI [of _ ?c5] exI [of _ ?db4] exI [of _ ?ops] conjI) auto
qed

theorem send_object_stores_data_witness:
  "\<exists>ctx' db' ops. mtp_op_SendObject (sample_env [] [(3, [5, 6, 7])]) ([0, 0, 0, 0, 2, 0, 0x0D, 0x10, 0, 0, 0, 0, 1, 2, 3, 4]) (sample_ctx (file_db 0))
      = Some (0x2001, [], ctx') \<and> fs_db ctx' = Some db'
    \<and> file_ops (mtp_trace ctx') = OpenFile [0x2F, 0x72, 0x2F, 0x61] store_flags 0x1B6 # SeekFile 5 0 # ops
    \<and> file_after 5 (OpenFile [0x2F, 0x72, 0x2F, 0x61] store_flags 0x1B6 # SeekFile 5 0 # ops) [9, 9, 9, 9, 9, 9, 9, 9] = [1, 2, 3, 4, 5, 6, 7]
    \<and> e_size (pool db' ! 0) = 21"
proof -
  let ?pk = "[0, 0, 0, 0, 2, 0, 0x0D, 0x10, 0, 0, 0, 0, 1, 2, 3, 4] :: bytes"
  have pk: "hdr_operation (packet_header ?pk) = 2" "hdr_code (packet_header ?pk) = 0x100D" by code_simp+
  have ofs: "SendObjInfoOffset (sample_ctx (file_db 0)) = 0" by (simp add: sample_ctx_def)
  show ?thesis
    using send_object_stores_data [of "sample_ctx (file_db 0)" "file_db 0" 1 0 "sample_env [] [(3, [5, 6, 7])]" "[0x2F, 0x72, 0x2F, 0x61]" 5 ?pk "[[5, 6, 7]]" "[]"
        "[9, 9, 9, 9, 9, 9, 9, 9]"]
    by (auto simp: sample_facts pk ofs sample_handle sample_access sample_path file_db_pool)
qed

text \<open>
  C39. GetPartialObject with a maximal size of \<^verbatim>\<open>0x80000000\<close> or more (such as \<^verbatim>\<open>0xFFFFFFFF\<close> for
  everything) kills the responder: the size is negative as an \<^verbatim>\<open>int\<close> and reaches \<^verbatim>\<open>memcpy\<close>.\<close>

theorem partial_object_size_crashes:
  assumes "fs_db ctx = Some db" "get_entry_by_handle (mtp_get_storage_root (storages ctx)) (peek pk 12 4) db = Some r" "r < length (pool db)"
    and "check_handle_access (storages ctx) db (Some r) (peek pk 12 4) False = None"
    and "e_fd (pool db ! r) \<le> 0" "entry_path env (storages ctx) r db = PathSome p" "\<forall>x. \<not> env_ids_fail env x"
    and "0 < env_open env read_flags p" "\<And>q. 0 \<le> fst (env_pread env (env_open env read_flags p) q (read_file_buffer_size ctx))"
    and "read_file_buffer_size ctx = 2 ^ k" "12 < usb_wr_buffer_max_size ctx" "length (wrbuffer ctx) = nat (usb_wr_buffer_max_size ctx)"
    and "read_file_buffer ctx \<noteq> None" and "hdr_code (packet_header pk) = 0x101B"
    and "uint (peek pk 16 4) < e_size (pool db ! r)" "0x80000000 \<le> peek pk 20 4"
  shows "mtp_op_GetPartialObject env pk ctx = None"
proof -
  let ?B = "usb_wr_buffer_max_size ctx" and ?R = "read_file_buffer_size ctx"
  obtain b where b: "data_header pk ctx = (12, ctx\<lparr>wrbuffer := b\<rparr>)" using data_header_ok [OF assms(12,11) refl, of pk] by metis
  obtain buf where buf: "read_file_buffer ctx = Some buf" using assms(13) by auto
  have root: "mtp_get_storage_root (storages ctx) (e_storage (pool db ! r)) \<noteq> None"
    using assms(2) by (auto simp: get_entry_by_handle_def find_Some_iff)
  have neg: "sint (peek pk 20 4) < 0" using assms(16) by (rule high_size_negative)
  have "send_file_data env r (uint (peek pk 16 4)) (sint (peek pk 20 4)) db (ctx\<lparr>wrbuffer := b\<rparr>) = None"
    by (rule send_negative [where p = p and k = k]) (use assms(3,5-11,13,15) neg root in simp_all)
  then show ?thesis using assms(1,2,4,14) b by (simp add: mtp_op_GetPartialObject_def Let_def partial_range_def)
qed

theorem partial_object_size_crashes_witness:
  "mtp_op_GetPartialObject (sample_env [1, 2, 3, 4, 5] []) ([0, 0, 0, 0, 0, 0, 0x1B, 0x10, 0, 0, 0, 0, 1, 0, 0, 0, 0, 0, 0, 0, 0xFF, 0xFF, 0xFF, 0xFF])
     (sample_ctx (file_db 5)) = None"
proof -
  let ?pk = "[0, 0, 0, 0, 0, 0, 0x1B, 0x10, 0, 0, 0, 0, 1, 0, 0, 0, 0, 0, 0, 0, 0xFF, 0xFF, 0xFF, 0xFF] :: bytes"
  have pk: "peek ?pk 12 4 = 1" "peek ?pk 16 4 = 0" "peek ?pk 20 4 = 0xFFFFFFFF" "hdr_code (packet_header ?pk) = 0x101B" by code_simp+
  show ?thesis
    by (rule partial_object_size_crashes [where r = 0 and db = "file_db 5" and p = "[0x2F, 0x72, 0x2F, 0x61]" and k = 4])
      (simp_all add: sample_facts pk sample_handle sample_access sample_path file_db_pool)
qed

end
