(* ===== verification/Mtp_Session_Props.thy ===== *)
theory Mtp_Session_Props
  imports Mtp_Session Mtp_Transfer_Props
begin

text \<open>
  What the operations of a session may do: writes stop at read-only storages, unmounting hides
  exactly one storage. Two theorems state behaviour that the protocol does not want: an object
  announced in a missing folder is accepted, and deleting the handle zero empties a storage.
\<close>

section \<open>Access\<close>

definition all_read_only :: "mtp_storage list \<Rightarrow> bool" where
  "all_read_only sts \<longleftrightarrow> list_all (\<lambda>st. root_path st \<noteq> None \<longrightarrow> storage_flags st AND 1 \<noteq> 0) sts \<and> length sts = MAX_STORAGE_NB"

lemma read_only_flags:
  assumes "all_read_only sts"
  shows "mtp_get_storage_flags sts sid = 0xFFFFFFFF \<or> mtp_get_storage_flags sts sid AND 1 \<noteq> 0"
proof (cases "find_storage (\<lambda>s. storage_id s = sid) sts")
  case (Some i)
  then have "i < MAX_STORAGE_NB" "root_path (sts ! i) \<noteq> None" by (auto simp: find_storage_def find_Some_iff)
  then have "storage_flags (sts ! i) AND 1 \<noteq> 0" using assms by (auto simp: all_read_only_def list_all_length)
  then show ?thesis using Some by (simp add: mtp_get_storage_flags_def)
qed (simp add: mtp_get_storage_flags_def)

lemma read_only_refused:
  assumes "all_read_only sts"
  shows "\<exists>code. check_handle_access sts db e h True = Some code"
  using read_only_flags [OF assms]
  by (cases "case e of Some r \<Rightarrow> Some r | None \<Rightarrow> get_entry_by_handle (mtp_get_storage_root sts) h db") (auto simp: check_handle_access_def Let_def)

lemma refused_SendObject:
  assumes "\<And>e h. \<exists>code. check_handle_access (storages ctx) db e h True = Some code" "fs_db ctx = Some db"
    and "mtp_op_SendObject env pk ctx = Some (code, ps, ctx')"
  shows "mtp_trace ctx' = mtp_trace ctx"
proof -
  have same: "storages (send_object_params pk ctx) = storages ctx" "mtp_trace (send_object_params pk ctx) = mtp_trace ctx"
    by (simp_all add: send_object_params_def)
  obtain c1 where c1: "check_handle_access (storages ctx) db None (SendObjInfoHandle (send_object_params pk ctx)) True = Some c1" using assms(1) by blast
  have c2: "\<exists>c2. check_handle_access (storages ctx) db (Some r) 0 True = Some c2" for r using assms(1) by blast
  show ?thesis
  proof (cases "get_entry_by_handle (mtp_get_storage_root (storages ctx)) (SendObjInfoHandle (send_object_params pk ctx)) db")
    case None
    then show ?thesis using assms(2,3) c1 by (auto simp: mtp_op_SendObject_def Let_def same split: if_splits)
  next
    case (Some r)
    obtain c where "check_handle_access (storages ctx) db (Some r) 0 True = Some c" using c2 by blast
    then show ?thesis using assms(2,3) c1 Some by (auto simp: mtp_op_SendObject_def Let_def same split: if_splits)
  qed
qed

lemma refused_SetProp:
  assumes "\<And>e h. \<exists>code. check_handle_access (storages ctx) db e h True = Some code" "fs_db ctx = Some db"
    and "mtp_op_SetObjectPropValue env pk ctx = Some (code, ps, ctx')"
  shows "mtp_trace ctx' = mtp_trace ctx"
proof -
  have "\<exists>c. setObjectPropValue env pk h pc db ctx = Some (c, db, ctx)" for h pc
  proof (cases "get_entry_by_handle (mtp_get_storage_root (storages ctx)) h db")
    case (Some r)
    obtain c where "check_handle_access (storages ctx) db (Some r) 0 True = Some c" using assms(1) by blast
    then show ?thesis using Some by (simp add: setObjectPropValue_def)
  qed (simp add: setObjectPropValue_def)
  then obtain c where "setObjectPropValue env pk (SetObjectPropValue_Handle ctx) (SetObjectPropValue_PropCode ctx) db ctx = Some (c, db, ctx)" by blast
  then show ?thesis using assms(2,3) by (auto simp: mtp_op_SetObjectPropValue_def split: if_splits)
qed

lemma refused_Truncate:
  assumes "\<And>e h. \<exists>code. check_handle_access (storages ctx) db e h True = Some code" "fs_db ctx = Some db"
    and "mtp_op_TruncateObject env pk ctx = Some (code, ps, ctx')"
  shows "mtp_trace ctx' = mtp_trace ctx"
proof (cases "get_entry_by_handle (mtp_get_storage_root (storages ctx)) (peek pk 12 4) db")
  case (Some r)
  obtain c where "check_handle_access (storages ctx) db (Some r) (peek pk 12 4) True = Some c" using assms(1) by blast
  then show ?thesis using assms(2,3) Some by (simp add: mtp_op_TruncateObject_def)
qed (use assms(2,3) in \<open>simp add: mtp_op_TruncateObject_def\<close>)

lemma refused_Delete:
  assumes "\<And>e h. \<exists>code. check_handle_access (storages ctx) db e h True = Some code" "fs_db ctx = Some db"
    and "mtp_op_DeleteObject env pk ctx = Some (code, ps, ctx')"
  shows "mtp_trace ctx' = mtp_trace ctx"
proof -
  obtain c where "check_handle_access (storages ctx) db None (peek pk 12 4) True = Some c" using assms(1) by blast
  then show ?thesis using assms(2,3) by (simp add: mtp_op_DeleteObject_def Let_def)
qed

lemma refused_SendObjectInfo:
  assumes "all_read_only (storages ctx)" "fs_db ctx = Some db" and "mtp_op_SendObjectInfo env pk ctx = Some (code, ps, ctx')"
  shows "mtp_trace ctx' = mtp_trace ctx"
proof -
  have "\<exists>c. parse_incoming_dataset env d p sid db ctx = Some (c, 0xFFFFFFFF, db, ctx)" for d p sid
    using read_only_flags [OF assms(1), of sid] by (auto simp: parse_incoming_dataset_def Let_def)
  then obtain c where "parse_incoming_dataset env (case env_usb env of (_, bs) # _ \<Rightarrow> bs | [] \<Rightarrow> []) (peek pk 16 4) (peek pk 12 4) db ctx
    = Some (c, 0xFFFFFFFF, db, ctx)" by blast
  then show ?thesis using assms(2,3) by (auto simp: mtp_op_SendObjectInfo_def Let_def)
qed

definition read_only_ctx :: mtp_ctx where
  "read_only_ctx = (sample_ctx (file_db 5))\<lparr>storages := replicate 16 \<lparr>root_path = Some [0x2F], description = [], storage_id = 0x10001,
     storage_flags = 1, storage_uid = 0, storage_gid = 0\<rparr>\<rparr>"

text \<open>Announcing in a missing folder\<close>

section \<open>Access and announcements\<close>

text \<open>
  When every storage is read-only, no request that would create, write, delete, truncate or
  rename an object has any effect outside the process.\<close>

theorem read_only_storage_untouched:
  assumes "all_read_only (storages ctx)" "run_op env req pk ctx = Some (code, ps, ctx')"
    and "req \<in> {SendObjectInfo, SendObject, DeleteObject, TruncateObject, SetObjectPropValue}"
  shows "mtp_trace ctx' = mtp_trace ctx"
proof (cases "fs_db ctx")
  case None
  then show ?thesis using assms(2,3)
    by (auto simp: mtp_op_SendObjectInfo_def mtp_op_SendObject_def mtp_op_DeleteObject_def mtp_op_TruncateObject_def mtp_op_SetObjectPropValue_def)
next
  case (Some db)
  have ref: "\<exists>code. check_handle_access (storages ctx) db e h True = Some code" for e h using read_only_refused [OF assms(1)] .
  show ?thesis
    using assms(2,3) refused_SendObject [OF ref Some] refused_SetProp [OF ref Some] refused_Truncate [OF ref Some]
      refused_Delete [OF ref Some] refused_SendObjectInfo [OF assms(1) Some] by auto
qed

theorem read_only_storage_untouched_witness:
  "\<exists>code ctx'. run_op (sample_env [] []) DeleteObject (replicate 12 0 @ [1, 0, 0, 0]) read_only_ctx = Some (code, [], ctx') \<and> mtp_trace ctx' = []"
proof -
  have ro: "all_read_only (storages read_only_ctx)" by (simp add: read_only_ctx_def all_read_only_def list_all_iff)
  obtain code where "check_handle_access (storages read_only_ctx) (file_db 5) None (peek (replicate 12 0 @ [1, 0, 0, 0]) 12 4) True = Some code"
    using read_only_refused [OF ro] by blast
  then have run: "run_op (sample_env [] []) DeleteObject (replicate 12 0 @ [1, 0, 0, 0]) read_only_ctx = Some (code, [], read_only_ctx)"
    by (simp add: mtp_op_DeleteObject_def read_only_ctx_def sample_facts Let_def)
  then show ?thesis using read_only_storage_untouched [OF ro run] by (simp add: read_only_ctx_def sample_facts)
qed

text \<open>
  An object that is announced in a folder the responder does not know is answered with OK and
  an invalid handle; the object announced before stays the target of the next data.\<close>

theorem unknown_parent_accepted:
  assumes "fs_db ctx = Some db" "env_usb env = (n, datain) # rest" "hdr_code (packet_header datain) = 0x100C"
    and "mtp_get_storage_flags (storages ctx) (peek pk 12 4) = 0"
    and "fst (sanitize_name (dataset_name (drop 12 datain)) 257) = 1"
    and "get_entry_by_handle_and_storageid (peek pk 16 4) (peek pk 12 4) db = None" "peek pk 16 4 \<noteq> 0xFFFFFFFF"
  shows "mtp_op_SendObjectInfo env pk ctx = Some (0x2001, [peek pk 12 4, peek pk 16 4, 0xFFFFFFFF], ctx)"
  using assms by (cases "sanitize_name (dataset_name (drop 12 datain)) 257")
    (simp add: mtp_op_SendObjectInfo_def parse_incoming_dataset_def Let_def)

theorem unknown_parent_accepted_witness:
  "mtp_op_SendObjectInfo (sample_env [] [(0, replicate 6 0 @ [0x0C, 0x10] @ replicate 4 0 @ replicate 0x34 0 @ [1, 0x62, 0])])
     (replicate 12 0 @ [1, 0, 1, 0, 9, 0, 0, 0]) (sample_ctx (file_db 5)) = Some (0x2001, [0x10001, 9, 0xFFFFFFFF], sample_ctx (file_db 5))"
proof -
  let ?d = "replicate 6 0 @ [0x0C, 0x10] @ replicate 4 0 @ replicate 0x34 0 @ [1, 0x62, 0] :: bytes"
  have d: "hdr_code (packet_header ?d) = 0x100C" "fst (sanitize_name (dataset_name (drop 12 ?d)) 257) = 1" by code_simp+
  have pk: "peek (replicate 12 0 @ [1, 0, 1, 0, 9, 0, 0, 0]) 12 4 = 0x10001" "peek (replicate 12 0 @ [1, 0, 1, 0, 9, 0, 0, 0]) 16 4 = 9" by code_simp+
  have list: "entry_list (file_db 5) = [0]" using file_db_ok [of 5] by (simp add: db_ok_def file_db_pool)
  have "get_entry_by_handle_and_storageid 9 0x10001 (file_db 5) = None"
    by (simp add: get_entry_by_handle_and_storageid_def list file_db_pool)
  then show ?thesis
    using unknown_parent_accepted [of "sample_ctx (file_db 5)" "file_db 5" "sample_env [] [(0, ?d)]" 0 ?d "[]" "replicate 12 0 @ [1, 0, 1, 0, 9, 0, 0, 0]", unfolded pk]
    by (simp only: d sample_facts sample_flags) simp
qed

section \<open>The root of a storage\<close>

lemma root_entry_db:
  assumes "block_ok m" "strdup_ok m"
  shows "pool (snd (alloc_root_entry m sid init_fs_db)) = [\<lparr>e_handle = 0, e_parent = 0, e_storage = sid, e_name = [0x2F],
     e_flags = 1, e_size = 1, e_fd = 0, e_wd = -1\<rparr>]"
  using assms by (simp add: alloc_root_entry_def take_slot_def allocate_pool_block_def Let_def init_fs_db_def)

lemma one_storage:
  assumes "sts = st # replicate 15 no_storage" "root_path st = Some root"
  shows "mtp_get_storage_root sts (storage_id st) = Some root" "mtp_get_storage_flags sts (storage_id st) = storage_flags st"
    "takeWhile (\<lambda>s. root_path s \<noteq> None) sts = [st]"
proof -
  have "find_storage (\<lambda>s. storage_id s = storage_id st) sts = Some 0"
    using assms by (simp add: find_storage_def upt_rec [of 0])
  then show "mtp_get_storage_root sts (storage_id st) = Some root" "mtp_get_storage_flags sts (storage_id st) = storage_flags st"
    using assms by (simp_all add: mtp_get_storage_root_def mtp_get_storage_flags_def)
  show "takeWhile (\<lambda>s. root_path s \<noteq> None) sts = [st]" using assms by (simp add: no_storage_def)
qed

lemma c_str_no_nul: "0 \<notin> set s \<Longrightarrow> c_str (s @ 0 # t) = s"
  unfolding c_str_def by (induction s) auto

lemma root_entry_found:
  assumes "block_ok m" "strdup_ok m" "handle_node_ok m" "name_node_ok m" "roots sid \<noteq> None"
  shows "get_entry_by_handle roots 0 (snd (alloc_root_entry m sid init_fs_db)) = Some 0"
proof -
  let ?db = "snd (alloc_root_entry m sid init_fs_db)"
  have ok: "db_ok ?db" by (rule alloc_root_ok [OF db_ok_init]) (use assms in \<open>simp_all add: init_fs_db_def\<close>)
  have "get_entry_by_handle roots 0 ?db \<noteq> None"
    using get_entry_exact(1) [OF ok, of roots 0] assms by (simp add: root_entry_db live_handle_def deleted_def)
  then obtain r where r: "get_entry_by_handle roots 0 ?db = Some r" by blast
  then have "r < length (pool ?db)" using get_entry_exact(2) [OF ok r] by simp
  then show ?thesis using r assms by (simp add: root_entry_db)
qed

section \<open>Unmounting\<close>

definition gone :: "fs_entry \<Rightarrow> fs_entry" where
  "gone e = e\<lparr>e_flags := e_flags e OR ENTRY_IS_DELETED, e_wd := -1\<rparr>"

lemma mark_deleted_pool:
  "pool (mark_deleted r db) = (pool db)[r := gone (pool db ! r)]" "entry_list (mark_deleted r db) = entry_list db"
proof -
  have "e_wd e = -1 \<Longrightarrow> e\<lparr>e_flags := f, e_wd := -1\<rparr> = e\<lparr>e_flags := f\<rparr>" for e :: fs_entry and f by (cases e) simp
  then have same: "e_wd (pool db ! r) = -1 \<Longrightarrow> gone (pool db ! r) = (pool db ! r)\<lparr>e_flags := e_flags (pool db ! r) OR 2\<rparr>"
    by (simp add: gone_def)
  show "pool (mark_deleted r db) = (pool db)[r := gone (pool db ! r)]"
  proof (cases "r < length (pool db)")
    case True
    show ?thesis
    proof (cases "e_wd (pool db ! r) = -1")
      case wd: True
      show ?thesis using True wd by (simp add: same [OF wd] mark_deleted_def upd_entry_def Let_def)
    next
      case False
      then show ?thesis using True by (simp add: mark_deleted_def upd_entry_def Let_def gone_def)
    qed
  qed (simp add: mark_deleted_def upd_entry_def Let_def list_update_beyond)
  show "entry_list (mark_deleted r db) = entry_list db" by (simp add: mark_deleted_def upd_entry_def Let_def)
qed

lemma gone_deleted [simp]: "deleted (gone e)"
  by (simp add: deleted_def gone_def bit_eq_iff) (auto simp: bit_simps intro!: exI [of _ 1])

definition in_storage :: "u32 \<Rightarrow> fs_entry \<Rightarrow> bool" where
  "in_storage sid e \<longleftrightarrow> \<not> deleted e \<and> e_storage e = sid"

lemma find_split: "find P xs = Some r \<Longrightarrow> \<exists>a b. xs = a @ r # b \<and> (\<forall>q \<in> set a. \<not> P q) \<and> P r"
proof (induction xs)
  case (Cons x xs)
  show ?case
  proof (cases "P x")
    case True
    then show ?thesis using Cons(2) by (intro exI [of _ "[]"] exI [of _ xs]) simp
  next
    case False
    then obtain a b where "xs = a @ r # b" "\<forall>q \<in> set a. \<not> P q" "P r" using Cons by auto
    then show ?thesis using False by (intro exI [of _ "x # a"] exI [of _ b]) simp
  qed
qed simp

lemma dropWhile_at: "r \<notin> set a \<Longrightarrow> dropWhile (\<lambda>q. q \<noteq> r) (a @ r # b) = r # b"
  by (induction a) auto

text \<open>The loop over the rest of the list marks exactly the live entries of the storage there.\<close>

lemma umount_rest:
  assumes "distinct (entry_list db)" "entry_list db = pre @ suf" "list_from start db = suf" "length suf < fuel"
    and "set (entry_list db) \<subseteq> {..<length (pool db)}"
  shows "\<exists>db'. umount_entries fuel sid start db = Some db' \<and> length (pool db') = length (pool db)
    \<and> (\<forall>r < length (pool db). pool db' ! r = (if r \<in> set suf \<and> in_storage sid (pool db ! r) then gone (pool db ! r) else pool db ! r))"
  using assms
proof (induction fuel arbitrary: db pre suf start)
  case (Suc fuel)
  have find: "get_entry_by_storageid sid start db = find (\<lambda>r. in_storage sid (pool db ! r)) suf"
    using Suc(4) by (simp add: get_entry_by_storageid_def in_storage_def)
  show ?case
  proof (cases "find (\<lambda>r. in_storage sid (pool db ! r)) suf")
    case None
    then have "\<forall>q \<in> set suf. \<not> in_storage sid (pool db ! q)" by (simp add: find_None_iff)
    then show ?thesis using find None by auto
  next
    case (Some r)
    then obtain a b where ab: "suf = a @ r # b" "\<forall>q \<in> set a. \<not> in_storage sid (pool db ! q)" "in_storage sid (pool db ! r)"
      using find_split [OF Some] by blast
    let ?db = "mark_deleted r db"
    have el: "entry_list ?db = (pre @ a) @ r # b" using Suc(3) ab(1) by (simp add: mark_deleted_pool)
    have d: "distinct (entry_list ?db)" using Suc(2) by (simp add: mark_deleted_pool)
    then have r: "r \<notin> set (pre @ a)" "r \<notin> set b" unfolding el by auto
    have rl: "r < length (pool db)" using Suc(6) unfolding Suc(3) ab(1) by auto
    have nx: "next_entry r ?db = (case b of [] \<Rightarrow> None | q # _ \<Rightarrow> Some q)"
      unfolding next_entry_def el dropWhile_at [OF r(1)] by (simp split: list.split)
    have step: "pool ?db ! q = (if q = r then gone (pool db ! r) else pool db ! q)" for q
      using rl by (simp add: mark_deleted_pool nth_list_update)
    show ?thesis
    proof (cases b)
      case Nil
      then show ?thesis using find Some nx ab by (auto simp: step mark_deleted_pool(1) [THEN arg_cong, of length])
    next
      case (Cons q c)
      have "list_from (Some q) ?db = b"
        using d dropWhile_at [of q "(pre @ a) @ [r]" c] unfolding list_from_def el Cons by auto
      then obtain db' where db': "umount_entries fuel sid (Some q) ?db = Some db'" "length (pool db') = length (pool ?db)"
        "\<forall>k < length (pool ?db). pool db' ! k = (if k \<in> set b \<and> in_storage sid (pool ?db ! k) then gone (pool ?db ! k) else pool ?db ! k)"
        using Suc.IH [OF d, of "(pre @ a) @ [r]" b "Some q"] el Suc(5,6) ab(1) by (auto simp: mark_deleted_pool)
      have len: "length (pool ?db) = length (pool db)" by (simp add: mark_deleted_pool)
      have "pool db' ! k = (if k \<in> set suf \<and> in_storage sid (pool db ! k) then gone (pool db ! k) else pool db ! k)" if "k < length (pool db)" for k
        using db'(3) that len r(2) ab by (cases "k = r") (auto simp: step)
      then show ?thesis using find Some nx Cons db'(1,2) len by auto
    qed
  qed
qed simp

lemma or_two: "(w OR 2) AND 2 \<noteq> (0 :: u32)"
  by (simp add: bit_eq_iff) (auto simp: bit_simps intro!: exI [of _ 1])

definition erase_env :: mtp_env where
  "erase_env = (sample_env [] [])\<lparr>env_realpath := \<lambda>_. RealPath [0x2F, 0x72]\<rparr>"

section \<open>The root and unmounting\<close>

text \<open>
  C33. Right after a session is opened, a request to delete the handle 0 removes the whole folder
  of the storage and is answered with OK.\<close>

theorem delete_handle_zero_erases_storage:
  assumes "storages ctx = st # replicate 15 no_storage" "root_path st = Some root" "storage_flags st = 0" "0 \<notin> set root"
    and "fs_db ctx = None" "peek pk0 12 4 \<noteq> 0" "peek pk 12 4 = 0" "env_db_ok env" "env_path_ok env" "\<forall>x. \<not> env_ids_fail env x"
    and "env_mem env = \<lparr>block_ok = True, strdup_ok = True, handle_node_ok = True, name_node_ok = True\<rparr>"
    and "env_realpath env (root @ [0x2F, 0x2F]) = RealPath root" "fst (fs_remove_tree (env_ops env) root (env_tree env root)) = False"
  shows "\<exists>ctx1 ctx2. mtp_op_OpenSession env pk0 ctx = Some (0x2001, [], ctx1)
    \<and> mtp_op_DeleteObject env pk ctx1 = Some (0x2001, [], ctx2) \<and> RemoveTree root \<in> set (mtp_trace ctx2)"
proof -
  let ?m = "\<lparr>block_ok = True, strdup_ok = True, handle_node_ok = True, name_node_ok = True\<rparr>"
  let ?db = "snd (alloc_root_entry ?m (storage_id st) init_fs_db)"
  let ?c1 = "ctx\<lparr>session_id := peek pk0 12 4, fs_db := Some ?db\<rparr>"
  note one = one_storage [OF assms(1,2)]
  have o: "mtp_op_OpenSession env pk0 ctx = Some (0x2001, [], ?c1)"
    using assms(5,6,8,11) one(3) by (simp add: mtp_op_OpenSession_def Let_def)
  have found: "get_entry_by_handle (mtp_get_storage_root (storages ctx)) 0 ?db = Some 0"
    by (rule root_entry_found) (use one in simp_all)
  have pool: "pool ?db = [\<lparr>e_handle = 0, e_parent = 0, e_storage = storage_id st, e_name = [0x2F], e_flags = 1, e_size = 1, e_fd = 0, e_wd = -1\<rparr>]"
    by (rule root_entry_db) simp_all
  have acc: "check_handle_access (storages ctx) ?db None 0 True = None"
    using found pool one(2) assms(3) by (simp add: check_handle_access_def Let_def)
  have path: "entry_path env (storages ctx) 0 ?db = PathSome root"
    using one(1) assms(4,9,12) c_str_no_nul [of "root @ [0x2F, 0x2F]" "[]"]
    by (simp add: entry_path_def build_full_path_def pool path_buffer_eq Let_def check_root_def)
  have root: "mtp_get_storage_root (storages ?c1) (storage_id st) \<noteq> None" using one(1) by simp
  obtain c2 where c2: "set_storage_giduid (env_ids_fail env) (storage_id st) ?c1 = (0, c2)" "same_usb c2 ?c1"
    using set_storage_ids [OF root assms(10)] by blast
  have st: "storages c2 = storages ctx" using c2(2) by (auto simp: same_usb_def)
  have del: "delete_tree env 0 ?db c2 = Some (0, mark_deleted 0 ?db, emit_mtp (RemoveTree root) c2)"
    using found path pool assms(13) by (simp add: delete_tree_def st is_dir_def)
  let ?c3 = "(emit_mtp (RemoveTree root) c2)\<lparr>fs_db := Some (mark_deleted 0 ?db)\<rparr>"
  have "mtp_op_DeleteObject env pk ?c1 = Some (0x2001, [], restore_giduid (env_ids_fail env) ?c3)"
    using assms(7) acc found pool c2(1) del by (simp add: mtp_op_DeleteObject_def Let_def)
  moreover have "same_usb (restore_giduid (env_ids_fail env) ?c3) ?c3" unfolding restore_giduid_def by (rule set_giduid_usb)
  then have "RemoveTree root \<in> set (mtp_trace (restore_giduid (env_ids_fail env) ?c3))" by (auto simp: same_usb_def)
  ultimately show ?thesis using o by blast
qed

theorem delete_handle_zero_erases_storage_witness:
  "\<exists>ctx1 ctx2. mtp_op_OpenSession erase_env (replicate 12 0 @ [1, 0, 0, 0]) ((sample_ctx sample_db)\<lparr>fs_db := None\<rparr>) = Some (0x2001, [], ctx1)
    \<and> mtp_op_DeleteObject erase_env (replicate 12 0 @ [0, 0, 0, 0]) ctx1 = Some (0x2001, [], ctx2) \<and> RemoveTree [0x2F, 0x72] \<in> set (mtp_trace ctx2)"
proof -
  have pk: "peek (replicate 12 0 @ [1, 0, 0, 0]) 12 4 \<noteq> 0" "peek (replicate 12 0 @ [0, 0, 0, 0]) 12 4 = 0" by code_simp+
  show ?thesis
    by (rule delete_handle_zero_erases_storage [OF _ _ _ _ _ pk, where st = "hd sample_storages"])
      (simp_all add: sample_ctx_def sample_storages_def erase_env_def sample_env_def sample_mem_def)
qed

text \<open>
  C30. Unmounting a storage ends, marks every live entry of the storage as deleted, changes no
  other entry and marks the storage as not mounted.\<close>

theorem umount_hides_storage:
  assumes "db_reach db" "0 \<le> i" "i < 16" "length (storages ctx) = 16" "root_path (storages ctx ! nat i) \<noteq> None"
  shows "\<exists>db' ctx'. umount_store i True db ctx = Some (db', ctx') \<and> length (pool db') = length (pool db)
    \<and> storage_flags (storages ctx' ! nat i) AND 2 \<noteq> 0
    \<and> (\<forall>r < length (pool db). pool db' ! r =
          (if in_storage (storage_id (storages ctx ! nat i)) (pool db ! r) then gone (pool db ! r) else pool db ! r))"
proof -
  let ?sid = "storage_id (storages ctx ! nat i)"
  have el: "entry_list db = rev [0..<length (pool db)]" using db_reach_ok [OF assms(1)] by (simp add: db_ok_def)
  have "\<exists>db'. umount_entries (length (entry_list db) + 1) ?sid None db = Some db' \<and> length (pool db') = length (pool db)
    \<and> (\<forall>r < length (pool db). pool db' ! r = (if r \<in> set (entry_list db) \<and> in_storage ?sid (pool db ! r) then gone (pool db ! r) else pool db ! r))"
    by (rule umount_rest [of db "[]" "entry_list db" None]) (use el in \<open>auto simp: list_from_def\<close>)
  then obtain db' where db': "umount_entries (length (entry_list db) + 1) ?sid None db = Some db'" "length (pool db') = length (pool db)"
    "\<forall>r < length (pool db). pool db' ! r = (if r \<in> set (entry_list db) \<and> in_storage ?sid (pool db ! r) then gone (pool db ! r) else pool db ! r)"
    by blast
  have "umount_store i True db ctx = Some (db', ctx\<lparr>storages := (storages ctx)[nat i := (storages ctx ! nat i)\<lparr>storage_flags := storage_flags (storages ctx ! nat i) OR 2\<rparr>]\<rparr>)"
    using assms(2,3,5) db'(1) by (simp add: umount_store_def Let_def del: umount_entries.simps)
  then show ?thesis using assms(2-4) db'(2,3) el or_two by auto
qed

theorem umount_hides_storage_witness:
  "\<exists>db' ctx'. umount_store 0 True sample_db (sample_ctx sample_db) = Some (db', ctx') \<and> deleted (pool db' ! 0)"
proof -
  have "length (storages (sample_ctx sample_db)) = 16" "root_path (storages (sample_ctx sample_db) ! nat 0) \<noteq> None"
    by (simp_all add: sample_facts sample_storages_def)
  from umount_hides_storage [OF sample_reach _ _ this]
  show ?thesis by (simp add: sample_pool sample_facts sample_storages_def in_storage_def deleted_def [of "\<lparr>e_handle = _, e_parent = _, e_storage = _, e_name = _, e_flags = _, e_size = _, e_fd = _, e_wd = _\<rparr>"]) (metis gone_deleted)
qed

end
