(* ===== verification/Mtp_Invariants.thy ===== *)
theory Mtp_Invariants
  imports Mtp_Background Mtp_Session_Props
begin

text \<open>
  What every request, every change of a watched folder and every command keeps. The locale
  \<open>db_invariant\<close> lists what a predicate on the handle database has to satisfy for the single
  operations of the database; inside it the predicate is carried through all of the responder.
\<close>

section \<open>Frames\<close>

text \<open>The helpers that leave the database and the storages alone.\<close>

definition same_db :: "mtp_ctx \<Rightarrow> mtp_ctx \<Rightarrow> bool" where
  "same_db a b \<longleftrightarrow> fs_db a = fs_db b \<and> storages a = storages b"

lemma emit_db [simp]: "fs_db (emit_mtp x ctx) = fs_db ctx"
  by (simp add: emit_mtp_def)

lemma giduid_db: "same_db (snd (set_giduid f u g ctx)) ctx"
  by (simp add: set_giduid_def Let_def same_db_def)

lemma giduid_frame: "set_giduid f u g ctx = (ids, ctx') \<Longrightarrow> fs_db ctx' = fs_db ctx \<and> storages ctx' = storages ctx"
  using giduid_db [of f u g ctx] by (simp add: same_db_def)

lemma restore_db [simp]: "fs_db (restore_giduid f ctx) = fs_db ctx" "storages (restore_giduid f ctx) = storages ctx"
  using giduid_db [of f "ctx_uid ctx" "ctx_gid ctx" ctx] by (simp_all add: restore_giduid_def same_db_def)

lemma storage_ids_db: "set_storage_giduid f sid ctx = (ids, ctx') \<Longrightarrow> fs_db ctx' = fs_db ctx \<and> storages ctx' = storages ctx"
  by (auto simp: set_storage_giduid_def Let_def dest: giduid_frame split: if_splits)

lemma zlp_db [simp]: "fs_db (check_and_send_USB_ZLP n ctx) = fs_db ctx" "storages (check_and_send_USB_ZLP n ctx) = storages ctx"
  by (simp_all add: check_and_send_USB_ZLP_def)

lemma header_db: "data_header pk ctx = (sz, ctx') \<Longrightarrow> fs_db ctx' = fs_db ctx \<and> storages ctx' = storages ctx"
  by (auto simp: data_header_def split: prod.splits)

lemma write_db [simp]: "fs_db (write_data fd bs ctx) = fs_db ctx" "storages (write_data fd bs ctx) = storages ctx"
  by (simp_all add: write_data_def)

lemma recv_db: "recv_loop n c fd reads sz ctx = (k, ctx') \<Longrightarrow> fs_db ctx' = fs_db ctx \<and> storages ctx' = storages ctx"
  by (induction n c fd reads sz ctx arbitrary: k rule: recv_loop.induct) (auto split: if_splits prod.splits)

lemma receive_db: "receive_data env partial fd bs ctx = (k, ctx') \<Longrightarrow> fs_db ctx' = fs_db ctx \<and> storages ctx' = storages ctx"
  unfolding receive_data_def Let_def by (drule recv_db) simp

lemma params_db [simp]: "fs_db (send_object_params pk ctx) = fs_db ctx" "storages (send_object_params pk ctx) = storages ctx"
  by (simp_all add: send_object_params_def)

lemma status_db [simp]: "fs_db (send_status t c ps ctx) = fs_db ctx" "storages (send_status t c ps ctx) = storages ctx"
  by (simp_all add: send_status_def split: prod.split)

lemma push_db [simp]: "fs_db (mtp_push_event e ps ctx) = fs_db ctx" "storages (mtp_push_event e ps ctx) = storages ctx"
  by (simp_all add: mtp_push_event_def split: prod.split)

lemma reply_db: "reply_dataset pk u build ctx = (c, ctx') \<Longrightarrow> fs_db ctx' = fs_db ctx \<and> storages ctx' = storages ctx"
  by (auto simp: reply_dataset_def write_dataset_def send_container_def Let_def split: prod.splits if_splits option.splits dest: header_db)

lemma announce_db [simp]: "fst (snd (snd (announce_file e n db ctx))) = db" "fs_db (snd (snd (snd (announce_file e n db ctx)))) = fs_db ctx"
  by (simp_all add: announce_file_def split: option.split)

text \<open>The three tests of an event, one after the other.\<close>

lemma event_stages:
  assumes "inotify_event_step env ev st = Some st'"
  obtains s1 s2 where "(if ev_mask ev AND (IN_CREATE OR IN_MOVED_TO) \<noteq> 0 then for_watched (created_in env ev) (ev_wd ev) st else Some st) = Some s1"
    and "(if ev_mask ev AND IN_MODIFY \<noteq> 0 then for_watched (modified_in env ev) (ev_wd ev) s1 else Some s1) = Some s2"
    and "(if ev_mask ev AND (IN_DELETE OR IN_MOVED_FROM) \<noteq> 0 then for_watched (deleted_in env ev) (ev_wd ev) s2 else Some s2) = Some st'"
  using assms unfolding inotify_event_step_def Let_def by (auto split: option.splits)

section \<open>Carrying a predicate through the responder\<close>

text \<open>
  \<open>known\<close> says which handles may become parents. \<open>m\<close> is the result of allocations.
\<close>

locale db_invariant =
  fixes I :: "fs_handles_db \<Rightarrow> bool" and known :: "u32 \<Rightarrow> fs_handles_db \<Rightarrow> bool" and m :: mem
  assumes known_zero: "known 0 db"
    and known_found: "I db \<Longrightarrow> get_entry_by_handle roots h db = Some r \<Longrightarrow> known h db"
    and known_listed: "I db \<Longrightarrow> r \<in> set (entry_list db) \<Longrightarrow> known (e_handle (pool db ! r)) db"
    and known_add: "known p db \<Longrightarrow> known p (snd (add_entry m info q s db))"
    and add: "I db \<Longrightarrow> known p db \<Longrightarrow> I (snd (add_entry m info p s db))"
    and root: "I db \<Longrightarrow> I (snd (alloc_root_entry m s db))"
    and rename: "I db \<Longrightarrow> get_entry_by_handle roots h db = Some r \<Longrightarrow> I (rename_entry m r nm db)"
    and mark: "I db \<Longrightarrow> I (mark_deleted r db)"
    and resize: "I db \<Longrightarrow> I (upd_entry r (e_size_update (\<lambda>_. n)) db)"
    and watch: "I db \<Longrightarrow> I (upd_entry r (e_wd_update (\<lambda>_. wd)) db)"
    and opened: "I db \<Longrightarrow> I (snd (entry_open path ids_ok fd r db))"
    and closed: "I db \<Longrightarrow> I (entry_close sync ro db)"
    and search: "I db \<Longrightarrow> I (init_search_handle p s db)"
    and next_child: "I db \<Longrightarrow> I (snd (get_next_child_handle db))"
begin

definition holds :: "mtp_ctx \<Rightarrow> bool" where
  "holds ctx \<longleftrightarrow> (\<forall>db. fs_db ctx = Some db \<longrightarrow> I db)"

lemma holds_cong: "fs_db ctx' = fs_db ctx \<Longrightarrow> holds ctx' = holds ctx"
  by (simp add: holds_def)

lemma children: "get_next_child_handle db = (r, db') \<Longrightarrow> I db \<Longrightarrow> I db'"
  using next_child [of db] by simp

lemma added: "add_entry m info p s db = (r, db') \<Longrightarrow> I db \<Longrightarrow> known p db \<Longrightarrow> I db'"
  using add [of db p info s] by simp

subsection \<open>Folders\<close>

lemma scan_files_keeps:
  assumes "I db" "known p db"
  shows "I (scan_files hidden m st base p s info ds db)"
  using assms
proof (induction ds arbitrary: info db rule: length_induct)
  case (1 ds)
  let ?db = "if wanted hidden info then snd (add_entry m info p s db) else db"
  have "I ?db" "known p ?db" using 1(2,3) by (simp_all add: add known_add)
  then show ?case
    using 1(1) fs_find_next_shorter by (subst scan_files.simps) (fastforce simp: Let_def split: option.split)
qed

lemma sweep_keeps: "sweep path st fuel db = Some db' \<Longrightarrow> I db \<Longrightarrow> I db'"
proof (induction fuel arbitrary: db)
  case (Suc fuel)
  then show ?case
    by (auto split: prod.splits option.splits path_result.splits dest: children intro: mark resize)
qed simp

lemma scan_keeps:
  assumes "ctx_scan env base p s db ctx = Some (n, db')" "env_mem env = m" "I db" "known p db"
  shows "I db'"
proof -
  have "I (init_search_handle p s (case fs_find_first_file (env_stat env) base (env_dir env base) of None \<Rightarrow> db
     | Some (info, ds) \<Rightarrow> scan_files (show_hidden_files (usb_cfg ctx) \<noteq> 0) (env_mem env) (env_stat env) base p s info ds db))"
    using assms(3,4) scan_files_keeps unfolding assms(2) by (auto intro!: search split: option.split)
  then show ?thesis
    using assms(1) by (auto simp: ctx_scan_def scan_and_add_folder_def Let_def simp del: sweep.simps dest: sweep_keeps)
qed

lemma count_keeps: "count_children fuel db = (n, db') \<Longrightarrow> I db \<Longrightarrow> I db'"
  by (induction fuel arbitrary: db n) (auto split: prod.splits option.splits dest: children)

lemma fill_keeps: "fill_handles fuel ms ps nb (p, i, db) = (p', i', db') \<Longrightarrow> I db \<Longrightarrow> I db'"
  by (induction fuel arbitrary: p i db) (auto split: prod.splits option.splits if_splits dest: children)

lemma send_keeps: "send_handles fuel nb (ofs, i, db) ctx = (ok, db', ctx') \<Longrightarrow> I db \<Longrightarrow> I db'"
proof (induction fuel arbitrary: ofs i db ctx)
  case (Suc fuel)
  obtain o2 b2 i2 db2 where f: "fill_handles (nb + 1) (usb_wr_buffer_max_size ctx) (max_packet_size ctx) nb ((ofs, wrbuffer ctx), i, db)
    = ((o2, b2), i2, db2)" by (metis prod.exhaust)
  then have "I db2" using fill_keeps Suc.prems(2) by blast
  then show ?case using Suc f by (auto simp: Let_def simp del: fill_handles.simps split: if_splits)
qed simp

subsection \<open>Sessions and transfers\<close>

lemma open_keeps: "ctx_entry_open env fl fm r db ctx = Some (fd, db', ctx') \<Longrightarrow> I db \<Longrightarrow> I db' \<and> fs_db ctx' = fs_db ctx"
  using opened [of db] unfolding ctx_entry_open_def
  by (auto split: if_splits path_result.splits prod.splits dest: storage_ids_db) (metis snd_conv)+

lemma open_db: "ctx_entry_open env fl fm r db ctx = Some (fd, db', ctx') \<Longrightarrow> I db \<Longrightarrow> I db'"
  using open_keeps by blast

lemma send_file_keeps: "send_file_data env r offset n db ctx = Some (k, db', ctx') \<Longrightarrow> I db \<Longrightarrow> I db'"
  unfolding send_file_data_def Let_def
  by (auto split: option.splits prod.splits if_splits transfer.splits dest: open_keeps intro: closed simp del: send_loop.simps)

lemma GetObject_keeps: "mtp_op_GetObject env pk ctx = Some (c, ps, ctx') \<Longrightarrow> holds ctx \<Longrightarrow> holds ctx'"
  unfolding mtp_op_GetObject_def holds_def
  by (auto split: option.splits prod.splits if_splits dest: send_file_keeps header_db)

lemma GetPartialObject_keeps: "mtp_op_GetPartialObject env pk ctx = Some (c, ps, ctx') \<Longrightarrow> holds ctx \<Longrightarrow> holds ctx'"
  unfolding mtp_op_GetPartialObject_def holds_def Let_def
  by (auto split: option.splits prod.splits if_splits dest: send_file_keeps header_db)

lemma stored: "I db \<Longrightarrow> I (entry_close s ro (upd_entry r (e_size_update (\<lambda>_. n)) db))"
  by (intro closed resize)

lemma SendObject_keeps: "mtp_op_SendObject env pk ctx = Some (c, ps, ctx') \<Longrightarrow> holds ctx \<Longrightarrow> holds ctx'"
  unfolding mtp_op_SendObject_def holds_def Let_def
  by (auto split: option.splits prod.splits if_splits dest!: open_db intro: resize stored)

lemma Session_keeps:
  "mtp_op_CloseSession ctx = Some (c, ps, ctx') \<Longrightarrow> holds ctx \<Longrightarrow> holds ctx'"
  "mtp_op_BeginEditObject pk ctx = Some (c, ps, ctx') \<Longrightarrow> holds ctx \<Longrightarrow> holds ctx'"
  "mtp_op_EndEditObject pk ctx = Some (c, ps, ctx') \<Longrightarrow> holds ctx \<Longrightarrow> holds ctx'"
  unfolding mtp_op_CloseSession_def mtp_op_BeginEditObject_def mtp_op_EndEditObject_def holds_def Let_def
  by (auto split: option.splits intro: closed)

lemma GetStorageIDs_keeps: "mtp_op_GetStorageIDs pk ctx = Some (c, ps, ctx') \<Longrightarrow> holds ctx \<Longrightarrow> holds ctx'"
  unfolding mtp_op_GetStorageIDs_def holds_def Let_def
  by (auto split: option.splits prod.splits if_splits dest!: header_db)

lemma TruncateObject_keeps: "mtp_op_TruncateObject env pk ctx = Some (c, ps, ctx') \<Longrightarrow> holds ctx \<Longrightarrow> holds ctx'"
  unfolding mtp_op_TruncateObject_def holds_def Let_def
  by (auto split: option.splits path_result.splits)

subsection \<open>Listing\<close>

lemma listing_known:
  assumes "listing_folder env p sid db ctx = Some (Some path, entry, q)" "I db"
  shows "known q db"
  using assms known_zero known_found [OF assms(2) sym]
  by (auto simp: listing_folder_def split: if_splits option.splits path_result.splits)

lemma prepare_keeps: "prepare_listing env u path entry q sid db = (n, db') \<Longrightarrow> I db \<Longrightarrow> I db'"
  using count_keeps search watch unfolding prepare_listing_def Let_def
  by (auto simp del: count_children.simps split: prod.splits option.splits if_splits)

lemma reply_keeps: "reply_handles nb db ctx = Some (c, ps, ctx') \<Longrightarrow> I db \<Longrightarrow> holds ctx'"
  unfolding reply_handles_def Let_def holds_def
  by (auto simp del: send_handles.simps split: prod.splits bool.splits dest: send_keeps)

lemma GetObjectHandles_keeps:
  assumes "mtp_op_GetObjectHandles env pk ctx = Some (c, ps, ctx')" "holds ctx" "env_mem env = m"
  shows "holds ctx'"
proof (cases "fs_db ctx")
  case (Some db)
  then have db: "I db" using assms(2) by (simp add: holds_def)
  obtain sz c1 where h: "data_header pk ctx = (sz, c1)" by (cases "data_header pk ctx")
  have c1: "fs_db c1 = Some db" using header_db [OF h] Some by simp
  show ?thesis
  proof (cases "listing_folder env (peek pk 20 4) (peek pk 12 4) db c1")
    case None
    then show ?thesis using assms(1) Some h c1 db by (auto simp: mtp_op_GetObjectHandles_def Let_def holds_def split: if_splits)
  next
    case (Some t)
    obtain path entry par where t: "t = (path, entry, par)" by (cases t)
    show ?thesis
    proof (cases path)
      case None
      then show ?thesis using assms(1) Some t \<open>fs_db ctx = Some db\<close> h c1 db
        by (auto simp: mtp_op_GetObjectHandles_def Let_def holds_def split: if_splits dest: reply_keeps [unfolded holds_def])
    next
      case (Some p)
      obtain ids c2 where g: "set_storage_giduid (env_ids_fail env) (peek pk 12 4) c1 = (ids, c2)" by (cases "set_storage_giduid (env_ids_fail env) (peek pk 12 4) c1")
      let ?scan = "if ids = 0 then ctx_scan env p par (peek pk 12 4) db c2 else Some (-1, db)"
      note lf = \<open>listing_folder env (peek pk 20 4) (peek pk 12 4) db c1 = Some t\<close> [unfolded t Some]
      have run: "mtp_op_GetObjectHandles env pk ctx = (if sz < 0 then Some (0x2002, [], c1)
         else if mtp_get_storage_root (storages c1) (peek pk 12 4) = None then Some (0x2008, [], c1)
         else case ?scan of None \<Rightarrow> None | Some (ret, db) \<Rightarrow>
           let c3 = restore_giduid (env_ids_fail env) c2 in
           if ret < 0 then Some (0x200F, [], c3\<lparr>fs_db := Some db\<rparr>)
           else case prepare_listing env (no_inotify c3) p entry par (peek pk 12 4) db of (nb, db) \<Rightarrow> reply_handles nb db c3)"
        unfolding mtp_op_GetObjectHandles_def Let_def \<open>fs_db ctx = Some db\<close> option.case h prod.case lf g ..
      show ?thesis
      proof (cases ?scan)
        case None
        then show ?thesis using assms(1) c1 db unfolding run by (auto simp: holds_def split: if_splits)
      next
        case (Some q)
        obtain ret db2 where q: "q = (ret, db2)" by (cases q)
        have "I db2" using Some q scan_keeps [OF _ assms(3) db listing_known [OF lf db]] db by (auto split: if_splits)
        obtain nb db3 where n: "prepare_listing env (no_inotify (restore_giduid (env_ids_fail env) c2)) p entry par (peek pk 12 4) db2 = (nb, db3)"
          by (cases "prepare_listing env (no_inotify (restore_giduid (env_ids_fail env) c2)) p entry par (peek pk 12 4) db2")
        then have "I db3" using prepare_keeps \<open>I db2\<close> by blast
        then show ?thesis
          using assms(1) c1 db \<open>I db2\<close> reply_keeps [OF _ \<open>I db3\<close>] unfolding run Some q option.case prod.case n Let_def
          by (simp add: holds_def split: if_split_asm) fastforce+
      qed
    qed
  qed
qed (use assms in \<open>simp add: mtp_op_GetObjectHandles_def holds_def\<close>)

subsection \<open>New, deleted and renamed objects\<close>

lemma storage_known:
  assumes "get_entry_by_handle_and_storageid h sid db = Some r" "I db"
  shows "known h db"
proof -
  have "r \<in> set (entry_list db)" "e_handle (pool db ! r) = h"
    using assms(1) by (auto simp: get_entry_by_handle_and_storageid_def find_Some_iff)
  then show ?thesis using known_listed [OF assms(2)] by metis
qed

lemma folder_keeps:
  assumes "create_folder env folder nm p sid db ctx = (e, h, db', ctx')" "I db" "known p db" "env_mem env = m"
  shows "I db'"
  using assms added unfolding create_folder_def Let_def
  by (auto split: option.splits if_splits prod.splits)

lemma announce_same: "announce_file e n db ctx = (a, h, db', ctx') \<Longrightarrow> db' = db"
  by (auto simp: announce_file_def split: option.splits)

lemma file_keeps:
  assumes "create_file env folder nm n p sid db ctx = (e, h, db', ctx')" "I db" "known p db" "env_mem env = m"
  shows "I db'"
  using assms added unfolding create_file_def Let_def
  by (auto split: option.splits if_splits prod.splits dest!: announce_same)

lemma parse_keeps:
  assumes "parse_incoming_dataset env d ph sid db ctx = Some (c, h, db', ctx')" "I db" "env_mem env = m"
  shows "I db'"
  using assms(1,2) storage_known folder_keeps [OF _ assms(2) _ assms(3)] file_keeps [OF _ assms(2) _ assms(3)]
  unfolding parse_incoming_dataset_def Let_def
  by (auto split: if_splits option.splits prod.splits path_result.splits)

lemma SendObjectInfo_keeps:
  assumes "mtp_op_SendObjectInfo env pk ctx = Some (c, ps, ctx')" "holds ctx" "env_mem env = m"
  shows "holds ctx'"
  using assms parse_keeps unfolding mtp_op_SendObjectInfo_def Let_def holds_def
  by (auto split: option.splits prod.splits)

lemma delete_keeps:
  assumes "delete_tree env h db ctx = Some (n, db', ctx')" "I db" "env_mem env = m"
  shows "I db'"
  using assms(1,2) mark scan_keeps [OF _ assms(3,2) known_found [OF assms(2)]]
  unfolding delete_tree_def Let_def
  by (auto split: option.splits path_result.splits if_splits prod.splits)

lemma DeleteObject_keeps:
  assumes "mtp_op_DeleteObject env pk ctx = Some (c, ps, ctx')" "holds ctx" "env_mem env = m"
  shows "holds ctx'"
  using assms delete_keeps unfolding mtp_op_DeleteObject_def Let_def holds_def
  by (auto split: option.splits prod.splits if_splits dest: storage_ids_db)

lemma SetObjectPropValue_keeps:
  assumes "mtp_op_SetObjectPropValue env pk ctx = Some (c, ps, ctx')" "holds ctx" "env_mem env = m"
  shows "holds ctx'"
proof -
  have "I db'" if "setObjectPropValue env pk h code db ctx = Some (c, db', ctx'')" "I db" for h code db db' ctx'' c
    using that rename [OF that(2)] assms(3) unfolding setObjectPropValue_def rename_object_def Let_def
    by (auto split: if_splits option.splits path_result.splits prod.splits)
  then show ?thesis
    using assms unfolding mtp_op_SetObjectPropValue_def holds_def
    by (auto split: option.splits prod.splits if_splits)
qed

subsection \<open>Datasets\<close>

lemma reply_dataset_keeps: "reply_dataset pk u build ctx = (c, ctx') \<Longrightarrow> holds ctx \<Longrightarrow> holds ctx'"
  by (auto simp: holds_def dest: reply_db)

lemma dataset_ops_keep:
  assumes "holds ctx"
  shows "mtp_op_GetDeviceInfos pk ctx = Some (c, ps, ctx') \<Longrightarrow> holds ctx'"
    and "mtp_op_GetStorageInfo env pk ctx = Some (c, ps, ctx') \<Longrightarrow> holds ctx'"
    and "mtp_op_GetDevicePropDesc pk ctx = Some (c, ps, ctx') \<Longrightarrow> holds ctx'"
    and "mtp_op_GetDevicePropValue pk ctx = Some (c, ps, ctx') \<Longrightarrow> holds ctx'"
    and "mtp_op_GetObjectPropDesc pk ctx = Some (c, ps, ctx') \<Longrightarrow> holds ctx'"
    and "mtp_op_GetObjectPropsSupported pk ctx = Some (c, ps, ctx') \<Longrightarrow> holds ctx'"
    and "mtp_op_GetObjectPropValue pk ctx = Some (c, ps, ctx') \<Longrightarrow> holds ctx'"
  using assms
  unfolding mtp_op_GetDeviceInfos_def mtp_op_GetStorageInfo_def mtp_op_GetDevicePropDesc_def mtp_op_GetDevicePropValue_def
    mtp_op_GetObjectPropDesc_def mtp_op_GetObjectPropsSupported_def mtp_op_GetObjectPropValue_def Let_def
  by (auto split: option.splits prod.splits if_splits dest: reply_dataset_keeps)

lemma GetObjectReferences_keeps: "mtp_op_GetObjectReferences pk ctx = Some (c, ps, ctx') \<Longrightarrow> holds ctx \<Longrightarrow> holds ctx'"
  unfolding mtp_op_GetObjectReferences_def holds_def send_container_def Let_def
  by (auto split: option.splits prod.splits if_splits dest!: header_db)

lemma reply_object_keeps:
  assumes "reply_object pk build db ctx = Some (c, ps, ctx')" "holds ctx"
    and "\<And>M b p db'. build M db b = Some (p, db') \<Longrightarrow> I db'"
  shows "holds ctx'"
proof -
  have "fs_db (snd (data_header pk ctx)) = fs_db ctx" using header_db [of pk ctx] by (cases "data_header pk ctx") simp
  then show ?thesis
    using assms unfolding reply_object_def holds_def
    by (auto split: if_splits option.splits prod.splits)
qed

lemma object_info_db: "build_objectinfo_dataset env sts r M db b = Some (p, db') \<Longrightarrow> I db \<Longrightarrow> I db'"
  using resize by (auto simp: build_objectinfo_dataset_def Let_def split: object_stat.splits)

lemma proplist_db: "build_objectproplist_dataset env sts r h code M db b = Some (p, db') \<Longrightarrow> I db \<Longrightarrow> I db'"
  using resize by (auto simp: build_objectproplist_dataset_def Let_def split: object_stat.splits prod.splits)

lemma GetObjectInfo_keeps:
  assumes "mtp_op_GetObjectInfo env pk ctx = Some (c, ps, ctx')" "holds ctx"
  shows "holds ctx'"
proof (cases "fs_db ctx")
  case (Some db)
  then have "I db" using assms(2) by (simp add: holds_def)
  then show ?thesis
    using assms(1) Some assms(2) unfolding mtp_op_GetObjectInfo_def
    by (auto split: option.splits elim!: reply_object_keeps dest: object_info_db)
qed (use assms in \<open>simp add: mtp_op_GetObjectInfo_def\<close>)

lemma GetObjectPropList_keeps:
  assumes "mtp_op_GetObjectPropList env pk ctx = Some (c, ps, ctx')" "holds ctx"
  shows "holds ctx'"
proof (cases "fs_db ctx")
  case (Some db)
  then have "I db" using assms(2) by (simp add: holds_def)
  then show ?thesis
    using assms(1) Some assms(2) unfolding mtp_op_GetObjectPropList_def Let_def
    by (auto split: option.splits if_splits elim!: reply_object_keeps dest: proplist_db)
qed (use assms in \<open>simp add: mtp_op_GetObjectPropList_def\<close>)

subsection \<open>Requests of an open session\<close>

lemma opening_twice:
  assumes "mtp_op_OpenSession env pk ctx = Some (c, ps, ctx')" "fs_db ctx \<noteq> None"
  shows "ctx' = ctx"
  using assms by (auto simp: mtp_op_OpenSession_def Let_def split: if_splits)

lemma operation_keeps:
  assumes "operation code = Some f" "f env pk ctx = Some (c, ps, ctx')" "holds ctx" "env_mem env = m"
    and "code = 0x1002 \<Longrightarrow> holds ctx'"
  shows "holds ctx'"
proof -
  note keeps = dataset_ops_keep [OF assms(3)] GetObjectReferences_keeps [OF _ assms(3)] GetObjectInfo_keeps [OF _ assms(3)]
    GetObjectPropList_keeps [OF _ assms(3)] SetObjectPropValue_keeps [OF _ assms(3,4)] DeleteObject_keeps [OF _ assms(3,4)]
    SendObjectInfo_keeps [OF _ assms(3,4)] GetObjectHandles_keeps [OF _ assms(3,4)] TruncateObject_keeps [OF _ assms(3)]
    GetStorageIDs_keeps [OF _ assms(3)] Session_keeps(1,2,3) [OF _ assms(3)] SendObject_keeps [OF _ assms(3)]
    GetPartialObject_keeps [OF _ assms(3)] GetObject_keeps [OF _ assms(3)]
  show ?thesis
    using assms(1,2,5) unfolding operation_def by (auto split: if_split_asm dest: keeps)
qed

lemma incoming_keeps:
  assumes "mtp_incoming_packet env (n, pk) ctx = Some (ret, ctx')" "holds ctx" "env_mem env = m" "fs_db ctx \<noteq> None"
  shows "holds ctx'"
proof -
  have "holds ctx2" if "run_operation env pk ctx = Some (c, ps, ctx2)" for c ps ctx2
  proof (cases "operation (hdr_code (packet_header pk))")
    case (Some f)
    then have run: "f env pk ctx = Some (c, ps, ctx2)" using that by (simp add: run_operation_def)
    show ?thesis
    proof (rule operation_keeps [OF Some run assms(2,3)])
      assume "hdr_code (packet_header pk) = 0x1002"
      then have "f = mtp_op_OpenSession" using Some by (simp add: operation_def)
      then show "holds ctx2" using run opening_twice [OF _ assms(4)] assms(2) by blast
    qed
  qed (use that assms(2) in \<open>simp add: run_operation_def\<close>)
  then show ?thesis
    using assms(1,2) unfolding mtp_incoming_packet_def process_in_packet_def
    by (auto simp: holds_def split: if_splits option.splits prod.splits)
qed

subsection \<open>The background threads\<close>

lemma wd_listed: "get_entry_by_wd wd start db = Some r \<Longrightarrow> r \<in> set (entry_list db)"
  by (auto simp: get_entry_by_wd_def list_from_def find_Some_iff split: option.splits dest!: arg_cong [of _ _ set])
    (metis nth_mem set_dropWhileD)

definition body_keeps :: "(nat \<Rightarrow> watch_state \<Rightarrow> watch_state option) \<Rightarrow> bool" where
  "body_keeps body \<longleftrightarrow> (\<forall>r info db ctx info' db' ctx'. body r (info, db, ctx) = Some (info', db', ctx') \<longrightarrow> I db
     \<longrightarrow> r \<in> set (entry_list db) \<longrightarrow> I db' \<and> fs_db ctx' = fs_db ctx)"

lemma bodies_keep:
  assumes "env_mem env = m"
  shows "body_keeps (created_in env ev)" "body_keeps (modified_in env ev)" "body_keeps (deleted_in env ev)"
  using assms mark known_listed added
  unfolding body_keeps_def created_in_def modified_in_def deleted_in_def Let_def
  by (auto split: option.splits prod.splits bool.splits)

lemma watch_loop_keeps:
  "body_keeps body \<Longrightarrow> watch_loop fuel body wd start (info, db, ctx) = Some (info', db', ctx') \<Longrightarrow> I db \<Longrightarrow> I db' \<and> fs_db ctx' = fs_db ctx"
proof (induction fuel arbitrary: start info db ctx)
  case (Suc fuel)
  show ?case
  proof (cases "get_entry_by_wd wd start db")
    case (Some r)
    then have r: "r \<in> set (entry_list db)" by (rule wd_listed)
    obtain i2 d2 c2 where b: "body r (info, db, ctx) = Some (i2, d2, c2)" using Suc(3) Some by (auto split: option.splits)
    then have "I d2" "fs_db c2 = fs_db ctx" using Suc(2,4) r unfolding body_keeps_def by blast+
    then show ?thesis using Suc.IH [OF Suc(2)] Suc(3) Some b by (fastforce split: option.splits)
  qed (use Suc in simp)
qed simp

lemma event_step_keeps:
  assumes "inotify_event_step env ev (info, db, ctx) = Some (info', db', ctx')" "I db" "env_mem env = m"
  shows "I db' \<and> fs_db ctx' = fs_db ctx"
proof -
  have one: "I d2 \<and> fs_db c2 = fs_db c1"
    if "(if b then for_watched body wd (i1, d1, c1) else Some (i1, d1, c1)) = Some (i2, d2, c2)" "I d1" "body_keeps body"
    for b body wd i1 d1 c1 i2 d2 c2
    using that watch_loop_keeps [OF that(3)] unfolding for_watched_def by (auto simp del: watch_loop.simps split: if_splits)
  note bodies = bodies_keep [OF assms(3)]
  obtain s1 s2 where s1: "(if ev_mask ev AND (IN_CREATE OR IN_MOVED_TO) \<noteq> 0 then for_watched (created_in env ev) (ev_wd ev) (info, db, ctx) else Some (info, db, ctx)) = Some s1"
    and s2: "(if ev_mask ev AND IN_MODIFY \<noteq> 0 then for_watched (modified_in env ev) (ev_wd ev) s1 else Some s1) = Some s2"
    and s3: "(if ev_mask ev AND (IN_DELETE OR IN_MOVED_FROM) \<noteq> 0 then for_watched (deleted_in env ev) (ev_wd ev) s2 else Some s2) = Some (info', db', ctx')"
    using assms(1) by (rule event_stages)
  obtain i1 d1 c1 i2 d2 c2 where s: "s1 = (i1, d1, c1)" "s2 = (i2, d2, c2)" by (metis prod.exhaust)
  have 1: "I d1 \<and> fs_db c1 = fs_db ctx" by (rule one [OF s1 [unfolded s] assms(2) bodies(1)])
  have 2: "I d2 \<and> fs_db c2 = fs_db c1" by (rule one [OF s2 [unfolded s] _ bodies(2)]) (use 1 in simp)
  have "I db' \<and> fs_db ctx' = fs_db c2" by (rule one [OF s3 [unfolded s] _ bodies(3)]) (use 2 in simp)
  with 1 2 show ?thesis by simp
qed

lemma events_keep:
  "inotify_events env i evs (info, db, ctx) = Some (info', db', ctx') \<Longrightarrow> I db \<Longrightarrow> env_mem env = m \<Longrightarrow> I db' \<and> fs_db ctx' = fs_db ctx"
proof (induction evs arbitrary: i info db ctx)
  case (Cons ev evs)
  obtain i2 d2 c2 where s: "(if ev_len ev \<noteq> 0 \<and> i + (16 + ev_len ev) < 32768 then inotify_event_step env ev (info, db, ctx) else Some (info, db, ctx))
      = Some (i2, d2, c2)" using Cons(2) by (auto split: option.splits)
  then have "I d2" "fs_db c2 = fs_db ctx" using event_step_keeps [OF _ Cons(3,4)] Cons(3) by (auto split: if_splits)
  then show ?case using Cons.IH [of _ i2 d2 c2] Cons(2,4) s by (auto split: option.splits)
qed simp

lemma changes_keep:
  assumes "inotify_thread env evs (info, ctx) = Some (info', ctx')" "holds ctx" "env_mem env = m"
  shows "holds ctx'"
  using assms events_keep [OF _ _ assms(3)] unfolding inotify_thread_def holds_def
  by (auto split: option.splits)

lemma umount_entries_keeps: "umount_entries fuel sid start db = Some db' \<Longrightarrow> I db \<Longrightarrow> I db'"
  by (induction fuel arbitrary: start db) (auto split: option.splits dest: mark)

lemma umount_keeps: "umount_store i u db ctx = Some (db', ctx') \<Longrightarrow> (I db \<longrightarrow> I db') \<and> fs_db ctx' = fs_db ctx"
  unfolding umount_store_def Let_def
  by (auto simp del: umount_entries.simps split: if_splits option.splits dest: umount_entries_keeps)

lemma mount_keeps: "mount_store env i u db ctx = (db', ctx') \<Longrightarrow> env_mem env = m \<Longrightarrow> (I db \<longrightarrow> I db') \<and> fs_db ctx' = fs_db ctx"
  using root unfolding mount_store_def Let_def by (auto split: if_splits)

lemma with_db_keeps:
  assumes "with_db f ctx = Some ctx'" "holds ctx" "\<And>db db' c. f db ctx = Some (db', c) \<Longrightarrow> (I db \<longrightarrow> I db') \<and> fs_db c = fs_db ctx"
  shows "holds ctx'"
  using assms unfolding with_db_def holds_def by (auto split: option.splits)

lemma set_flags_db [simp]: "fs_db (set_flags i f ctx) = fs_db ctx"
  by (simp add: set_flags_def)

lemma commands_keep:
  assumes "holds ctx" "env_mem env = m"
  shows "mount_command env name ctx = Some ctx' \<Longrightarrow> holds ctx'" "unmount_command name ctx = Some ctx' \<Longrightarrow> holds ctx'"
    "lock_one i ctx = Some ctx' \<Longrightarrow> holds ctx'" "unlock_one env i ctx = Some ctx' \<Longrightarrow> holds ctx'"
proof -
  have u: "with_db (umount_store i u) ctx = Some c \<Longrightarrow> holds c" for i u c
    by (rule with_db_keeps [OF _ assms(1)]) (auto dest: umount_keeps)
  have mt: "with_db (\<lambda>db ctx. Some (mount_store env i u db ctx)) ctx = Some c \<Longrightarrow> holds c" for i u c
    by (rule with_db_keeps [OF _ assms(1)]) (auto dest: mount_keeps [OF _ assms(2)])
  have h: "holds (mtp_push_event e ps c) = holds c" "holds (set_flags j f c) = holds c" for e ps c j f
    by (rule holds_cong; simp)+
  show "mount_command env name ctx = Some ctx' \<Longrightarrow> holds ctx'" "unlock_one env i ctx = Some ctx' \<Longrightarrow> holds ctx'"
    using assms(1) mt unfolding mount_command_def unlock_one_def Let_def by (auto simp: h split: if_splits)
  show "unmount_command name ctx = Some ctx' \<Longrightarrow> holds ctx'" "lock_one i ctx = Some ctx' \<Longrightarrow> holds ctx'"
    using assms(1) u unfolding unmount_command_def lock_one_def Let_def by (auto simp: h split: if_splits)
qed

lemma all_storages_keep:
  "(\<And>i c c'. f i c = Some c' \<Longrightarrow> holds c \<Longrightarrow> holds c') \<Longrightarrow> all_storages f is ctx = Some ctx' \<Longrightarrow> holds ctx \<Longrightarrow> holds ctx'"
  by (induction "is" arbitrary: ctx) (auto split: option.splits)

lemma message_keeps:
  assumes "msgqueue_thread env ce received ctx = Some ctx'" "holds ctx" "env_mem env = m"
  shows "holds ctx'"
proof -
  have st: "holds (c\<lparr>storages := s\<rparr>) = holds c" for c s by (rule holds_cong) simp
  have add: "holds (mtp_add_storage_from_line ce l i ctx)" for l i
    using assms(2) by (simp add: mtp_add_storage_from_line_def st split: option.split prod.split)
  have rm: "holds (snd (mtp_remove_storage_from_line l i ctx))" for l i
    using assms(2) by (simp add: mtp_remove_storage_from_line_def st split: option.split prod.split)
  have all: "all_storages lock_one is ctx = Some ctx' \<Longrightarrow> holds ctx'" "all_storages (unlock_one env) is ctx = Some ctx' \<Longrightarrow> holds ctx'" for "is"
    using all_storages_keep [of lock_one "is" ctx ctx'] all_storages_keep [of "unlock_one env" "is" ctx ctx'] commands_keep(3,4) [OF _ assms(3)] assms(2)
    by blast+
  have "holds ctx'" if "msgqueue_message env ce msg ctx = Some ctx'" for msg
    using that assms(2) add rm unfolding msgqueue_message_def
    by (auto split: if_split_asm dest: all commands_keep(1,2) [OF assms(2,3)] simp del: all_storages.simps)
  then show ?thesis using assms(1,2) unfolding msgqueue_thread_def by (auto split: prod.splits if_splits)
qed

lemma disconnect_keeps: "holds (end_connection ctx)"
  by (simp add: end_connection_def holds_def split: option.split)

end

text \<open>A predicate that also holds for a new database holds in every session.\<close>

locale session_invariant = db_invariant +
  assumes init: "I init_fs_db"
begin

lemma roots_keep: "env_mem env = m \<Longrightarrow> I db \<Longrightarrow> I (fold (\<lambda>st db. snd (alloc_root_entry (env_mem env) (storage_id st) db)) sts db)"
  by (induction sts arbitrary: db) (simp_all add: root)

lemma OpenSession_keeps:
  assumes "mtp_op_OpenSession env pk ctx = Some (c, ps, ctx')" "holds ctx" "env_mem env = m"
  shows "holds ctx'"
  using assms roots_keep [OF assms(3) init] by (auto simp: mtp_op_OpenSession_def Let_def holds_def split: if_splits option.splits)

lemma request_keeps:
  assumes "mtp_incoming_packet env (n, pk) ctx = Some (ret, ctx')" "holds ctx" "env_mem env = m"
  shows "holds ctx'"
proof (cases "fs_db ctx = None")
  case True
  have "holds ctx2" if "run_operation env pk ctx = Some (c, ps, ctx2)" for c ps ctx2
  proof (cases "operation (hdr_code (packet_header pk))")
    case (Some f)
    then have run: "f env pk ctx = Some (c, ps, ctx2)" using that by (simp add: run_operation_def)
    show ?thesis
    proof (rule operation_keeps [OF Some run assms(2,3)])
      assume "hdr_code (packet_header pk) = 0x1002"
      then have "f = mtp_op_OpenSession" using Some by (simp add: operation_def)
      then show "holds ctx2" using run OpenSession_keeps [OF _ assms(2,3)] by blast
    qed
  qed (use that assms(2) in \<open>simp add: run_operation_def\<close>)
  then show ?thesis
    using assms(1,2) unfolding mtp_incoming_packet_def process_in_packet_def
    by (auto simp: holds_def split: if_splits option.splits prod.splits)
qed (use incoming_keeps [OF assms] in simp)

end

end
