(* ===== verification/Mtp_Responder.thy ===== *)
theory Mtp_Responder
  imports Mtp_Invariants
begin

text \<open>
  The whole responder, \<^verbatim>\<open>umtprd/src/umtprd.c\<close>: the main thread, the packets it reads, and the
  two background threads. A step is a whole packet, batch of changes or command. Most of these
  hold \<^verbatim>\<open>inotify_mutex\<close>; those that do not (CloseSession, SetObjectPropValue, GetStorageIDs,
  GetStorageInfo, the end of a connection, adding and removing storages) are taken as atomic all the same. The database invariant and the identity of its objects are carried through every
  step by interpreting the locales of \<open>Mtp_Invariants\<close>.
\<close>

section \<open>The steps of the responder\<close>

text \<open>
  \<open>connect\<close> is what a successful \<^verbatim>\<open>init_usb_mtp_gadget\<close> leaves: new buffers and the packet
  size. The allocations of hash nodes succeed; all others may fail.
\<close>

definition nodes_ok :: "mem \<Rightarrow> bool" where
  "nodes_ok m \<longleftrightarrow> handle_node_ok m \<and> name_node_ok m"

inductive responder_step :: "mtp_ctx \<Rightarrow> mtp_ctx \<Rightarrow> bool" where
  connect: "responder_step ctx (mtp_set_usb_handle packet_size (ctx\<lparr>wrbuffer := b\<rparr>))"
| packet: "nodes_ok (env_mem env) \<Longrightarrow> mtp_incoming_packet env received ctx = Some (ret, ctx') \<Longrightarrow> responder_step ctx ctx'"
| changes: "nodes_ok (env_mem env) \<Longrightarrow> inotify_thread env evs (info, ctx) = Some (info', ctx') \<Longrightarrow> responder_step ctx ctx'"
| message: "nodes_ok (env_mem env) \<Longrightarrow> msgqueue_thread env ce received ctx = Some ctx' \<Longrightarrow> responder_step ctx ctx'"
| disconnect: "responder_step ctx (end_connection ctx)"

text \<open>The states after the configuration is read.\<close>

inductive responder_reach :: "mtp_ctx \<Rightarrow> bool" where
  started: "mtp_init_responder True uid gid = Some ctx \<Longrightarrow> responder_reach (mtp_load_config_file ce conffile ctx)"
| stepped: "responder_reach ctx \<Longrightarrow> responder_step ctx ctx' \<Longrightarrow> responder_reach ctx'"

section \<open>The database of a session\<close>

definition crowded :: "fs_handles_db \<Rightarrow> bool" where
  "crowded db \<longleftrightarrow> 0x1FFFFFFF \<le> length (pool db)"

definition db_fine :: "mem \<Rightarrow> fs_handles_db \<Rightarrow> bool" where
  "db_fine m db \<longleftrightarrow> (nodes_ok m \<longrightarrow> crowded db \<or> db_reach db)"

definition may_be_parent :: "mem \<Rightarrow> u32 \<Rightarrow> fs_handles_db \<Rightarrow> bool" where
  "may_be_parent m p db \<longleftrightarrow> (nodes_ok m \<longrightarrow> crowded db \<or> p \<in> {0, 0xFFFFFFFF} \<or> (\<exists>r < length (pool db). e_handle (pool db ! r) = p))"

lemma take_slot_pool: "take_slot m db = Some db' \<Longrightarrow> pool db' = pool db"
  using take_slot_Some by fastforce

lemma added_pool:
  "\<exists>es. pool (snd (add_entry m info p s db)) = pool db @ es"
  "\<exists>es. pool (snd (alloc_root_entry m s db)) = pool db @ es"
  by (auto simp: add_entry_def alloc_entry_def alloc_root_entry_def Let_def take_slot_pool split: option.split)

lemma pool_length [simp]:
  "length (pool (upd_entry r f db)) = length (pool db)"
  "length (pool (mark_deleted r db)) = length (pool db)"
  "length (pool (rename_entry m r nm db)) = length (pool db)"
  "length (pool (snd (entry_open path ids_ok fd r db))) = length (pool db)"
  "length (pool (entry_close sync ro db)) = length (pool db)"
  "length (pool (init_search_handle p s db)) = length (pool db)"
  by (simp_all add: upd_entry_def mark_deleted_def rename_entry_def insert_entry_def remove_entry_def entry_open_def entry_close_def
      init_search_handle_def Let_def split: path_result.split option.split)

lemma added_crowded:
  "crowded db \<Longrightarrow> crowded (snd (add_entry m info p s db))"
  "crowded db \<Longrightarrow> crowded (snd (alloc_root_entry m s db))"
  using added_pool(1) [of m info p s db] added_pool(2) [of m s db] by (auto simp: crowded_def)

lemma parent_below: "db_ok db \<Longrightarrow> r < length (pool db) \<Longrightarrow> e_handle (pool db ! r) < next_handle db"
  by (simp add: db_ok_def)

lemma db_fine_add: "db_fine m db \<Longrightarrow> may_be_parent m p db \<Longrightarrow> db_fine m (snd (add_entry m info p s db))"
  using added_crowded(1) reach_add [of db m p info s] parent_below [OF db_reach_ok, of db]
  unfolding db_fine_def may_be_parent_def nodes_ok_def crowded_def not_le [symmetric] by blast

lemma db_fine_root: "db_fine m db \<Longrightarrow> db_fine m (snd (alloc_root_entry m s db))"
  using added_crowded(2) reach_root [of db m s] unfolding db_fine_def nodes_ok_def crowded_def not_le [symmetric] by blast

lemma may_be_parent_add: "may_be_parent m p db \<Longrightarrow> may_be_parent m p (snd (add_entry m info q s db))"
proof -
  obtain es where "pool (snd (add_entry m info q s db)) = pool db @ es" using added_pool(1) by blast
  then show "may_be_parent m p db \<Longrightarrow> may_be_parent m p (snd (add_entry m info q s db))"
    using added_crowded(1) [of db m info q s] unfolding may_be_parent_def by (auto simp: nth_append intro: trans_less_add1)
qed

interpretation reachable: session_invariant "db_fine m" "may_be_parent m" m for m
proof unfold_locales
  fix db roots h r assume db: "db_fine m db" and "get_entry_by_handle roots h db = Some r"
  then show "may_be_parent m h db"
    using get_entry_exact(2) [OF db_reach_ok, of db roots h r] by (auto simp: db_fine_def may_be_parent_def live_handle_def)
next
  fix db r assume db: "db_fine m db" and r: "r \<in> set (entry_list db)"
  then have "r < length (pool db)" if "db_reach db" using db_reach_ok [OF that] by (simp add: db_ok_def)
  then show "may_be_parent m (e_handle (pool db ! r)) db" using db by (auto simp: db_fine_def may_be_parent_def)
next
  fix db roots h r nm assume db: "db_fine m db" and f: "get_entry_by_handle roots h db = Some r"
  have "db_reach (rename_entry m r nm db)" if "nodes_ok m" "\<not> crowded db" "db_reach db"
    using that get_entry_exact(2) [OF db_reach_ok f] by (intro reach_rename) (auto simp: nodes_ok_def crowded_def)
  then show "db_fine m (rename_entry m r nm db)" using db by (auto simp: db_fine_def crowded_def)
qed (simp_all add: db_fine_add db_fine_root may_be_parent_add,
  auto simp: db_fine_def may_be_parent_def crowded_def nodes_ok_def intro: db_reach.intros)

text \<open>The states whose database, when there is one, is reachable or crowded.\<close>

definition ctx_fine :: "mtp_ctx \<Rightarrow> bool" where
  "ctx_fine ctx \<longleftrightarrow> (\<forall>db. fs_db ctx = Some db \<longrightarrow> crowded db \<or> db_reach db)"

lemma ctx_fine_iff: "nodes_ok m \<Longrightarrow> ctx_fine ctx \<longleftrightarrow> reachable.holds m ctx"
  by (simp add: ctx_fine_def reachable.holds_def db_fine_def)

lemma step_fine: "responder_step ctx ctx' \<Longrightarrow> ctx_fine ctx \<Longrightarrow> ctx_fine ctx'"
proof (induction rule: responder_step.induct)
  case (packet env received ctx ret ctx')
  then show ?case using reachable.request_keeps by (cases received) (auto simp: ctx_fine_iff [OF packet(1)])
next
  case (changes env evs info ctx info' ctx')
  then show ?case using reachable.changes_keep by (auto simp: ctx_fine_iff [OF changes(1)])
next
  case (message env ce received ctx ctx')
  then show ?case using reachable.message_keeps by (auto simp: ctx_fine_iff [OF message(1)])
qed (auto simp: ctx_fine_def mtp_set_usb_handle_def end_connection_def split: option.splits)


lemma config_db [simp]: "fs_db (mtp_load_config_file ce conffile ctx) = fs_db ctx"
proof -
  have hex: "fs_db (set_hex cmd v c) = fs_db c" for cmd v c by (cases cmd) (simp_all add: set_cfg_def)
  have dec: "fs_db (set_dec cmd v c) = fs_db c" for cmd v c by (cases cmd) simp_all
  have "fs_db (snd (execute_line ce l c)) = fs_db c" for l c
    by (auto simp: execute_line_def exec_cmd_def mtp_add_storage_from_line_def get_hex_param_def get_str_param_def get_oct_param_def
        get_dec_param_def set_cfg_def hex dec split: option.split kw_func.split prod.split)
  then have "fs_db (fold (\<lambda>l c. snd (execute_line ce (f l) c)) ls c) = fs_db c"
    for f :: "string \<Rightarrow> string" and ls c
    by (induction ls arbitrary: c) simp_all
  then show ?thesis by (simp add: mtp_load_config_file_def Let_def split: option.split)
qed

lemma reach_fine: "responder_reach ctx \<Longrightarrow> ctx_fine ctx"
proof (induction rule: responder_reach.induct)
  case (started uid gid ctx ce conffile)
  then show ?case by (auto simp: ctx_fine_def mtp_init_responder_def)
qed (rule step_fine)

section \<open>The identity of objects\<close>

text \<open>
  What a host may rely on while it holds a handle: entries keep their handle, parent, storage
  and kind, a deleted one stays deleted, and new ones come after them.
\<close>

definition same_object :: "fs_entry \<Rightarrow> fs_entry \<Rightarrow> bool" where
  "same_object e e' \<longleftrightarrow> e_handle e' = e_handle e \<and> e_parent e' = e_parent e \<and> e_storage e' = e_storage e \<and> is_dir e' = is_dir e
     \<and> (deleted e \<longrightarrow> deleted e')"

definition entries_kept :: "fs_handles_db \<Rightarrow> fs_handles_db \<Rightarrow> bool" where
  "entries_kept db db' \<longleftrightarrow> length (pool db) \<le> length (pool db') \<and> (\<forall>r < length (pool db). same_object (pool db ! r) (pool db' ! r))"

lemma same_object_refl [simp]: "same_object e e"
  by (simp add: same_object_def)

lemma same_object_trans: "same_object a b \<Longrightarrow> same_object b c \<Longrightarrow> same_object a c"
  by (simp add: same_object_def)

lemma kept_refl: "entries_kept db db"
  by (simp add: entries_kept_def)

lemma kept_append: "entries_kept d db \<Longrightarrow> pool db' = pool db @ es \<Longrightarrow> entries_kept d db'"
  by (auto simp: entries_kept_def nth_append)

lemma kept_pool: "entries_kept d db \<Longrightarrow> pool db' = pool db \<Longrightarrow> entries_kept d db'"
  by (simp add: entries_kept_def)

lemma kept_update:
  assumes "entries_kept d db" "pool db' = (pool db)[r := e]" "r < length (pool db) \<Longrightarrow> same_object (pool db ! r) e"
  shows "entries_kept d db'"
  using assms unfolding entries_kept_def
  by (metis length_list_update less_le_trans nth_list_update_eq nth_list_update_neq same_object_trans)

lemma mark_same: "same_object e (e\<lparr>e_flags := e_flags e OR 2\<rparr>)"
  by (simp add: same_object_def is_dir_def deleted_def bit.conj_disj_distrib2)

lemma renamed_pool: "pool (rename_entry m r nm db) = (pool db)[r := e_name_update (\<lambda>_. nm) (pool db ! r)]"
  by (simp add: rename_entry_def insert_entry_def remove_entry_def upd_entry_def Let_def)

lemma kept_upd:
  "entries_kept d db \<Longrightarrow> (\<And>e. same_object e (f e)) \<Longrightarrow> entries_kept d (upd_entry r f db)"
  by (erule kept_update [where r = r]) (simp_all add: upd_entry_def)

lemma kept_mark: "entries_kept d db \<Longrightarrow> entries_kept d (mark_deleted r db)"
  unfolding mark_deleted_def Let_def
  by (auto intro!: kept_upd mark_same intro: kept_pool simp: same_object_def is_dir_def deleted_def)

interpretation identity: db_invariant "entries_kept d" "\<lambda>_ _. True" m for d m
proof unfold_locales
  fix db p info s assume "entries_kept d db"
  then show "entries_kept d (snd (add_entry m info p s db))" using added_pool(1) kept_append by blast
next
  fix db s assume "entries_kept d db"
  then show "entries_kept d (snd (alloc_root_entry m s db))" using added_pool(2) kept_append by blast
next
  fix db roots h r nm assume "entries_kept d db"
  then show "entries_kept d (rename_entry m r nm db)"
    by (rule kept_update [OF _ renamed_pool]) (simp add: same_object_def is_dir_def deleted_def)
next
  fix db assume "entries_kept d db"
  then show "entries_kept d (snd (get_next_child_handle db))" by (rule kept_pool) simp
next
  fix db p s assume "entries_kept d db"
  then show "entries_kept d (init_search_handle p s db)" by (rule kept_pool) (simp add: init_search_handle_def)
next
  fix db sync ro assume "entries_kept d db"
  then show "entries_kept d (entry_close sync ro db)"
    by (auto simp: entry_close_def Let_def same_object_def is_dir_def deleted_def intro!: kept_upd intro: kept_pool split: option.split)
next
  fix db path ids_ok fd r assume "entries_kept d db"
  then show "entries_kept d (snd (entry_open path ids_ok fd r db))"
    by (auto simp: entry_open_def Let_def same_object_def is_dir_def deleted_def intro!: kept_upd split: path_result.split)
qed (simp_all add: kept_mark kept_upd same_object_def is_dir_def deleted_def)

lemma identity_holds: "identity.holds d ctx \<longleftrightarrow> (\<forall>db. fs_db ctx = Some db \<longrightarrow> entries_kept d db)"
  by (simp add: identity.holds_def)

lemma step_identity:
  "responder_step ctx ctx' \<Longrightarrow> fs_db ctx = Some d \<Longrightarrow> identity.holds d ctx'"
proof (induction rule: responder_step.induct)
  case (packet env received ctx ret ctx')
  then show ?case using identity.incoming_keeps [of env _ _ ctx ret ctx' d "env_mem env"]
    by (cases received) (auto simp: identity_holds kept_refl)
next
  case (changes env evs info ctx info' ctx')
  then show ?case using identity.changes_keep [of env evs info ctx info' ctx' d "env_mem env"] by (auto simp: identity_holds kept_refl)
next
  case (message env ce received ctx ctx')
  then show ?case using identity.message_keeps [of env ce received ctx ctx' d "env_mem env"] by (auto simp: identity_holds kept_refl)
qed (auto simp: identity_holds mtp_set_usb_handle_def end_connection_def kept_refl split: option.splits)

end
