(* ===== verification/Mtp_Storages.thy ===== *)
theory Mtp_Storages
  imports Mtp_Responder
begin

text \<open>
  The table of the storages. Packets and changes of watched folders leave it alone, commands
  keep its invariant: a used slot has the identifier of its position and a name of its own.
\<close>

section \<open>Packets leave the table alone\<close>

lemma entry_open_table: "ctx_entry_open env fl m r db ctx = Some (fd, db', ctx') \<Longrightarrow> storages ctx' = storages ctx"
  unfolding ctx_entry_open_def
  by (auto split: if_splits path_result.splits prod.splits simp: emit_mtp_def dest: storage_ids_db)

lemma send_file_table: "send_file_data env r offset n db ctx = Some (k, db', ctx') \<Longrightarrow> storages ctx' = storages ctx"
  unfolding send_file_data_def Let_def
  by (auto split: option.splits prod.splits if_splits transfer.splits dest: entry_open_table simp del: send_loop.simps)

lemma send_handles_table: "send_handles fuel nb (ofs, i, db) ctx = (ok, db', ctx') \<Longrightarrow> storages ctx' = storages ctx"
  by (induction fuel arbitrary: ofs i db ctx) (auto simp: Let_def emit_mtp_def simp del: fill_handles.simps split: if_splits prod.splits)

lemma reply_handles_table: "reply_handles nb db ctx = Some (c, ps, ctx') \<Longrightarrow> storages ctx' = storages ctx"
  unfolding reply_handles_def Let_def
  by (auto simp del: send_handles.simps split: prod.splits bool.splits dest: send_handles_table)

lemma create_folder_table: "create_folder env folder nm p sid db ctx = (e, h, db', ctx') \<Longrightarrow> storages ctx' = storages ctx"
  unfolding create_folder_def Let_def
  by (auto simp: emit_mtp_def split: option.splits if_splits prod.splits dest!: storage_ids_db)

lemma announce_table: "announce_file e n db ctx = (a, h, db', ctx') \<Longrightarrow> storages ctx' = storages ctx"
  by (auto simp: announce_file_def split: option.splits)

lemma create_file_table: "create_file env folder nm n p sid db ctx = (e, h, db', ctx') \<Longrightarrow> storages ctx' = storages ctx"
  unfolding create_file_def Let_def
  by (auto simp: emit_mtp_def split: option.splits if_splits prod.splits dest!: storage_ids_db announce_table)

lemma parse_table: "parse_incoming_dataset env d ph sid db ctx = Some (c, h, db', ctx') \<Longrightarrow> storages ctx' = storages ctx"
  unfolding parse_incoming_dataset_def Let_def
  by (auto split: if_splits option.splits prod.splits path_result.splits dest: storage_ids_db create_folder_table create_file_table)

lemma delete_table: "delete_tree env h db ctx = Some (n, db', ctx') \<Longrightarrow> storages ctx' = storages ctx"
  unfolding delete_tree_def Let_def
  by (auto simp: emit_mtp_def split: option.splits path_result.splits if_splits prod.splits)

lemma set_value_table: "setObjectPropValue env pk h code db ctx = Some (c, db', ctx') \<Longrightarrow> storages ctx' = storages ctx"
  unfolding setObjectPropValue_def rename_object_def Let_def
  by (auto simp: emit_mtp_def split: if_splits option.splits path_result.splits prod.splits dest: storage_ids_db)

lemma reply_dataset_table: "reply_dataset pk u build ctx = (c, ctx') \<Longrightarrow> storages ctx' = storages ctx"
  using reply_db by blast

lemma header_table: "storages (snd (data_header pk ctx)) = storages ctx"
  using header_db [of pk ctx] by (cases "data_header pk ctx") simp

lemma container_table: "storages (send_container sz ctx) = storages ctx"
  by (simp add: send_container_def Let_def emit_mtp_def)

lemma reply_object_table: "reply_object pk build db ctx = Some (c, ps, ctx') \<Longrightarrow> storages ctx' = storages ctx"
  unfolding reply_object_def by (auto simp: header_table split: if_splits option.splits prod.splits dest!: reply_dataset_table)

lemma transfers_table:
  "mtp_op_GetObject env pk ctx = Some (c, ps, ctx') \<Longrightarrow> storages ctx' = storages ctx"
  "mtp_op_GetPartialObject env pk ctx = Some (c, ps, ctx') \<Longrightarrow> storages ctx' = storages ctx"
  "mtp_op_SendObject env pk ctx = Some (c, ps, ctx') \<Longrightarrow> storages ctx' = storages ctx"
  unfolding mtp_op_GetObject_def mtp_op_GetPartialObject_def mtp_op_SendObject_def Let_def
  by (auto split: option.splits prod.splits if_splits simp: emit_mtp_def
      dest: send_file_table dest!: header_db entry_open_table receive_db storage_ids_db)

lemma sessions_table:
  "mtp_op_OpenSession env pk ctx = Some (c, ps, ctx') \<Longrightarrow> storages ctx' = storages ctx"
  "mtp_op_CloseSession ctx = Some (c, ps, ctx') \<Longrightarrow> storages ctx' = storages ctx"
  "mtp_op_BeginEditObject pk ctx = Some (c, ps, ctx') \<Longrightarrow> storages ctx' = storages ctx"
  "mtp_op_EndEditObject pk ctx = Some (c, ps, ctx') \<Longrightarrow> storages ctx' = storages ctx"
  "mtp_op_GetStorageIDs pk ctx = Some (c, ps, ctx') \<Longrightarrow> storages ctx' = storages ctx"
  "mtp_op_TruncateObject env pk ctx = Some (c, ps, ctx') \<Longrightarrow> storages ctx' = storages ctx"
  unfolding mtp_op_OpenSession_def mtp_op_CloseSession_def mtp_op_BeginEditObject_def mtp_op_EndEditObject_def
    mtp_op_GetStorageIDs_def mtp_op_TruncateObject_def Let_def
  by (auto split: option.splits prod.splits if_splits path_result.splits simp: emit_mtp_def dest!: header_db)

lemma GetObjectHandles_table:
  "mtp_op_GetObjectHandles env pk ctx = Some (c, ps, ctx') \<Longrightarrow> storages ctx' = storages ctx"
  unfolding mtp_op_GetObjectHandles_def Let_def
  by (auto split: option.splits prod.splits if_splits dest!: header_db storage_ids_db reply_handles_table)

lemma objects_table:
  "mtp_op_SendObjectInfo env pk ctx = Some (c, ps, ctx') \<Longrightarrow> storages ctx' = storages ctx"
  "mtp_op_DeleteObject env pk ctx = Some (c, ps, ctx') \<Longrightarrow> storages ctx' = storages ctx"
  "mtp_op_SetObjectPropValue env pk ctx = Some (c, ps, ctx') \<Longrightarrow> storages ctx' = storages ctx"
  unfolding mtp_op_SendObjectInfo_def mtp_op_DeleteObject_def mtp_op_SetObjectPropValue_def Let_def
  by (auto split: option.splits prod.splits if_splits dest!: storage_ids_db parse_table delete_table set_value_table)

lemma datasets_table:
  "mtp_op_GetDeviceInfos pk ctx = Some (c, ps, ctx') \<Longrightarrow> storages ctx' = storages ctx"
  "mtp_op_GetStorageInfo env pk ctx = Some (c, ps, ctx') \<Longrightarrow> storages ctx' = storages ctx"
  "mtp_op_GetDevicePropDesc pk ctx = Some (c, ps, ctx') \<Longrightarrow> storages ctx' = storages ctx"
  "mtp_op_GetDevicePropValue pk ctx = Some (c, ps, ctx') \<Longrightarrow> storages ctx' = storages ctx"
  "mtp_op_GetObjectPropDesc pk ctx = Some (c, ps, ctx') \<Longrightarrow> storages ctx' = storages ctx"
  "mtp_op_GetObjectPropsSupported pk ctx = Some (c, ps, ctx') \<Longrightarrow> storages ctx' = storages ctx"
  "mtp_op_GetObjectPropValue pk ctx = Some (c, ps, ctx') \<Longrightarrow> storages ctx' = storages ctx"
  "mtp_op_GetObjectInfo env pk ctx = Some (c, ps, ctx') \<Longrightarrow> storages ctx' = storages ctx"
  "mtp_op_GetObjectPropList env pk ctx = Some (c, ps, ctx') \<Longrightarrow> storages ctx' = storages ctx"
  "mtp_op_GetObjectReferences pk ctx = Some (c, ps, ctx') \<Longrightarrow> storages ctx' = storages ctx"
  unfolding mtp_op_GetDeviceInfos_def mtp_op_GetStorageInfo_def mtp_op_GetDevicePropDesc_def mtp_op_GetDevicePropValue_def
    mtp_op_GetObjectPropDesc_def mtp_op_GetObjectPropsSupported_def mtp_op_GetObjectPropValue_def mtp_op_GetObjectInfo_def
    mtp_op_GetObjectPropList_def mtp_op_GetObjectReferences_def Let_def
  by (auto split: option.splits prod.splits if_splits simp: container_table
      dest: reply_dataset_table reply_object_table dest!: header_db)

lemma operation_table:
  assumes "operation code = Some f" "f env pk ctx = Some (c, ps, ctx')"
  shows "storages ctx' = storages ctx"
  using assms unfolding operation_def
  by (auto split: if_split_asm dest: transfers_table sessions_table GetObjectHandles_table objects_table datasets_table)

lemma packet_table: "mtp_incoming_packet env received ctx = Some (ret, ctx') \<Longrightarrow> storages ctx' = storages ctx"
  unfolding mtp_incoming_packet_def process_in_packet_def run_operation_def
  by (auto split: if_splits option.splits prod.splits dest: operation_table)

section \<open>Changes of watched folders leave the table alone\<close>

definition body_table :: "(nat \<Rightarrow> watch_state \<Rightarrow> watch_state option) \<Rightarrow> bool" where
  "body_table body \<longleftrightarrow> (\<forall>r st st'. body r st = Some st' \<longrightarrow> storages (snd (snd st')) = storages (snd (snd st)))"

lemma bodies_table: "body_table (created_in env ev)" "body_table (modified_in env ev)" "body_table (deleted_in env ev)"
  unfolding body_table_def created_in_def modified_in_def deleted_in_def Let_def
  by (auto split: option.splits prod.splits bool.splits)

lemma watch_loop_table:
  "body_table body \<Longrightarrow> watch_loop fuel body wd start st = Some st' \<Longrightarrow> storages (snd (snd st')) = storages (snd (snd st))"
proof (induction fuel arbitrary: start st)
  case (Suc fuel)
  obtain info db ctx where st: "st = (info, db, ctx)" by (cases st)
  show ?case
  proof (cases "get_entry_by_wd wd start db")
    case (Some r)
    then obtain s2 where b: "body r st = Some s2" using Suc(3) st by (auto split: option.splits)
    then have "storages (snd (snd s2)) = storages (snd (snd st))" using Suc(2) unfolding body_table_def by blast
    then show ?thesis using Suc.IH [OF Suc(2), of _ s2] Suc(3) Some b st by (auto split: option.splits prod.splits)
  qed (use Suc(3) st in simp)
qed simp

lemma watched_table:
  "body_table body \<Longrightarrow> (if b then for_watched body wd st else Some st) = Some st' \<Longrightarrow> storages (snd (snd st')) = storages (snd (snd st))"
  unfolding for_watched_def by (auto split: if_splits prod.splits simp del: watch_loop.simps dest: watch_loop_table)

lemma event_table: "inotify_event_step env ev st = Some st' \<Longrightarrow> storages (snd (snd st')) = storages (snd (snd st))"
proof -
  assume "inotify_event_step env ev st = Some st'"
  then obtain s1 s2 where s1: "(if ev_mask ev AND (IN_CREATE OR IN_MOVED_TO) \<noteq> 0 then for_watched (created_in env ev) (ev_wd ev) st else Some st) = Some s1"
    and s2: "(if ev_mask ev AND IN_MODIFY \<noteq> 0 then for_watched (modified_in env ev) (ev_wd ev) s1 else Some s1) = Some s2"
    and s3: "(if ev_mask ev AND (IN_DELETE OR IN_MOVED_FROM) \<noteq> 0 then for_watched (deleted_in env ev) (ev_wd ev) s2 else Some s2) = Some st'"
    by (rule event_stages)
  show ?thesis
    using watched_table [OF bodies_table(1) s1] watched_table [OF bodies_table(2) s2] watched_table [OF bodies_table(3) s3] by simp
qed

lemma events_table: "inotify_events env i evs st = Some st' \<Longrightarrow> storages (snd (snd st')) = storages (snd (snd st))"
proof (induction env i evs st rule: inotify_events.induct)
  case (2 env i ev evs st)
  then show ?case by (auto split: option.splits if_splits dest!: event_table)
qed simp

lemma changes_table: "inotify_thread env evs (info, ctx) = Some (info', ctx') \<Longrightarrow> storages ctx' = storages ctx"
  unfolding inotify_thread_def by (auto split: option.splits prod.splits dest!: events_table)

section \<open>The invariant of the table\<close>

definition storages_ok :: "mtp_storage list \<Rightarrow> bool" where
  "storages_ok sts \<longleftrightarrow> length sts = MAX_STORAGE_NB
     \<and> (\<forall>i < MAX_STORAGE_NB. root_path (sts ! i) \<noteq> None \<longrightarrow> storage_id (sts ! i) = 0xFFFF0000 + (of_nat i + 1))
     \<and> (\<forall>i < MAX_STORAGE_NB. \<forall>j < MAX_STORAGE_NB. root_path (sts ! i) \<noteq> None \<longrightarrow> root_path (sts ! j) \<noteq> None
          \<longrightarrow> description (sts ! i) = description (sts ! j) \<longrightarrow> i = j)"

lemma slot_unat: "i < MAX_STORAGE_NB \<Longrightarrow> unat (0xFFFF0000 + (of_nat i + 1) :: u32) = 0xFFFF0001 + i"
  by (simp add: unat_word_ariths unat_of_nat)

lemma slot_id_inj: "i < MAX_STORAGE_NB \<Longrightarrow> j < MAX_STORAGE_NB \<Longrightarrow> (0xFFFF0000 + (of_nat i + 1) :: u32) = 0xFFFF0000 + (of_nat j + 1) \<Longrightarrow> i = j"
  using slot_unat [of i] slot_unat [of j] by (metis add_left_cancel)

lemma slot_id_range: "i < MAX_STORAGE_NB \<Longrightarrow> (0xFFFF0000 + (of_nat i + 1) :: u32) \<notin> {0, 0xFFFFFFFF}"
  using slot_unat [of i] by (auto simp del: of_nat_add)

lemma find_storage_used: "find_storage P sts = Some i \<Longrightarrow> i < MAX_STORAGE_NB \<and> root_path (sts ! i) \<noteq> None \<and> P (sts ! i)"
  by (auto simp: find_storage_def find_Some_iff)

lemma find_storage_None: "find_storage P sts = None \<longleftrightarrow> (\<forall>i < MAX_STORAGE_NB. root_path (sts ! i) \<noteq> None \<longrightarrow> \<not> P (sts ! i))"
  by (auto simp: find_storage_def find_None_iff)

lemma find_storage_id:
  assumes "storages_ok sts"
  shows "find_storage (\<lambda>s. storage_id s = sid) sts = Some i
    \<longleftrightarrow> i < MAX_STORAGE_NB \<and> root_path (sts ! i) \<noteq> None \<and> sid = 0xFFFF0000 + (of_nat i + 1)"
proof
  assume r: "i < MAX_STORAGE_NB \<and> root_path (sts ! i) \<noteq> None \<and> sid = 0xFFFF0000 + (of_nat i + 1)"
  then have "find_storage (\<lambda>s. storage_id s = sid) sts \<noteq> None"
    using assms unfolding find_storage_None storages_ok_def by blast
  then obtain j where j: "find_storage (\<lambda>s. storage_id s = sid) sts = Some j" by blast
  then have "i = j" using find_storage_used [OF j] r assms slot_id_inj [of i j] unfolding storages_ok_def by metis
  then show "find_storage (\<lambda>s. storage_id s = sid) sts = Some i" using j by simp
qed (use assms in \<open>auto simp: storages_ok_def dest!: find_storage_used\<close>)

lemma table_update:
  assumes "storages_ok sts" "i < MAX_STORAGE_NB" "root_path st \<noteq> None \<Longrightarrow> storage_id st = 0xFFFF0000 + (of_nat i + 1)"
    and "\<And>j. j < MAX_STORAGE_NB \<Longrightarrow> j \<noteq> i \<Longrightarrow> root_path st \<noteq> None \<Longrightarrow> root_path (sts ! j) \<noteq> None \<Longrightarrow> description st \<noteq> description (sts ! j)"
  shows "storages_ok (sts[i := st])"
proof -
  have "root_path (sts[i := st] ! j) \<noteq> None \<Longrightarrow> storage_id (sts[i := st] ! j) = 0xFFFF0000 + (of_nat j + 1)" if "j < MAX_STORAGE_NB" for j
    using assms(1-3) that by (cases "j = i") (simp_all add: storages_ok_def)
  moreover have "j = k" if "j < MAX_STORAGE_NB" "k < MAX_STORAGE_NB" "root_path (sts[i := st] ! j) \<noteq> None" "root_path (sts[i := st] ! k) \<noteq> None"
    "description (sts[i := st] ! j) = description (sts[i := st] ! k)" for j k
    using assms(1,2) assms(4) [of j] assms(4) [of k] that
    by (cases "j = i"; cases "k = i") (auto simp: storages_ok_def)
  ultimately show ?thesis using assms(1) unfolding storages_ok_def by simp
qed

lemma free_slot: "find (\<lambda>i. root_path (sts ! i) = None) [0..<MAX_STORAGE_NB] = Some i \<Longrightarrow> i < MAX_STORAGE_NB \<and> root_path (sts ! i) = None"
  by (auto simp: find_Some_iff)

lemma name_free:
  assumes "storages_ok sts" "mtp_get_storage_id_by_name sts name = 0xFFFFFFFF" "j < MAX_STORAGE_NB" "root_path (sts ! j) \<noteq> None"
  shows "description (sts ! j) \<noteq> name"
proof
  assume "description (sts ! j) = name"
  then obtain i where i: "find_storage (\<lambda>s. description s = name) sts = Some i"
    using assms(3,4) find_storage_None [of "\<lambda>s. description s = name" sts] by blast
  then have "mtp_get_storage_id_by_name sts name = 0xFFFF0000 + (of_nat i + 1)" "i < MAX_STORAGE_NB"
    using find_storage_used [OF i] assms(1) by (auto simp: mtp_get_storage_id_by_name_def storages_ok_def)
  then show False using slot_id_range assms(2) by auto
qed

lemma add_storage_ok: "storages_ok sts \<Longrightarrow> storages_ok (snd (mtp_add_storage rp ok name uid gid flags sts))"
  unfolding mtp_add_storage_def Let_def
  by (auto split: option.split dest!: free_slot intro!: table_update simp: no_storage_def name_free [symmetric])

lemma remove_storage_ok: "storages_ok sts \<Longrightarrow> storages_ok (snd (mtp_remove_storage name sts))"
  unfolding mtp_remove_storage_def mtp_get_storage_index_by_name_def Let_def
  by (auto split: option.split dest!: find_storage_used intro!: table_update simp: no_storage_def)

lemma flags_ok: "storages_ok sts \<Longrightarrow> storages_ok (sts[i := (sts ! i)\<lparr>storage_flags := f\<rparr>])"
proof (cases "i < MAX_STORAGE_NB")
  case True
  then show "storages_ok sts \<Longrightarrow> ?thesis" by (intro table_update) (auto simp: storages_ok_def)
qed (simp add: storages_ok_def list_update_beyond)

section \<open>Every state of the responder\<close>

lemma set_flags_table: "storages_ok (storages ctx) \<Longrightarrow> storages_ok (storages (set_flags i f ctx))"
  by (simp add: set_flags_def flags_ok)

lemma umount_table: "umount_store i u db ctx = Some (db', ctx') \<Longrightarrow> storages_ok (storages ctx) \<Longrightarrow> storages_ok (storages ctx')"
  unfolding umount_store_def Let_def by (auto split: if_splits option.splits simp: flags_ok simp del: umount_entries.simps)

lemma mount_table: "mount_store env i u db ctx = (db', ctx') \<Longrightarrow> storages_ok (storages ctx) \<Longrightarrow> storages_ok (storages ctx')"
  unfolding mount_store_def Let_def by (auto split: if_splits prod.splits simp: flags_ok)

lemma with_db_table:
  assumes "with_db f ctx = Some ctx'" "\<And>db db' c. f db ctx = Some (db', c) \<Longrightarrow> storages_ok (storages c)"
  shows "storages_ok (storages ctx')"
  using assms unfolding with_db_def by (auto split: option.splits)

lemma commands_table:
  assumes "storages_ok (storages ctx)"
  shows "mount_command env name ctx = Some ctx' \<Longrightarrow> storages_ok (storages ctx')"
    "unmount_command name ctx = Some ctx' \<Longrightarrow> storages_ok (storages ctx')"
    "lock_one i ctx = Some ctx' \<Longrightarrow> storages_ok (storages ctx')"
    "unlock_one env i ctx = Some ctx' \<Longrightarrow> storages_ok (storages ctx')"
proof -
  have u: "with_db (umount_store i u) ctx = Some c \<Longrightarrow> storages_ok (storages c)" for i u c
    by (rule with_db_table) (auto dest: umount_table intro: assms)
  have mt: "with_db (\<lambda>db ctx. Some (mount_store env i u db ctx)) ctx = Some c \<Longrightarrow> storages_ok (storages c)" for i u c
    by (rule with_db_table) (auto dest: mount_table intro: assms)
  show "mount_command env name ctx = Some ctx' \<Longrightarrow> storages_ok (storages ctx')" "unlock_one env i ctx = Some ctx' \<Longrightarrow> storages_ok (storages ctx')"
    using assms unfolding mount_command_def unlock_one_def Let_def by (auto split: if_splits intro!: set_flags_table dest: mt)
  show "unmount_command name ctx = Some ctx' \<Longrightarrow> storages_ok (storages ctx')" "lock_one i ctx = Some ctx' \<Longrightarrow> storages_ok (storages ctx')"
    using assms unfolding unmount_command_def lock_one_def Let_def by (auto split: if_splits intro!: set_flags_table dest: u)
qed

lemma all_storages_table:
  "(\<And>i c c'. f i c = Some c' \<Longrightarrow> storages_ok (storages c) \<Longrightarrow> storages_ok (storages c')) \<Longrightarrow> all_storages f is ctx = Some ctx'
    \<Longrightarrow> storages_ok (storages ctx) \<Longrightarrow> storages_ok (storages ctx')"
  by (induction "is" arbitrary: ctx) (auto split: option.splits)

lemma add_line_table: "storages_ok (storages ctx) \<Longrightarrow> storages_ok (storages (mtp_add_storage_from_line ce l i ctx))"
  by (auto simp: mtp_add_storage_from_line_def add_storage_ok split: option.split prod.split)

lemma remove_line_table: "storages_ok (storages ctx) \<Longrightarrow> storages_ok (storages (snd (mtp_remove_storage_from_line l i ctx)))"
  using remove_storage_ok [of "storages ctx"] by (auto simp: mtp_remove_storage_from_line_def split: option.split prod.split) (metis snd_conv)

lemma message_table:
  assumes "msgqueue_thread env ce received ctx = Some ctx'" "storages_ok (storages ctx)"
  shows "storages_ok (storages ctx')"
proof -
  have all: "all_storages lock_one is ctx = Some ctx' \<Longrightarrow> storages_ok (storages ctx')" "all_storages (unlock_one env) is ctx = Some ctx' \<Longrightarrow> storages_ok (storages ctx')" for "is"
    using all_storages_table [of lock_one "is" ctx ctx'] all_storages_table [of "unlock_one env" "is" ctx ctx'] commands_table(3,4) assms(2)
    by blast+
  have "storages_ok (storages ctx')" if "msgqueue_message env ce msg ctx = Some ctx'" for msg
    using that assms(2) unfolding msgqueue_message_def
    by (auto split: if_split_asm dest: all commands_table(1,2) [OF assms(2)] simp: add_line_table remove_line_table simp del: all_storages.simps)
  then show ?thesis using assms unfolding msgqueue_thread_def by (auto split: prod.splits if_splits)
qed

lemma config_table: "storages_ok (storages ctx) \<Longrightarrow> storages_ok (storages (mtp_load_config_file ce conffile ctx))"
proof -
  have hex: "storages (set_hex cmd v c) = storages c" for cmd v c by (cases cmd) (simp_all add: set_cfg_def)
  have dec: "storages (set_dec cmd v c) = storages c" for cmd v c by (cases cmd) simp_all
  have "storages_ok (storages c) \<Longrightarrow> storages_ok (storages (snd (execute_line ce l c)))" for l c
    by (auto simp: execute_line_def exec_cmd_def add_line_table get_hex_param_def get_str_param_def get_oct_param_def
        get_dec_param_def set_cfg_def hex dec split: option.split kw_func.split prod.split)
  then have "storages_ok (storages c) \<Longrightarrow> storages_ok (storages (fold (\<lambda>l c. snd (execute_line ce (f l) c)) ls c))"
    for f :: "string \<Rightarrow> string" and ls c
    by (induction ls arbitrary: c) simp_all
  then show "storages_ok (storages ctx) \<Longrightarrow> ?thesis" by (simp add: mtp_load_config_file_def Let_def emit_mtp_def split: option.split)
qed

lemma step_table: "responder_step ctx ctx' \<Longrightarrow> storages_ok (storages ctx) \<Longrightarrow> storages_ok (storages ctx')"
proof (induction rule: responder_step.induct)
  case (changes env evs info ctx info' ctx')
  then show ?case using changes_table by metis
qed (auto simp: mtp_set_usb_handle_def end_connection_def packet_table message_table split: option.splits)

lemma reach_table: "responder_reach ctx \<Longrightarrow> storages_ok (storages ctx)"
proof (induction rule: responder_reach.induct)
  case (started uid gid ctx ce conffile)
  then have "storages_ok (storages ctx)" by (auto simp: mtp_init_responder_def storages_ok_def)
  then show ?case by (rule config_table)
qed (rule step_table)

end
