(* ===== verification/Mtp_Access.thy ===== *)
theory Mtp_Access
  imports Mtp_Storages Mtp_Session_Props
begin

text \<open>
  Which requests can change a file. Listing, reading and describing objects, the background
  threads and the commands never do; the five requests that can are refused when the storages
  are read-only.
\<close>

section \<open>Changes of files\<close>

definition file_change :: "mtp_effect \<Rightarrow> bool" where
  "file_change x \<longleftrightarrow> (case x of MakeDir _ \<Rightarrow> True | CreateFile _ \<Rightarrow> True | WriteFile _ _ \<Rightarrow> True | RenameFile _ _ \<Rightarrow> True
     | RemoveFile _ \<Rightarrow> True | RemoveTree _ \<Rightarrow> True | TruncateFile _ _ \<Rightarrow> True
     | OpenFile _ flags _ \<Rightarrow> O_CREAT \<in> flags \<or> O_TRUNC \<in> flags | _ \<Rightarrow> False)"

definition file_changes :: "mtp_ctx \<Rightarrow> mtp_effect list" where
  "file_changes ctx = filter file_change (mtp_trace ctx)"

lemma file_change_simps [simp]:
  "\<not> file_change (UsbWrite bs)" "\<not> file_change (UsbEvent bs)" "\<not> file_change (SetFsUid i)" "\<not> file_change (SetFsGid i)"
  "file_change (OpenFile p fl m) \<longleftrightarrow> O_CREAT \<in> fl \<or> O_TRUNC \<in> fl" "\<not> file_change (DbEffect d)" "\<not> file_change (UMask i)" "\<not> file_change (SeekFile fd i)"
  by (simp_all add: file_change_def)

lemma file_changes_fields [simp]:
  "file_changes (session_id_update f1 ctx) = file_changes ctx"
  "file_changes (usb_cfg_update f2 ctx) = file_changes ctx"
  "file_changes (fs_db_update f3 ctx) = file_changes ctx"
  "file_changes (wrbuffer_update f4 ctx) = file_changes ctx"
  "file_changes (read_file_buffer_update f5 ctx) = file_changes ctx"
  "file_changes (max_packet_size_update f6 ctx) = file_changes ctx"
  "file_changes (storages_update f7 ctx) = file_changes ctx"
  "file_changes (SendObjInfoHandle_update f8 ctx) = file_changes ctx"
  "file_changes (SendObjInfoSize_update f9 ctx) = file_changes ctx"
  "file_changes (SendObjInfoOffset_update f10 ctx) = file_changes ctx"
  "file_changes (SetObjectPropValue_Handle_update f11 ctx) = file_changes ctx"
  "file_changes (SetObjectPropValue_PropCode_update f12 ctx) = file_changes ctx"
  "file_changes (cancel_req_update f13 ctx) = file_changes ctx"
  "file_changes (transferring_file_data_update f14 ctx) = file_changes ctx"
  "file_changes (ctx\<lparr>mtp_trace := t\<rparr>) = filter file_change t"
  by (simp_all add: file_changes_def)

lemma same_trace: "mtp_trace ctx' = mtp_trace ctx \<Longrightarrow> file_changes ctx' = file_changes ctx"
  by (simp add: file_changes_def)

lemma no_change_map: "(\<And>x. \<not> file_change (f x)) \<Longrightarrow> filter file_change (map f xs) = []"
  by (simp add: filter_empty_conv)

lemma emit_quiet: "\<not> file_change x \<Longrightarrow> file_changes (emit_mtp x ctx) = file_changes ctx"
  by (simp add: file_changes_def emit_mtp_def)

lemma filter_trace [simp]: "filter file_change (mtp_trace ctx) = file_changes ctx"
  by (simp add: file_changes_def)

lemma giduid_quiet: "set_giduid f u g ctx = (ids, ctx') \<Longrightarrow> file_changes ctx' = file_changes ctx"
  by (auto simp: set_giduid_def Let_def emit_quiet)

lemma restore_quiet [simp]: "file_changes (restore_giduid f ctx) = file_changes ctx"
  unfolding restore_giduid_def using giduid_quiet by (metis prod.collapse)

lemma storage_ids_quiet: "set_storage_giduid f sid ctx = (ids, ctx') \<Longrightarrow> file_changes ctx' = file_changes ctx"
  by (auto simp: set_storage_giduid_def Let_def dest: giduid_quiet split: if_splits)

lemma zlp_quiet [simp]: "file_changes (check_and_send_USB_ZLP n ctx) = file_changes ctx"
  by (simp add: check_and_send_USB_ZLP_def emit_quiet)

lemma header_quiet: "data_header pk ctx = (sz, ctx') \<Longrightarrow> file_changes ctx' = file_changes ctx"
  by (auto simp: data_header_def split: prod.splits)

lemma container_quiet: "file_changes (send_container sz ctx) = file_changes ctx"
  by (simp add: send_container_def Let_def emit_quiet)

lemma reply_dataset_quiet: "reply_dataset pk u build ctx = (c, ctx') \<Longrightarrow> file_changes ctx' = file_changes ctx"
  by (auto simp: reply_dataset_def write_dataset_def container_quiet Let_def split: prod.splits if_splits option.splits dest!: header_quiet)

lemma status_quiet: "file_changes (send_status t c ps ctx) = file_changes ctx"
  by (simp add: send_status_def emit_quiet split: prod.split)

lemma push_quiet: "file_changes (mtp_push_event e ps ctx) = file_changes ctx"
  by (simp add: mtp_push_event_def emit_quiet split: prod.split)

section \<open>Requests that only read\<close>

lemma entry_open_quiet:
  "ctx_entry_open env fl m r db ctx = Some (fd, db', ctx') \<Longrightarrow> O_CREAT \<notin> fl \<Longrightarrow> O_TRUNC \<notin> fl \<Longrightarrow> file_changes ctx' = file_changes ctx"
  unfolding ctx_entry_open_def
  by (auto split: if_splits path_result.splits prod.splits simp: emit_quiet dest!: storage_ids_quiet)

lemma send_file_quiet: "send_file_data env r offset n db ctx = Some (k, db', ctx') \<Longrightarrow> file_changes ctx' = file_changes ctx"
  unfolding send_file_data_def Let_def
  by (auto split: option.splits prod.splits if_splits transfer.splits dest!: entry_open_quiet simp del: send_loop.simps
      simp: no_change_map)

lemma reads_quiet:
  "mtp_op_GetObject env pk ctx = Some (c, ps, ctx') \<Longrightarrow> file_changes ctx' = file_changes ctx"
  "mtp_op_GetPartialObject env pk ctx = Some (c, ps, ctx') \<Longrightarrow> file_changes ctx' = file_changes ctx"
  unfolding mtp_op_GetObject_def mtp_op_GetPartialObject_def Let_def
  by (auto split: option.splits prod.splits if_splits dest!: header_quiet send_file_quiet)

lemma send_handles_quiet: "send_handles fuel nb (ofs, i, db) ctx = (ok, db', ctx') \<Longrightarrow> file_changes ctx' = file_changes ctx"
  by (induction fuel arbitrary: ofs i db ctx) (auto simp: Let_def emit_quiet simp del: fill_handles.simps split: if_splits prod.splits)

lemma reply_handles_quiet: "reply_handles nb db ctx = Some (c, ps, ctx') \<Longrightarrow> file_changes ctx' = file_changes ctx"
  unfolding reply_handles_def Let_def
  by (auto simp del: send_handles.simps split: prod.splits bool.splits dest!: send_handles_quiet)

lemma GetObjectHandles_quiet: "mtp_op_GetObjectHandles env pk ctx = Some (c, ps, ctx') \<Longrightarrow> file_changes ctx' = file_changes ctx"
  unfolding mtp_op_GetObjectHandles_def Let_def
  by (auto split: option.splits prod.splits if_splits dest!: header_quiet storage_ids_quiet reply_handles_quiet)

lemma sessions_quiet:
  "mtp_op_OpenSession env pk ctx = Some (c, ps, ctx') \<Longrightarrow> file_changes ctx' = file_changes ctx"
  "mtp_op_CloseSession ctx = Some (c, ps, ctx') \<Longrightarrow> file_changes ctx' = file_changes ctx"
  "mtp_op_BeginEditObject pk ctx = Some (c, ps, ctx') \<Longrightarrow> file_changes ctx' = file_changes ctx"
  "mtp_op_EndEditObject pk ctx = Some (c, ps, ctx') \<Longrightarrow> file_changes ctx' = file_changes ctx"
  "mtp_op_GetStorageIDs pk ctx = Some (c, ps, ctx') \<Longrightarrow> file_changes ctx' = file_changes ctx"
  unfolding mtp_op_OpenSession_def mtp_op_CloseSession_def mtp_op_BeginEditObject_def mtp_op_EndEditObject_def
    mtp_op_GetStorageIDs_def Let_def
  by (auto split: option.splits prod.splits if_splits simp: emit_quiet no_change_map dest!: header_quiet)

lemma reply_object_quiet: "reply_object pk build db ctx = Some (c, ps, ctx') \<Longrightarrow> file_changes ctx' = file_changes ctx"
  unfolding reply_object_def by (auto split: if_splits option.splits prod.splits dest!: reply_dataset_quiet)
    (simp add: data_header_def split: prod.splits)+

lemma datasets_quiet:
  "mtp_op_GetDeviceInfos pk ctx = Some (c, ps, ctx') \<Longrightarrow> file_changes ctx' = file_changes ctx"
  "mtp_op_GetStorageInfo env pk ctx = Some (c, ps, ctx') \<Longrightarrow> file_changes ctx' = file_changes ctx"
  "mtp_op_GetDevicePropDesc pk ctx = Some (c, ps, ctx') \<Longrightarrow> file_changes ctx' = file_changes ctx"
  "mtp_op_GetDevicePropValue pk ctx = Some (c, ps, ctx') \<Longrightarrow> file_changes ctx' = file_changes ctx"
  "mtp_op_GetObjectPropDesc pk ctx = Some (c, ps, ctx') \<Longrightarrow> file_changes ctx' = file_changes ctx"
  "mtp_op_GetObjectPropsSupported pk ctx = Some (c, ps, ctx') \<Longrightarrow> file_changes ctx' = file_changes ctx"
  "mtp_op_GetObjectPropValue pk ctx = Some (c, ps, ctx') \<Longrightarrow> file_changes ctx' = file_changes ctx"
  "mtp_op_GetObjectInfo env pk ctx = Some (c, ps, ctx') \<Longrightarrow> file_changes ctx' = file_changes ctx"
  "mtp_op_GetObjectPropList env pk ctx = Some (c, ps, ctx') \<Longrightarrow> file_changes ctx' = file_changes ctx"
  "mtp_op_GetObjectReferences pk ctx = Some (c, ps, ctx') \<Longrightarrow> file_changes ctx' = file_changes ctx"
  unfolding mtp_op_GetDeviceInfos_def mtp_op_GetStorageInfo_def mtp_op_GetDevicePropDesc_def mtp_op_GetDevicePropValue_def
    mtp_op_GetObjectPropDesc_def mtp_op_GetObjectPropsSupported_def mtp_op_GetObjectPropValue_def mtp_op_GetObjectInfo_def
    mtp_op_GetObjectPropList_def mtp_op_GetObjectReferences_def Let_def
  by (auto split: option.splits prod.splits if_splits simp: container_quiet
      dest!: reply_dataset_quiet reply_object_quiet header_quiet)

section \<open>The background threads\<close>

lemma with_db_quiet:
  "with_db f ctx = Some ctx' \<Longrightarrow> (\<And>db db' c. f db ctx = Some (db', c) \<Longrightarrow> file_changes c = file_changes ctx) \<Longrightarrow> file_changes ctx' = file_changes ctx"
  unfolding with_db_def by (auto split: option.splits)

lemma umount_quiet: "umount_store i u db ctx = Some (db', ctx') \<Longrightarrow> file_changes ctx' = file_changes ctx"
  unfolding umount_store_def Let_def by (auto split: if_splits option.splits simp del: umount_entries.simps)

lemma mount_quiet: "mount_store env i u db ctx = (db', ctx') \<Longrightarrow> file_changes ctx' = file_changes ctx"
  unfolding mount_store_def Let_def by (auto split: if_splits prod.splits)

lemma set_flags_quiet: "file_changes (set_flags i f ctx) = file_changes ctx"
  by (simp add: set_flags_def)

lemma with_mount_quiet:
  "with_db (umount_store i u) ctx = Some c \<Longrightarrow> file_changes c = file_changes ctx"
  "with_db (\<lambda>db ctx. Some (mount_store env i u db ctx)) ctx = Some c \<Longrightarrow> file_changes c = file_changes ctx"
  by (erule with_db_quiet; auto dest: umount_quiet mount_quiet)+

lemma commands_quiet:
  "mount_command env name ctx = Some ctx' \<Longrightarrow> file_changes ctx' = file_changes ctx"
  "unmount_command name ctx = Some ctx' \<Longrightarrow> file_changes ctx' = file_changes ctx"
  "lock_one i ctx = Some ctx' \<Longrightarrow> file_changes ctx' = file_changes ctx"
  "unlock_one env i ctx = Some ctx' \<Longrightarrow> file_changes ctx' = file_changes ctx"
  unfolding mount_command_def unmount_command_def lock_one_def unlock_one_def Let_def
  by (auto split: if_splits simp: push_quiet set_flags_quiet dest!: with_mount_quiet)

lemma all_storages_quiet:
  "(\<And>i c c'. f i c = Some c' \<Longrightarrow> file_changes c' = file_changes c) \<Longrightarrow> all_storages f is ctx = Some ctx' \<Longrightarrow> file_changes ctx' = file_changes ctx"
proof (induction "is" arbitrary: ctx)
  case (Cons i "is")
  then obtain c where "f i ctx = Some c" "all_storages f is c = Some ctx'" by (auto split: option.splits)
  then show ?case using Cons by metis
qed simp

lemma message_quiet:
  assumes "msgqueue_thread env ce received ctx = Some ctx'"
  shows "file_changes ctx' = file_changes ctx"
proof -
  have add: "file_changes (mtp_add_storage_from_line ce l i ctx) = file_changes ctx" for l i
    by (simp add: mtp_add_storage_from_line_def split: option.split prod.split)
  have rm: "file_changes (snd (mtp_remove_storage_from_line l i ctx)) = file_changes ctx" for l i
    by (simp add: mtp_remove_storage_from_line_def split: option.split prod.split)
  have all: "all_storages lock_one is ctx = Some ctx' \<Longrightarrow> file_changes ctx' = file_changes ctx"
    "all_storages (unlock_one env) is ctx = Some ctx' \<Longrightarrow> file_changes ctx' = file_changes ctx" for "is"
    using all_storages_quiet [of lock_one "is" ctx ctx'] all_storages_quiet [of "unlock_one env" "is" ctx ctx'] commands_quiet(3,4)
    by blast+
  have "file_changes ctx' = file_changes ctx" if "msgqueue_message env ce msg ctx = Some ctx'" for msg
    using that unfolding msgqueue_message_def
    by (auto split: if_split_asm dest: all commands_quiet(1,2) simp: add rm simp del: all_storages.simps)
  then show ?thesis using assms unfolding msgqueue_thread_def by (auto split: prod.splits if_splits)
qed

section \<open>Changes of watched folders\<close>

definition body_quiet :: "(nat \<Rightarrow> watch_state \<Rightarrow> watch_state option) \<Rightarrow> bool" where
  "body_quiet body \<longleftrightarrow> (\<forall>r st st'. body r st = Some st' \<longrightarrow> file_changes (snd (snd st')) = file_changes (snd (snd st)))"

lemma bodies_quiet: "body_quiet (created_in env ev)" "body_quiet (modified_in env ev)" "body_quiet (deleted_in env ev)"
  unfolding body_quiet_def created_in_def modified_in_def deleted_in_def Let_def
  by (auto split: option.splits prod.splits bool.splits simp: push_quiet)

lemma watch_loop_quiet:
  "body_quiet body \<Longrightarrow> watch_loop fuel body wd start st = Some st' \<Longrightarrow> file_changes (snd (snd st')) = file_changes (snd (snd st))"
proof (induction fuel arbitrary: start st)
  case (Suc fuel)
  obtain info db ctx where st: "st = (info, db, ctx)" by (cases st)
  show ?case
  proof (cases "get_entry_by_wd wd start db")
    case (Some r)
    then obtain s2 where b: "body r st = Some s2" using Suc(3) st by (auto split: option.splits)
    then have "file_changes (snd (snd s2)) = file_changes (snd (snd st))" using Suc(2) unfolding body_quiet_def by blast
    then show ?thesis using Suc.IH [OF Suc(2), of _ s2] Suc(3) Some b st by (auto split: option.splits prod.splits)
  qed (use Suc(3) st in simp)
qed simp

lemma watched_quiet:
  "body_quiet body \<Longrightarrow> (if b then for_watched body wd st else Some st) = Some st' \<Longrightarrow> file_changes (snd (snd st')) = file_changes (snd (snd st))"
  unfolding for_watched_def by (auto split: if_splits prod.splits simp del: watch_loop.simps dest: watch_loop_quiet)

lemma event_quiet: "inotify_event_step env ev st = Some st' \<Longrightarrow> file_changes (snd (snd st')) = file_changes (snd (snd st))"
proof -
  assume "inotify_event_step env ev st = Some st'"
  then obtain s1 s2 where s1: "(if ev_mask ev AND (IN_CREATE OR IN_MOVED_TO) \<noteq> 0 then for_watched (created_in env ev) (ev_wd ev) st else Some st) = Some s1"
    and s2: "(if ev_mask ev AND IN_MODIFY \<noteq> 0 then for_watched (modified_in env ev) (ev_wd ev) s1 else Some s1) = Some s2"
    and s3: "(if ev_mask ev AND (IN_DELETE OR IN_MOVED_FROM) \<noteq> 0 then for_watched (deleted_in env ev) (ev_wd ev) s2 else Some s2) = Some st'"
    by (rule event_stages)
  show ?thesis
    using watched_quiet [OF bodies_quiet(1) s1] watched_quiet [OF bodies_quiet(2) s2] watched_quiet [OF bodies_quiet(3) s3] by simp
qed

lemma events_quiet: "inotify_events env i evs st = Some st' \<Longrightarrow> file_changes (snd (snd st')) = file_changes (snd (snd st))"
proof (induction env i evs st rule: inotify_events.induct)
  case (2 env i ev evs st)
  then show ?case by (auto split: option.splits if_splits dest!: event_quiet)
qed simp

lemma changes_quiet: "inotify_thread env evs (info, ctx) = Some (info', ctx') \<Longrightarrow> file_changes ctx' = file_changes ctx"
  unfolding inotify_thread_def by (auto split: option.splits prod.splits dest!: events_quiet)

section \<open>Packets and steps\<close>

lemma operation_quiet:
  assumes "operation code = Some f" "f env pk ctx = Some (c, ps, ctx')" "all_read_only (storages ctx)"
  shows "file_changes ctx' = file_changes ctx"
proof -
  note refused = read_only_storage_untouched [OF assms(3), THEN same_trace, of env _ pk]
  show ?thesis
    using assms(1,2) refused [of SendObjectInfo] refused [of SendObject] refused [of DeleteObject] refused [of TruncateObject] refused [of SetObjectPropValue]
    unfolding operation_def by (auto split: if_split_asm dest: reads_quiet sessions_quiet GetObjectHandles_quiet datasets_quiet)
qed

lemma packet_quiet:
  "mtp_incoming_packet env received ctx = Some (ret, ctx') \<Longrightarrow> all_read_only (storages ctx) \<Longrightarrow> file_changes ctx' = file_changes ctx"
  unfolding mtp_incoming_packet_def process_in_packet_def run_operation_def
  by (auto split: if_splits option.splits prod.splits simp: status_quiet dest!: operation_quiet)

lemma step_quiet: "responder_step ctx ctx' \<Longrightarrow> all_read_only (storages ctx) \<Longrightarrow> file_changes ctx' = file_changes ctx"
proof (induction rule: responder_step.induct)
  case (changes env evs info ctx info' ctx')
  then show ?case by (simp add: changes_quiet)
next
  case (message env ce received ctx ctx')
  then show ?case by (simp add: message_quiet)
qed (auto simp: packet_quiet mtp_set_usb_handle_def end_connection_def no_change_map split: option.splits)

end
