(* ===== verification/Mtp_Responder_Props.thy ===== *)
theory Mtp_Responder_Props
  imports Mtp_Access
begin

definition sample_config :: cfg_env where
  "sample_config = \<lparr>cfg_realpath = Some, cfg_mem_ok = True, cfg_junk = []\<rparr>"

definition started_ctx :: mtp_ctx where
  "started_ctx = mtp_load_config_file sample_config (Some (''storage '' @ [CHR 0x22] @ ''/r'' @ [CHR 0x22, CHR 0x20, CHR 0x22] @ ''Nook'' @ [CHR 0x22, CHR 0x0A]))
     (the (mtp_init_responder True 0 0))"

abbreviation (input) open_packet :: bytes where
  "open_packet \<equiv> [16, 0, 0, 0, 1, 0, 2, 0x10, 0, 0, 0, 0, 1, 0, 0, 0]"

lemma open_packet_fields: "hdr_code (packet_header open_packet) = 0x1002" "peek open_packet 12 4 = 1"
  by code_simp+

lemma open_first_session:
  assumes "fs_db ctx = None" "env_db_ok env"
  shows "\<exists>ctx'. mtp_incoming_packet env (16, open_packet) ctx = Some (0, ctx') \<and> storages ctx' = storages ctx
    \<and> fs_db ctx' = Some (fold (\<lambda>st db. snd (alloc_root_entry (env_mem env) (storage_id st) db)) (takeWhile (\<lambda>st. root_path st \<noteq> None) (storages ctx)) init_fs_db)"
  by (simp add: mtp_incoming_packet_def process_in_packet_def run_operation_def operation_def open_packet_fields
      mtp_op_OpenSession_def assms Let_def split: option.split)

lemma started_storages: "map storage_id (takeWhile (\<lambda>st. root_path st \<noteq> None) (storages started_ctx)) = [0xFFFF0001]"
  by code_simp

lemma sample_session:
  obtains ctx db where "responder_reach ctx" "fs_db ctx = Some db"
    "db = snd (alloc_root_entry sample_mem 0xFFFF0001 init_fs_db)" "storages ctx = storages started_ctx"
proof -
  have "fs_db started_ctx = None" by (simp add: started_ctx_def mtp_init_responder_def)
  then obtain ctx' where c: "mtp_incoming_packet (sample_env [] []) (16, open_packet) started_ctx = Some (0, ctx')" "storages ctx' = storages started_ctx"
    "fs_db ctx' = Some (fold (\<lambda>st db. snd (alloc_root_entry sample_mem (storage_id st) db)) (takeWhile (\<lambda>st. root_path st \<noteq> None) (storages started_ctx)) init_fs_db)"
    using open_first_session [of started_ctx "sample_env [] []"] by (auto simp: sample_env_def)
  moreover have "responder_reach started_ctx"
    unfolding started_ctx_def by (rule started) (simp add: mtp_init_responder_def)
  moreover have "nodes_ok (env_mem (sample_env [] []))" by (simp add: nodes_ok_def sample_env_def sample_mem_def)
  ultimately have "responder_reach ctx'" using stepped packet by blast
  moreover obtain st where "takeWhile (\<lambda>st. root_path st \<noteq> None) (storages started_ctx) = [st]" "storage_id st = 0xFFFF0001"
    using started_storages by auto
  ultimately show ?thesis using that [of ctx'] c by simp
qed

lemma root_pool: "pool (snd (alloc_root_entry sample_mem sid init_fs_db)) = [\<lparr>e_handle = 0, e_parent = 0, e_storage = sid, e_name = [0x2F],
    e_flags = 1, e_size = 1, e_fd = 0, e_wd = -1\<rparr>]"
  "entry_list (snd (alloc_root_entry sample_mem sid init_fs_db)) = [0]"
  by (simp_all add: alloc_root_entry_def take_slot_def allocate_pool_block_def sample_mem_def init_fs_db_def)

lemma unmount_message: "msgqueue_thread env ce (12, ''unmount:Nook'') ctx = unmount_command (ascii ''Nook'') ctx"
  by (simp add: msgqueue_thread_def msgqueue_message_def cstr_def)

lemma first_storage:
  "mtp_get_storage_index_by_name (storages started_ctx) (ascii ''Nook'') = 0"
  "root_path (storages started_ctx ! 0) \<noteq> None" "storage_id (storages started_ctx ! 0) = 0xFFFF0001"
  by code_simp+

lemma unmount_first:
  assumes "fs_db ctx = Some db" "db = snd (alloc_root_entry sample_mem 0xFFFF0001 init_fs_db)" "storages ctx = storages started_ctx"
  shows "\<exists>ctx'. msgqueue_thread env ce (12, ''unmount:Nook'') ctx = Some ctx' \<and> fs_db ctx' = Some (mark_deleted 0 db)"
proof -
  have u: "umount_entries (length (entry_list db) + 1) 0xFFFF0001 None db = Some (mark_deleted 0 db)"
    by (simp add: assms(2) root_pool get_entry_by_storageid_def list_from_def deleted_def next_entry_def mark_deleted_def upd_entry_def Let_def)
  show ?thesis
    using first_storage u unfolding unmount_message unmount_command_def
    by (simp add: with_db_def umount_store_def Let_def assms(1,3) del: umount_entries.simps)
qed

section \<open>Properties of the responder\<close>

text \<open>
  C2. Whatever packets the host sends, whatever happens in the watched folders and whatever
  commands arrive, the handle database of the session stays one that the operations of the
  database build from an empty one, so both hash tables index it, handles are unique, and
  parents precede their children. It takes that the hash nodes can be allocated and that less than
  half a billion objects were seen.\<close>

theorem responder_keeps_database:
  assumes "responder_reach ctx" "fs_db ctx = Some db" "length (pool db) < 0x1FFFFFFF"
  shows "db_reach db \<and> db_ok db"
proof -
  have "db_reach db" using reach_fine [OF assms(1)] assms(2,3) by (auto simp: ctx_fine_def crowded_def)
  then show ?thesis using db_reach_ok by blast
qed

lemma responder_keeps_database_witness:
  "\<exists>ctx db. responder_reach ctx \<and> fs_db ctx = Some db \<and> pool db \<noteq> [] \<and> db_reach db \<and> db_ok db"
proof -
  obtain ctx db where c: "responder_reach ctx" "fs_db ctx = Some db" "db = snd (alloc_root_entry sample_mem 0xFFFF0001 init_fs_db)"
    by (rule sample_session)
  have p: "length (pool db) = 1"
    unfolding c(3) by (simp add: root_pool)
  show ?thesis using responder_keeps_database [OF c(1,2)] c(1,2) p by force
qed

text \<open>
  C3. While a session stays open, no packet, change or command gives an object another
  handle, parent, storage or kind, brings a deleted object back, or drops one; new objects come after
  the old ones.\<close>

theorem object_identity_kept:
  assumes "responder_step ctx ctx'" "fs_db ctx = Some db" "fs_db ctx' = Some db'"
  shows "entries_kept db db'"
  using step_identity [OF assms(1,2)] assms(3) by (simp add: identity_holds)

lemma object_identity_kept_witness:
  "\<exists>ctx ctx' db db'. responder_step ctx ctx' \<and> fs_db ctx = Some db \<and> pool db \<noteq> [] \<and> fs_db ctx' = Some db' \<and> entries_kept db db'"
proof -
  obtain ctx db where c: "responder_reach ctx" "fs_db ctx = Some db" "db = snd (alloc_root_entry sample_mem 0xFFFF0001 init_fs_db)" "storages ctx = storages started_ctx"
    by (rule sample_session)
  obtain ctx' db' where u: "msgqueue_thread (sample_env [] []) sample_config (12, ''unmount:Nook'') ctx = Some ctx'" "fs_db ctx' = Some db'"
    using unmount_first [OF c(2-4)] by blast
  have "responder_step ctx ctx'" using message [OF _ u(1)] by (simp add: nodes_ok_def sample_env_def sample_mem_def)
  then show ?thesis using object_identity_kept [OF _ c(2) u(2)] c(2,3) u(2) root_pool by fastforce
qed


text \<open>
  C9. At any time a used slot of the storage table has the identifier of its position and a name
  of its own, so an identifier and a name mean one storage; packets of the host never change the table.\<close>

theorem responder_storage_table:
  assumes "responder_reach ctx"
  shows "storages_ok (storages ctx)
    \<and> (\<forall>env received ret ctx'. mtp_incoming_packet env received ctx = Some (ret, ctx') \<longrightarrow> storages ctx' = storages ctx)"
  using reach_table [OF assms] packet_table by blast

lemma responder_storage_table_witness:
  "\<exists>ctx. responder_reach ctx \<and> storages ctx = storages started_ctx \<and> storages_ok (storages ctx)"
proof -
  obtain ctx where "responder_reach ctx" "storages ctx = storages started_ctx" by (rule sample_session)
  then show ?thesis using responder_storage_table by blast
qed

lemma added_slot:
  assumes "storages_ok sts" "mtp_add_storage (Some r) True name uid gid flags sts = (sid, sts')" "sid \<noteq> 0"
  obtains i st where "i < MAX_STORAGE_NB" "root_path (sts ! i) = None" "sid = 0xFFFF0000 + (of_nat i + 1)" "sts' = sts[i := st]"
    "st = \<lparr>root_path = Some r, description = name, storage_id = sid, storage_flags = flags, storage_uid = uid, storage_gid = gid\<rparr>"
  using assms unfolding mtp_add_storage_def Let_def by (auto split: if_splits option.splits dest!: free_slot)

text \<open>Filling a free slot with a storage that a search does not mean, or leaving it free, changes no result.\<close>

lemma find_refilled:
  assumes "root_path (sts ! i) = None" "root_path st = None \<or> \<not> P st"
  shows "find_storage P (sts[i := st]) = find_storage P sts"
  unfolding find_storage_def
proof (rule find_cong)
  fix j assume "j \<in> set [0..<MAX_STORAGE_NB]"
  show "(root_path (sts[i := st] ! j) \<noteq> None \<and> P (sts[i := st] ! j)) = (root_path (sts ! j) \<noteq> None \<and> P (sts ! j))"
    using assms by (cases "i < length sts"; cases "j = i") (auto simp: list_update_beyond)
qed simp

lemma refilled_slot: "find_storage P sts = Some j \<Longrightarrow> root_path (sts ! i) = None \<Longrightarrow> sts[i := st] ! j = sts ! j"
  using find_storage_used by (cases "j = i") fastforce+

text \<open>All the lookups of the table: four by the identifier, two by the name.\<close>

definition lookups_by_id :: "mtp_storage list \<Rightarrow> u32 \<Rightarrow> bytes option \<times> bytes option \<times> u32 \<times> int" where
  "lookups_by_id sts s = (mtp_get_storage_root sts s, mtp_get_storage_description sts s, mtp_get_storage_flags sts s, mtp_get_storage_index_by_id sts s)"

definition lookups_by_name :: "mtp_storage list \<Rightarrow> bytes \<Rightarrow> u32 \<times> int" where
  "lookups_by_name sts n = (mtp_get_storage_id_by_name sts n, mtp_get_storage_index_by_name sts n)"

lemma refilled_by_id:
  assumes "root_path (sts ! i) = None" "root_path st = None \<or> storage_id st \<noteq> s"
  shows "lookups_by_id (sts[i := st]) s = lookups_by_id sts s"
  using find_refilled [OF assms(1), of st "\<lambda>st. storage_id st = s"] assms refilled_slot [of "\<lambda>st. storage_id st = s" sts _ i st]
  by (auto simp: lookups_by_id_def mtp_get_storage_root_def mtp_get_storage_description_def mtp_get_storage_flags_def
      mtp_get_storage_index_by_id_def split: option.split)

lemma refilled_by_name:
  assumes "root_path (sts ! i) = None" "root_path st = None \<or> description st \<noteq> n"
  shows "lookups_by_name (sts[i := st]) n = lookups_by_name sts n"
  using find_refilled [OF assms(1), of st "\<lambda>st. description st = n"] assms refilled_slot [of "\<lambda>st. description st = n" sts _ i st]
  by (auto simp: lookups_by_name_def mtp_get_storage_id_by_name_def mtp_get_storage_index_by_name_def split: option.split)

text \<open>
  C18. A storage that is added is found under its identifier and its name with its folder, name
  and flags, in a slot that holds its user and group; no lookup of another storage changes; and
  removing it by its name gives the old table back: every slot in use is as before, and so is
  every lookup by identifier (folder, name, flags, index) and by name (identifier, index).\<close>

theorem added_storage_found:
  assumes "storages_ok sts" "mtp_add_storage (Some r) True name uid gid flags sts = (sid, sts')" "sid \<noteq> 0"
  defines "old \<equiv> snd (mtp_remove_storage name sts')"
  shows "(\<exists>i < MAX_STORAGE_NB. lookups_by_id sts' sid = (Some r, Some name, flags, int i) \<and> lookups_by_name sts' name = (sid, int i)
        \<and> storage_uid (sts' ! i) = uid \<and> storage_gid (sts' ! i) = gid)
    \<and> (\<forall>s. s \<noteq> sid \<longrightarrow> lookups_by_id sts' s = lookups_by_id sts s)
    \<and> (\<forall>n. n \<noteq> name \<longrightarrow> lookups_by_name sts' n = lookups_by_name sts n)
    \<and> (\<forall>s. lookups_by_id old s = lookups_by_id sts s) \<and> (\<forall>n. lookups_by_name old n = lookups_by_name sts n)
    \<and> (\<forall>i. root_path (old ! i) = root_path (sts ! i) \<and> (root_path (sts ! i) \<noteq> None \<longrightarrow> old ! i = sts ! i))"
proof (intro conjI)
  obtain i st where i: "i < MAX_STORAGE_NB" "root_path (sts ! i) = None" "sid = 0xFFFF0000 + (of_nat i + 1)" "sts' = sts[i := st]"
    and st: "st = \<lparr>root_path = Some r, description = name, storage_id = sid, storage_flags = flags, storage_uid = uid, storage_gid = gid\<rparr>"
    by (rule added_slot [OF assms(1-3)])
  have ok: "storages_ok sts'" using add_storage_ok [OF assms(1)] assms(2) by (metis snd_conv)
  have len: "length sts = MAX_STORAGE_NB" using assms(1) by (simp add: storages_ok_def)
  have new: "sts' ! i = st" using i len by simp
  have found: "find_storage (\<lambda>st. storage_id st = sid) sts' = Some i" using find_storage_id [OF ok] i(1,3) new st by simp
  have "find_storage (\<lambda>st. description st = name) sts' \<noteq> None" using i(1) new st unfolding find_storage_None by auto
  then obtain j where j: "find_storage (\<lambda>st. description st = name) sts' = Some j" by blast
  have "j = i" using find_storage_used [OF j] ok i(1) new st unfolding storages_ok_def by (metis mtp_storage.select_convs(1,2) option.distinct(1))
  then have named: "find_storage (\<lambda>st. description st = name) sts' = Some i" using j by simp
  have rem: "old = sts[i := no_storage]"
    using named by (simp add: old_def mtp_remove_storage_def mtp_get_storage_index_by_name_def i(4))
  show "\<exists>i < MAX_STORAGE_NB. lookups_by_id sts' sid = (Some r, Some name, flags, int i) \<and> lookups_by_name sts' name = (sid, int i)
      \<and> storage_uid (sts' ! i) = uid \<and> storage_gid (sts' ! i) = gid"
    using i(1) found named new st
    by (intro exI [of _ i]) (simp add: lookups_by_id_def lookups_by_name_def mtp_get_storage_root_def mtp_get_storage_description_def
        mtp_get_storage_flags_def mtp_get_storage_index_by_id_def mtp_get_storage_id_by_name_def mtp_get_storage_index_by_name_def)
  show "\<forall>s. s \<noteq> sid \<longrightarrow> lookups_by_id sts' s = lookups_by_id sts s" "\<forall>n. n \<noteq> name \<longrightarrow> lookups_by_name sts' n = lookups_by_name sts n"
    using refilled_by_id [OF i(2), of st] refilled_by_name [OF i(2), of st] st i(4) by auto
  show "\<forall>s. lookups_by_id old s = lookups_by_id sts s" "\<forall>n. lookups_by_name old n = lookups_by_name sts n"
    using refilled_by_id [OF i(2), of no_storage] refilled_by_name [OF i(2), of no_storage] by (auto simp: rem no_storage_def)
  show "\<forall>i. root_path (old ! i) = root_path (sts ! i) \<and> (root_path (sts ! i) \<noteq> None \<longrightarrow> old ! i = sts ! i)"
    using i(2) len i(1) by (auto simp: rem no_storage_def nth_list_update)
qed

lemma added_storage_found_witness:
  "\<exists>sts'. mtp_add_storage (Some [0x2F, 0x73]) True [0x53] 0 0 1 (storages started_ctx) = (0xFFFF0002, sts')
    \<and> mtp_get_storage_root sts' 0xFFFF0002 = Some [0x2F, 0x73] \<and> mtp_get_storage_root sts' 0xFFFF0001 = Some [0x2F, 0x72]
    \<and> mtp_get_storage_root (snd (mtp_remove_storage [0x53] sts')) 0xFFFF0002 = None"
proof -
  have "responder_reach started_ctx" unfolding started_ctx_def by (rule started) (simp add: mtp_init_responder_def)
  note ok = reach_table [OF this]
  have s: "fst (mtp_add_storage (Some [0x2F, 0x73]) True [0x53] 0 0 1 (storages started_ctx)) = 0xFFFF0002"
    "mtp_get_storage_root (storages started_ctx) 0xFFFF0001 = Some [0x2F, 0x72]"
    "mtp_get_storage_root (storages started_ctx) 0xFFFF0002 = None" by code_simp+
  then obtain sts' where a: "mtp_add_storage (Some [0x2F, 0x73]) True [0x53] 0 0 1 (storages started_ctx) = (0xFFFF0002, sts')" by (metis prod.collapse)
  have f: "(\<exists>i. lookups_by_id sts' 0xFFFF0002 = (Some [0x2F, 0x73], Some [0x53], 1, int i))
      \<and> lookups_by_id sts' 0xFFFF0001 = lookups_by_id (storages started_ctx) 0xFFFF0001
      \<and> lookups_by_id (snd (mtp_remove_storage [0x53] sts')) 0xFFFF0002 = lookups_by_id (storages started_ctx) 0xFFFF0002"
    using added_storage_found [OF ok a] by auto
  then show ?thesis using a s(2,3) by (auto simp: lookups_by_id_def)
qed

text \<open>
  C5. While every storage is read-only, nothing that happens to the responder - any request of
  the host, changes of watched folders, commands, the end of the connection - changes a file: no
  file or folder is made, written, truncated, renamed or removed.\<close>

theorem read_only_session_changes_nothing:
  assumes "responder_step ctx ctx'" "all_read_only (storages ctx)"
  shows "file_changes ctx' = file_changes ctx"
  using step_quiet [OF assms] .

lemma read_only_session_changes_nothing_witness:
  "\<exists>ctx'. mtp_incoming_packet (sample_env [] []) (16, [16, 0, 0, 0, 1, 0, 0x0B, 0x10, 0, 0, 0, 0, 1, 0, 0, 0]) read_only_ctx = Some (0, ctx')
    \<and> file_changes ctx' = []"
proof -
  let ?pk = "[16, 0, 0, 0, 1, 0, 0x0B, 0x10, 0, 0, 0, 0, 1, 0, 0, 0] :: bytes"
  have code: "hdr_code (packet_header ?pk) = 0x100B" by code_simp
  have ro: "all_read_only (storages read_only_ctx)" by (simp add: read_only_ctx_def all_read_only_def list_all_iff)
  obtain c where "check_handle_access (storages read_only_ctx) (file_db 5) None (peek ?pk 12 4) True = Some c" using read_only_refused [OF ro] by blast
  then have "mtp_op_DeleteObject (sample_env [] []) ?pk read_only_ctx = Some (c, [], read_only_ctx)"
    by (simp add: mtp_op_DeleteObject_def read_only_ctx_def sample_facts Let_def)
  then have run: "run_operation (sample_env [] []) ?pk read_only_ctx = Some (c, [], read_only_ctx)"
    by (simp only: run_operation_def code) (simp add: operation_def)
  let ?ctx = "send_status (hdr_tx_id (packet_header ?pk)) c [] read_only_ctx"
  have c: "mtp_incoming_packet (sample_env [] []) (16, ?pk) read_only_ctx = Some (0, ?ctx)"
    by (simp add: mtp_incoming_packet_def process_in_packet_def run)
  have "responder_step read_only_ctx ?ctx" using packet [OF _ c] by (simp add: nodes_ok_def sample_env_def sample_mem_def)
  then have "file_changes ?ctx = file_changes read_only_ctx" by (rule read_only_session_changes_nothing [OF _ ro])
  moreover have "file_changes read_only_ctx = []" by (simp add: file_changes_def read_only_ctx_def sample_facts del: filter_trace)
  ultimately show ?thesis using c by metis
qed

text \<open>
  C40. The operations the responder announces to the host are exactly those it carries out,
  except that SetDevicePropValue is announced and refused and GetObjectReferences is carried out
  without being announced.\<close>

theorem announced_operations_dispatched:
  "operation code \<noteq> None \<longleftrightarrow> (code \<in> set supported_op \<and> code \<noteq> 0x1016) \<or> code = 0x9810"
  by (simp add: operation_def supported_op_def)

end
