(* ===== verification/Mtp_Config_Props.thy ===== *)
theory Mtp_Config_Props
  imports Mtp_Config
begin

text \<open>
  Lines of the configuration file: a command and quoted values are read back as written.
\<close>

section \<open>Reading quoted values\<close>

definition plain :: "string \<Rightarrow> bool" where
  "plain s \<longleftrightarrow> (\<forall>c \<in> set s. \<not> is_end_line c \<and> c \<noteq> CHR 0x22)"

definition quoted :: "string \<Rightarrow> string" where
  "quoted v = CHR 0x22 # v @ [CHR 0x22]"

text \<open>The end of a line: the values, each after a space, and the line feed.\<close>

definition values_text :: "string list \<Rightarrow> string" where
  "values_text vs = concat (map (\<lambda>v. CHR '' '' # quoted v) vs) @ [CHR 0x0A]"

definition config_line :: "string \<Rightarrow> string list \<Rightarrow> string" where
  "config_line cmd vs = cmd @ values_text vs"

lemma values_text_simps [simp]:
  "values_text [] = [CHR 0x0A]" "values_text (v # vs) = CHR '' '' # quoted v @ values_text vs"
  by (simp_all add: values_text_def)

lemma plain_Cons: "plain (c # s) \<longleftrightarrow> \<not> is_end_line c \<and> c \<noteq> CHR 0x22 \<and> plain s"
  by (auto simp: plain_def)

lemma copy_stops: "copy_loop i False (values_text vs) = ([], 0)"
  by (cases vs) (simp_all add: is_end_line_def is_blank_def)

lemma copy_quoted:
  "plain v \<Longrightarrow> i + length v < 511 \<Longrightarrow> copy_loop i True (v @ CHR 0x22 # rest) = (case copy_loop (i + length v) False rest of (s, k) \<Rightarrow> (v @ s, length v + 1 + k))"
proof (induction v arbitrary: i)
  case Nil
  then show ?case by (simp add: is_end_line_def)
next
  case (Cons c v)
  then show ?case using Cons.IH [of "i + 1"] by (simp add: plain_Cons split: prod.split)
qed

lemma copy_word:
  "\<forall>c \<in> set w. \<not> is_end_line c \<and> \<not> is_blank c \<and> c \<noteq> CHR 0x22 \<Longrightarrow> i + length w \<le> 511 \<Longrightarrow> copy_loop i False (w @ values_text vs) = (w, length w)"
proof (induction w arbitrary: i)
  case (Cons c w)
  then show ?case using Cons.IH [of "i + 1"] by simp
qed (simp add: copy_stops)

lemma copy_value:
  assumes "drop offs line = quoted v @ values_text vs" "plain v" "length v < 511"
  shows "copy_param line offs = (v, offs + (length v + 2))"
proof -
  have "copy_loop 0 False (quoted v @ values_text vs) = (v, length v + 2)"
    using copy_quoted [of v 0 "values_text vs"] assms(2,3) copy_stops [of "length v" vs]
    by (simp add: quoted_def is_end_line_def is_blank_def)
  then show ?thesis by (simp add: copy_param_def assms(1))
qed

lemma next_value:
  assumes "drop offs line = values_text (v # vs)"
  shows "get_next_word line offs = offs + 1" "drop (offs + 1) line = quoted v @ values_text vs"
    "char_at line (offs + 1) = CHR 0x22"
proof -
  show "get_next_word line offs = offs + 1"
    by (simp add: get_next_word_def assms quoted_def is_end_line_def)
  show d: "drop (offs + 1) line = quoted v @ values_text vs"
    using arg_cong [OF assms, of "drop 1"] by (simp add: add.commute)
  then have "offs + 1 < length line" by (metis Nil_is_append_conv drop_eq_Nil linorder_not_le list.distinct(1) quoted_def)
  then show "char_at line (offs + 1) = CHR 0x22"
    using arg_cong [OF d, of hd] by (simp add: char_at_def hd_drop_conv_nth quoted_def)
qed

lemma skip_values:
  assumes "drop offs line = quoted v @ values_text vs" "\<forall>u \<in> set (v # vs). plain u \<and> length u < 511" "k \<le> length vs"
  shows "\<exists>o' us. skip_params line k offs = Some o' \<and> drop o' line = quoted ((v # vs) ! k) @ values_text us"
  using assms
proof (induction k arbitrary: offs v vs)
  case (Suc k)
  then obtain u us where vs: "vs = u # us" by (cases vs) simp_all
  have c: "copy_param line offs = (v, offs + (length v + 2))" by (rule copy_value [OF Suc(2)]) (use Suc(3) in simp_all)
  have d: "drop (offs + (length v + 2)) line = values_text (u # us)"
    using arg_cong [OF Suc(2), of "drop (length v + 2)"] by (simp add: quoted_def vs add.commute)
  note n = next_value [OF d]
  obtain o' ws where "skip_params line k (offs + (length v + 2) + 1) = Some o'" "drop o' line = quoted ((u # us) ! k) @ values_text ws"
    using Suc.IH [OF n(2)] Suc(3,4) vs by auto
  then show ?case using c n vs by auto
qed auto

text \<open>
  C27. A line of the configuration file, a command and any number of quoted values, is read back
  as it was written, as long as no part has a quote, a line end or a number sign and none is longer than
  510 characters.\<close>

theorem config_line_round_trip:
  assumes "cmd \<noteq> []" "\<forall>c \<in> set cmd. \<not> is_end_line c \<and> \<not> is_blank c \<and> c \<noteq> CHR 0x22" "length cmd < 511"
    and "\<forall>v \<in> set vs. plain v \<and> length v < 511"
  shows "extract_cmd (config_line cmd vs) = cmd \<and> (\<forall>k < length vs. get_param (config_line cmd vs) (k + 1) = Some (vs ! k))"
proof -
  obtain c cs where cmd: "cmd = c # cs" using assms(1) by (cases cmd) simp_all
  have start: "get_next_word (config_line cmd vs) 0 = 0"
    using assms(2) by (simp add: get_next_word_def config_line_def cmd is_blank_def)
  have "takeWhile (\<lambda>c. \<not> is_end_line c \<and> \<not> is_blank c) (cmd @ values_text vs) = cmd"
    using assms(2) by (subst takeWhile_append2) (cases vs; simp add: is_end_line_def is_blank_def)+
  then have e: "extract_cmd (config_line cmd vs) = cmd" using start assms(3) by (simp add: extract_cmd_def config_line_def)
  have word: "copy_param (config_line cmd vs) 0 = (cmd, length cmd)"
    using copy_word [OF assms(2), of 0 vs] assms(3) by (simp add: copy_param_def config_line_def)
  have "get_param (config_line cmd vs) (k + 1) = Some (vs ! k)" if k: "k < length vs" for k
  proof -
    obtain v us where vs: "vs = v # us" using k by (cases vs) auto
    have d: "drop (length cmd) (config_line cmd vs) = values_text (v # us)" by (simp add: config_line_def vs)
    note n = next_value [OF d]
    obtain o' ws where o: "skip_params (config_line cmd vs) k (length cmd + 1) = Some o'"
      "drop o' (config_line cmd vs) = quoted (vs ! k) @ values_text ws"
      using skip_values [OF n(2), of k] assms(4) k vs by auto
    have "copy_param (config_line cmd vs) o' = (vs ! k, o' + (length (vs ! k) + 2))"
      by (rule copy_value [OF o(2)]) (use assms(4) k in auto)
    then show ?thesis using word n o(1) start by (simp add: get_param_def get_param_offset_def)
  qed
  then show ?thesis using e by blast
qed

theorem config_line_round_trip_witness:
  "get_param (config_line ''storage'' [''/data/media/0'', ''NOOK Internal Storage'', ''rw'']) 2 = Some ''NOOK Internal Storage''"
proof -
  have "extract_cmd (config_line ''storage'' [''/data/media/0'', ''NOOK Internal Storage'', ''rw'']) = ''storage''
    \<and> (\<forall>k < length [''/data/media/0'', ''NOOK Internal Storage'', ''rw'']. get_param (config_line ''storage'' [''/data/media/0'', ''NOOK Internal Storage'', ''rw'']) (k + 1)
         = Some ([''/data/media/0'', ''NOOK Internal Storage'', ''rw''] ! k))"
    by (rule config_line_round_trip) (simp_all add: plain_def is_end_line_def is_blank_def)
  then show ?thesis by (auto simp: numeral_2_eq_2 dest: spec [of _ 1])
qed

end
