(* ===== verification/Mtp_Gadget.thy ===== *)
theory Mtp_Gadget
  imports Mtp_Config Mtp_Requests
begin

text \<open>
  The USB gadget of the responder, \<^verbatim>\<open>umtprd/src/usb_gadget.c\<close>: the descriptors handed to the
  kernel, the requests on the control endpoint, the two event loops, and setting up and
  taking down the device. The kernel headers give the sizes and numbers of the descriptors; structures are
  packed and the machine is little-endian. Built as configured: full and high speed.
\<close>

section \<open>Descriptors\<close>

definition fill_config_descriptor :: "nat \<Rightarrow> bool \<Rightarrow> bytes" where
  "fill_config_descriptor total_size hs =
     [9, 2] @ le_bytes 2 (of_nat (9 + total_size) :: u16) @ [1, 1, if hs then 4 else 5, 0x80, 1]"

definition fill_dev_descriptor :: "mtp_usb_cfg \<Rightarrow> bytes" where
  "fill_dev_descriptor cfg =
     [18, 1, 0, 0, usb_class cfg, usb_subclass cfg, usb_protocol cfg, 0] @ le_bytes 2 (usb_vendor_id cfg) @ le_bytes 2 (usb_product_id cfg)
     @ le_bytes 2 (usb_dev_version cfg) @ [1, 2, 3, 1]"

definition fill_if_descriptor :: "mtp_usb_cfg \<Rightarrow> bytes" where
  "fill_if_descriptor cfg =
     [9, 4, 0, 0, 3, usb_class cfg, usb_subclass cfg, usb_protocol cfg, if usb_functionfs_mode cfg \<noteq> 0 then 1 else 6]"

abbreviation (input) EP_INT_MODE :: u32 where "EP_INT_MODE \<equiv> 0"
abbreviation (input) EP_BULK_MODE :: u32 where "EP_BULK_MODE \<equiv> 1"
abbreviation (input) EP_IN_DIR :: u32 where "EP_IN_DIR \<equiv> 0"
abbreviation (input) EP_OUT_DIR :: u32 where "EP_OUT_DIR \<equiv> 2"
abbreviation (input) EP_HS_MODE :: u32 where "EP_HS_MODE \<equiv> 4"
abbreviation (input) EP_SS_MODE :: u32 where "EP_SS_MODE \<equiv> 8"

definition fill_ep_descriptor :: "u8 \<Rightarrow> u32 \<Rightarrow> bytes" where
  "fill_ep_descriptor index flags =
     [7, 5, (if flags AND EP_OUT_DIR \<noteq> 0 then 0 else 0x80) OR index]
     @ (if flags AND EP_BULK_MODE \<noteq> 0 then
          2 # le_bytes 2 (if flags AND EP_SS_MODE \<noteq> 0 then 1024 else if flags AND EP_HS_MODE \<noteq> 0 then 512 else 64 :: u16) @ [0]
        else 3 # le_bytes 2 (28 :: u16) @ [6])"

record EndPointsDesc =
  if_desc :: bytes
  ep_desc_in :: bytes
  ep_desc_out :: bytes
  ep_desc_int_in :: bytes

definition end_points :: "mtp_usb_cfg \<Rightarrow> u32 \<Rightarrow> EndPointsDesc" where
  "end_points cfg speed = \<lparr>if_desc = fill_if_descriptor cfg,
     ep_desc_in = fill_ep_descriptor 1 (EP_BULK_MODE OR EP_IN_DIR OR speed),
     ep_desc_out = fill_ep_descriptor 2 (EP_BULK_MODE OR EP_OUT_DIR OR speed),
     ep_desc_int_in = fill_ep_descriptor 3 (EP_INT_MODE OR EP_IN_DIR OR speed)\<rparr>"

definition end_points_bytes :: "EndPointsDesc \<Rightarrow> bytes" where
  "end_points_bytes d = if_desc d @ ep_desc_in d @ ep_desc_out d @ ep_desc_int_in d"

text \<open>What GadgetFS gets, and what FunctionFS gets.\<close>

record gadget_cfg =
  cfg_fs :: bytes
  cfg_hs :: bytes
  eps_fs :: EndPointsDesc
  eps_hs :: EndPointsDesc
  dev_desc :: bytes

definition make_gadget_cfg :: "mtp_usb_cfg \<Rightarrow> gadget_cfg" where
  "make_gadget_cfg cfg = \<lparr>cfg_fs = fill_config_descriptor (9 + 7 * 3) False, cfg_hs = fill_config_descriptor (9 + 7 * 3) True,
     eps_fs = end_points cfg 0, eps_hs = end_points cfg EP_HS_MODE, dev_desc = fill_dev_descriptor cfg\<rparr>"

definition gadget_cfg_bytes :: "gadget_cfg \<Rightarrow> bytes" where
  "gadget_cfg_bytes c = le_bytes 4 (0 :: u32) @ cfg_fs c @ end_points_bytes (eps_fs c) @ cfg_hs c @ end_points_bytes (eps_hs c) @ dev_desc c"

definition usb_ffs_cfg_bytes :: "EndPointsDesc \<Rightarrow> EndPointsDesc \<Rightarrow> bytes" where
  "usb_ffs_cfg_bytes fs hs =
     le_bytes 4 (3 :: u32) @ le_bytes 4 (80 :: u32) @ le_bytes 4 (1 OR 2 :: u32) @ le_bytes 4 (1 + 3 :: u32) @ le_bytes 4 (1 + 3 :: u32)
     @ end_points_bytes fs @ end_points_bytes hs"

text \<open>
  The interface name for FunctionFS. The name is copied into 128 bytes on the stack; nothing
  when it does not fit.
\<close>

definition ffs_strings_bytes :: "bytes \<Rightarrow> bytes option" where
  "ffs_strings_bytes name =
     (if length name + 1 > 128 then None
      else Some (le_bytes 4 (2 :: u32) @ le_bytes 4 (of_nat (16 + 2 + length name + 1) :: u32) @ le_bytes 4 (1 :: u32) @ le_bytes 4 (1 :: u32)
        @ le_bytes 2 (0x0409 :: u16) @ name @ [0]))"

section \<open>State\<close>

datatype gadget_effect =
    OpenDev bytes
  | CloseDev int
  | DevWrite int bytes
  | Ep0Write bytes
  | Ep0Read
  | ClearHalt int
  | SelectWait "int option"
  | StartThread bool
  | SignalThread
  | CancelThread
  | JoinThread

record usb_gadget =
  usb_device :: int
  usb_config :: "gadget_cfg option"
  usb_ffs_config :: "(EndPointsDesc \<times> EndPointsDesc) option"
  ep_config :: "bytes list"
  ep_handles :: "int list"
  ep_path :: "bytes list"
  gadget_stop :: bool
  stringtab :: "(int \<times> bytes option) list"
  gadget_wait :: int
  thread_not_started :: bool
  gadget_trace :: "gadget_effect list"

text \<open>What the system answers: descriptors of \<open>open\<close>, results of \<open>write\<close>, of \<open>pthread_create\<close> and of locking.\<close>

record gadget_env =
  ge_open :: "bytes \<Rightarrow> int"
  ge_write :: "int \<Rightarrow> bytes \<Rightarrow> int"
  ge_thread :: bool
  ge_lock :: bool
  ge_mem :: "nat \<Rightarrow> bool"
  ge_string_mem :: "int \<Rightarrow> bool"

definition geff :: "gadget_effect \<Rightarrow> usb_gadget \<Rightarrow> usb_gadget" where
  "geff x g = g\<lparr>gadget_trace := gadget_trace g @ [x]\<rparr>"

abbreviation (input) EP_DESCRIPTOR_IN :: nat where "EP_DESCRIPTOR_IN \<equiv> 0"
abbreviation (input) EP_DESCRIPTOR_OUT :: nat where "EP_DESCRIPTOR_OUT \<equiv> 1"
abbreviation (input) EP_DESCRIPTOR_INT_IN :: nat where "EP_DESCRIPTOR_INT_IN \<equiv> 2"

definition is_usb_up :: "usb_gadget \<Rightarrow> bool" where
  "is_usb_up g \<longleftrightarrow> \<not> gadget_stop g"

definition read_usb :: "(int \<Rightarrow> int \<Rightarrow> int \<times> bytes) \<Rightarrow> int \<Rightarrow> usb_gadget \<Rightarrow> int \<times> bytes" where
  "read_usb read_fd maxsize g =
     (if ep_handles g ! EP_DESCRIPTOR_OUT \<ge> 0 \<and> maxsize \<noteq> 0 then read_fd (ep_handles g ! EP_DESCRIPTOR_OUT) maxsize else (-1, []))"

definition write_usb :: "gadget_env \<Rightarrow> bool \<Rightarrow> nat \<Rightarrow> bytes \<Rightarrow> usb_gadget \<Rightarrow> int \<times> usb_gadget" where
  "write_usb env cancelled channel buf g =
     (if channel < 3 \<and> ep_handles g ! channel \<ge> 0 \<and> \<not> cancelled \<and> is_usb_up g
      then (ge_write env (ep_handles g ! channel) buf, geff (DevWrite (ep_handles g ! channel) buf) g)
      else (-1, g))"

section \<open>Endpoints\<close>

text \<open>Both copies in the endpoint configuration are the high-speed descriptor.\<close>

definition endpoint_desc :: "nat \<Rightarrow> usb_gadget \<Rightarrow> bytes" where
  "endpoint_desc index g =
     (let d = (case usb_ffs_config g of Some (_, hs) \<Rightarrow> hs | None \<Rightarrow> eps_hs (the (usb_config g)))
      in if index = EP_DESCRIPTOR_IN then ep_desc_in d else if index = EP_DESCRIPTOR_OUT then ep_desc_out d else ep_desc_int_in d)"

definition init_ep :: "gadget_env \<Rightarrow> nat \<Rightarrow> bool \<Rightarrow> usb_gadget \<Rightarrow> int \<times> usb_gadget" where
  "init_ep env index ffs_mode g =
     (let fd = ge_open env (ep_path g ! index); g = geff (OpenDev (ep_path g ! index)) g in
      if fd < 0 then (-1, g)
      else
        let d = endpoint_desc index g; c = le_bytes 4 (1 :: u32) @ d @ d;
            g = g\<lparr>ep_handles := (ep_handles g)[index := fd], ep_config := (ep_config g)[index := c]\<rparr>
        in if ffs_mode then (fd, g)
           else let g = geff (DevWrite fd c) g in
                if ge_write env fd c \<noteq> 18 then (-1, geff (CloseDev fd) g) else (fd, g))"

definition init_eps :: "gadget_env \<Rightarrow> bool \<Rightarrow> usb_gadget \<Rightarrow> bool \<times> usb_gadget" where
  "init_eps env ffs_mode g =
     (case init_ep env EP_DESCRIPTOR_IN ffs_mode g of (r, g) \<Rightarrow>
        if r < 0 then (False, g)
        else case init_ep env EP_DESCRIPTOR_OUT ffs_mode g of (r, g) \<Rightarrow>
          if r < 0 then (False, g)
          else case init_ep env EP_DESCRIPTOR_INT_IN ffs_mode g of (r, g) \<Rightarrow> (\<not> r < 0, g))"

text \<open>The endpoints are set up once; then the thread for the packets is started unless it runs.\<close>

definition start_io :: "gadget_env \<Rightarrow> bool \<Rightarrow> usb_gadget \<Rightarrow> usb_gadget" where
  "start_io env ffs_mode g =
     (case (if ep_handles g ! EP_DESCRIPTOR_IN \<le> 0 then init_eps env ffs_mode g else (True, g)) of (ok, g) \<Rightarrow>
        if ok then
          let g = g\<lparr>gadget_stop := False\<rparr> in
          if thread_not_started g then geff (StartThread (ge_thread env)) g\<lparr>thread_not_started := \<not> ge_thread env\<rparr> else g
        else g)"

section \<open>Requests on the control endpoint\<close>

record usb_ctrlrequest =
  bRequestType :: u8
  bRequest :: u8
  wValue :: u16

definition stall :: "usb_ctrlrequest \<Rightarrow> usb_gadget \<Rightarrow> usb_gadget" where
  "stall s g = geff (if bRequestType s AND 0x80 \<noteq> 0 then Ep0Read else Ep0Write []) g"

text \<open>A reply; a failing write is followed by a stall.\<close>

definition ep0_reply :: "gadget_env \<Rightarrow> usb_ctrlrequest \<Rightarrow> bytes \<Rightarrow> usb_gadget \<Rightarrow> usb_gadget" where
  "ep0_reply env s bs g =
     (let g' = geff (Ep0Write bs) g in if ge_write env (usb_device g) bs < 0 then stall s g' else g')"

definition cancel_transfer :: "gadget_env \<Rightarrow> usb_gadget \<times> mtp_ctx \<Rightarrow> usb_gadget \<times> mtp_ctx" where
  "cancel_transfer env st =
     (case st of (g, ctx) \<Rightarrow>
        if ge_lock env then
          if transferring_file_data ctx then (geff SignalThread g, ctx\<lparr>cancel_req := 2\<rparr>) else (g, ctx\<lparr>cancel_req := 0\<rparr>)
        else (g, ctx))"

text \<open>The strings up to the first slot without one.\<close>

definition gadget_strings :: "usb_gadget \<Rightarrow> (int \<times> bytes) list" where
  "gadget_strings g = map (\<lambda>(i, s). (i, the s)) (takeWhile (\<lambda>(_, s). s \<noteq> None) (stringtab g))"

definition device_status :: "gadget_env \<Rightarrow> usb_ctrlrequest \<Rightarrow> usb_gadget \<times> mtp_ctx \<Rightarrow> usb_gadget \<times> mtp_ctx" where
  "device_status env s st =
     (case st of (g, ctx) \<Rightarrow>
        if cancel_req ctx \<noteq> 2 then
          (ep0_reply env s (le_bytes 2 (4 :: u16) @ le_bytes 2 (0x2001 :: u16)) g,
           if transferring_file_data ctx then ctx else ctx\<lparr>cancel_req := 0\<rparr>)
        else
          (ep0_reply env s (le_bytes 2 (4 :: u16) @ le_bytes 2 (0x2019 :: u16)) g,
           if ge_lock env then ctx\<lparr>cancel_req := 1\<rparr> else ctx))"

definition handle_setup_request :: "gadget_env \<Rightarrow> usb_ctrlrequest \<Rightarrow> usb_gadget \<times> mtp_ctx \<Rightarrow> usb_gadget \<times> mtp_ctx" where
  "handle_setup_request env s st =
     (case st of (g, ctx) \<Rightarrow>
        if bRequest s = 6 then
          (if bRequestType s = 0x80 \<and> drop_bit 8 (wValue s) = 3 then
             (case usb_gadget_get_string 0x0409 (gadget_strings g) (uint (wValue s AND 0xFF)) of
                None \<Rightarrow> stall s g
              | Some bs \<Rightarrow> ep0_reply env s bs g)
           else stall s g, ctx)
        else if bRequest s = 9 then
          (if bRequestType s \<noteq> 0 then stall s g
           else geff Ep0Read (if wValue s = 1 then start_io env False g
                              else if wValue s = 0 then g\<lparr>gadget_stop := True\<rparr> else g), ctx)
        else if bRequest s = 10 then (ep0_reply env s [0] g, ctx)
        else if bRequest s = 11 then
          (geff Ep0Read (fold (\<lambda>i. geff (ClearHalt (ep_handles g ! i))) [EP_DESCRIPTOR_IN, EP_DESCRIPTOR_OUT, EP_DESCRIPTOR_INT_IN] g), ctx)
        else if bRequest s = 0x64 then cancel_transfer env (g, ctx)
        else if bRequest s = 0x66 then (geff Ep0Read g, ctx)
        else if bRequest s = 0x67 then device_status env s (g, ctx)
        else (stall s g, ctx))"

section \<open>Event loops\<close>

text \<open>
  What one round of a loop receives: the end of \<^verbatim>\<open>select\<close> (which stores the remaining
  seconds), a failing read, or events (FunctionFS delivers one per read). \<open>SelTimeout\<close> leaves no
  time. An event \<open>None\<close> is the thread of the packets ending by itself, which stops the loop: in
  \<^verbatim>\<open>io_thread\<close>, a failing packet sets \<^verbatim>\<open>stop\<close>. Time-outs only happen while no such thread runs.
\<close>

datatype 'e select_round = SelTimeout | SelError bool int | SelReadError | SelEvents "'e option list"

datatype gadgetfs_event = EpConnect | EpDisconnect | EpSetup usb_ctrlrequest | EpNop | EpSuspend bool | EpUnknown

text \<open>The state of a loop: the gadget, the responder and the seconds to wait.\<close>

type_synonym loop_state = "usb_gadget \<times> mtp_ctx \<times> int"

definition end_thread :: "gadget_effect list \<Rightarrow> usb_gadget \<Rightarrow> usb_gadget" where
  "end_thread xs g = (if thread_not_started g then g else fold geff xs g\<lparr>thread_not_started := True\<rparr>)"

text \<open>
  A suspended bus cancels a running transfer. \<open>ends\<close>: the transfer ends while the loop waits for
  250 milliseconds; else the thread gets a second signal.
\<close>

definition on_suspend :: "gadget_env \<Rightarrow> bool \<Rightarrow> usb_gadget \<times> mtp_ctx \<Rightarrow> usb_gadget \<times> mtp_ctx" where
  "on_suspend env ends st =
     (case st of (g, ctx) \<Rightarrow>
        if transferring_file_data ctx then
          (case cancel_transfer env (g, ctx) of (g, ctx) \<Rightarrow>
             if cancel_req ctx = 0 then (g, ctx)
             else if ends then (g, ctx\<lparr>cancel_req := 0, transferring_file_data := False\<rparr>)
             else (geff SignalThread g, ctx))
        else (g, ctx))"

definition gadgetfs_step :: "gadget_env \<Rightarrow> gadgetfs_event \<Rightarrow> loop_state \<Rightarrow> loop_state" where
  "gadgetfs_step env e st =
     (case st of (g, ctx, t) \<Rightarrow>
        (case e of
           EpDisconnect \<Rightarrow> (end_thread [CancelThread, JoinThread] (g\<lparr>gadget_stop := True\<rparr>), ctx, 1)
         | EpSetup s \<Rightarrow> (case handle_setup_request env s (g, ctx) of (g, ctx) \<Rightarrow> (g, ctx, t))
         | EpSuspend ends \<Rightarrow> (case on_suspend env ends (g, ctx) of (g, ctx) \<Rightarrow> (g, ctx, t))
         | _ \<Rightarrow> (g, ctx, t)))"

definition loop_event :: "('e \<Rightarrow> loop_state \<Rightarrow> loop_state) \<Rightarrow> 'e option \<Rightarrow> loop_state \<Rightarrow> loop_state" where
  "loop_event step eo st =
     (case eo of Some e \<Rightarrow> step e st
      | None \<Rightarrow> (case st of (g, ctx, t) \<Rightarrow> (if thread_not_started g then g else g\<lparr>gadget_stop := True\<rparr>, ctx, t)))"

text \<open>Both loops. The result is 0 after a time out, else 1; nothing while the loop still waits.\<close>

fun ep0_loop :: "('e \<Rightarrow> loop_state \<Rightarrow> loop_state) \<Rightarrow> 'e select_round list \<Rightarrow> loop_state \<Rightarrow> int option \<times> usb_gadget \<times> mtp_ctx" where
  "ep0_loop step rounds (g, ctx, t) =
     (if gadget_stop g then (Some 1, g, ctx)
      else case rounds of
        [] \<Rightarrow> (None, g, ctx)
      | r # rounds \<Rightarrow>
          let g = geff (SelectWait (if t \<noteq> 0 then Some t else None)) g in
          (case r of
             SelTimeout \<Rightarrow> if gadget_wait g \<noteq> 0 then ep0_loop step rounds (g, ctx, 0) else (Some 0, g, ctx)
           | SelError shutdown_requested left \<Rightarrow>
               if shutdown_requested then (Some 1, g\<lparr>gadget_stop := True\<rparr>, ctx)
               else ep0_loop step rounds (g, ctx, if t \<noteq> 0 then left else 0)
           | SelReadError \<Rightarrow> (Some 1, g, ctx)
           | SelEvents es \<Rightarrow> ep0_loop step rounds (fold (loop_event step) es (g, ctx, 0))))"

definition handle_ep0 :: "gadget_env \<Rightarrow> gadgetfs_event select_round list \<Rightarrow> usb_gadget \<times> mtp_ctx \<Rightarrow> int option \<times> usb_gadget \<times> mtp_ctx" where
  "handle_ep0 env rounds st = (case st of (g, ctx) \<Rightarrow> ep0_loop (gadgetfs_step env) rounds (g, ctx, 4))"

datatype functionfs_event = FfsEnable | FfsDisable | FfsSetup usb_ctrlrequest | FfsBind | FfsUnbind | FfsSuspend | FfsResume | FfsUnknown

text \<open>The connection is over: the thread is stopped, the database is freed, the endpoints stay open.\<close>

definition on_disable :: "gadget_env \<Rightarrow> usb_gadget \<times> mtp_ctx \<Rightarrow> usb_gadget \<times> mtp_ctx" where
  "on_disable env st =
     (case st of (g, ctx) \<Rightarrow>
        let g = g\<lparr>gadget_stop := True\<rparr>;
            cancel = \<not> thread_not_started g \<and> transferring_file_data ctx \<and> ge_lock env;
            g = (end_thread ((if cancel then [SignalThread] else []) @ [JoinThread]) g)\<lparr>gadget_stop := False\<rparr>;
            ctx = (if cancel then ctx\<lparr>cancel_req := 2\<rparr> else ctx)
        in (g, if ge_lock env then end_connection ctx else ctx))"

definition functionfs_step :: "gadget_env \<Rightarrow> functionfs_event \<Rightarrow> loop_state \<Rightarrow> loop_state" where
  "functionfs_step env e st =
     (case st of (g, ctx, t) \<Rightarrow>
        (case e of
           FfsEnable \<Rightarrow> (start_io env True g, ctx, t)
         | FfsDisable \<Rightarrow> (case on_disable env (g, ctx) of (g, ctx) \<Rightarrow> (g, ctx, 0))
         | FfsSetup s \<Rightarrow> (case handle_setup_request env s (g, ctx) of (g, ctx) \<Rightarrow> (g, ctx, t))
         | _ \<Rightarrow> (g, ctx, t)))"

definition handle_ffs_ep0 :: "gadget_env \<Rightarrow> functionfs_event select_round list \<Rightarrow> usb_gadget \<times> mtp_ctx \<Rightarrow> int option \<times> usb_gadget \<times> mtp_ctx" where
  "handle_ffs_ep0 env rounds st = (case st of (g, ctx) \<Rightarrow> ep0_loop (functionfs_step env) rounds (g, ctx, 40))"

section \<open>Setting up and taking down\<close>

abbreviation (input) MAX_USB_STRING :: nat where "MAX_USB_STRING \<equiv> 16"

definition add_usb_string :: "gadget_env \<Rightarrow> int \<Rightarrow> bytes option \<Rightarrow> usb_gadget \<Rightarrow> int \<times> usb_gadget" where
  "add_usb_string env sid str g =
     (case find (\<lambda>i. fst (stringtab g ! i) = 0) [0..<MAX_USB_STRING] of
        None \<Rightarrow> (-1, g)
      | Some i \<Rightarrow>
          if str \<noteq> None \<and> \<not> ge_string_mem env sid then (-2, g)
          else (int i, g\<lparr>stringtab := (stringtab g)[i := (sid, str)]\<rparr>))"

definition is_substring :: "bytes \<Rightarrow> bytes \<Rightarrow> bool" where
  "is_substring sub s \<longleftrightarrow> list_ex (\<lambda>i. take (length sub) (drop i s) = sub) [0..<Suc (length s)]"

text \<open>The device of the Android kernel, which carries all endpoints.\<close>

definition mtp_usb_mode :: "mtp_usb_cfg \<Rightarrow> bool" where
  "mtp_usb_mode cfg \<longleftrightarrow> is_substring (ascii ''mtp_usb'') (usb_device_path cfg) \<or> usb_functionfs_mode cfg = 2"

definition deinit_usb_mtp_gadget :: "usb_gadget option \<Rightarrow> mtp_ctx \<Rightarrow> gadget_effect list \<times> mtp_ctx" where
  "deinit_usb_mtp_gadget gd ctx =
     (case gd of
        None \<Rightarrow> ([], ctx\<lparr>wrbuffer := []\<rparr>)
      | Some g \<Rightarrow>
          if usb_device g \<ge> 0 \<and> mtp_usb_mode (usb_cfg ctx) then (gadget_trace g @ [CloseDev (usb_device g)], ctx)
          else
            (gadget_trace g @ map CloseDev (filter (\<lambda>fd. fd \<ge> 0) (ep_handles g))
               @ (if usb_device g \<ge> 0 then [CloseDev (usb_device g)] else [])
               @ (if thread_not_started g then [] else [CancelThread, JoinThread]), ctx\<lparr>wrbuffer := []\<rparr>))"

definition new_gadget :: "gadget_env \<Rightarrow> mtp_usb_cfg \<Rightarrow> usb_gadget" where
  "new_gadget env cfg =
     (let g = \<lparr>usb_device = -1, usb_config = None, usb_ffs_config = None, ep_config = replicate 3 (replicate 18 0), ep_handles = replicate 3 (-1),
               ep_path = [usb_endpoint_in cfg, usb_endpoint_out cfg, usb_endpoint_intin cfg], gadget_stop = False,
               stringtab = replicate MAX_USB_STRING (0, None), gadget_wait = wait_connection cfg, thread_not_started = True, gadget_trace = []\<rparr>
      in fold (\<lambda>(sid, s) g. snd (add_usb_string env sid s g))
           [(1, Some (usb_string_manufacturer cfg)), (2, Some (usb_string_product cfg)), (3, Some (usb_string_serial cfg)),
            (4, Some (ascii ''High speed configuration'')), (5, Some (ascii ''Low speed configuration'')),
            (6, Some (usb_string_interface cfg)), (7, None)] g)"

text \<open>
  The descriptors are written. The result says whether every write succeeded; nothing when the
  name of the interface overruns the stack.
\<close>

definition write_descriptors :: "gadget_env \<Rightarrow> mtp_usb_cfg \<Rightarrow> usb_gadget \<Rightarrow> (bool \<times> usb_gadget) option" where
  "write_descriptors env cfg g =
     (if usb_functionfs_mode cfg \<noteq> 0 then
        let fs = end_points cfg 0; hs = end_points cfg EP_HS_MODE; b = usb_ffs_cfg_bytes fs hs;
            g = geff (DevWrite (usb_device g) b) (g\<lparr>usb_ffs_config := Some (fs, hs)\<rparr>)
        in if ge_write env (usb_device g) b \<noteq> 80 then Some (False, g)
           else (case ffs_strings_bytes (usb_string_interface cfg) of
                   None \<Rightarrow> None
                 | Some s \<Rightarrow> Some (ge_write env (usb_device g) s = int (length s), geff (DevWrite (usb_device g) s) g))
      else
        let c = make_gadget_cfg cfg; b = gadget_cfg_bytes c; g = geff (DevWrite (usb_device g) b) (g\<lparr>usb_config := Some c\<rparr>)
        in Some (ge_write env (usb_device g) b = 100, g))"

text \<open>
  The allocations in order: the three buffers, the gadget, three endpoint configurations, the
  descriptors. The gadget is returned, or what a failed attempt did to the outside.
\<close>

definition init_usb_mtp_gadget :: "gadget_env \<Rightarrow> mtp_ctx \<Rightarrow> ((gadget_effect list + usb_gadget) \<times> mtp_ctx) option" where
  "init_usb_mtp_gadget env ctx =
     (let cfg = usb_cfg ctx; fail = (\<lambda>gd. map_prod Inl id (deinit_usb_mtp_gadget gd ctx)) in
      if \<not> list_all (ge_mem env) [0..<4] then Some (fail None)
      else
        let ctx = ctx\<lparr>wrbuffer := replicate (nat (usb_wr_buffer_max_size ctx)) 0\<rparr>; g = new_gadget env cfg in
        if \<not> list_all (ge_mem env) [4..<7] then Some (fail (Some g))
        else
          let fd = ge_open env (usb_device_path cfg); g = geff (OpenDev (usb_device_path cfg)) (g\<lparr>usb_device := fd\<rparr>) in
          if fd \<ge> 0 \<and> mtp_usb_mode cfg then Some (Inr (g\<lparr>ep_handles := replicate 3 fd\<rparr>), ctx)
          else if fd < 0 then Some (fail (Some g))
          else if \<not> ge_mem env 7 then Some (fail (Some g))
          else (case write_descriptors env cfg g of
                  None \<Rightarrow> None
                | Some (ok, g) \<Rightarrow> Some (if ok then (Inr g, ctx) else fail (Some g))))"

end
