(* ===== verification/Mtp_Gadget_Props.thy ===== *)
theory Mtp_Gadget_Props
  imports Mtp_Gadget Mtp_Transfer_Props
begin

text \<open>
  The descriptors parse as what they claim to be, every control request gets its answer, and
  the thread that is started is also stopped.
\<close>

section \<open>Descriptors\<close>

text \<open>The descriptors in a block, each as long as its first byte says.\<close>

fun split_descs :: "nat \<Rightarrow> bytes \<Rightarrow> bytes list option" where
  "split_descs fuel [] = Some []"
| "split_descs 0 (n # bs) = None"
| "split_descs (Suc fuel) (n # bs) =
     (if unat n < 2 \<or> length (n # bs) < unat n then None
      else map_option (\<lambda>ds. take (unat n) (n # bs) # ds) (split_descs fuel (drop (unat n) (n # bs))))"

definition config_block :: "bytes \<Rightarrow> EndPointsDesc \<Rightarrow> bytes" where
  "config_block c d = c @ end_points_bytes d"

definition packet_size_of :: "bytes \<Rightarrow> nat" where
  "packet_size_of d = unat (d ! 4) + 256 * unat (d ! 5)"

text \<open>
  A configuration: its own descriptor with the length of the whole block, one interface and three
  endpoints - bulk in, bulk out and interrupt in - with addresses of their own.
\<close>

definition good_config :: "nat \<Rightarrow> bytes \<Rightarrow> bool" where
  "good_config bulk_size b \<longleftrightarrow>
     (case split_descs (length b) b of
        Some [c, i, e1, e2, e3] \<Rightarrow>
          map (\<lambda>d. d ! 1) [c, i, e1, e2, e3] = [2, 4, 5, 5, 5] \<and> unat (c ! 2) + 256 * unat (c ! 3) = length b \<and> c ! 4 = 1 \<and> i ! 4 = 3
          \<and> map (\<lambda>d. d ! 2) [e1, e2, e3] = [0x81, 0x02, 0x83] \<and> map (\<lambda>d. d ! 3) [e1, e2, e3] = [2, 2, 3]
          \<and> map packet_size_of [e1, e2, e3] = [bulk_size, bulk_size, 28]
      | _ \<Rightarrow> False)"

lemma descriptor_values:
  "fill_config_descriptor (9 + 7 * 3) False = [9, 2, 39, 0, 1, 1, 5, 0x80, 1]" "fill_config_descriptor (9 + 7 * 3) True = [9, 2, 39, 0, 1, 1, 4, 0x80, 1]"
  "fill_ep_descriptor 1 (EP_BULK_MODE OR EP_IN_DIR OR 0) = [7, 5, 0x81, 2, 64, 0, 0]"
  "fill_ep_descriptor 2 (EP_BULK_MODE OR EP_OUT_DIR OR 0) = [7, 5, 2, 2, 64, 0, 0]"
  "fill_ep_descriptor 3 (EP_INT_MODE OR EP_IN_DIR OR 0) = [7, 5, 0x83, 3, 28, 0, 6]"
  "fill_ep_descriptor 1 (EP_BULK_MODE OR EP_IN_DIR OR EP_HS_MODE) = [7, 5, 0x81, 2, 0, 2, 0]"
  "fill_ep_descriptor 2 (EP_BULK_MODE OR EP_OUT_DIR OR EP_HS_MODE) = [7, 5, 2, 2, 0, 2, 0]"
  "fill_ep_descriptor 3 (EP_INT_MODE OR EP_IN_DIR OR EP_HS_MODE) = [7, 5, 0x83, 3, 28, 0, 6]"
  by code_simp+

definition whole_desc :: "bytes \<Rightarrow> bool" where
  "whole_desc d \<longleftrightarrow> d \<noteq> [] \<and> 2 \<le> unat (hd d) \<and> length d = unat (hd d)"

lemma split_concat: "\<forall>d \<in> set ds. whole_desc d \<Longrightarrow> length ds \<le> fuel \<Longrightarrow> split_descs fuel (concat ds) = Some ds"
proof (induction ds arbitrary: fuel)
  case (Cons d ds)
  obtain n t f where d: "d = n # t" "fuel = Suc f" using Cons(2,3) by (cases d; cases fuel) (auto simp: whole_desc_def)
  have w: "2 \<le> unat n" "length d = unat n" using Cons(2) d by (simp_all add: whole_desc_def)
  then have "take (unat n) (d @ concat ds) = d" "drop (unat n) (d @ concat ds) = concat ds" by simp_all
  then show ?case using Cons.IH [of f] Cons(2,3) w by (simp add: d)
qed (cases fuel; simp)

lemma good_block:
  assumes "c = [9, 2, 39, 0, 1, 1, x, 0x80, 1]" "s \<in> {0, 64}" "256 * unat h + unat s = k"
  shows "good_config k (config_block c \<lparr>if_desc = [9, 4, 0, 0, 3, c1, c2, c3, i], ep_desc_in = [7, 5, 0x81, 2, s, h, 0],
     ep_desc_out = [7, 5, 2, 2, s, h, 0], ep_desc_int_in = [7, 5, 0x83, 3, 28, 0, 6]\<rparr>)"
proof -
  have "split_descs 39 (config_block c \<lparr>if_desc = [9, 4, 0, 0, 3, c1, c2, c3, i], ep_desc_in = [7, 5, 0x81, 2, s, h, 0],
     ep_desc_out = [7, 5, 2, 2, s, h, 0], ep_desc_int_in = [7, 5, 0x83, 3, 28, 0, 6]\<rparr>)
    = Some [c, [9, 4, 0, 0, 3, c1, c2, c3, i], [7, 5, 0x81, 2, s, h, 0], [7, 5, 2, 2, s, h, 0], [7, 5, 0x83, 3, 28, 0, 6]]"
    using split_concat [of "[c, [9, 4, 0, 0, 3, c1, c2, c3, i], [7, 5, 0x81, 2, s, h, 0], [7, 5, 2, 2, s, h, 0], [7, 5, 0x83, 3, 28, 0, 6]]" 39]
    by (simp add: assms(1) whole_desc_def config_block_def end_points_bytes_def del: split_descs.simps)
  moreover have "length (config_block c \<lparr>if_desc = [9, 4, 0, 0, 3, c1, c2, c3, i], ep_desc_in = [7, 5, 0x81, 2, s, h, 0],
     ep_desc_out = [7, 5, 2, 2, s, h, 0], ep_desc_int_in = [7, 5, 0x83, 3, 28, 0, 6]\<rparr>) = 39"
    by (simp add: assms(1) config_block_def end_points_bytes_def)
  moreover have "unat (39 :: u8) = 39" "unat (28 :: u8) = 28" by simp_all
  ultimately show ?thesis using assms(1,3) by (simp add: good_config_def packet_size_of_def add.commute)
qed

text \<open>
  Whatever the configuration file says, the block written to GadgetFS has the size the driver
  expects and holds a full-speed and a high-speed configuration, each with one interface, two bulk endpoints of
  the packet size of its speed and one interrupt endpoint, and a device descriptor of 18 bytes.\<close>

theorem gadget_config_parses:
  "let c = make_gadget_cfg cfg in length (gadget_cfg_bytes c) = 100 \<and> good_config 64 (config_block (cfg_fs c) (eps_fs c))
     \<and> good_config 512 (config_block (cfg_hs c) (eps_hs c)) \<and> split_descs 1 (dev_desc c) = Some [dev_desc c] \<and> length (dev_desc c) = 18"
proof -
  have "whole_desc (fill_dev_descriptor cfg)"
    by (simp add: whole_desc_def fill_dev_descriptor_def le_bytes_def)
  then have d: "split_descs 1 (fill_dev_descriptor cfg) = Some [fill_dev_descriptor cfg]"
    using split_concat [of "[fill_dev_descriptor cfg]" 1] by (simp del: split_descs.simps)
  show ?thesis
    unfolding Let_def make_gadget_cfg_def gadget_cfg.select_convs end_points_def descriptor_values fill_if_descriptor_def
    by (intro conjI d good_block) (simp_all add: gadget_cfg_bytes_def end_points_bytes_def fill_dev_descriptor_def le_bytes_def)
qed

section \<open>Control requests\<close>

definition answers :: "usb_gadget \<Rightarrow> nat" where
  "answers g = length (filter (\<lambda>x. case x of Ep0Write _ \<Rightarrow> True | Ep0Read \<Rightarrow> True | _ \<Rightarrow> False) (gadget_trace g))"

lemma answers_geff [simp]:
  "answers (geff (Ep0Write bs) g) = Suc (answers g)" "answers (geff Ep0Read g) = Suc (answers g)"
  "answers (geff (OpenDev p) g) = answers g" "answers (geff (CloseDev fd) g) = answers g" "answers (geff (DevWrite fd bs) g) = answers g"
  "answers (geff (ClearHalt fd) g) = answers g" "answers (geff (StartThread b) g) = answers g" "answers (geff SignalThread g) = answers g"
  by (simp_all add: answers_def geff_def)

lemma answers_fields [simp]:
  "answers (ep_handles_update f1 g) = answers g" "answers (ep_config_update f2 g) = answers g"
  "answers (gadget_stop_update f3 g) = answers g" "answers (thread_not_started_update f4 g) = answers g"
  by (simp_all add: answers_def)

lemma answers_init_ep: "init_ep env i ffs g = (r, g') \<Longrightarrow> answers g' = answers g"
  by (auto simp: init_ep_def Let_def split: if_splits)

lemma answers_init_eps: "init_eps env ffs g = (ok, g') \<Longrightarrow> answers g' = answers g"
  by (auto simp: init_eps_def split: prod.splits if_splits dest!: answers_init_ep)

lemma answers_start_io: "answers (start_io env ffs g) = answers g"
  by (auto simp: start_io_def Let_def split: prod.split if_splits dest!: answers_init_eps)

lemma answers_reply: "\<forall>fd bs. ge_write env fd bs \<ge> 0 \<Longrightarrow> answers (ep0_reply env s bs g) = Suc (answers g)"
proof -
  assume "\<forall>fd bs. ge_write env fd bs \<ge> 0"
  then have "\<not> ge_write env (usb_device g) bs < 0" by (simp add: not_less)
  then show ?thesis by (simp add: ep0_reply_def Let_def)
qed

text \<open>
  Every request on the control endpoint is answered exactly once, with data, an
  acknowledgement or a stall, as long as writing to the device works; only the cancel request is left without
  an answer.\<close>

theorem setup_answered_once:
  assumes "\<forall>fd bs. ge_write env fd bs \<ge> 0" "handle_setup_request env s (g, ctx) = (g', ctx')"
  shows "answers g' = answers g + (if bRequest s = 0x64 then 0 else 1)"
  using assms(2) unfolding handle_setup_request_def device_status_def cancel_transfer_def
  by (auto simp: answers_reply [OF assms(1)] answers_start_io stall_def split: if_splits option.splits)

theorem setup_answered_once_witness:
  "\<exists>g' ctx'. handle_setup_request \<lparr>ge_open = \<lambda>_. -1, ge_write = \<lambda>_ bs. int (length bs), ge_thread = True, ge_lock = True, ge_mem = \<lambda>_. True, ge_string_mem = \<lambda>_. True\<rparr>
     \<lparr>bRequestType = 0x80, bRequest = 6, wValue = 0x0300\<rparr>
     (new_gadget \<lparr>ge_open = \<lambda>_. -1, ge_write = \<lambda>_ bs. int (length bs), ge_thread = True, ge_lock = True, ge_mem = \<lambda>_. True, ge_string_mem = \<lambda>_. True\<rparr> sample_cfg,
      sample_ctx init_fs_db) = (g', ctx') \<and> answers g' = answers (new_gadget \<lparr>ge_open = \<lambda>_. -1, ge_write = \<lambda>_ bs. int (length bs), ge_thread = True,
        ge_lock = True, ge_mem = \<lambda>_. True, ge_string_mem = \<lambda>_. True\<rparr> sample_cfg) + 1"
proof -
  let ?env = "\<lparr>ge_open = \<lambda>_. -1, ge_write = \<lambda>_ bs. int (length bs), ge_thread = True, ge_lock = True, ge_mem = \<lambda>_. True, ge_string_mem = \<lambda>_. True\<rparr>"
  let ?s = "\<lparr>bRequestType = 0x80, bRequest = 6, wValue = 0x0300\<rparr>"
  obtain g' ctx' where h: "handle_setup_request ?env ?s (new_gadget ?env sample_cfg, sample_ctx init_fs_db) = (g', ctx')" by (metis prod.exhaust)
  then show ?thesis using setup_answered_once [OF _ h] by simp
qed

section \<open>The thread\<close>

text \<open>Threads started and threads joined.\<close>

definition started :: "gadget_effect list \<Rightarrow> nat" where
  "started xs = length (filter (\<lambda>x. x = StartThread True) xs)"

definition joined :: "gadget_effect list \<Rightarrow> nat" where
  "joined xs = length (filter (\<lambda>x. x = JoinThread) xs)"

definition thread_count :: "usb_gadget \<Rightarrow> bool" where
  "thread_count g \<longleftrightarrow> started (gadget_trace g) = joined (gadget_trace g) + (if thread_not_started g then 0 else 1)"

lemma counts_append [simp]: "started (xs @ ys) = started xs + started ys" "joined (xs @ ys) = joined xs + joined ys"
  by (simp_all add: started_def joined_def)

lemma counts_Nil [simp]: "started [] = 0" "joined [] = 0"
  by (simp_all add: started_def joined_def)

lemma counts_Cons [simp]:
  "started (x # xs) = (if x = StartThread True then 1 else 0) + started xs" "joined (x # xs) = (if x = JoinThread then 1 else 0) + joined xs"
  by (simp_all add: started_def joined_def)

lemma thread_geff [simp]: "x \<noteq> StartThread True \<Longrightarrow> x \<noteq> JoinThread \<Longrightarrow> thread_count (geff x g) = thread_count g"
  by (auto simp: thread_count_def geff_def)

lemma thread_fields [simp]:
  "thread_count (ep_handles_update f1 g) = thread_count g" "thread_count (ep_config_update f2 g) = thread_count g"
  "thread_count (gadget_stop_update f3 g) = thread_count g"
  by (simp_all add: thread_count_def)

lemma same_thread [simp]:
  "thread_not_started (geff x g) = thread_not_started g"
  by (simp add: geff_def)

lemma thread_init_ep: "init_ep env i ffs g = (r, g') \<Longrightarrow> thread_count g' = thread_count g \<and> thread_not_started g' = thread_not_started g"
  by (auto simp: init_ep_def Let_def split: if_splits)

lemma thread_init_eps: "init_eps env ffs g = (ok, g') \<Longrightarrow> thread_count g' = thread_count g"
  by (auto simp: init_eps_def split: prod.splits if_splits dest!: thread_init_ep)

lemma thread_started: "thread_count g \<Longrightarrow> thread_not_started g \<Longrightarrow> thread_count (geff (StartThread b) g\<lparr>thread_not_started := \<not> b\<rparr>)"
  by (auto simp: thread_count_def geff_def)

lemma thread_start_io: "thread_count g \<Longrightarrow> thread_count (start_io env ffs g)"
  unfolding start_io_def Let_def
  by (auto split: prod.split if_splits intro: thread_started dest!: thread_init_eps)

lemma thread_reply: "thread_count (ep0_reply env s bs g) = thread_count g"
  by (simp add: ep0_reply_def stall_def Let_def)

lemma thread_setup: "handle_setup_request env s (g, ctx) = (g', ctx') \<Longrightarrow> thread_count g \<Longrightarrow> thread_count g'"
  unfolding handle_setup_request_def device_status_def cancel_transfer_def
  by (auto simp: thread_reply stall_def intro: thread_start_io split: if_splits option.splits)

lemma thread_end:
  assumes "started xs = 0" "joined xs = 1" "thread_count g"
  shows "thread_count (end_thread xs g)"
proof -
  have "gadget_trace (fold geff xs g) = gadget_trace g @ xs" by (induction xs arbitrary: g) (simp_all add: geff_def)
  then show ?thesis using assms by (simp add: end_thread_def thread_count_def)
qed

lemma thread_gadgetfs: "thread_count (fst st) \<Longrightarrow> thread_count (fst (gadgetfs_step env e st))"
  unfolding gadgetfs_step_def on_suspend_def cancel_transfer_def
  by (auto split: prod.splits gadgetfs_event.splits if_splits intro: thread_end dest: thread_setup)

lemma thread_functionfs: "thread_count (fst st) \<Longrightarrow> thread_count (fst (functionfs_step env e st))"
  unfolding functionfs_step_def on_disable_def Let_def
  by (auto split: prod.splits functionfs_event.splits if_splits intro: thread_end thread_start_io dest: thread_setup)

lemma thread_loop:
  assumes "\<And>e st. thread_count (fst st) \<Longrightarrow> thread_count (fst (step e st))"
  shows "ep0_loop step rounds (g, ctx, t) = (r, g', ctx') \<Longrightarrow> thread_count g \<Longrightarrow> thread_count g'"
proof (induction rounds arbitrary: g ctx t)
  case (Cons x rounds)
  have one: "thread_count (fst (loop_event step eo st))" if "thread_count (fst st)" for eo st
    using that assms by (auto simp: loop_event_def split: option.split prod.splits)
  have es: "thread_count (fst (fold (loop_event step) es st))" if "thread_count (fst st)" for es st
    using that by (induction es arbitrary: st) (simp_all add: one)
  show ?case
  proof (cases x)
    case (SelEvents es)
    obtain g2 c2 t2 where f: "fold (loop_event step) es (geff (SelectWait (if t \<noteq> 0 then Some t else None)) g, ctx, 0) = (g2, c2, t2)" by (metis prod.exhaust)
    have "thread_count g2" using es [of "(geff (SelectWait (if t \<noteq> 0 then Some t else None)) g, ctx, 0)" es] Cons(3) by (simp add: f)
    then show ?thesis using Cons.IH [of g2 c2 t2] Cons(2,3) SelEvents f by (simp add: Let_def split: if_split_asm)
  qed (use Cons in \<open>auto simp: Let_def split: if_split_asm\<close>)
qed (simp split: if_split_asm)

lemma add_string_fields [simp]:
  "gadget_trace (snd (add_usb_string env sid s g)) = gadget_trace g"
  "thread_not_started (snd (add_usb_string env sid s g)) = thread_not_started g"
  "ep_handles (snd (add_usb_string env sid s g)) = ep_handles g"
  by (auto simp: add_usb_string_def split: option.split)

lemma thread_new: "thread_count (new_gadget env cfg)"
  by (simp add: new_gadget_def thread_count_def Let_def)

lemma thread_cfg [simp]:
  "thread_count (usb_device_update f1 g) = thread_count g" "thread_count (usb_config_update f2 g) = thread_count g"
  "thread_count (usb_ffs_config_update f3 g) = thread_count g"
  by (simp_all add: thread_count_def)

lemma thread_descriptors: "write_descriptors env cfg g = Some (ok, g') \<Longrightarrow> thread_count g' = thread_count g"
  unfolding write_descriptors_def Let_def by (auto split: if_splits option.splits)

lemma thread_init: "init_usb_mtp_gadget env ctx = Some (Inr g, ctx') \<Longrightarrow> thread_count g"
  unfolding init_usb_mtp_gadget_def Let_def
  by (auto split: if_splits option.splits prod.splits simp: thread_new map_prod_def dest!: thread_descriptors)

lemma joined_at_end:
  assumes "thread_count g" "\<not> mtp_usb_mode (usb_cfg ctx)"
  shows "started (fst (deinit_usb_mtp_gadget (Some g) ctx)) = joined (fst (deinit_usb_mtp_gadget (Some g) ctx))"
proof -
  have "started (map CloseDev xs) = 0" "joined (map CloseDev xs) = 0" for xs by (induction xs) simp_all
  then show ?thesis using assms by (simp add: deinit_usb_mtp_gadget_def thread_count_def)
qed

text \<open>
  From setting up the device to taking it down, whatever events the kernel reports in between,
  every thread that was started is joined, and never are two running.\<close>

theorem gadget_threads_joined:
  assumes "init_usb_mtp_gadget env ctx = Some (Inr g, ctx1)" "\<not> mtp_usb_mode (usb_cfg ctx2)"
    and "handle_ep0 env' rounds (g, ctx1) = (r, g', ctx2) \<or> handle_ffs_ep0 env' ffs_rounds (g, ctx1) = (r, g', ctx2)"
  shows "started (gadget_trace g') \<le> joined (gadget_trace g') + 1
    \<and> started (fst (deinit_usb_mtp_gadget (Some g') ctx2)) = joined (fst (deinit_usb_mtp_gadget (Some g') ctx2))"
proof -
  have "handle_ep0 env' rounds (g, ctx1) = (r, g', ctx2) \<Longrightarrow> thread_count g'"
    unfolding handle_ep0_def prod.case using thread_loop [where step = "gadgetfs_step env'"] thread_gadgetfs thread_init [OF assms(1)] by blast
  moreover have "handle_ffs_ep0 env' ffs_rounds (g, ctx1) = (r, g', ctx2) \<Longrightarrow> thread_count g'"
    unfolding handle_ffs_ep0_def prod.case using thread_loop [where step = "functionfs_step env'"] thread_functionfs thread_init [OF assms(1)] by blast
  ultimately have "thread_count g'" using assms(3) by blast
  then show ?thesis using joined_at_end [OF _ assms(2)] by (simp add: thread_count_def)
qed

definition gadget_sys :: gadget_env where
  "gadget_sys = \<lparr>ge_open = \<lambda>_. 7, ge_write = \<lambda>_ bs. int (length bs), ge_thread = True, ge_lock = True, ge_mem = \<lambda>_. True, ge_string_mem = \<lambda>_. True\<rparr>"

definition gadget_ctx :: mtp_ctx where
  "gadget_ctx = (sample_ctx init_fs_db)\<lparr>usb_cfg := sample_cfg\<lparr>usb_functionfs_mode := 0\<rparr>\<rparr>"

lemma started_gadget: "(case x of Some (Inr g, ctx) \<Rightarrow> P g ctx | _ \<Rightarrow> False) \<Longrightarrow> \<exists>g ctx. x = Some (Inr g, ctx) \<and> P g ctx"
  by (cases x; cases "fst (the x)") (auto split: prod.splits)

theorem gadget_threads_joined_witness:
  "\<exists>g ctx1 r g' ctx2. init_usb_mtp_gadget gadget_sys gadget_ctx = Some (Inr g, ctx1)
     \<and> handle_ep0 gadget_sys [SelEvents [Some EpConnect, Some (EpSetup \<lparr>bRequestType = 0, bRequest = 9, wValue = 1\<rparr>)], SelEvents [Some EpDisconnect]] (g, ctx1) = (r, g', ctx2)
     \<and> started (gadget_trace g') = 1 \<and> started (fst (deinit_usb_mtp_gadget (Some g') ctx2)) = joined (fst (deinit_usb_mtp_gadget (Some g') ctx2))"
proof -
  let ?rounds = "[SelEvents [Some EpConnect, Some (EpSetup \<lparr>bRequestType = 0, bRequest = 9, wValue = 1\<rparr>)], SelEvents [Some EpDisconnect]]"
  have c: "case init_usb_mtp_gadget gadget_sys gadget_ctx of
      Some (Inr g, ctx1) \<Rightarrow> (case handle_ep0 gadget_sys ?rounds (g, ctx1) of (r, g', ctx2) \<Rightarrow>
        started (gadget_trace g') = 1 \<and> \<not> mtp_usb_mode (usb_cfg ctx2))
    | _ \<Rightarrow> False"
    by code_simp
  obtain g ctx1 where i: "init_usb_mtp_gadget gadget_sys gadget_ctx = Some (Inr g, ctx1)"
    using started_gadget [OF c] by blast
  obtain r g' ctx2 where h: "handle_ep0 gadget_sys ?rounds (g, ctx1) = (r, g', ctx2)" by (metis prod.exhaust)
  have s: "started (gadget_trace g') = 1" "\<not> mtp_usb_mode (usb_cfg ctx2)" using c unfolding i option.case prod.case sum.case h by blast+
  show ?thesis using gadget_threads_joined [OF i s(2) disjI1, OF h] i h s(1) by blast
qed

section \<open>Endpoints\<close>

text \<open>
  On the Android device every endpoint is the same descriptor, so an event packet is written
  exactly like a packet of data.\<close>

theorem mtp_usb_events_are_data:
  assumes "init_usb_mtp_gadget env ctx = Some (Inr g, ctx')" "mtp_usb_mode (usb_cfg ctx)"
  shows "write_usb env' cancelled EP_DESCRIPTOR_INT_IN b g = write_usb env' cancelled EP_DESCRIPTOR_IN b g"
proof -
  have "ep_handles g = replicate 3 (usb_device g)"
    using assms unfolding init_usb_mtp_gadget_def Let_def
    by (auto simp: map_prod_def geff_def split: if_splits option.splits prod.splits)
  then show ?thesis by (simp add: write_usb_def numeral_2_eq_2 numeral_3_eq_3)
qed

theorem mtp_usb_events_are_data_witness:
  "\<exists>g ctx'. init_usb_mtp_gadget gadget_sys (gadget_ctx\<lparr>usb_cfg := sample_cfg\<lparr>usb_device_path := ascii ''/dev/mtp_usb''\<rparr>\<rparr>) = Some (Inr g, ctx')
     \<and> write_usb gadget_sys False 2 [1] g = write_usb gadget_sys False 0 [1] g"
proof -
  let ?ctx = "gadget_ctx\<lparr>usb_cfg := sample_cfg\<lparr>usb_device_path := ascii ''/dev/mtp_usb''\<rparr>\<rparr>"
  have m: "mtp_usb_mode (usb_cfg ?ctx)" by code_simp
  have c: "case init_usb_mtp_gadget gadget_sys ?ctx of Some (Inr g, ctx1) \<Rightarrow> True | _ \<Rightarrow> False" by code_simp
  obtain g ctx1 where i: "init_usb_mtp_gadget gadget_sys ?ctx = Some (Inr g, ctx1)" using started_gadget [OF c] by blast
  show ?thesis using mtp_usb_events_are_data [OF i m] i by blast
qed

lemma geff_fields [simp]:
  "ep_path (geff x g) = ep_path g" "ep_handles (geff x g) = ep_handles g" "ep_config (geff x g) = ep_config g" "endpoint_desc i (geff x g) = endpoint_desc i g"
  by (simp_all add: geff_def endpoint_desc_def split: option.split)

text \<open>
  An endpoint whose configuration cannot be written is closed but stays in the table: the next
  request for the configuration starts the thread on the closed descriptor.
\<close>

theorem failed_endpoint_reused:
  assumes "ge_open env (ep_path g ! 0) = fd" "0 < fd" "\<forall>bs. ge_write env fd bs \<noteq> 18" "length (ep_handles g) = 3" "ep_handles g ! 0 \<le> 0"
    and "thread_not_started g"
  shows "let g1 = start_io env False g in CloseDev fd \<in> set (gadget_trace g1) \<and> ep_handles g1 ! 0 = fd
    \<and> gadget_trace (start_io env' False g1) = gadget_trace g1 @ [StartThread (ge_thread env')]"
proof -
  have i: "init_ep env 0 False g = (-1, geff (CloseDev fd) (geff (DevWrite fd (le_bytes 4 (1 :: u32) @ endpoint_desc 0 g @ endpoint_desc 0 g))
    ((geff (OpenDev (ep_path g ! 0)) g)\<lparr>ep_handles := (ep_handles g)[0 := fd], ep_config := (ep_config g)[0 := le_bytes 4 (1 :: u32) @ endpoint_desc 0 g @ endpoint_desc 0 g]\<rparr>)))"
    using assms(1-3) by (simp add: init_ep_def Let_def)
  then have s: "start_io env False g = geff (CloseDev fd) (geff (DevWrite fd (le_bytes 4 (1 :: u32) @ endpoint_desc 0 g @ endpoint_desc 0 g))
    ((geff (OpenDev (ep_path g ! 0)) g)\<lparr>ep_handles := (ep_handles g)[0 := fd], ep_config := (ep_config g)[0 := le_bytes 4 (1 :: u32) @ endpoint_desc 0 g @ endpoint_desc 0 g]\<rparr>))"
    using assms(5) by (simp add: start_io_def init_eps_def)
  show ?thesis
    unfolding Let_def s using assms(2,4,6) by (simp add: start_io_def geff_def Let_def)
qed

end
