(* ===== verification/Spec2Isabelle.thy ===== *)
theory Spec2Isabelle
  imports Btn_Watcher_Props Plato_Shim_Props Sdl_Shim_Props App_Switcher_Props Web_Key_Props
    Mtp_Responder_Props Mtp_Config_Props Mtp_Gadget_Props
begin

text \<open>
  Verification of the native programs of the BNRV700 Linux port (\<^verbatim>\<open>src/components\<close>).

  \<^bold>\<open>The system.\<close> An e-ink reader runs KOReader, Plato or the NetSurf browser, one at a time.
  \<^verbatim>\<open>btn-watcher\<close> reads the hardware buttons, forwards them through a virtual input device,
  shows overlays on the panel and starts the programs. \<^verbatim>\<open>app-switcher\<close> is the dialog it opens.
  \<^verbatim>\<open>plato_shim\<close> is preloaded into Plato and translates panel requests and touch events.
  \<^verbatim>\<open>sdl_fb0_shim\<close> is the SDL library of NetSurf: panel, on-screen keyboard, timers, input
  thread. \<^verbatim>\<open>nook-webkey\<close> lets a phone type into the browser through the shim's FIFO. \<^verbatim>\<open>umtprd\<close>
  offers the files of the reader to a computer over USB (MTP).

  \<^bold>\<open>Theories.\<close>

  \<^item> \<open>Nook_Prelude\<close>: machine integers, C division, NUL-terminated strings, Linux input events,
    fact collections.
  \<^item> \<open>Font_Tables\<close>, \<open>Framebuffer\<close>: the fonts of \<^verbatim>\<open>common/include\<close> and the drawing code that
    three programs share (\<^verbatim>\<open>fill_rect\<close>, \<^verbatim>\<open>draw_char\<close>, saving and restoring a rectangle, update
    requests). Every operation has a closed form, from which follows what it can touch.
  \<^item> \<open>Btn_Watcher\<close>, \<open>Btn_Watcher_Props\<close>: \<^verbatim>\<open>system/src/btn-watcher.c\<close>. One loop iteration is
    \<open>bw_tick\<close> and \<open>bw_event\<close>. Overlays, power and Home timing, chords, page keys.
  \<^item> \<open>Ring_Buffer\<close>: the event ring of two components as locales (\<open>bounded_queue\<close> and its two
    policies for a full ring), interpreted in \<open>Plato_Shim\<close> and \<open>Sdl_Events\<close>.
  \<^item> \<open>Plato_Shim\<close>, \<open>Plato_Shim_Props\<close>: \<^verbatim>\<open>system/src/plato_shim.c\<close>. What Plato reads refines
    the translation of the raw event stream.
  \<^item> \<open>Sdl_Events\<close>, \<open>Sdl_Screen\<close>, \<open>Sdl_Shim\<close>, \<open>Sdl_Invariants\<close>, \<open>Sdl_Shim_Props\<close>:
    \<^verbatim>\<open>netsurf/src/sdl_fb0_shim.c\<close>. The locale \<open>sd_invariant\<close> carries a predicate through every
    handler of the input thread; it is interpreted for the buffer bounds and for the page
    behind the keyboard.
  \<^item> \<open>App_Switcher\<close>, \<open>App_Switcher_Props\<close>: \<^verbatim>\<open>system/src/app-switcher.c\<close> and the variant under
    \<^verbatim>\<open>patches\<close>. The locale \<open>dialog_invariant\<close> does the same for the dialog loop.
  \<^item> \<open>Web_Key\<close>, \<open>Web_Key_Props\<close>: \<^verbatim>\<open>netsurf/src/nook-webkey.c\<close>, and its composition with the
    FIFO reader of the SDL shim.
  \<^item> \<open>Mtp_Bytes\<close>, \<open>Mtp_Bytes_Props\<close>: the bounded writers, the readers and the string
    conversions of \<^verbatim>\<open>umtprd/src/mtp_helpers.c\<close> and \<^verbatim>\<open>usbstring.c\<close>, responses and events. The
    locale \<open>buffer_writer\<close> gives the bounds of any sequence of writers.
  \<^item> \<open>Mtp_Sanitize\<close>, \<open>Mtp_Sanitize_Props\<close>: \<^verbatim>\<open>umtprd/src/mtp_sanitize.c\<close>.
  \<^item> \<open>Mtp_Handles\<close>, \<open>Mtp_Handles_Props\<close>: \<^verbatim>\<open>umtprd/src/hash_utils.c\<close> and \<^verbatim>\<open>fs_handles_db.c\<close>.
    The locale \<open>hash_index\<close> states when a hash table indexes the entries; it is interpreted
    for both tables. \<open>db_reach\<close> is the set of databases of a session.
  \<^item> \<open>Mtp_Context\<close>: the state of the responder (\<^verbatim>\<open>umtprd/inc/mtp.h\<close>), the storage table of
    \<^verbatim>\<open>mtp.c\<close>, access checks, and the answers of the system as a record \<open>mtp_env\<close>.
  \<^item> \<open>Mtp_Transfer\<close>, \<open>Mtp_Transfer_Props\<close>: GetObject, GetPartialObject and SendObject with the page
    buffer and the USB packets of \<^verbatim>\<open>mtp_ops_helpers.c\<close>; they deliver and store exactly the file.
    Opening carries the flags and the mode, so that creating and truncating count as changes.
  \<^item> \<open>Mtp_Session\<close>, \<open>Mtp_Session_Props\<close>: the operations of \<^verbatim>\<open>mtp_operations\<close> on sessions, folders and
    objects, mounting of storages.
  \<^item> \<open>Mtp_Datasets\<close>: \<^verbatim>\<open>mtp_datasets.c\<close>, \<^verbatim>\<open>mtp_properties.c\<close>, \<^verbatim>\<open>mtp_support_def.c\<close>. A dataset is
    a list of fields. \<open>Mtp_Requests\<close>: the operations that answer with a dataset, the dispatcher
    \<open>process_in_packet\<close>, responses and events.
  \<^item> \<open>Mtp_Config\<close>, \<open>Mtp_Config_Props\<close>: the reader of the configuration file, \<^verbatim>\<open>mtp_cfg.c\<close>, and the
    initial state. Lines are read back as written.
  \<^item> \<open>Mtp_Gadget\<close>, \<open>Mtp_Gadget_Props\<close>: \<^verbatim>\<open>usb_gadget.c\<close>. The descriptors for GadgetFS and FunctionFS,
    the requests on the control endpoint, both event loops, setting up and taking down the
    device. The descriptors parse, every request is answered once, the thread of the packets is
    joined. The loops are folds over rounds of \<^verbatim>\<open>select\<close>.
  \<^item> \<open>Mtp_Background\<close>: the threads of \<^verbatim>\<open>inotify.c\<close> and \<^verbatim>\<open>msgqueue.c\<close>, one batch of events or one
    message at a time.
  \<^item> \<open>Mtp_Invariants\<close>: the locale \<open>db_invariant\<close> (and its extension \<open>session_invariant\<close>) carries a
    predicate on the database through every request, change and command. \<open>Mtp_Responder\<close>: the
    responder as a step relation, and the interpretations of both locales, for \<open>db_reach\<close> and for the
    identity of objects. \<open>Mtp_Storages\<close>, \<open>Mtp_Access\<close>: the invariant of the storage table, and which
    steps can change files. \<open>Mtp_Responder_Props\<close>: the properties of the whole responder.

  \<^bold>\<open>Correspondence.\<close> A C struct is a record, a function of the source a definition of the same
  name on the state that is returned updated. Pointers into a pool are positions. What the
  system answers (\<open>open\<close>, \<open>malloc\<close>, \<open>read\<close>, \<open>realpath\<close>, clocks) is an argument; what a
  program does to the outside is a trace in the state. \<^verbatim>\<open>int\<close> is \<open>int\<close> where the code cannot
  overflow it, sizes that wrap are words. Log output is left out.

  \<^bold>\<open>Loops and fuel.\<close> Loops over finite data are structural recursion. Endless loops (the
  supervisor, the input thread, the web server) are folds over the list of their inputs. The
  walk to the root of a storage has fuel; one more than the number of entries is enough
  (\<open>object_path_ends\<close>). Sending a file has one unit of fuel per byte and one more
  (\<open>get_object_delivers_file\<close> shows that it returns), the loops over the entry list (counting
  children, unmounting, watched folders) one more than its length. The unused \<open>check_realpath\<close> has fuel because it does not end.

  \<^bold>\<open>Threads.\<close> A step of \<open>responder_step\<close> is a whole packet, a whole batch of folder changes or a
  whole command, in any order. This is an abstraction: \<^verbatim>\<open>inotify_mutex\<close> orders most of these handlers,
  but CloseSession, SetObjectPropValue, GetStorageIDs, GetStorageInfo, the release of the database
  after a disconnect (\<^verbatim>\<open>umtprd.c\<close>) and the commands that add and remove storages do not take it, and
  \<^verbatim>\<open>inotify.c\<close> releases it between two entries. Interleavings inside a handler are not covered.
  The SDL shim has an input thread and the thread of the browser: \<open>sd_step\<close> interleaves whole
  inputs and calls, \<open>osk_restores_page\<close> is about the input thread alone. The button supervisor
  has one thread; \<open>bw_step\<close> lets other processes draw and write files between its iterations.

  \<^bold>\<open>Not modelled.\<close> Of \<^verbatim>\<open>umtprd\<close>: the blocking reads and writes on the USB endpoints (their results are
  arguments), SuperSpeed descriptors (not configured), the names of constants for the log, the command line and the signal handler.
  The small test tools under \<^verbatim>\<open>system/src\<close> are sequences of system calls without state. The
  Lua plugins and the shell scripts act through programs that are not part of the repository.
\<close>

end
